(* ===== verification/Prelude.thy ===== *)
theory Prelude
  imports "HOL-Library.AList" "HOL-Library.Sublist" "HOL-Library.Word"
begin

text \<open>
  Shared vocabulary of the development: Go strings, results, maps and the generic
  facts the component theories use.

  A Go string is a sequence of bytes, here a \<^typ>\<open>string\<close>, whose characters are
  exactly the 256 byte values. A Go map is an association list without
  duplicate keys: its order is the order in which one execution's \<open>range\<close> loop
  visits the entries, which Go leaves open, so a statement that holds for every
  such list holds for every iteration order. A call that can fail returns a sum,
  \<open>Inl\<close> the error. A call that changes its receiver and can fail half way returns
  the new receiver together with \<open>None\<close> (Go's \<open>nil\<close>) or \<open>Some\<close> error.
\<close>

section \<open>Names and collections\<close>

named_theorems gomap_simps "lookup laws of Go maps"
named_theorems gostring_simps "facts about Go string functions"
named_theorems status_simps "effect of operations on the status of a tunnel"

type_synonym ('k, 'v) gomap = "('k \<times> 'v) list"
type_synonym options = "(string, string) gomap"

abbreviation tab_char :: char where "tab_char \<equiv> CHR 0x09"
abbreviation newline_char :: char where "newline_char \<equiv> CHR 0x0A"
abbreviation quote_char :: char where "quote_char \<equiv> CHR 0x22"
abbreviation backslash_char :: char where "backslash_char \<equiv> CHR 0x5C"

section \<open>Results\<close>

fun rbind :: "'e + 'a \<Rightarrow> ('a \<Rightarrow> 'e + 'b) \<Rightarrow> 'e + 'b" where
  "rbind (Inl e) f = Inl e"
| "rbind (Inr x) f = f x"

lemma rbind_Inr_iff: "rbind r f = Inr y \<longleftrightarrow> (\<exists>x. r = Inr x \<and> f x = Inr y)"
  by (cases r) auto

lemma rbind_Inl_iff: "rbind r f = Inl e \<longleftrightarrow> r = Inl e \<or> (\<exists>x. r = Inr x \<and> f x = Inl e)"
  by (cases r) auto

text \<open>
  \<open>if err := f(); err != nil { return err }\<close> followed by \<open>g()\<close>, both on the same
  receiver: what \<open>f\<close> changed before it failed stays.
\<close>

definition then_step :: "('s \<Rightarrow> 's \<times> 'e option) \<Rightarrow> ('s \<Rightarrow> 's \<times> 'e option) \<Rightarrow> 's \<Rightarrow> 's \<times> 'e option" where
  "then_step f g s = (case f s of (s', Some e) \<Rightarrow> (s', Some e) | (s', None) \<Rightarrow> g s')"

lemma then_step_None: "then_step f g s = (t, None) \<longleftrightarrow> (\<exists>u. f s = (u, None) \<and> g u = (t, None))"
  by (auto simp: then_step_def split: prod.splits option.splits)

lemma then_step_Some:
  "then_step f g s = (t, Some e) \<longleftrightarrow> f s = (t, Some e) \<or> (\<exists>u. f s = (u, None) \<and> g u = (t, Some e))"
  by (auto simp: then_step_def split: prod.splits option.splits)

lemma then_step_inv:
  assumes "\<And>s. P s \<Longrightarrow> P (fst (f s))" and "\<And>s. P s \<Longrightarrow> P (fst (g s))"
  shows "P s \<Longrightarrow> P (fst (then_step f g s))"
  using assms(1) [of s] assms(2) [of "fst (f s)"]
  by (auto simp: then_step_def split: prod.splits option.splits)

section \<open>Go maps\<close>

definition gm_wf :: "('k, 'v) gomap \<Rightarrow> bool" where
  "gm_wf m \<longleftrightarrow> distinct (map fst m)"

abbreviation gm_get :: "('k, 'v) gomap \<Rightarrow> 'k \<Rightarrow> 'v option" where
  "gm_get m k \<equiv> map_of m k"

abbreviation gm_set :: "'k \<Rightarrow> 'v \<Rightarrow> ('k, 'v) gomap \<Rightarrow> ('k, 'v) gomap" where
  "gm_set k v m \<equiv> AList.update k v m"

abbreviation gm_del :: "'k \<Rightarrow> ('k, 'v) gomap \<Rightarrow> ('k, 'v) gomap" where
  "gm_del k m \<equiv> AList.delete k m"

text \<open>\<open>for k, v := range m { o[f(k)] = g(v) }\<close>\<close>

definition gm_copy_into :: "('k \<Rightarrow> 'l) \<Rightarrow> ('v \<Rightarrow> 'w) \<Rightarrow> ('k, 'v) gomap \<Rightarrow> ('l, 'w) gomap \<Rightarrow> ('l, 'w) gomap" where
  "gm_copy_into f g m o' = fold (\<lambda>(k, v). gm_set (f k) (g v)) m o'"

lemma gm_get_set [gomap_simps, simp]: "gm_get (gm_set k v m) k' = (if k' = k then Some v else gm_get m k')"
  by (simp add: update_conv')

lemma gm_get_del [gomap_simps, simp]: "gm_get (gm_del k m) k' = (if k' = k then None else gm_get m k')"
  by (simp add: delete_conv')

lemma gm_wf_set [simp]: "gm_wf m \<Longrightarrow> gm_wf (gm_set k v m)"
  by (simp add: gm_wf_def distinct_update)

lemma gm_wf_del [simp]: "gm_wf m \<Longrightarrow> gm_wf (gm_del k m)"
  by (simp add: gm_wf_def distinct_delete)

lemma gm_wf_Nil [simp]: "gm_wf []"
  by (simp add: gm_wf_def)

lemma gm_wf_filter [simp]: "gm_wf m \<Longrightarrow> gm_wf (filter P m)"
  by (simp add: gm_wf_def distinct_map_filter)

lemma gm_get_filter_key:
  "gm_get (filter (\<lambda>(k, v). P k) m) k = (if P k then gm_get m k else None)"
  by (induction m) auto

lemma gm_get_filter:
  "gm_wf m \<Longrightarrow> gm_get (filter (\<lambda>(k, v). P k v) m) k =
     (case gm_get m k of None \<Rightarrow> None | Some v \<Rightarrow> if P k v then Some v else None)"
proof (induction m)
  case (Cons e m)
  obtain k' v' where e: "e = (k', v')" by (cases e)
  have "k \<notin> fst ` set m \<Longrightarrow> gm_get m k = None" for k
    by (simp add: map_of_eq_None_iff)
  with Cons e show ?case
    by (auto simp: gm_wf_def map_of_eq_None_iff split: option.splits)
qed simp

text \<open>
  What the copy loop does to a lookup: the last written value wins, so with distinct
  source keys and an injective renaming the order of the loop does not matter.
\<close>

lemma gm_get_copy_other:
  "l \<notin> f ` fst ` set m \<Longrightarrow> gm_get (gm_copy_into f g m o') l = gm_get o' l"
  unfolding gm_copy_into_def
  by (induction m arbitrary: o') auto

lemma gm_get_copy_in:
  assumes "gm_wf m" and "inj f"
  shows "gm_get (gm_copy_into f g m o') (f k) =
     (case gm_get m k of None \<Rightarrow> gm_get o' (f k) | Some v \<Rightarrow> Some (g v))"
  using assms(1) unfolding gm_copy_into_def
proof (induction m arbitrary: o')
  case (Cons e m)
  obtain k' v' where e: "e = (k', v')" by (cases e)
  from Cons.prems e have wf: "gm_wf m" and new: "k' \<notin> fst ` set m"
    by (auto simp: gm_wf_def)
  from new have "gm_get m k' = None" by (simp add: map_of_eq_None_iff)
  with Cons.IH [OF wf] e assms(2) show ?case
    by (auto simp: inj_eq split: option.splits)
qed simp

lemma gm_wf_copy_into [simp]: "gm_wf o' \<Longrightarrow> gm_wf (gm_copy_into f g m o')"
  unfolding gm_copy_into_def
  by (induction m arbitrary: o') (simp_all add: split_def)

section \<open>An interface for encoders and decoders\<close>

text \<open>
  A text format with its reader: on the values \<open>ok\<close> the reader gives back what was
  printed. What a client may rely on follows once for every such pair.
\<close>

locale codec =
  fixes enc :: "'a \<Rightarrow> 'b" and dec :: "'b \<Rightarrow> 'a option" and ok :: "'a \<Rightarrow> bool"
  assumes dec_enc: "ok x \<Longrightarrow> dec (enc x) = Some x"
begin

lemma enc_inj: "ok x \<Longrightarrow> ok y \<Longrightarrow> enc x = enc y \<Longrightarrow> x = y"
  by (metis dec_enc option.inject)

lemma dec_total_on_range: "ok x \<Longrightarrow> dec (enc x) \<noteq> None"
  by (simp add: dec_enc)

end

end
