(* ===== verification/GoStrings.thy ===== *)
theory GoStrings
  imports Prelude
begin

text \<open>
  The functions of Go's packages \<open>strings\<close>, \<open>strconv\<close> and \<open>unicode\<close> that the
  repository calls, on byte strings, with the facts the components use. Where Go
  consults its Unicode case tables (a string with a byte above 127), the result is a
  parameter: \<open>ToLower ul\<close> and \<open>ToUpper uu\<close> take the multi-byte branch as an argument
  and every statement holds for all of them.
\<close>

section \<open>Package strings\<close>

definition HasPrefix :: "string \<Rightarrow> string \<Rightarrow> bool" where
  "HasPrefix s p \<longleftrightarrow> prefix p s"

definition HasSuffix :: "string \<Rightarrow> string \<Rightarrow> bool" where
  "HasSuffix s p \<longleftrightarrow> suffix p s"

definition TrimPrefix :: "string \<Rightarrow> string \<Rightarrow> string" where
  "TrimPrefix s p = (if HasPrefix s p then drop (length p) s else s)"

text \<open>\<open>strings.ReplaceAll(s, old, new)\<close> for a one-byte \<open>old\<close>, the only use in the code.\<close>

definition ReplaceAll :: "string \<Rightarrow> char \<Rightarrow> string \<Rightarrow> string" where
  "ReplaceAll s c new = concat (map (\<lambda>x. if x = c then new else [x]) s)"

fun Index :: "string \<Rightarrow> string \<Rightarrow> nat option" where
  "Index s sub =
     (if prefix sub s then Some 0
      else case s of [] \<Rightarrow> None | _ # t \<Rightarrow> map_option Suc (Index t sub))"

declare Index.simps [simp del]

definition Contains :: "string \<Rightarrow> string \<Rightarrow> bool" where
  "Contains s sub \<longleftrightarrow> Index s sub \<noteq> None"

fun IndexByte :: "string \<Rightarrow> char \<Rightarrow> nat option" where
  "IndexByte [] c = None"
| "IndexByte (x # xs) c = (if x = c then Some 0 else map_option Suc (IndexByte xs c))"

fun LastIndexByte :: "string \<Rightarrow> char \<Rightarrow> nat option" where
  "LastIndexByte [] c = None"
| "LastIndexByte (x # xs) c =
     (case LastIndexByte xs c of
        Some i \<Rightarrow> Some (Suc i)
      | None \<Rightarrow> if x = c then Some 0 else None)"

text \<open>\<open>strings.Split(s, sep)\<close> for a one-byte separator.\<close>

fun Split :: "string \<Rightarrow> char \<Rightarrow> string list" where
  "Split [] c = [[]]"
| "Split (x # xs) c =
     (if x = c then [] # Split xs c
      else case Split xs c of [] \<Rightarrow> [[x]] | p # ps \<Rightarrow> (x # p) # ps)"

fun Join :: "string list \<Rightarrow> string \<Rightarrow> string" where
  "Join [] sep = []"
| "Join [p] sep = p"
| "Join (p # q # ps) sep = p @ sep @ Join (q # ps) sep"

text \<open>
  \<open>strings.TrimSpace\<close> drops leading and trailing runes for which \<open>unicode.IsSpace\<close>
  holds; these are the UTF-8 encodings of the 25 white-space code points.
\<close>

definition space_runes :: "string list" where
  "space_runes =
     [[CHR 0x09], [CHR 0x0A], [CHR 0x0B], [CHR 0x0C], [CHR 0x0D], [CHR 0x20],
      [CHR 0xC2, CHR 0x85], [CHR 0xC2, CHR 0xA0],
      [CHR 0xE1, CHR 0x9A, CHR 0x80],
      [CHR 0xE2, CHR 0x80, CHR 0x80], [CHR 0xE2, CHR 0x80, CHR 0x81],
      [CHR 0xE2, CHR 0x80, CHR 0x82], [CHR 0xE2, CHR 0x80, CHR 0x83],
      [CHR 0xE2, CHR 0x80, CHR 0x84], [CHR 0xE2, CHR 0x80, CHR 0x85],
      [CHR 0xE2, CHR 0x80, CHR 0x86], [CHR 0xE2, CHR 0x80, CHR 0x87],
      [CHR 0xE2, CHR 0x80, CHR 0x88], [CHR 0xE2, CHR 0x80, CHR 0x89],
      [CHR 0xE2, CHR 0x80, CHR 0x8A], [CHR 0xE2, CHR 0x80, CHR 0xA8],
      [CHR 0xE2, CHR 0x80, CHR 0xA9], [CHR 0xE2, CHR 0x80, CHR 0xAF],
      [CHR 0xE2, CHR 0x81, CHR 0x9F], [CHR 0xE3, CHR 0x80, CHR 0x80]]"

definition first_of :: "string list \<Rightarrow> string \<Rightarrow> string option" where
  "first_of ps s = find (\<lambda>p. p \<noteq> [] \<and> prefix p s) ps"

lemma first_of_SomeD: "first_of ps s = Some p \<Longrightarrow> p \<in> set ps \<and> p \<noteq> [] \<and> prefix p s"
  by (auto simp: first_of_def find_Some_iff)

function trim_left_set :: "string list \<Rightarrow> string \<Rightarrow> string" where
  "trim_left_set ps s =
     (case first_of ps s of None \<Rightarrow> s | Some p \<Rightarrow> trim_left_set ps (drop (length p) s))"
  by pat_completeness auto
termination
proof (relation "measure (\<lambda>(ps, s). length s)")
  fix ps s p
  assume "first_of ps s = Some p"
  then have "p \<noteq> [] \<and> prefix p s" by (blast dest: first_of_SomeD)
  then show "((ps, drop (length p) s), (ps, s)) \<in> measure (\<lambda>(ps, s). length s)"
    by (cases s) (auto simp: prefix_def)
qed simp

declare trim_left_set.simps [simp del]

definition TrimSpace :: "string \<Rightarrow> string" where
  "TrimSpace s =
     rev (trim_left_set (map rev space_runes) (rev (trim_left_set space_runes s)))"

lemma trim_left_set_suffix: "suffix (trim_left_set ps s) s"
proof (induction ps s rule: trim_left_set.induct)
  case (1 ps s)
  show ?case
  proof (cases "first_of ps s")
    case None
    then show ?thesis by (simp add: trim_left_set.simps [of ps s])
  next
    case (Some p)
    with "1.IH" [OF Some] have "suffix (trim_left_set ps (drop (length p) s)) s"
      by (meson suffix_drop suffix_order.trans)
    with Some show ?thesis by (simp add: trim_left_set.simps [of ps s])
  qed
qed

lemma trim_left_set_stop: "first_of ps (trim_left_set ps s) = None"
proof (induction ps s rule: trim_left_set.induct)
  case (1 ps s)
  then show ?case
    by (cases "first_of ps s") (simp_all add: trim_left_set.simps [of ps s])
qed

lemma length_TrimSpace: "length (TrimSpace s) \<le> length s"
proof -
  let ?l = "trim_left_set space_runes s"
  have "length (TrimSpace s) \<le> length ?l"
    using trim_left_set_suffix [of "map rev space_runes" "rev ?l", THEN suffix_length_le]
    by (simp add: TrimSpace_def)
  also have "\<dots> \<le> length s" by (rule trim_left_set_suffix [THEN suffix_length_le])
  finally show ?thesis .
qed

lemma trim_left_set_id: "first_of ps s = None \<Longrightarrow> trim_left_set ps s = s"
  by (simp add: trim_left_set.simps [of ps s])

lemma TrimSpace_Nil [simp]: "TrimSpace [] = []"
  by (simp add: TrimSpace_def trim_left_set_id first_of_def find_None_iff)

lemma first_of_prefix_None: "first_of ps s = None \<Longrightarrow> prefix t s \<Longrightarrow> first_of ps t = None"
  unfolding first_of_def find_None_iff by (meson prefix_order.trans)

lemma TrimSpace_prefix: "prefix (TrimSpace s) (trim_left_set space_runes s)"
proof -
  have "suffix (trim_left_set (map rev space_runes) (rev (trim_left_set space_runes s))) (rev (trim_left_set space_runes s))"
    by (rule trim_left_set_suffix)
  then show ?thesis by (simp add: TrimSpace_def suffix_to_prefix)
qed

lemma TrimSpace_idem [simp]: "TrimSpace (TrimSpace s) = TrimSpace s"
proof -
  have "first_of space_runes (TrimSpace s) = None"
    by (rule first_of_prefix_None [OF trim_left_set_stop TrimSpace_prefix])
  moreover have "first_of (map rev space_runes) (rev (TrimSpace s)) = None"
    by (simp add: TrimSpace_def trim_left_set_stop)
  ultimately show ?thesis
    unfolding TrimSpace_def [of "TrimSpace s"] by (simp add: trim_left_set_id)
qed

subsection \<open>Case mapping\<close>

definition is_ascii :: "char \<Rightarrow> bool" where
  "is_ascii c \<longleftrightarrow> of_char c < (128 :: int)"

definition ascii_lower :: "char \<Rightarrow> char" where
  "ascii_lower c =
     (if (65 :: int) \<le> of_char c \<and> of_char c \<le> (90 :: int) then char_of (of_char c + 32 :: int) else c)"

definition ascii_upper :: "char \<Rightarrow> char" where
  "ascii_upper c =
     (if (97 :: int) \<le> of_char c \<and> of_char c \<le> (122 :: int) then char_of (of_char c - 32 :: int) else c)"

definition ToLower :: "(string \<Rightarrow> string) \<Rightarrow> string \<Rightarrow> string" where
  "ToLower ul s = (if list_all is_ascii s then map ascii_lower s else ul s)"

definition ToUpper :: "(string \<Rightarrow> string) \<Rightarrow> string \<Rightarrow> string" where
  "ToUpper uu s = (if list_all is_ascii s then map ascii_upper s else uu s)"

text \<open>
  \<open>strings.EqualFold(s, t)\<close> for an ASCII \<open>t\<close>: besides the two cases of a letter,
  simple folding relates the long s (bytes C5 BF) to s and the Kelvin sign
  (bytes E2 84 AA) to k, and no other rune to an ASCII letter.
\<close>

fun EqualFold :: "string \<Rightarrow> string \<Rightarrow> bool" where
  "EqualFold s [] \<longleftrightarrow> s = []"
| "EqualFold s (c # t) \<longleftrightarrow>
     (case s of
        [] \<Rightarrow> False
      | x # s' \<Rightarrow>
          if is_ascii x then ascii_lower x = ascii_lower c \<and> EqualFold s' t
          else if ascii_lower c = CHR ''s'' \<and> prefix [CHR 0xC5, CHR 0xBF] s then EqualFold (drop 2 s) t
          else if ascii_lower c = CHR ''k'' \<and> prefix [CHR 0xE2, CHR 0x84, CHR 0xAA] s then EqualFold (drop 3 s) t
          else False)"

section \<open>Package strconv\<close>

definition digit_char :: "int \<Rightarrow> char" where
  "digit_char d = char_of (48 + d)"

definition digit_val :: "char \<Rightarrow> int option" where
  "digit_val c = (if 48 \<le> (of_char c :: int) \<and> (of_char c :: int) \<le> 57 then Some (of_char c - 48) else None)"

text \<open>The decimal digits of a non-negative number.\<close>

function int_digits :: "int \<Rightarrow> string" where
  "int_digits n = (if n < 10 then [digit_char n] else int_digits (n div 10) @ [digit_char (n mod 10)])"
  by pat_completeness auto
termination
  by (relation "measure nat") auto

declare int_digits.simps [simp del]

definition Itoa :: "int \<Rightarrow> string" where
  "Itoa n = (if n < 0 then CHR ''-'' # int_digits (- n) else int_digits n)"

text \<open>A non-empty run of digits, most significant first.\<close>

fun digits_val :: "int \<Rightarrow> string \<Rightarrow> int option" where
  "digits_val acc [] = Some acc"
| "digits_val acc (c # cs) =
     (case digit_val c of None \<Rightarrow> None | Some d \<Rightarrow> digits_val (10 * acc + d) cs)"

definition parse_digits :: "string \<Rightarrow> int option" where
  "parse_digits s = (if s = [] then None else digits_val 0 s)"

definition int64_min :: int where "int64_min = - (2 ^ 63)"
definition int64_max :: int where "int64_max = 2 ^ 63 - 1"

definition in_int64 :: "int \<Rightarrow> bool" where
  "in_int64 n \<longleftrightarrow> int64_min \<le> n \<and> n \<le> int64_max"

text \<open>
  \<open>strconv.Atoi\<close> on a 64-bit platform: an optional sign, at least one decimal digit,
  nothing else, and a value an \<open>int\<close> holds. \<open>None\<close> is the error.
\<close>

definition Atoi :: "string \<Rightarrow> int option" where
  "Atoi s =
     (let neg = prefix ''-'' s;
          ds = (if prefix ''-'' s \<or> prefix ''+'' s then tl s else s)
      in case parse_digits ds of
           None \<Rightarrow> None
         | Some n \<Rightarrow>
             let v = (if neg then - n else n)
             in if in_int64 v then Some v else None)"

text \<open>\<open>strconv.ParseUint(s, 10, 32)\<close>\<close>

definition ParseUint32 :: "string \<Rightarrow> int option" where
  "ParseUint32 s =
     (case parse_digits s of None \<Rightarrow> None | Some n \<Rightarrow> if n < 2 ^ 32 then Some n else None)"

lemma digit_val_digit_char: "0 \<le> d \<Longrightarrow> d < 10 \<Longrightarrow> digit_val (digit_char d) = Some d"
  by (simp add: digit_val_def digit_char_def)

lemma digits_val_append:
  "digits_val acc (xs @ ys) =
     (case digits_val acc xs of None \<Rightarrow> None | Some a \<Rightarrow> digits_val a ys)"
  by (induction xs arbitrary: acc) (auto split: option.splits)

lemma digits_val_nonneg: "digits_val acc s = Some n \<Longrightarrow> 0 \<le> acc \<Longrightarrow> 0 \<le> n"
proof (induction s arbitrary: acc)
  case (Cons c s)
  then show ?case
    by (fastforce simp: digit_val_def split: option.splits if_splits)
qed simp

lemma parse_digits_nonneg: "parse_digits s = Some n \<Longrightarrow> 0 \<le> n"
  by (auto simp: parse_digits_def dest: digits_val_nonneg split: if_splits)

lemma int_digits_nonempty [simp]: "int_digits n \<noteq> []"
  by (subst int_digits.simps) simp

lemma digits_val_int_digits: "0 \<le> n \<Longrightarrow> digits_val 0 (int_digits n) = Some n"
proof (induction n rule: int_digits.induct)
  case (1 n)
  show ?case
  proof (cases "n < 10")
    case True
    with "1.prems" show ?thesis
      by (simp add: int_digits.simps [of n] digit_val_digit_char)
  next
    case False
    with "1.IH" "1.prems" have "digits_val 0 (int_digits (n div 10)) = Some (n div 10)" by simp
    moreover have "digit_val (digit_char (n mod 10)) = Some (n mod 10)"
      by (simp add: digit_val_digit_char)
    ultimately show ?thesis using False
      by (simp add: int_digits.simps [of n] digits_val_append)
  qed
qed

lemma parse_digits_int_digits [simp]: "0 \<le> n \<Longrightarrow> parse_digits (int_digits n) = Some n"
  by (simp add: parse_digits_def digits_val_int_digits)

lemma int_digits_all_digits: "0 \<le> n \<Longrightarrow> c \<in> set (int_digits n) \<Longrightarrow> digit_val c \<noteq> None"
proof (induction n rule: int_digits.induct)
  case (1 n)
  show ?case
  proof (cases "n < 10")
    case True
    with "1.prems" show ?thesis
      by (simp add: int_digits.simps [of n] digit_val_digit_char)
  next
    case False
    have "digit_val (digit_char (n mod 10)) \<noteq> None"
      by (simp add: digit_val_digit_char)
    with 1 False show ?thesis by (auto simp: int_digits.simps [of n])
  qed
qed

lemma int_digits_no_sign:
  assumes "0 \<le> n"
  shows "\<not> prefix ''-'' (int_digits n)" "\<not> prefix ''+'' (int_digits n)"
  using int_digits_all_digits [OF assms, of "CHR ''-''"] int_digits_all_digits [OF assms, of "CHR ''+''"]
  by (auto simp: prefix_def digit_val_def)

lemma Atoi_Itoa: "in_int64 n \<Longrightarrow> Atoi (Itoa n) = Some n"
  by (auto simp: Atoi_def Itoa_def int_digits_no_sign Let_def)

lemma Atoi_range: "Atoi s = Some n \<Longrightarrow> in_int64 n"
  by (auto simp: Atoi_def Let_def split: option.splits if_splits)

lemma Atoi_Nil [simp]: "Atoi [] = None"
  by (simp add: Atoi_def parse_digits_def)

interpretation decimal: codec Itoa Atoi in_int64
  by unfold_locales (rule Atoi_Itoa)

text \<open>
  \<open>strconv.Quote\<close>, the text of the verb \<open>%q\<close>: quotes, backslashes and control
  bytes are escaped, other bytes stand for themselves (a byte above 127 is taken to
  belong to a printable rune).
\<close>

definition hex_char :: "int \<Rightarrow> char" where
  "hex_char d = (if d < 10 then char_of (48 + d) else char_of (87 + d))"

definition quote_byte :: "char \<Rightarrow> string" where
  "quote_byte c =
     (let n = of_char c :: int in
      if c = quote_char \<or> c = backslash_char then [backslash_char, c]
      else if n = 7 then [backslash_char, CHR ''a'']
      else if n = 8 then [backslash_char, CHR ''b'']
      else if n = 12 then [backslash_char, CHR ''f'']
      else if n = 10 then [backslash_char, CHR ''n'']
      else if n = 13 then [backslash_char, CHR ''r'']
      else if n = 9 then [backslash_char, CHR ''t'']
      else if n = 11 then [backslash_char, CHR ''v'']
      else if n < 32 \<or> n = 127 then [backslash_char, CHR ''x'', hex_char (n div 16), hex_char (n mod 16)]
      else [c])"

definition Quote :: "string \<Rightarrow> string" where
  "Quote s = [quote_char] @ concat (map quote_byte s) @ [quote_char]"

section \<open>Facts about replacement and search\<close>

lemma ReplaceAll_Nil [simp]: "ReplaceAll [] c new = []"
  by (simp add: ReplaceAll_def)

lemma ReplaceAll_Cons [simp]:
  "ReplaceAll (x # s) c new = (if x = c then new else [x]) @ ReplaceAll s c new"
  by (simp add: ReplaceAll_def)

lemma ReplaceAll_append [simp]: "ReplaceAll (s @ t) c new = ReplaceAll s c new @ ReplaceAll t c new"
  by (simp add: ReplaceAll_def)

lemma ReplaceAll_id: "c \<notin> set s \<Longrightarrow> ReplaceAll s c new = s"
  by (induction s) auto

lemma set_ReplaceAll:
  "set (ReplaceAll s c new) = (set s - {c}) \<union> (if c \<in> set s then set new else {})"
  by (induction s) auto

lemma ReplaceAll_removes: "c \<notin> set new \<Longrightarrow> c \<notin> set (ReplaceAll s c new)"
  by (simp add: set_ReplaceAll)

lemma Index_Some_iff:
  "Index s sub = Some i \<Longrightarrow> i \<le> length s \<and> prefix sub (drop i s)"
proof (induction s arbitrary: i)
  case Nil
  then show ?case by (simp add: Index.simps [of "[]"] split: if_splits)
next
  case (Cons x s)
  then show ?case
    by (auto simp: Index.simps [of "x # s"] split: if_splits)
qed

lemma Index_None_iff: "Index s sub = None \<longleftrightarrow> \<not> sublist sub s"
proof (induction s)
  case Nil
  then show ?case by (simp add: Index.simps [of "[]"])
next
  case (Cons x s)
  then show ?case by (simp add: Index.simps [of "x # s"] sublist_Cons_right)
qed

lemma Contains_sublist: "Contains s sub \<longleftrightarrow> sublist sub s"
  by (simp add: Contains_def Index_None_iff flip: not_None_eq)

lemma LastIndexByte_None: "LastIndexByte s c = None \<longleftrightarrow> c \<notin> set s"
  by (induction s) (auto split: option.splits)

lemma LastIndexByte_Some:
  "LastIndexByte s c = Some i \<longleftrightarrow> i < length s \<and> s ! i = c \<and> c \<notin> set (drop (Suc i) s)"
proof (induction s arbitrary: i)
  case (Cons x s)
  show ?case
  proof (cases "LastIndexByte s c")
    case None
    then have "c \<notin> set s" by (simp add: LastIndexByte_None)
    with None show ?thesis
      by (cases i) (auto dest: nth_mem)
  next
    case (Some j)
    with LastIndexByte_None [of s c] have c: "c \<in> set s" by auto
    show ?thesis
    proof (cases i)
      case 0
      with Some c show ?thesis by simp
    next
      case (Suc k)
      have "LastIndexByte (x # s) c = Some i \<longleftrightarrow> LastIndexByte s c = Some k"
        using Some Suc by simp
      with Cons.IH [of k] Suc show ?thesis by simp
    qed
  qed
qed simp

lemma LastIndexByte_append:
  "c \<notin> set t \<Longrightarrow> LastIndexByte (s @ c # t) c = Some (length s)"
  by (simp add: LastIndexByte_Some)

lemma IndexByte_None: "IndexByte s c = None \<longleftrightarrow> c \<notin> set s"
  by (induction s) auto

lemma IndexByte_append: "c \<notin> set s \<Longrightarrow> IndexByte (s @ c # t) c = Some (length s)"
  by (induction s) auto

lemma Split_nonempty [simp]: "Split s c \<noteq> []"
  by (induction s) (auto split: list.splits)

lemma Join_Cons: "ps \<noteq> [] \<Longrightarrow> Join (p # ps) sep = p @ sep @ Join ps sep"
  by (cases ps) simp_all

lemma Join_Cons_char: "Join ((x # p) # ps) sep = x # Join (p # ps) sep"
  by (cases ps) simp_all

lemma Join_Split: "Join (Split s c) [c] = s"
proof (induction s)
  case (Cons x s)
  show ?case
  proof (cases "Split s c")
    case Nil
    then show ?thesis by simp
  next
    case (Cons p ps)
    then show ?thesis using Cons.IH
      by (simp add: Join_Cons Join_Cons_char)
  qed
qed simp

lemma Split_parts: "p \<in> set (Split s c) \<Longrightarrow> c \<notin> set p"
  by (induction s arbitrary: p) (auto split: list.splits if_splits)

lemma TrimPrefix_append [simp]: "TrimPrefix (p @ s) p = s"
  by (simp add: TrimPrefix_def HasPrefix_def)

end
