(* ===== verification/GoNet.thy ===== *)
theory GoNet
  imports GoStrings
begin

text \<open>
  The functions of Go's packages \<open>net\<close> and \<open>path\<close> that the repository calls
  (\<open>SplitHostPort\<close>, \<open>JoinHostPort\<close>, \<open>ParseIP\<close>, \<open>path.Split\<close>, \<open>path.Base\<close>), and the part of
  \<open>float64\<close> it computes with. Name resolution (\<open>net.ResolveTCPAddr\<close>) is network I/O and
  stays a parameter of the definitions that use it, and so do the decimal conversions
  of floating-point numbers.
\<close>

section \<open>Host and port\<close>

text \<open>\<open>None\<close> is the \<open>AddrError\<close>; the code never looks inside it.\<close>

definition SplitHostPort :: "string \<Rightarrow> (string \<times> string) option" where
  "SplitHostPort hostport =
     (case LastIndexByte hostport CHR '':'' of
        None \<Rightarrow> None
      | Some i \<Rightarrow>
          if prefix ''['' hostport then
            (case IndexByte hostport CHR '']'' of
               None \<Rightarrow> None
             | Some e \<Rightarrow>
                 if e + 1 = length hostport then None
                 else if e + 1 = i then
                   (if CHR ''['' \<in> set (drop 1 hostport) then None
                    else if CHR '']'' \<in> set (drop (e + 1) hostport) then None
                    else Some (take (e - 1) (drop 1 hostport), drop (i + 1) hostport))
                 else None)
          else
            (if CHR '':'' \<in> set (take i hostport) then None
             else if CHR ''['' \<in> set hostport then None
             else if CHR '']'' \<in> set hostport then None
             else Some (take i hostport, drop (i + 1) hostport)))"

definition JoinHostPort :: "string \<Rightarrow> string \<Rightarrow> string" where
  "JoinHostPort host port =
     (if CHR '':'' \<in> set host then ''['' @ host @ '']:'' @ port else host @ '':'' @ port)"

definition plain_host_port :: "string \<times> string \<Rightarrow> bool" where
  "plain_host_port hp \<longleftrightarrow>
     CHR ''['' \<notin> set (fst hp) \<and> CHR '']'' \<notin> set (fst hp) \<and>
     CHR '':'' \<notin> set (snd hp) \<and> CHR ''['' \<notin> set (snd hp) \<and> CHR '']'' \<notin> set (snd hp)"

lemma SplitHostPort_JoinHostPort:
  "plain_host_port (host, port) \<Longrightarrow> SplitHostPort (JoinHostPort host port) = Some (host, port)"
proof (cases "CHR '':'' \<in> set host")
  case True
  assume plain: "plain_host_port (host, port)"
  let ?s = "CHR ''['' # host @ CHR '']'' # CHR '':'' # port"
  have last: "LastIndexByte ?s CHR '':'' = Some (length host + 2)"
    using plain LastIndexByte_append [of "CHR '':''" port "CHR ''['' # host @ [CHR '']'']"]
    by (simp add: plain_host_port_def)
  have idx: "IndexByte ?s CHR '']'' = Some (length host + 1)"
    using plain IndexByte_append [of "CHR '']''" "CHR ''['' # host" "CHR '':'' # port"]
    by (simp add: plain_host_port_def)
  show ?thesis
    using True plain last idx
    by (simp add: JoinHostPort_def SplitHostPort_def plain_host_port_def)
next
  case False
  assume plain: "plain_host_port (host, port)"
  have last: "LastIndexByte (host @ CHR '':'' # port) CHR '':'' = Some (length host)"
    using plain by (simp add: LastIndexByte_append plain_host_port_def)
  have "\<not> prefix ''['' (host @ CHR '':'' # port)"
    using plain by (cases host) (auto simp: plain_host_port_def)
  with False plain last show ?thesis
    by (simp add: JoinHostPort_def SplitHostPort_def plain_host_port_def)
qed

interpretation hostport: codec "\<lambda>(h, p). JoinHostPort h p" SplitHostPort plain_host_port
  by unfold_locales (auto intro: SplitHostPort_JoinHostPort)

section \<open>IP addresses\<close>

text \<open>
  Only whether \<open>net.ParseIP\<close> returns \<open>nil\<close> matters to the code. The IPv4 loop keeps
  whether a digit must follow (at the start and after a dot), the number of finished
  fields, the value of the current one and its number of digits.
\<close>

fun ip4_fields :: "bool \<Rightarrow> nat \<Rightarrow> int \<Rightarrow> nat \<Rightarrow> string \<Rightarrow> bool" where
  "ip4_fields need pos val dl [] \<longleftrightarrow> pos = 3"
| "ip4_fields need pos val dl (c # cs) \<longleftrightarrow>
     (case digit_val c of
        Some d \<Rightarrow>
          if dl = 1 \<and> val = 0 then False
          else if val * 10 + d > 255 then False
          else ip4_fields False pos (val * 10 + d) (dl + 1) cs
      | None \<Rightarrow>
          if c = CHR ''.'' then
            (if need \<or> cs = [] then False
             else if pos = 3 then False
             else ip4_fields True (pos + 1) 0 0 cs)
          else False)"

definition parse_ip4 :: "string \<Rightarrow> bool" where
  "parse_ip4 s \<longleftrightarrow> ip4_fields True 0 0 0 s"

definition hex_val :: "char \<Rightarrow> int option" where
  "hex_val c =
     (let n = of_char c :: int in
      if 48 \<le> n \<and> n \<le> 57 then Some (n - 48)
      else if 97 \<le> n \<and> n \<le> 102 then Some (n - 87)
      else if 65 \<le> n \<and> n \<le> 70 then Some (n - 55)
      else None)"

fun hex_run :: "nat \<Rightarrow> int \<Rightarrow> string \<Rightarrow> (nat \<times> string) option" where
  "hex_run off acc [] = Some (off, [])"
| "hex_run off acc (c # cs) =
     (case hex_val c of
        None \<Rightarrow> Some (off, c # cs)
      | Some h \<Rightarrow>
          if off > 3 then None
          else if acc * 16 + h > 65535 then None
          else hex_run (off + 1) (acc * 16 + h) cs)"

function ip6_loop :: "nat \<Rightarrow> nat option \<Rightarrow> string \<Rightarrow> (nat \<times> nat option \<times> string) option" where
  "ip6_loop i ell s =
     (if i < 16 then
        (case hex_run 0 0 s of
           None \<Rightarrow> None
         | Some (off, rest) \<Rightarrow>
             if off = 0 then None
             else if prefix ''.'' rest then
               (if ell = None \<and> i \<noteq> 12 then None
                else if i + 4 > 16 then None
                else if parse_ip4 s then Some (i + 4, ell, [])
                else None)
             else
               (case rest of
                  [] \<Rightarrow> Some (i + 2, ell, [])
                | c # r \<Rightarrow>
                    if c \<noteq> CHR '':'' then None
                    else if r = [] then None
                    else if prefix '':'' r then
                      (if ell \<noteq> None then None
                       else if tl r = [] then Some (i + 2, Some (i + 2), [])
                       else ip6_loop (i + 2) (Some (i + 2)) (tl r))
                    else ip6_loop (i + 2) ell r))
      else Some (i, ell, s))"
  by pat_completeness auto
termination
  by (relation "measure (\<lambda>(i, ell, s). 16 - i)") auto

declare ip6_loop.simps [simp del]

definition parse_ip6 :: "string \<Rightarrow> bool" where
  "parse_ip6 s =
     (if prefix ''::'' s \<and> drop 2 s = [] then True
      else
        case ip6_loop 0 (if prefix ''::'' s then Some 0 else None)
               (if prefix ''::'' s then drop 2 s else s) of
          None \<Rightarrow> False
        | Some (i, ell, rest) \<Rightarrow>
            rest = [] \<and> (if i < 16 then ell \<noteq> None else ell = None))"

definition ParseIP :: "string \<Rightarrow> bool" where
  "ParseIP s =
     (case find (\<lambda>c. c = CHR ''.'' \<or> c = CHR '':'' \<or> c = CHR ''%'') s of
        None \<Rightarrow> False
      | Some c \<Rightarrow>
          if c = CHR ''.'' then parse_ip4 s
          else if c = CHR '':'' then CHR ''%'' \<notin> set s \<and> parse_ip6 s
          else False)"

section \<open>Slash-separated paths\<close>

definition path_Split :: "string \<Rightarrow> string \<times> string" where
  "path_Split p =
     (case LastIndexByte p CHR ''/'' of
        None \<Rightarrow> ([], p)
      | Some i \<Rightarrow> (take (Suc i) p, drop (Suc i) p))"

definition path_Base :: "string \<Rightarrow> string" where
  "path_Base p =
     (if p = [] then ''.''
      else
        let q = rev (dropWhile (\<lambda>c. c = CHR ''/'') (rev p));
            b = snd (path_Split q)
        in if b = [] then ''/'' else b)"

section \<open>Floating point\<close>

text \<open>
  A \<open>float64\<close> value: not a number, an infinity (\<open>True\<close> the negative one) or
  \<open>(-1)^sign * mantissa * 2^exponent\<close>.
\<close>

datatype float64 = NaN | Inf bool | Fin bool nat int

text \<open>
  The conversions between \<open>float64\<close> and text of package \<open>strconv\<close> and \<open>fmt\<close>, and the
  implementation-defined results of converting an unrepresentable value to \<open>int\<close>.
\<close>

record float_lib =
  ParseFloat :: "string \<Rightarrow> float64 option"
  FormatFloat :: "float64 \<Rightarrow> string"
  SprintFloat :: "float64 \<Rightarrow> string"
  FloatToIntOther :: "float64 \<Rightarrow> int"

definition float_neg :: "float64 \<Rightarrow> bool" where
  "float_neg f = (case f of NaN \<Rightarrow> False | Inf s \<Rightarrow> s | Fin s m e \<Rightarrow> s \<and> m > 0)"

definition float_pos :: "float64 \<Rightarrow> bool" where
  "float_pos f = (case f of NaN \<Rightarrow> False | Inf s \<Rightarrow> \<not> s | Fin s m e \<Rightarrow> \<not> s \<and> m > 0)"

definition float_trunc :: "float64 \<Rightarrow> int option" where
  "float_trunc f =
     (case f of
        NaN \<Rightarrow> None
      | Inf s \<Rightarrow> None
      | Fin s m e \<Rightarrow>
          let a = (if e \<ge> 0 then int m * 2 ^ nat e else int m div 2 ^ nat (- e))
          in Some (if s then - a else a))"

definition int_of_float64 :: "float_lib \<Rightarrow> float64 \<Rightarrow> int" where
  "int_of_float64 fl f =
     (case float_trunc f of
        Some n \<Rightarrow> if in_int64 n then n else FloatToIntOther fl f
      | None \<Rightarrow> FloatToIntOther fl f)"

text \<open>\<open>float64(n)\<close> for an \<open>int\<close>: round to 53 bits, ties to even.\<close>

fun bit_length :: "nat \<Rightarrow> nat" where
  "bit_length n = (if n = 0 then 0 else Suc (bit_length (n div 2)))"

declare bit_length.simps [simp del]

definition round53 :: "nat \<Rightarrow> nat \<times> int" where
  "round53 m =
     (let k = bit_length m - 53 in
      if k = 0 then (m, 0)
      else
        let q = m div 2 ^ k; r = m mod 2 ^ k; half = 2 ^ (k - 1)
        in (if r > half \<or> (r = half \<and> odd q) then q + 1 else q, int k))"

definition float64_of_int :: "int \<Rightarrow> float64" where
  "float64_of_int n = (case round53 (nat \<bar>n\<bar>) of (m, e) \<Rightarrow> Fin (n < 0) m e)"

lemma float_neg_not_pos: "float_neg f \<Longrightarrow> \<not> float_pos f"
  by (cases f) (auto simp: float_neg_def float_pos_def)

lemma bit_length_le: "n < 2 ^ k \<Longrightarrow> bit_length n \<le> k"
proof (induction n arbitrary: k rule: bit_length.induct)
  case (1 n)
  show ?case
  proof (cases "n = 0")
    case True
    then show ?thesis by (simp add: bit_length.simps)
  next
    case False
    with "1.prems" obtain k' where k: "k = Suc k'" by (cases k) auto
    with "1.prems" have "n div 2 < 2 ^ k'" by auto
    with "1.IH" [OF False] k False show ?thesis by (simp add: bit_length.simps [of n])
  qed
qed

lemma float_trunc_of_int:
  assumes "\<bar>n\<bar> < 2 ^ 53"
  shows "float_trunc (float64_of_int n) = Some n"
proof -
  from assms have "nat \<bar>n\<bar> < 2 ^ 53"
    by (simp add: nat_less_iff)
  then have "bit_length (nat \<bar>n\<bar>) \<le> 53" by (rule bit_length_le)
  then show ?thesis
    by (auto simp: float64_of_int_def round53_def float_trunc_def Let_def)
qed

end
