(* ===== verification/CoreTypes.thy ===== *)
theory CoreTypes
  imports GoNet
begin

text \<open>
  The data of package \<open>i2ptunnel\<close> (\<open>lib/core/types.go\<close>, \<open>errors.go\<close>,
  \<open>error_tracker.go\<close>): the tunnel status, the name cleaning that makes a tunnel's ID,
  the errors, and the bounded error history with its contract as a locale. The record
  \<open>tunnel_config\<close> holds the fields the repository reads and writes of
  \<open>i2pconv.TunnelConfig\<close>, a struct of another module.
\<close>

section \<open>Status\<close>

text \<open>The six constants of the string type \<open>I2PTunnelStatus\<close>; the code sets no other value.\<close>

datatype tunnel_status = StatusRunning | StatusStopped | StatusStarting | StatusStopping | StatusFailed | StatusUnknown

fun status_text :: "tunnel_status \<Rightarrow> string" where
  "status_text StatusRunning = ''running''"
| "status_text StatusStopped = ''stopped''"
| "status_text StatusStarting = ''starting''"
| "status_text StatusStopping = ''stopping''"
| "status_text StatusFailed = ''failed''"
| "status_text StatusUnknown = ''unknown''"

lemma status_text_inj: "status_text s = status_text t \<Longrightarrow> s = t"
  by (cases s; cases t) simp_all

section \<open>Identifiers\<close>

definition Clean :: "string \<Rightarrow> string" where
  "Clean name =
     (let c1 = ReplaceAll name newline_char ''+'';
          c2 = ReplaceAll c1 tab_char ''_'';
          c3 = ReplaceAll c2 CHR '' '' ''-''
      in ReplaceAll c3 CHR ''/'' '''')"

text \<open>The same function as one pass over the bytes.\<close>

definition clean_byte :: "char \<Rightarrow> string" where
  "clean_byte c =
     (if c = newline_char then ''+'' else if c = tab_char then ''_''
      else if c = CHR '' '' then ''-'' else if c = CHR ''/'' then '''' else [c])"

lemma Clean_one_pass: "Clean s = concat (map clean_byte s)"
  by (induction s) (simp_all add: Clean_def clean_byte_def)

lemma Clean_Nil [simp]: "Clean [] = []"
  by (simp add: Clean_one_pass)

lemma Clean_append: "Clean (s @ t) = Clean s @ Clean t"
  by (simp add: Clean_one_pass)

lemma Clean_id:
  assumes "newline_char \<notin> set s" "tab_char \<notin> set s" "CHR '' '' \<notin> set s" "CHR ''/'' \<notin> set s"
  shows "Clean s = s"
  using assms by (induction s) (auto simp: Clean_one_pass clean_byte_def)

lemma Clean_forbidden:
  "newline_char \<notin> set (Clean s)" "tab_char \<notin> set (Clean s)"
  "CHR '' '' \<notin> set (Clean s)" "CHR ''/'' \<notin> set (Clean s)"
  by (induction s) (auto simp: Clean_one_pass clean_byte_def split: if_splits)

lemma Clean_Clean: "Clean (Clean s) = Clean s"
  by (rule Clean_id) (rule Clean_forbidden)+

section \<open>Errors\<close>

text \<open>
  The error values the code distinguishes: a validation error with its four fields,
  a formatted error, a formatted error that wraps another (\<open>%w\<close>), an error of the
  operating system or of a library with its text, the two sentinels of \<open>go-limit\<close>,
  \<open>http.ErrServerClosed\<close>, and an \<open>I2PTunnelError\<close>.
\<close>

datatype go_error =
    ValidationError (Field: string) (Value: string) (Message: string) (Hint: string)
  | Errorf string
  | Wrapf string go_error
  | External string
  | ErrMaxConnsReached string
  | ErrRateLimitExceeded string
  | ErrServerClosed
  | TunnelErr string

fun Error_text :: "go_error \<Rightarrow> string" where
  "Error_text (ValidationError f v m h) =
     (if h \<noteq> '''' then f @ '': '' @ m @ '' (hint: '' @ h @ '')'' else f @ '': '' @ m)"
| "Error_text (Errorf s) = s"
| "Error_text (Wrapf p e) = p @ '': '' @ Error_text e"
| "Error_text (External s) = s"
| "Error_text (ErrMaxConnsReached s) = s"
| "Error_text (ErrRateLimitExceeded s) = s"
| "Error_text ErrServerClosed = ''http: Server closed''"
| "Error_text (TunnelErr s) = s"

record tunnel_error =
  errorString :: string

definition NewError :: "string \<Rightarrow> go_error \<Rightarrow> tunnel_error" where
  "NewError name err =
     \<lparr>errorString = ''Name:'' @ name @ [newline_char, tab_char] @ ''Error:'' @ Error_text err @ [newline_char]\<rparr>"

section \<open>The configuration record\<close>

text \<open>
  A value of Go type \<open>interface{}\<close> as the configuration parsers store it; \<open>IOther\<close>
  carries the text \<open>%v\<close> prints for a value of any other dynamic type.
\<close>

datatype ival = IStr string | IInt int | IFloat float64 | IBool bool | IOther string

fun Sprint_v :: "float_lib \<Rightarrow> ival \<Rightarrow> string" where
  "Sprint_v fl (IStr s) = s"
| "Sprint_v fl (IInt n) = Itoa n"
| "Sprint_v fl (IFloat f) = SprintFloat fl f"
| "Sprint_v fl (IBool b) = (if b then ''true'' else ''false'')"
| "Sprint_v fl (IOther t) = t"

text \<open>In the two maps \<open>None\<close> is Go's nil map.\<close>

record tunnel_config =
  tc_Name :: string
  tc_Type :: string
  tc_Interface :: string
  tc_Port :: int
  tc_Target :: string
  tc_I2CP :: "(string, ival) gomap option"
  tc_Tunnel :: "(string, ival) gomap option"

section \<open>The bounded error history\<close>

definition MaxErrors :: nat where "MaxErrors = 100"

type_synonym error_tracker = "tunnel_error list"

definition Record :: "string \<Rightarrow> go_error \<Rightarrow> error_tracker \<Rightarrow> error_tracker" where
  "Record owner err et =
     (let es = et @ [NewError owner err] in
      if length es > MaxErrors then drop (length es - MaxErrors) es else es)"

definition Last :: "error_tracker \<Rightarrow> go_error option" where
  "Last et = (if length et > 0 then Some (TunnelErr (errorString (et ! (length et - 1)))) else None)"

definition All :: "error_tracker \<Rightarrow> error_tracker" where
  "All et = (if length et = 0 then [] else et)"

text \<open>
  The contract of a history: recording keeps the newest \<open>cap\<close> entries in order.
\<close>

locale bounded_history =
  fixes add :: "'e \<Rightarrow> 's \<Rightarrow> 's" and entries :: "'s \<Rightarrow> 'x list" and entry :: "'s \<Rightarrow> 'e \<Rightarrow> 'x" and cap :: nat
  assumes cap_pos: "0 < cap"
    and entries_add: "length (entries s) \<le> cap \<Longrightarrow>
      entries (add e s) = drop (Suc (length (entries s)) - cap) (entries s @ [entry s e])"
    and entry_stable: "entry (add e s) e' = entry s e'"
begin

lemma add_bounded: "length (entries s) \<le> cap \<Longrightarrow> length (entries (add e s)) \<le> cap"
  by (simp add: entries_add)

lemma add_newest: "length (entries s) \<le> cap \<Longrightarrow> last (entries (add e s)) = entry s e"
  using cap_pos by (simp add: entries_add)

lemma fold_add_bounded: "length (entries s) \<le> cap \<Longrightarrow> length (entries (fold add es s)) \<le> cap"
  by (induction es arbitrary: s) (simp_all add: add_bounded)

lemma fold_add_entries:
  assumes "length (entries s) \<le> cap"
  shows "entries (fold add es s) =
     drop (length (entries s) + length es - cap) (entries s @ map (entry s) es)"
  using assms
proof (induction es arbitrary: s)
  case (Cons e es)
  have len: "length (entries (add e s)) \<le> cap"
    using Cons.prems by (rule add_bounded)
  have "entries (fold add (e # es) s) =
      drop (length (entries (add e s)) + length es - cap) (entries (add e s) @ map (entry s) es)"
    using Cons.IH [OF len] by (simp add: entry_stable)
  also have "\<dots> = drop (length (entries s) + length (e # es) - cap) (entries s @ map (entry s) (e # es))"
  proof (cases "length (entries s) = cap")
    case True
    with Cons.prems cap_pos show ?thesis
      by (cases "entries s") (simp_all add: entries_add)
  next
    case False
    with Cons.prems show ?thesis by (simp add: entries_add)
  qed
  finally show ?case .
qed simp

end

lemma Record_entries:
  "length et \<le> MaxErrors \<Longrightarrow>
     Record owner err et = drop (Suc (length et) - MaxErrors) (et @ [NewError owner err])"
  by (simp add: Record_def Let_def)

interpretation tracker: bounded_history "Record owner" "\<lambda>et. et" "\<lambda>et. NewError owner" MaxErrors
  for owner
  by unfold_locales (simp_all add: Record_entries MaxErrors_def [symmetric], simp add: MaxErrors_def)

lemma Record_nonempty: "Record owner err et \<noteq> []"
  by (simp add: Record_def Let_def MaxErrors_def)

lemma Last_Record: "Last (Record owner err et) = Some (TunnelErr (errorString (NewError owner err)))"
proof -
  let ?es = "et @ [NewError owner err]"
  have "last (Record owner err et) = NewError owner err"
    by (simp add: Record_def Let_def MaxErrors_def)
  with Record_nonempty [of owner err et] show ?thesis
    by (simp add: Last_def last_conv_nth)
qed

lemma length_Record: "length et \<le> MaxErrors \<Longrightarrow> length (Record owner err et) \<le> MaxErrors"
  by (rule tracker.add_bounded)

lemma All_eq [simp]: "All et = et"
  by (simp add: All_def)

end
