(* ===== verification/Validate.thy ===== *)
theory Validate
  imports CoreTypes
begin

text \<open>
  Package \<open>validate\<close> (\<open>lib/core/validate/validate.go\<close>): the checks every configuration
  value passes before a tunnel keeps it. Each check returns Go's \<open>error\<close>, here
  \<^typ>\<open>go_error option\<close> with \<open>None\<close> for \<open>nil\<close>; the two parsers return a sum.
  \<open>i2pkeys.Lookup\<close> and \<open>net.ResolveTCPAddr\<close> are the parameters \<open>lookup\<close> and \<open>resolve\<close>.
\<close>

section \<open>The checks\<close>

definition Port :: "int \<Rightarrow> go_error option" where
  "Port port =
     (if port < 1 \<or> port > 65535 then
        Some (ValidationError ''port'' (Itoa port) ''port must be between 1 and 65535''
          ''choose a port in the valid range (1024-65535 recommended for non-root)'')
      else None)"

definition PortString :: "string \<Rightarrow> go_error + int" where
  "PortString portStr =
     (case Atoi portStr of
        None \<Rightarrow> Inl (ValidationError ''port'' portStr ''invalid port format''
                  ''port must be a numeric value between 1 and 65535'')
      | Some port \<Rightarrow> (case Port port of Some err \<Rightarrow> Inl err | None \<Rightarrow> Inr port))"

definition I2PAddress :: "(string \<Rightarrow> bool) \<Rightarrow> string \<Rightarrow> go_error option" where
  "I2PAddress lookup addr =
     (if addr = '''' then
        Some (ValidationError ''target'' addr ''I2P address cannot be empty''
          ''provide a valid base32.i2p or base64 I2P address'')
      else if \<not> lookup addr then
        Some (ValidationError ''target'' addr ''invalid I2P address format''
          ''provide a valid base32.i2p address (e.g., example.b32.i2p) or base64 destination'')
      else None)"

text \<open>\<open>resolve addr\<close> is the port of the resolved TCP address, \<open>None\<close> the resolver's error.\<close>

definition NetworkAddress :: "(string \<Rightarrow> int option) \<Rightarrow> string \<Rightarrow> go_error option" where
  "NetworkAddress resolve addr =
     (if addr = '''' then
        Some (ValidationError ''target'' addr ''network address cannot be empty''
          ''provide a valid host:port address (e.g., localhost:8080, 127.0.0.1:3000)'')
      else
        (case resolve addr of
           None \<Rightarrow> Some (ValidationError ''target'' addr ''invalid network address format''
                     ''provide address as host:port (e.g., localhost:8080, 192.168.1.1:9000)'')
         | Some port \<Rightarrow>
             (case Port port of
                None \<Rightarrow> None
              | Some (ValidationError f v m h) \<Rightarrow> Some (ValidationError ''target'' addr m h)
              | Some err \<Rightarrow> Some err)))"

definition Interface :: "string \<Rightarrow> go_error option" where
  "Interface iface =
     (if iface = '''' then None
      else if \<not> ParseIP iface then
        Some (ValidationError ''interface'' iface ''invalid interface address''
          ''provide a valid IP address (e.g., 127.0.0.1, ::1) or leave empty for all interfaces'')
      else None)"

definition RequiredString :: "string \<Rightarrow> string \<Rightarrow> go_error option" where
  "RequiredString field v =
     (let value = TrimSpace v in
      if value = '''' then
        Some (ValidationError field value (field @ '' is required'')
          (''provide a non-empty value for '' @ field))
      else None)"

definition validTypes :: "string list" where
  "validTypes =
     [''tcpclient'', ''tcpserver'', ''httpclient'', ''httpserver'', ''ircclient'', ''ircserver'',
      ''udpclient'', ''udpserver'', ''socks'', ''socksclient'', ''tcpbidirectional'',
      ''udpbidirectional'', ''httpbidirectional'']"

definition TunnelType :: "string \<Rightarrow> go_error option" where
  "TunnelType tunnelType =
     (if tunnelType \<notin> set validTypes then
        Some (ValidationError ''type'' tunnelType ''unsupported tunnel type''
          ''supported types: tcpclient, tcpserver, httpclient, httpserver, ircclient, ircserver, udpclient, udpserver, socks, socksclient, tcpbidirectional, udpbidirectional, httpbidirectional'')
      else None)"

definition MaxConnections :: "int \<Rightarrow> go_error option" where
  "MaxConnections maxConns =
     (if maxConns < 0 then
        Some (ValidationError ''maxconns'' (Itoa maxConns) ''maxconns cannot be negative''
          ''use 0 for unlimited connections or a positive number to set a limit'')
      else None)"

definition RateLimit :: "float_lib \<Rightarrow> float64 \<Rightarrow> go_error option" where
  "RateLimit fl rateLimit =
     (if float_neg rateLimit then
        Some (ValidationError ''ratelimit'' (FormatFloat fl rateLimit) ''ratelimit cannot be negative''
          ''use 0 for no rate limiting or a positive number for requests/second'')
      else None)"

definition RateLimitString :: "float_lib \<Rightarrow> string \<Rightarrow> go_error + float64" where
  "RateLimitString fl rateLimitStr =
     (case ParseFloat fl rateLimitStr of
        None \<Rightarrow> Inl (ValidationError ''ratelimit'' rateLimitStr ''invalid ratelimit format''
                  ''ratelimit must be a numeric value (e.g., 10.0, 100.5)'')
      | Some r \<Rightarrow> (case RateLimit fl r of Some err \<Rightarrow> Inl err | None \<Rightarrow> Inr r))"

section \<open>What passes\<close>

definition valid_port :: "int \<Rightarrow> bool" where
  "valid_port p \<longleftrightarrow> 1 \<le> p \<and> p \<le> 65535"

lemma Port_None [simp]: "Port p = None \<longleftrightarrow> valid_port p"
  by (auto simp: Port_def valid_port_def)

lemma valid_port_int64: "valid_port p \<Longrightarrow> in_int64 p"
  by (simp add: valid_port_def in_int64_def int64_min_def int64_max_def)

lemma PortString_Inr: "PortString s = Inr p \<longleftrightarrow> Atoi s = Some p \<and> valid_port p"
  by (auto simp: PortString_def split: option.splits) (auto simp flip: Port_None)

lemma PortString_Itoa: "valid_port p \<Longrightarrow> PortString (Itoa p) = Inr p"
  by (simp add: PortString_Inr Atoi_Itoa valid_port_int64)

lemma PortString_Inl_Field: "PortString s = Inl e \<Longrightarrow> Field e = ''port''"
  by (auto simp: PortString_def Port_def split: option.splits if_splits)

lemma Interface_None [simp]: "Interface s = None \<longleftrightarrow> s = '''' \<or> ParseIP s"
  by (simp add: Interface_def)

lemma NetworkAddress_None:
  "NetworkAddress resolve a = None \<longleftrightarrow> a \<noteq> '''' \<and> (\<exists>p. resolve a = Some p \<and> valid_port p)"
  by (auto simp: NetworkAddress_def Port_def valid_port_def split: option.splits)

lemma I2PAddress_None: "I2PAddress lookup a = None \<longleftrightarrow> a \<noteq> '''' \<and> lookup a"
  by (simp add: I2PAddress_def)

lemma MaxConnections_None [simp]: "MaxConnections n = None \<longleftrightarrow> 0 \<le> n"
  by (auto simp: MaxConnections_def)

lemma RateLimit_None [simp]: "RateLimit fl r = None \<longleftrightarrow> \<not> float_neg r"
  by (simp add: RateLimit_def)

lemma RateLimitString_Inr:
  "RateLimitString fl s = Inr r \<longleftrightarrow> ParseFloat fl s = Some r \<and> \<not> float_neg r"
  by (auto simp: RateLimitString_def RateLimit_def split: option.splits if_splits)

lemma TunnelType_None: "TunnelType t = None \<longleftrightarrow> t \<in> set validTypes"
  by (simp add: TunnelType_def)

interpretation port_text: codec Itoa "\<lambda>s. case PortString s of Inl e \<Rightarrow> None | Inr p \<Rightarrow> Some p" valid_port
  by unfold_locales (simp add: PortString_Itoa)

text \<open>Every error of the package is a validation error about the field that was checked.\<close>

lemma NetworkAddress_error:
  "NetworkAddress resolve a = Some e \<Longrightarrow> \<exists>m h. e = ValidationError ''target'' a m h \<and> h \<noteq> ''''"
  by (auto simp: NetworkAddress_def Port_def split: option.splits if_splits)

end
