(* ===== verification/Options.thy ===== *)
theory Options
  imports Validate
begin

text \<open>
  The configuration helpers every tunnel shares (\<open>lib/core/options.go\<close>, \<open>i2cp.go\<close>,
  \<open>garlic.go\<close>, \<open>filter.go\<close>): reading a configuration file, turning a configuration into
  the flat options map of the web interface and applying such a map back. The parser of
  \<open>go-i2ptunnel-config\<close>, the file system, SAM and the connection filter library are
  parameters.
\<close>

section \<open>Loading\<close>

definition ParseConfigFile ::
  "(string \<Rightarrow> go_error + 'f) \<Rightarrow> (string \<Rightarrow> go_error + string) \<Rightarrow> (string \<Rightarrow> 'f \<Rightarrow> go_error + tunnel_config) \<Rightarrow>
   string \<Rightarrow> go_error + tunnel_config" where
  "ParseConfigFile detect readFile parseInput path =
     (case detect path of
        Inl err \<Rightarrow> Inl (Wrapf ''failed to detect config format'' err)
      | Inr fmt \<Rightarrow>
          (case readFile path of
             Inl err \<Rightarrow> Inl (Wrapf ''failed to read config file'' err)
           | Inr data \<Rightarrow>
               (case parseInput data fmt of
                  Inl err \<Rightarrow> Inl (Wrapf ''failed to parse config'' err)
                | Inr cfg \<Rightarrow> Inr cfg)))"

definition CheckTunnelStopped :: "tunnel_status \<Rightarrow> go_error option" where
  "CheckTunnelStopped status =
     (if status = StatusRunning \<or> status = StatusStarting then
        Some (Errorf (''cannot load config while tunnel is '' @ status_text status @ '' - stop tunnel first''))
      else None)"

definition TunnelOptionsMaxConns :: "float_lib \<Rightarrow> (string, ival) gomap option \<Rightarrow> int \<Rightarrow> int" where
  "TunnelOptionsMaxConns fl opts defaultVal =
     (case opts of
        None \<Rightarrow> defaultVal
      | Some m \<Rightarrow>
          (case gm_get m ''maxconns'' of
             None \<Rightarrow> defaultVal
           | Some v \<Rightarrow>
               (case v of
                  IInt n \<Rightarrow> n
                | IFloat f \<Rightarrow> int_of_float64 fl f
                | IStr s \<Rightarrow> (case Atoi s of Some parsed \<Rightarrow> parsed | None \<Rightarrow> defaultVal)
                | _ \<Rightarrow> defaultVal)))"

definition TunnelOptionsRateLimit :: "float_lib \<Rightarrow> (string, ival) gomap option \<Rightarrow> float64 \<Rightarrow> float64" where
  "TunnelOptionsRateLimit fl opts defaultVal =
     (case opts of
        None \<Rightarrow> defaultVal
      | Some m \<Rightarrow>
          (case gm_get m ''ratelimit'' of
             None \<Rightarrow> defaultVal
           | Some v \<Rightarrow>
               (case v of
                  IFloat f \<Rightarrow> f
                | IInt n \<Rightarrow> float64_of_int n
                | IStr s \<Rightarrow> (case ParseFloat fl s of Some parsed \<Rightarrow> parsed | None \<Rightarrow> defaultVal)
                | _ \<Rightarrow> defaultVal)))"

section \<open>The flat options map\<close>

text \<open>The key \<open>"i2cp."+k\<close>.\<close>

definition i2cp_key :: "string \<Rightarrow> string" where
  "i2cp_key k = ''i2cp.'' @ k"

definition MergeI2CPOptions :: "float_lib \<Rightarrow> (string, ival) gomap option \<Rightarrow> options \<Rightarrow> options" where
  "MergeI2CPOptions fl i2cp opts =
     (case i2cp of
        None \<Rightarrow> opts
      | Some m \<Rightarrow> gm_copy_into i2cp_key (Sprint_v fl) m opts)"

definition ExtractI2CPOptions :: "options \<Rightarrow> (string, ival) gomap option" where
  "ExtractI2CPOptions opts =
     (let i2cp = fold (\<lambda>(k, v) i2cp.
            if HasPrefix k ''i2cp.'' \<and> v \<noteq> '''' then gm_set (TrimPrefix k ''i2cp.'') (IStr v) i2cp else i2cp)
            opts []
      in if i2cp = [] then None else Some i2cp)"

definition BuildCommonOptions :: "float_lib \<Rightarrow> tunnel_config \<Rightarrow> options" where
  "BuildCommonOptions fl cfg =
     (let opts = gm_set ''name'' (tc_Name cfg) [];
          opts = gm_set ''type'' (tc_Type cfg) opts;
          opts = gm_set ''interface'' (tc_Interface cfg) opts;
          opts = gm_set ''port'' (Itoa (tc_Port cfg)) opts
      in MergeI2CPOptions fl (tc_I2CP cfg) opts)"

definition AddRateLimitOptions :: "float_lib \<Rightarrow> int \<Rightarrow> float64 \<Rightarrow> options \<Rightarrow> options" where
  "AddRateLimitOptions fl maxConns rateLimit opts =
     gm_set ''ratelimit'' (FormatFloat fl rateLimit) (gm_set ''maxconns'' (Itoa maxConns) opts)"

definition applyNameOption :: "options \<Rightarrow> tunnel_config \<Rightarrow> tunnel_config \<times> go_error option" where
  "applyNameOption opts cfg =
     (case gm_get opts ''name'' of
        None \<Rightarrow> (cfg, None)
      | Some name \<Rightarrow>
          (case RequiredString ''name'' name of
             Some err \<Rightarrow> (cfg, Some err)
           | None \<Rightarrow> (cfg\<lparr>tc_Name := name\<rparr>, None)))"

definition applyInterfaceOption :: "options \<Rightarrow> tunnel_config \<Rightarrow> tunnel_config \<times> go_error option" where
  "applyInterfaceOption opts cfg =
     (case gm_get opts ''interface'' of
        None \<Rightarrow> (cfg, None)
      | Some iface \<Rightarrow>
          (case Interface iface of
             Some err \<Rightarrow> (cfg, Some err)
           | None \<Rightarrow> (cfg\<lparr>tc_Interface := iface\<rparr>, None)))"

definition applyPortOption :: "options \<Rightarrow> tunnel_config \<Rightarrow> tunnel_config \<times> go_error option" where
  "applyPortOption opts cfg =
     (case gm_get opts ''port'' of
        None \<Rightarrow> (cfg, None)
      | Some portStr \<Rightarrow>
          (case PortString portStr of
             Inl err \<Rightarrow> (cfg, Some err)
           | Inr port \<Rightarrow> (cfg\<lparr>tc_Port := port\<rparr>, None)))"

definition mergeI2CPOptionsInto :: "options \<Rightarrow> tunnel_config \<Rightarrow> tunnel_config" where
  "mergeI2CPOptionsInto opts cfg =
     (case ExtractI2CPOptions opts of
        None \<Rightarrow> cfg
      | Some i2cpOpts \<Rightarrow>
          cfg\<lparr>tc_I2CP := Some (gm_copy_into (\<lambda>k. k) (\<lambda>v. v) i2cpOpts
                            (case tc_I2CP cfg of None \<Rightarrow> [] | Some m \<Rightarrow> m))\<rparr>)"

definition ApplyCommonOptions :: "options \<Rightarrow> tunnel_config \<Rightarrow> tunnel_config \<times> go_error option" where
  "ApplyCommonOptions opts =
     then_step (applyNameOption opts)
       (then_step (applyInterfaceOption opts)
         (then_step (applyPortOption opts)
           (\<lambda>cfg. (mergeI2CPOptionsInto opts cfg, None))))"

text \<open>The two pointers \<open>maxConns\<close> and \<open>rateLimit\<close> are the pair the function updates.\<close>

definition applyMaxConnsOption :: "options \<Rightarrow> int \<times> float64 \<Rightarrow> (int \<times> float64) \<times> go_error option" where
  "applyMaxConnsOption opts lim =
     (case gm_get opts ''maxconns'' of
        None \<Rightarrow> (lim, None)
      | Some maxconnsStr \<Rightarrow>
          (case Atoi maxconnsStr of
             None \<Rightarrow> (lim, Some (Errorf (''invalid maxconns value: '' @ maxconnsStr)))
           | Some mc \<Rightarrow>
               (case MaxConnections mc of
                  Some err \<Rightarrow> (lim, Some err)
                | None \<Rightarrow> ((mc, snd lim), None))))"

definition applyRateLimitOption :: "float_lib \<Rightarrow> options \<Rightarrow> int \<times> float64 \<Rightarrow> (int \<times> float64) \<times> go_error option" where
  "applyRateLimitOption fl opts lim =
     (case gm_get opts ''ratelimit'' of
        None \<Rightarrow> (lim, None)
      | Some ratelimitStr \<Rightarrow>
          (case RateLimitString fl ratelimitStr of
             Inl err \<Rightarrow> (lim, Some err)
           | Inr rl \<Rightarrow> ((fst lim, rl), None)))"

definition ApplyRateLimitOptions :: "float_lib \<Rightarrow> options \<Rightarrow> int \<times> float64 \<Rightarrow> (int \<times> float64) \<times> go_error option" where
  "ApplyRateLimitOptions fl opts =
     then_step (applyMaxConnsOption opts) (applyRateLimitOption fl opts)"

section \<open>Keys and filters of a connection\<close>

text \<open>
  \<open>config.SAMTunnel\<close> and \<open>onramp.NewGarlic\<close> are parameters; the result pairs the
  \<open>Garlic\<close> with the service keys stored in it.
\<close>

definition NewGarlicFromConfig ::
  "(tunnel_config \<Rightarrow> go_error + 'k \<times> 'o) \<Rightarrow> (string \<Rightarrow> string \<Rightarrow> 'o \<Rightarrow> go_error + 'g) \<Rightarrow>
   tunnel_config \<Rightarrow> string \<Rightarrow> go_error + 'g \<times> 'k" where
  "NewGarlicFromConfig samTunnel newGarlic config samAddr =
     rbind (samTunnel config) (\<lambda>(keys, opts).
       rbind (newGarlic (ReplaceAll (tc_Name config) CHR '' '' ''_'') samAddr opts) (\<lambda>garlic.
         Inr (garlic, keys)))"

record 'f tcp_filter_config =
  ReadFilter :: "'f option"
  WriteFilter :: "'f option"

definition IsEnabled :: "'f tcp_filter_config option \<Rightarrow> bool" where
  "IsEnabled f = (case f of None \<Rightarrow> False | Some c \<Rightarrow> ReadFilter c \<noteq> None \<or> WriteFilter c \<noteq> None)"

definition ApplyTCPFilter ::
  "('c \<Rightarrow> 'f option \<Rightarrow> 'f option \<Rightarrow> go_error + 'c) \<Rightarrow> 'c \<Rightarrow> 'f tcp_filter_config option \<Rightarrow> go_error + 'c" where
  "ApplyTCPFilter newFunctionConnFilter conn cfg =
     (case cfg of
        None \<Rightarrow> Inr conn
      | Some c \<Rightarrow>
          if \<not> IsEnabled cfg then Inr conn
          else newFunctionConnFilter conn (ReadFilter c) (WriteFilter c))"

section \<open>Lookup laws\<close>

definition i2cp_get :: "tunnel_config \<Rightarrow> string \<Rightarrow> ival option" where
  "i2cp_get cfg k = (case tc_I2CP cfg of None \<Rightarrow> None | Some m \<Rightarrow> gm_get m k)"

definition i2cp_wf :: "tunnel_config \<Rightarrow> bool" where
  "i2cp_wf cfg \<longleftrightarrow> (case tc_I2CP cfg of None \<Rightarrow> True | Some m \<Rightarrow> gm_wf m)"

lemma inj_i2cp_key: "inj i2cp_key"
  by (simp add: inj_def i2cp_key_def)

lemma HasPrefix_i2cp: "HasPrefix l ''i2cp.'' \<longleftrightarrow> (\<exists>k. l = i2cp_key k)"
  by (auto simp: HasPrefix_def i2cp_key_def prefix_def)

lemma TrimPrefix_i2cp [simp]: "TrimPrefix (i2cp_key k) ''i2cp.'' = k"
  by (simp add: TrimPrefix_def HasPrefix_def i2cp_key_def)

lemma i2cp_key_eq [simp]: "i2cp_key k = i2cp_key k' \<longleftrightarrow> k = k'"
  by (simp add: i2cp_key_def)

lemma i2cp_key_neq [simp]:
  "i2cp_key k \<noteq> ''name''" "i2cp_key k \<noteq> ''type''" "i2cp_key k \<noteq> ''interface''"
  "i2cp_key k \<noteq> ''port''" "i2cp_key k \<noteq> ''maxconns''" "i2cp_key k \<noteq> ''ratelimit''"
  "i2cp_key k \<noteq> ''target''"
  "''name'' \<noteq> i2cp_key k" "''type'' \<noteq> i2cp_key k" "''interface'' \<noteq> i2cp_key k"
  "''port'' \<noteq> i2cp_key k" "''maxconns'' \<noteq> i2cp_key k" "''ratelimit'' \<noteq> i2cp_key k"
  "''target'' \<noteq> i2cp_key k"
  by (simp_all add: i2cp_key_def)

lemma not_i2cp_key:
  "\<not> HasPrefix l ''i2cp.'' \<Longrightarrow> l \<notin> i2cp_key ` K"
  by (auto simp: HasPrefix_i2cp)

lemma MergeI2CP_get_other:
  "\<not> HasPrefix l ''i2cp.'' \<Longrightarrow> gm_get (MergeI2CPOptions fl i2cp opts) l = gm_get opts l"
  by (auto simp: MergeI2CPOptions_def gm_get_copy_other not_i2cp_key split: option.splits)

lemma MergeI2CP_get_i2cp:
  "i2cp = Some m \<Longrightarrow> gm_wf m \<Longrightarrow> gm_get (MergeI2CPOptions fl i2cp opts) (i2cp_key k) =
     (case gm_get m k of None \<Rightarrow> gm_get opts (i2cp_key k) | Some v \<Rightarrow> Some (Sprint_v fl v))"
  using gm_get_copy_in [OF _ inj_i2cp_key, of m "Sprint_v fl" opts k]
  by (simp add: MergeI2CPOptions_def)

lemma MergeI2CP_wf [simp]: "gm_wf opts \<Longrightarrow> gm_wf (MergeI2CPOptions fl i2cp opts)"
  by (simp add: MergeI2CPOptions_def split: option.splits)

definition extracted :: "options \<Rightarrow> (string, ival) gomap" where
  "extracted opts = (case ExtractI2CPOptions opts of None \<Rightarrow> [] | Some m \<Rightarrow> m)"

lemma extracted_fold:
  "extracted opts = fold (\<lambda>(k, v) i2cp.
      if HasPrefix k ''i2cp.'' \<and> v \<noteq> '''' then gm_set (TrimPrefix k ''i2cp.'') (IStr v) i2cp else i2cp) opts []"
  by (simp add: extracted_def ExtractI2CPOptions_def Let_def)

lemma extract_fold_get:
  assumes "gm_wf opts"
  shows "gm_get (fold (\<lambda>(k, v) i2cp.
      if HasPrefix k ''i2cp.'' \<and> v \<noteq> '''' then gm_set (TrimPrefix k ''i2cp.'') (IStr v) i2cp else i2cp) opts acc) k =
    (case gm_get opts (i2cp_key k) of
       None \<Rightarrow> gm_get acc k
     | Some v \<Rightarrow> if v = '''' then gm_get acc k else Some (IStr v))"
  using assms
proof (induction opts arbitrary: acc)
  case (Cons e opts)
  obtain l v where e: "e = (l, v)" by (cases e)
  from Cons.prems e have wf: "gm_wf opts" and new: "gm_get opts l = None"
    by (auto simp: gm_wf_def map_of_eq_None_iff)
  show ?case
  proof (cases "HasPrefix l ''i2cp.'' \<and> v \<noteq> ''''")
    case True
    then obtain k' where l: "l = i2cp_key k'" by (auto simp: HasPrefix_i2cp)
    with True e new Cons.IH [OF wf] show ?thesis
      by (auto split: option.splits)
  next
    case False
    then have "l = i2cp_key k \<Longrightarrow> v = ''''" by (auto simp: HasPrefix_i2cp)
    with False e new Cons.IH [OF wf, of acc] show ?thesis
      by (auto split: option.splits)
  qed
qed simp

lemma extracted_get:
  "gm_wf opts \<Longrightarrow> gm_get (extracted opts) k =
     (case gm_get opts (i2cp_key k) of
        None \<Rightarrow> None | Some v \<Rightarrow> if v = '''' then None else Some (IStr v))"
  unfolding extracted_fold by (subst extract_fold_get) (simp_all split: option.splits)

lemma extracted_wf [simp]: "gm_wf (extracted opts)"
proof -
  have "gm_wf acc \<Longrightarrow> gm_wf (fold (\<lambda>(k, v) i2cp.
      if HasPrefix k ''i2cp.'' \<and> v \<noteq> '''' then gm_set (TrimPrefix k ''i2cp.'') (IStr v) i2cp else i2cp) opts acc)" for acc
    by (induction opts arbitrary: acc) (simp_all add: split_def)
  then show ?thesis by (simp add: extracted_fold)
qed

lemma mergeInto_i2cp_get:
  assumes "gm_wf opts"
  shows "i2cp_get (mergeI2CPOptionsInto opts cfg) k =
    (case gm_get (extracted opts) k of None \<Rightarrow> i2cp_get cfg k | Some v \<Rightarrow> Some v)"
proof (cases "ExtractI2CPOptions opts")
  case None
  then show ?thesis by (simp add: mergeI2CPOptionsInto_def extracted_def)
next
  case (Some m)
  then have m: "extracted opts = m" by (simp add: extracted_def)
  with extracted_wf [of opts] have "gm_wf m" by simp
  from gm_get_copy_in [OF this, of "\<lambda>k. k" "\<lambda>v. v" _ k] Some m show ?thesis
    by (auto simp: mergeI2CPOptionsInto_def i2cp_get_def split: option.splits)
qed

lemma mergeInto_fields [simp]:
  "tc_Name (mergeI2CPOptionsInto opts cfg) = tc_Name cfg"
  "tc_Type (mergeI2CPOptionsInto opts cfg) = tc_Type cfg"
  "tc_Interface (mergeI2CPOptionsInto opts cfg) = tc_Interface cfg"
  "tc_Port (mergeI2CPOptionsInto opts cfg) = tc_Port cfg"
  "tc_Target (mergeI2CPOptionsInto opts cfg) = tc_Target cfg"
  by (simp_all add: mergeI2CPOptionsInto_def split: option.splits)

lemma BuildCommon_get:
  "gm_get (BuildCommonOptions fl cfg) ''name'' = Some (tc_Name cfg)"
  "gm_get (BuildCommonOptions fl cfg) ''type'' = Some (tc_Type cfg)"
  "gm_get (BuildCommonOptions fl cfg) ''interface'' = Some (tc_Interface cfg)"
  "gm_get (BuildCommonOptions fl cfg) ''port'' = Some (Itoa (tc_Port cfg))"
  by (simp_all add: BuildCommonOptions_def MergeI2CP_get_other HasPrefix_def)

lemma BuildCommon_get_i2cp:
  "i2cp_wf cfg \<Longrightarrow> gm_get (BuildCommonOptions fl cfg) (i2cp_key k) = map_option (Sprint_v fl) (i2cp_get cfg k)"
  by (cases "tc_I2CP cfg")
    (auto simp: BuildCommonOptions_def i2cp_get_def i2cp_wf_def MergeI2CPOptions_def
      gm_get_copy_in [OF _ inj_i2cp_key] split: option.splits)

lemma BuildCommon_get_none:
  "\<not> HasPrefix l ''i2cp.'' \<Longrightarrow> l \<notin> {''name'', ''type'', ''interface'', ''port''} \<Longrightarrow>
     gm_get (BuildCommonOptions fl cfg) l = None"
  by (simp add: BuildCommonOptions_def MergeI2CP_get_other)

lemma BuildCommon_wf [simp]: "gm_wf (BuildCommonOptions fl cfg)"
  unfolding BuildCommonOptions_def Let_def
  by (intro MergeI2CP_wf gm_wf_set gm_wf_Nil)

lemma AddRateLimit_get:
  "gm_get (AddRateLimitOptions fl mc rl opts) l =
     (if l = ''ratelimit'' then Some (FormatFloat fl rl) else if l = ''maxconns'' then Some (Itoa mc) else gm_get opts l)"
  by (simp add: AddRateLimitOptions_def)

lemma AddRateLimit_wf [simp]: "gm_wf opts \<Longrightarrow> gm_wf (AddRateLimitOptions fl mc rl opts)"
  by (simp add: AddRateLimitOptions_def)

section \<open>Valid configurations\<close>

definition config_ok :: "tunnel_config \<Rightarrow> bool" where
  "config_ok cfg \<longleftrightarrow> TrimSpace (tc_Name cfg) \<noteq> '''' \<and>
     (tc_Interface cfg = '''' \<or> ParseIP (tc_Interface cfg)) \<and> valid_port (tc_Port cfg)"

definition limits_ok :: "int \<times> float64 \<Rightarrow> bool" where
  "limits_ok lim \<longleftrightarrow> 0 \<le> fst lim \<and> \<not> float_neg (snd lim)"

lemma RequiredString_None [simp]: "RequiredString f v = None \<longleftrightarrow> TrimSpace v \<noteq> ''''"
  by (simp add: RequiredString_def Let_def)

lemma config_ok_merge [simp]: "config_ok (mergeI2CPOptionsInto opts cfg) = config_ok cfg"
  by (simp add: config_ok_def)

lemma applyName_ok: "config_ok cfg \<Longrightarrow> config_ok (fst (applyNameOption opts cfg))"
  by (auto simp: applyNameOption_def config_ok_def RequiredString_def Let_def split: option.splits)

lemma applyInterface_ok: "config_ok cfg \<Longrightarrow> config_ok (fst (applyInterfaceOption opts cfg))"
  by (auto simp: applyInterfaceOption_def config_ok_def Interface_def split: option.splits)

lemma applyPort_ok: "config_ok cfg \<Longrightarrow> config_ok (fst (applyPortOption opts cfg))"
  by (auto simp: applyPortOption_def config_ok_def PortString_Inr split: option.splits sum.splits)

lemma ApplyCommon_ok: "config_ok cfg \<Longrightarrow> config_ok (fst (ApplyCommonOptions opts cfg))"
  unfolding ApplyCommonOptions_def
  by (intro then_step_inv [where P = config_ok] applyName_ok applyInterface_ok applyPort_ok) simp_all

lemma applyMaxConns_ok: "limits_ok lim \<Longrightarrow> limits_ok (fst (applyMaxConnsOption opts lim))"
  by (auto simp: applyMaxConnsOption_def limits_ok_def MaxConnections_def split: option.splits)

lemma applyRateLimit_ok: "limits_ok lim \<Longrightarrow> limits_ok (fst (applyRateLimitOption fl opts lim))"
  by (auto simp: applyRateLimitOption_def limits_ok_def RateLimitString_Inr split: option.splits sum.splits)

lemma ApplyRateLimit_ok: "limits_ok lim \<Longrightarrow> limits_ok (fst (ApplyRateLimitOptions fl opts lim))"
  unfolding ApplyRateLimitOptions_def
  by (intro then_step_inv [where P = limits_ok] applyMaxConns_ok applyRateLimit_ok)

text \<open>Success means that each present key was valid and was stored.\<close>

lemma applyName_None:
  "applyNameOption opts cfg = (cfg', None) \<longleftrightarrow>
     (case gm_get opts ''name'' of None \<Rightarrow> cfg' = cfg
      | Some n \<Rightarrow> TrimSpace n \<noteq> '''' \<and> cfg' = cfg\<lparr>tc_Name := n\<rparr>)"
  by (auto simp: applyNameOption_def RequiredString_def Let_def split: option.splits)

lemma applyInterface_None:
  "applyInterfaceOption opts cfg = (cfg', None) \<longleftrightarrow>
     (case gm_get opts ''interface'' of None \<Rightarrow> cfg' = cfg
      | Some i \<Rightarrow> (i = '''' \<or> ParseIP i) \<and> cfg' = cfg\<lparr>tc_Interface := i\<rparr>)"
  by (auto simp: applyInterfaceOption_def Interface_def split: option.splits)

lemma applyPort_None:
  "applyPortOption opts cfg = (cfg', None) \<longleftrightarrow>
     (case gm_get opts ''port'' of None \<Rightarrow> cfg' = cfg
      | Some s \<Rightarrow> \<exists>p. PortString s = Inr p \<and> cfg' = cfg\<lparr>tc_Port := p\<rparr>)"
  by (auto simp: applyPortOption_def split: option.splits sum.splits)

lemmas apply_None = applyName_None applyInterface_None applyPort_None then_step_None

text \<open>A failing option leaves its own field alone.\<close>

lemma apply_error_unchanged:
  "applyNameOption opts cfg = (cfg', Some e) \<Longrightarrow> cfg' = cfg \<and> Field e = ''name''"
  "applyInterfaceOption opts cfg = (cfg', Some e) \<Longrightarrow> cfg' = cfg \<and> Field e = ''interface''"
  "applyPortOption opts cfg = (cfg', Some e) \<Longrightarrow> cfg' = cfg \<and> Field e = ''port''"
  by (auto simp: applyNameOption_def applyInterfaceOption_def applyPortOption_def RequiredString_def
      Interface_def Let_def dest: PortString_Inl_Field split: option.splits sum.splits if_splits)

section \<open>Properties\<close>

text \<open>
  C31: applying the options a valid configuration reports to any other configuration
  succeeds and transfers name, interface and port exactly; the type and the target stay
  those of the receiver; every I2CP option with a non-empty printed value arrives as that
  text and every other I2CP entry of the receiver is kept, in whatever order the two map
  loops run.
\<close>
theorem BuildCommonOptions_roundtrip:
  assumes ok: "config_ok cfg" and wf: "i2cp_wf cfg"
  shows "\<exists>cfg'. ApplyCommonOptions (BuildCommonOptions fl cfg) cfg0 = (cfg', None) \<and>
    tc_Name cfg' = tc_Name cfg \<and> tc_Interface cfg' = tc_Interface cfg \<and> tc_Port cfg' = tc_Port cfg \<and>
    tc_Type cfg' = tc_Type cfg0 \<and> tc_Target cfg' = tc_Target cfg0 \<and>
    (\<forall>k. i2cp_get cfg' k =
       (case map_option (Sprint_v fl) (i2cp_get cfg k) of
          None \<Rightarrow> i2cp_get cfg0 k
        | Some s \<Rightarrow> if s = '''' then i2cp_get cfg0 k else Some (IStr s)))"
proof -
  let ?o = "BuildCommonOptions fl cfg"
  let ?c = "cfg0\<lparr>tc_Name := tc_Name cfg, tc_Interface := tc_Interface cfg, tc_Port := tc_Port cfg\<rparr>"
  have "ApplyCommonOptions ?o cfg0 = (mergeI2CPOptionsInto ?o ?c, None)"
    using ok by (simp add: ApplyCommonOptions_def apply_None BuildCommon_get config_ok_def PortString_Itoa)
  moreover have "i2cp_get (mergeI2CPOptionsInto ?o ?c) k =
     (case map_option (Sprint_v fl) (i2cp_get cfg k) of
        None \<Rightarrow> i2cp_get cfg0 k
      | Some s \<Rightarrow> if s = '''' then i2cp_get cfg0 k else Some (IStr s))" for k
    by (simp add: mergeInto_i2cp_get extracted_get BuildCommon_get_i2cp [OF wf] i2cp_get_def [of ?c]
        i2cp_get_def [of cfg0] split: option.splits)
  ultimately show ?thesis by simp
qed

definition example_config :: tunnel_config where
  "example_config =
     \<lparr>tc_Name = ''irc'', tc_Type = ''tcpclient'', tc_Interface = ''127.0.0.1'', tc_Port = 6668,
      tc_Target = ''irc.postman.i2p'', tc_I2CP = Some [(''leaseSetEncType'', IInt 4)], tc_Tunnel = None\<rparr>"

lemma example_config_ok: "config_ok example_config"
  by code_simp

definition no_floats :: float_lib where
  "no_floats = \<lparr>ParseFloat = (\<lambda>s. None), FormatFloat = (\<lambda>f. []), SprintFloat = (\<lambda>f. []), FloatToIntOther = (\<lambda>f. 0)\<rparr>"

lemma BuildCommonOptions_roundtrip_witness:
  "\<exists>cfg'. ApplyCommonOptions (BuildCommonOptions no_floats example_config) (example_config\<lparr>tc_Name := ''old''\<rparr>) = (cfg', None) \<and>
     tc_Name cfg' = ''irc'' \<and> i2cp_get cfg' ''leaseSetEncType'' = Some (IStr ''4'')"
proof -
  have "Itoa 4 = ''4''" by code_simp
  then show ?thesis
    using BuildCommonOptions_roundtrip [OF example_config_ok, of no_floats "example_config\<lparr>tc_Name := ''old''\<rparr>"]
    by (auto simp: example_config_def i2cp_wf_def gm_wf_def i2cp_get_def)
qed

end
