(* ===== verification/Metrics.thy ===== *)
theory Metrics
  imports CoreTypes
begin

text \<open>
  Package \<open>metrics\<close>, \<open>lib/metrics/metrics.go\<close>: the counters of one tunnel, the registry
  of all tunnels, and the wrappers that count the traffic of a connection.

  The atomic 64-bit counters are \<^typ>\<open>64 word\<close>, so every \<open>Add\<close> wraps as in Go. The
  registry hands out pointers: \<open>cells\<close> is the store they point into and \<open>tunnels\<close> the
  map of the source from tunnel IDs to pointers. An operation runs under the registry's
  mutex, hence as one step.
\<close>

section \<open>Counters of a tunnel\<close>

record tunnel_metrics =
  mName :: string
  mID :: string
  mType :: string
  ConnectionsAccepted :: "64 word"
  ConnectionsFailed :: "64 word"
  BytesIn :: "64 word"
  BytesOut :: "64 word"
  ErrorCount :: "64 word"
  RateLimitHits :: "64 word"
  FilterBlocks :: "64 word"
  ActiveConnections :: "64 word"
  startedAt :: "64 word"

definition fresh_metrics :: "string \<Rightarrow> string \<Rightarrow> string \<Rightarrow> tunnel_metrics" where
  "fresh_metrics name ident tunnelType =
     \<lparr>mName = name, mID = ident, mType = tunnelType, ConnectionsAccepted = 0, ConnectionsFailed = 0,
      BytesIn = 0, BytesOut = 0, ErrorCount = 0, RateLimitHits = 0, FilterBlocks = 0,
      ActiveConnections = 0, startedAt = 0\<rparr>"

text \<open>\<open>now\<close> is \<open>time.Now().UnixNano()\<close> at the call.\<close>

definition RecordStart :: "64 word \<Rightarrow> tunnel_metrics \<Rightarrow> tunnel_metrics" where
  "RecordStart now m = m\<lparr>startedAt := now\<rparr>"

definition RecordStop :: "tunnel_metrics \<Rightarrow> tunnel_metrics" where
  "RecordStop m = m\<lparr>startedAt := 0\<rparr>"

text \<open>
  The uptime as the \<open>time.Duration\<close> whose \<open>Seconds()\<close> the code returns: the difference
  of the two wall clock readings, which \<open>time.Since\<close> saturates to 64 bits.
\<close>

definition sat64 :: "int \<Rightarrow> int" where
  "sat64 d = max int64_min (min int64_max d)"

definition Uptime :: "64 word \<Rightarrow> tunnel_metrics \<Rightarrow> int" where
  "Uptime now m = (if startedAt m = 0 then 0 else sat64 (sint now - sint (startedAt m)))"

definition RecordConnection :: "tunnel_metrics \<Rightarrow> tunnel_metrics" where
  "RecordConnection m =
     m\<lparr>ConnectionsAccepted := ConnectionsAccepted m + 1, ActiveConnections := ActiveConnections m + 1\<rparr>"

definition RecordDisconnection :: "tunnel_metrics \<Rightarrow> tunnel_metrics" where
  "RecordDisconnection m = m\<lparr>ActiveConnections := ActiveConnections m - 1\<rparr>"

definition RecordError_metric :: "tunnel_metrics \<Rightarrow> tunnel_metrics" where
  "RecordError_metric m = m\<lparr>ErrorCount := ErrorCount m + 1\<rparr>"

definition RecordConnectionFailed :: "tunnel_metrics \<Rightarrow> tunnel_metrics" where
  "RecordConnectionFailed m = m\<lparr>ConnectionsFailed := ConnectionsFailed m + 1\<rparr>"

definition RecordBytesIn :: "64 word \<Rightarrow> tunnel_metrics \<Rightarrow> tunnel_metrics" where
  "RecordBytesIn n m = m\<lparr>BytesIn := BytesIn m + n\<rparr>"

definition RecordBytesOut :: "64 word \<Rightarrow> tunnel_metrics \<Rightarrow> tunnel_metrics" where
  "RecordBytesOut n m = m\<lparr>BytesOut := BytesOut m + n\<rparr>"

definition RecordRateLimitHit :: "tunnel_metrics \<Rightarrow> tunnel_metrics" where
  "RecordRateLimitHit m = m\<lparr>RateLimitHits := RateLimitHits m + 1\<rparr>"

definition RecordFilterBlock :: "tunnel_metrics \<Rightarrow> tunnel_metrics" where
  "RecordFilterBlock m = m\<lparr>FilterBlocks := FilterBlocks m + 1\<rparr>"

record metric_snapshot =
  sName :: string
  sID :: string
  sType :: string
  sConnectionsAccepted :: int
  sConnectionsFailed :: int
  sActiveConnections :: int
  sBytesIn :: int
  sBytesOut :: int
  sErrorCount :: int
  sRateLimitHits :: int
  sFilterBlocks :: int
  sUptime :: int

definition Snapshot :: "64 word \<Rightarrow> tunnel_metrics \<Rightarrow> metric_snapshot" where
  "Snapshot now m =
     \<lparr>sName = mName m, sID = mID m, sType = mType m,
      sConnectionsAccepted = sint (ConnectionsAccepted m),
      sConnectionsFailed = sint (ConnectionsFailed m),
      sActiveConnections = sint (ActiveConnections m),
      sBytesIn = sint (BytesIn m), sBytesOut = sint (BytesOut m),
      sErrorCount = sint (ErrorCount m), sRateLimitHits = sint (RateLimitHits m),
      sFilterBlocks = sint (FilterBlocks m), sUptime = Uptime now m\<rparr>"

lemma Uptime_int64: "in_int64 (Uptime now m)"
  by (simp add: Uptime_def sat64_def in_int64_def int64_min_def int64_max_def)

lemma Uptime_RecordStop [simp]: "Uptime now (RecordStop m) = 0"
  by (simp add: Uptime_def RecordStop_def)

section \<open>The registry\<close>

record registry =
  tunnels :: "(string, nat) gomap"
  cells :: "nat \<Rightarrow> tunnel_metrics"
  next_cell :: nat

definition NewRegistry :: registry where
  "NewRegistry = \<lparr>tunnels = [], cells = (\<lambda>_. fresh_metrics [] [] []), next_cell = 0\<rparr>"

definition Register :: "string \<Rightarrow> string \<Rightarrow> string \<Rightarrow> registry \<Rightarrow> registry \<times> nat" where
  "Register name ident tunnelType r =
     (case gm_get (tunnels r) ident of
        Some p \<Rightarrow> (r, p)
      | None \<Rightarrow>
          let p = next_cell r in
          (r\<lparr>cells := (cells r)(p := fresh_metrics name ident tunnelType),
             next_cell := Suc p, tunnels := gm_set ident p (tunnels r)\<rparr>, p))"

definition Unregister :: "string \<Rightarrow> registry \<Rightarrow> registry" where
  "Unregister ident r = r\<lparr>tunnels := gm_del ident (tunnels r)\<rparr>"

definition Get :: "string \<Rightarrow> registry \<Rightarrow> nat option" where
  "Get ident r = gm_get (tunnels r) ident"

definition Len :: "registry \<Rightarrow> nat" where
  "Len r = length (tunnels r)"

definition Snapshots :: "64 word \<Rightarrow> registry \<Rightarrow> metric_snapshot list" where
  "Snapshots now r = map (\<lambda>(k, p). Snapshot now (cells r p)) (tunnels r)"

text \<open>A write through a pointer that a tunnel holds.\<close>

definition update_cell :: "nat \<Rightarrow> (tunnel_metrics \<Rightarrow> tunnel_metrics) \<Rightarrow> registry \<Rightarrow> registry" where
  "update_cell p f r = r\<lparr>cells := (cells r)(p := f (cells r p))\<rparr>"

text \<open>
  The registry as other components see it: the contract of a store of shared
  instances, one per key. \<open>register\<close> gives every caller with the same key the same
  instance until the key is unregistered, and a new one afterwards.
\<close>

locale instance_store =
  fixes register :: "'a \<Rightarrow> 'k \<Rightarrow> 's \<Rightarrow> 's \<times> 'p" and unregister :: "'k \<Rightarrow> 's \<Rightarrow> 's"
    and get :: "'k \<Rightarrow> 's \<Rightarrow> 'p option" and used :: "'s \<Rightarrow> 'p set" and inv :: "'s \<Rightarrow> bool"
  assumes inv_register: "inv s \<Longrightarrow> inv (fst (register a k s))"
    and inv_unregister: "inv s \<Longrightarrow> inv (unregister k s)"
    and register_hit: "get k s = Some p \<Longrightarrow> register a k s = (s, p)"
    and register_new: "inv s \<Longrightarrow> get k s = None \<Longrightarrow> snd (register a k s) \<notin> used s"
    and get_register: "get k' (fst (register a k s)) = (if k' = k then Some (snd (register a k s)) else get k' s)"
    and get_unregister: "get k' (unregister k s) = (if k' = k then None else get k' s)"
    and used_unregister: "used (unregister k s) = used s"
    and get_used: "inv s \<Longrightarrow> get k s = Some p \<Longrightarrow> p \<in> used s"
    and get_inj: "inv s \<Longrightarrow> get k s = Some p \<Longrightarrow> get k' s = Some p \<Longrightarrow> k = k'"
begin

lemma register_twice: "register b k (fst (register a k s)) = (fst (register a k s), snd (register a k s))"
  by (rule register_hit) (simp add: get_register)

lemma register_after_unregister:
  assumes "inv s" and "get k s = Some p"
  shows "snd (register a k (unregister k s)) \<noteq> p"
proof -
  have "snd (register a k (unregister k s)) \<notin> used (unregister k s)"
    using assms(1) by (intro register_new inv_unregister) (simp_all add: get_unregister)
  with get_used [OF assms] show ?thesis by (auto simp: used_unregister)
qed

lemma register_other:
  "inv s \<Longrightarrow> k' \<noteq> k \<Longrightarrow> get k' s = Some p \<Longrightarrow> snd (register a k s) \<noteq> p"
  by (metis get_inj get_register inv_register)

end

definition registry_inv :: "registry \<Rightarrow> bool" where
  "registry_inv r \<longleftrightarrow>
     gm_wf (tunnels r) \<and>
     (\<forall>k p. gm_get (tunnels r) k = Some p \<longrightarrow> p < next_cell r \<and> mID (cells r p) = k)"

lemma registry_inv_New: "registry_inv NewRegistry"
  by (simp add: registry_inv_def NewRegistry_def)

lemma registry_inv_Register: "registry_inv r \<Longrightarrow> registry_inv (fst (Register name k ty r))"
  by (auto simp: registry_inv_def Register_def Let_def fresh_metrics_def less_Suc_eq
      split: option.splits if_splits)

lemma registry_inv_Unregister: "registry_inv r \<Longrightarrow> registry_inv (Unregister k r)"
  by (auto simp: registry_inv_def Unregister_def split: if_splits)

lemma registry_inv_update_cell:
  "registry_inv r \<Longrightarrow> (\<And>m. mID (f m) = mID m) \<Longrightarrow> registry_inv (update_cell p f r)"
  by (auto simp: registry_inv_def update_cell_def)

lemma Register_next: "next_cell (fst (Register name k ty r)) = (if Get k r = None then Suc (next_cell r) else next_cell r)"
  by (auto simp: Register_def Get_def Let_def split: option.splits)


interpretation shared: instance_store "\<lambda>(name, ty) k. Register name k ty" Unregister Get
  "\<lambda>r. {..< next_cell r}" registry_inv
proof unfold_locales
  show "registry_inv s \<Longrightarrow> registry_inv (fst ((\<lambda>(name, ty) k. Register name k ty) a k s))" for s a k
    by (cases a) (simp add: registry_inv_Register)
  show "registry_inv s \<Longrightarrow> Get k s = Some p \<Longrightarrow> Get k' s = Some p \<Longrightarrow> k = k'" for s k p k'
    by (auto simp: registry_inv_def Get_def)
qed (auto simp: registry_inv_Unregister Register_def Unregister_def Get_def Let_def registry_inv_def
    split: option.splits)

text \<open>A tunnel's snapshot, looked up by ID; \<open>Snapshots\<close> holds exactly these, each once.\<close>

definition metrics_of :: "string \<Rightarrow> registry \<Rightarrow> tunnel_metrics option" where
  "metrics_of k r = map_option (cells r) (Get k r)"

lemma metrics_of_Register:
  "registry_inv r \<Longrightarrow> metrics_of k' (fst (Register name k ty r)) =
     (if k' = k \<and> metrics_of k r = None then Some (fresh_metrics name k ty) else metrics_of k' r)"
  by (auto simp: metrics_of_def Register_def Get_def Let_def registry_inv_def map_option_case
      split: option.splits)

lemma metrics_of_update_cell:
  assumes inv: "registry_inv r" and k: "Get k r = Some p"
  shows "metrics_of k' (update_cell p f r) =
     (if k' = k then map_option f (metrics_of k r) else metrics_of k' r)"
proof (cases "Get k' r")
  case None
  with k show ?thesis by (auto simp: metrics_of_def update_cell_def Get_def)
next
  case (Some p')
  with shared.get_inj [OF inv k, of k'] k show ?thesis
    by (auto simp: metrics_of_def update_cell_def Get_def)
qed

lemma Len_dom: "registry_inv r \<Longrightarrow> Len r = card (dom (\<lambda>k. Get k r))"
proof -
  assume "registry_inv r"
  then have "card (fst ` set (tunnels r)) = length (map fst (tunnels r))"
    unfolding registry_inv_def gm_wf_def by (metis distinct_card list.set_map)
  then show ?thesis by (simp add: Len_def Get_def dom_map_of_conv_image_fst)
qed

lemma Snapshots_iff:
  assumes "registry_inv r"
  shows "s \<in> set (Snapshots now r) \<longleftrightarrow> (\<exists>k m. metrics_of k r = Some m \<and> s = Snapshot now m)"
proof -
  have "distinct (map fst (tunnels r))"
    using assms by (simp add: registry_inv_def gm_wf_def)
  then have "(k, p) \<in> set (tunnels r) \<longleftrightarrow> Get k r = Some p" for k p
    by (simp add: Get_def)
  then show ?thesis
    by (force simp: Snapshots_def metrics_of_def)
qed

section \<open>Counting connections\<close>

text \<open>
  \<open>CountingConn\<close>: \<open>None\<close> is a nil metrics pointer. \<open>n\<close> is the count the wrapped
  connection's \<open>Read\<close> or \<open>Write\<close> returned, and the flag is the state of \<open>closeOnce\<close>.
\<close>

definition CountingConn_Read :: "int \<Rightarrow> tunnel_metrics option \<Rightarrow> tunnel_metrics option" where
  "CountingConn_Read n m = (if n > 0 then map_option (RecordBytesIn (word_of_int n)) m else m)"

definition CountingConn_Write :: "int \<Rightarrow> tunnel_metrics option \<Rightarrow> tunnel_metrics option" where
  "CountingConn_Write n m = (if n > 0 then map_option (RecordBytesOut (word_of_int n)) m else m)"

definition CountingConn_Close :: "bool \<Rightarrow> tunnel_metrics option \<Rightarrow> bool \<times> tunnel_metrics option" where
  "CountingConn_Close once m = (True, if once then m else map_option RecordDisconnection m)"

definition CountingPacketConn_ReadFrom :: "int \<Rightarrow> tunnel_metrics option \<Rightarrow> tunnel_metrics option" where
  "CountingPacketConn_ReadFrom n m = (if n > 0 then map_option (RecordBytesIn (word_of_int n)) m else m)"

definition CountingPacketConn_WriteTo :: "int \<Rightarrow> tunnel_metrics option \<Rightarrow> tunnel_metrics option" where
  "CountingPacketConn_WriteTo n m = (if n > 0 then map_option (RecordBytesOut (word_of_int n)) m else m)"

text \<open>
  The wrapped connections of one tunnel share its counters. An execution is the
  sequence of their operations in the order the atomic updates took effect: the \<open>i\<close>th
  accepted connection is opened, read, written and closed, by any goroutine and
  closed any number of times (both copy loops of a forwarder close both ends).
\<close>

datatype conn_event = ConnOpen | ConnRead nat int | ConnWrite nat int | ConnClose nat

record conn_world =
  cw_metrics :: "tunnel_metrics option"
  cw_once :: "bool list"

fun conn_step :: "conn_event \<Rightarrow> conn_world \<Rightarrow> conn_world" where
  "conn_step ConnOpen w =
     w\<lparr>cw_metrics := map_option RecordConnection (cw_metrics w), cw_once := cw_once w @ [False]\<rparr>"
| "conn_step (ConnRead i n) w =
     (if i < length (cw_once w) then w\<lparr>cw_metrics := CountingConn_Read n (cw_metrics w)\<rparr> else w)"
| "conn_step (ConnWrite i n) w =
     (if i < length (cw_once w) then w\<lparr>cw_metrics := CountingConn_Write n (cw_metrics w)\<rparr> else w)"
| "conn_step (ConnClose i) w =
     (if i < length (cw_once w) then
        (case CountingConn_Close (cw_once w ! i) (cw_metrics w) of
           (o', m') \<Rightarrow> w\<lparr>cw_metrics := m', cw_once := (cw_once w)[i := o']\<rparr>)
      else w)"

definition open_count :: "conn_world \<Rightarrow> nat" where
  "open_count w = length (filter Not (cw_once w))"

definition conn_world_inv :: "conn_world \<Rightarrow> bool" where
  "conn_world_inv w \<longleftrightarrow>
     (\<forall>m. cw_metrics w = Some m \<longrightarrow>
        ActiveConnections m = of_nat (open_count w) \<and>
        ConnectionsAccepted m = of_nat (length (cw_once w)))"

lemma length_filter_Not_update:
  "i < length bs \<Longrightarrow>
     length (filter Not (bs[i := True])) + (if bs ! i then 0 else 1) = length (filter Not bs)"
proof (induction bs arbitrary: i)
  case (Cons b bs)
  then show ?case by (cases i) auto
qed simp

lemma conn_step_inv: "conn_world_inv w \<Longrightarrow> conn_world_inv (conn_step e w)"
proof (cases e)
  case (ConnClose i)
  assume inv: "conn_world_inv w"
  show ?thesis
  proof (cases "i < length (cw_once w)")
    case True
    have "(of_nat (length (filter Not (cw_once w))) :: 64 word) =
        of_nat (length (filter Not ((cw_once w)[i := True]))) + (if cw_once w ! i then 0 else 1)"
      by (simp flip: length_filter_Not_update [OF True])
    with True inv ConnClose show ?thesis
      by (auto simp: conn_world_inv_def open_count_def CountingConn_Close_def RecordDisconnection_def
          list_update_same_conv split: if_splits)
  qed (use inv ConnClose in simp)
qed (auto simp: conn_world_inv_def open_count_def CountingConn_Read_def CountingConn_Write_def
    RecordBytesIn_def RecordBytesOut_def RecordConnection_def split: if_splits)

lemma conn_run_inv: "conn_world_inv w \<Longrightarrow> conn_world_inv (fold conn_step es w)"
  by (induction es arbitrary: w) (simp_all add: conn_step_inv)

section \<open>Properties\<close>

definition fresh_world :: "tunnel_metrics option \<Rightarrow> conn_world" where
  "fresh_world m = \<lparr>cw_metrics = m, cw_once = []\<rparr>"

text \<open>
  C36: in every interleaving of accepts, reads, writes and (repeated) closes of the
  connections of a tunnel whose counters were fresh, the gauge of active connections is
  the number of connections not yet closed and the accepted counter the number opened,
  modulo 2 to the 64: a second \<open>Close\<close> of the same connection never lowers the gauge again.
\<close>
theorem CountingConn_gauge:
  assumes "cw_metrics (fold conn_step es (fresh_world (Some (fresh_metrics name ident ty)))) = Some m"
  shows "ActiveConnections m = of_nat (open_count (fold conn_step es (fresh_world (Some (fresh_metrics name ident ty))))) \<and>
    ConnectionsAccepted m = of_nat (length (filter (\<lambda>e. e = ConnOpen) es))"
proof -
  let ?w = "fresh_world (Some (fresh_metrics name ident ty))"
  have "conn_world_inv ?w"
    by (simp add: conn_world_inv_def fresh_world_def fresh_metrics_def open_count_def)
  then have "conn_world_inv (fold conn_step es ?w)" by (rule conn_run_inv)
  moreover have "length (cw_once (fold conn_step es w)) = length (cw_once w) + length (filter (\<lambda>e. e = ConnOpen) es)" for w
  proof (induction es arbitrary: w)
    case (Cons e es)
    then show ?case by (cases e) (auto split: prod.splits)
  qed simp
  ultimately show ?thesis
    using assms by (simp add: conn_world_inv_def fresh_world_def)
qed

lemma CountingConn_gauge_witness:
  "map_option ActiveConnections (cw_metrics (fold conn_step
     [ConnOpen, ConnRead 0 7, ConnOpen, ConnClose 0, ConnClose 0, ConnWrite 1 9]
     (fresh_world (Some (fresh_metrics ''n'' ''i'' ''t''))))) = Some 1"
proof -
  let ?es = "[ConnOpen, ConnRead 0 7, ConnOpen, ConnClose 0, ConnClose 0, ConnWrite 1 9]"
  let ?w = "fresh_world (Some (fresh_metrics ''n'' ''i'' ''t''))"
  obtain m where m: "cw_metrics (fold conn_step ?es ?w) = Some m"
    by (simp add: fresh_world_def CountingConn_Read_def CountingConn_Write_def CountingConn_Close_def)
  have "open_count (fold conn_step ?es ?w) = 1"
    by (simp add: fresh_world_def CountingConn_Close_def open_count_def)
  with CountingConn_gauge [OF m] m show ?thesis by simp
qed

text \<open>
  The registry keeps one instance per tunnel ID: registering an ID again returns
  the same pointer and changes nothing, whatever name and type are given, so a restarted
  tunnel keeps its counters; once the ID is unregistered, the next registration gets a
  different, zeroed instance, and writes through the old pointer no longer reach any
  registered tunnel.
\<close>
theorem Registry_instances:
  assumes inv: "registry_inv r" and reg: "Get k r = Some p"
  shows "Register name k ty r = (r, p) \<and>
    snd (Register name k ty (Unregister k r)) \<noteq> p \<and>
    metrics_of k (fst (Register name k ty (Unregister k r))) = Some (fresh_metrics name k ty) \<and>
    metrics_of k' (update_cell p f (Unregister k r)) = metrics_of k' (Unregister k r)"
proof (intro conjI)
  show "Register name k ty r = (r, p)"
    using shared.register_hit [OF reg, of "(name, ty)"] by simp
  show "snd (Register name k ty (Unregister k r)) \<noteq> p"
    using shared.register_after_unregister [OF inv reg, of "(name, ty)"] by simp
  have un: "registry_inv (Unregister k r)" using inv by (rule registry_inv_Unregister)
  have none: "metrics_of k (Unregister k r) = None"
    by (simp add: metrics_of_def shared.get_unregister)
  then show "metrics_of k (fst (Register name k ty (Unregister k r))) = Some (fresh_metrics name k ty)"
    by (simp add: metrics_of_Register [OF un])
  have "Get k' (Unregister k r) \<noteq> Some p"
    using shared.get_inj [OF inv reg, of k'] by (auto simp: shared.get_unregister)
  then show "metrics_of k' (update_cell p f (Unregister k r)) = metrics_of k' (Unregister k r)"
    by (cases "Get k' (Unregister k r)") (simp_all add: metrics_of_def update_cell_def Get_def)
qed

lemma Registry_instances_witness:
  "snd (Register ''n2'' ''a'' ''t'' (Unregister ''a'' (fst (Register ''n'' ''a'' ''t'' NewRegistry)))) \<noteq> 0"
proof -
  let ?r = "fst (Register ''n'' ''a'' ''t'' NewRegistry)"
  have "registry_inv ?r"
    by (intro registry_inv_Register registry_inv_New)
  moreover have "Get ''a'' ?r = Some 0"
    by (simp add: Register_def NewRegistry_def Get_def Let_def)
  ultimately show ?thesis
    using Registry_instances [of ?r "''a''" 0 "''n2''" "''t''"] by blast
qed

section \<open>Wrapping\<close>

text \<open>
  The \<open>net.Conn\<close> and \<open>net.PacketConn\<close> that a handler uses: the connection itself, or one
  that counts, with whether its \<open>closeOnce\<close> has fired. The metrics pointer that it keeps is
  the one of the tunnel.
\<close>

datatype 'n net_conn = BareConn 'n | CountedConn 'n bool
datatype 'n packet_conn = BarePacketConn 'n | CountedPacketConn 'n

definition WrapConn :: "'n \<Rightarrow> tunnel_metrics option \<Rightarrow> 'n net_conn" where
  "WrapConn conn m = (case m of None \<Rightarrow> BareConn conn | Some p \<Rightarrow> CountedConn conn False)"

definition WrapPacketConn :: "'n \<Rightarrow> tunnel_metrics option \<Rightarrow> 'n packet_conn" where
  "WrapPacketConn conn m = (case m of None \<Rightarrow> BarePacketConn conn | Some p \<Rightarrow> CountedPacketConn conn)"

fun conn_transfer :: "bool \<Rightarrow> int \<Rightarrow> 'n net_conn \<Rightarrow> tunnel_metrics option \<Rightarrow> tunnel_metrics option" where
  "conn_transfer out n (BareConn conn) m = m"
| "conn_transfer out n (CountedConn conn once) m = (if out then CountingConn_Write n m else CountingConn_Read n m)"

fun conn_Close :: "'n net_conn \<Rightarrow> tunnel_metrics option \<Rightarrow> 'n net_conn \<times> tunnel_metrics option" where
  "conn_Close (BareConn conn) m = (BareConn conn, m)"
| "conn_Close (CountedConn conn once) m = (case CountingConn_Close once m of (once', m') \<Rightarrow> (CountedConn conn once', m'))"

fun packet_transfer :: "bool \<Rightarrow> int \<Rightarrow> 'n packet_conn \<Rightarrow> tunnel_metrics option \<Rightarrow> tunnel_metrics option" where
  "packet_transfer out n (BarePacketConn conn) m = m"
| "packet_transfer out n (CountedPacketConn conn) m = (if out then CountingPacketConn_WriteTo n m else CountingPacketConn_ReadFrom n m)"

text \<open>So the handlers may use the counting operations whether there are metrics or not.\<close>

lemma WrapConn_counts:
  "conn_transfer False n (WrapConn conn m) m = CountingConn_Read n m"
  "conn_transfer True n (WrapConn conn m) m = CountingConn_Write n m"
  "snd (conn_Close (WrapConn conn m) m) = snd (CountingConn_Close False m)"
  by (simp_all add: WrapConn_def CountingConn_Read_def CountingConn_Write_def CountingConn_Close_def split: option.split)

lemma WrapPacketConn_counts:
  "packet_transfer False n (WrapPacketConn conn m) m = CountingPacketConn_ReadFrom n m"
  "packet_transfer True n (WrapPacketConn conn m) m = CountingPacketConn_WriteTo n m"
  by (simp_all add: WrapPacketConn_def CountingPacketConn_ReadFrom_def CountingPacketConn_WriteTo_def split: option.split)

end
