(* ===== verification/TunnelBase.thy ===== *)
theory TunnelBase
  imports Options Metrics
begin

text \<open>
  \<open>TunnelBase\<close> (\<open>lib/core/base.go\<close>): the state and the methods that the tunnel types
  embed, the accept loop included. The status is guarded by its own mutex and the error
  history by another, so each method is one step; sleeps are left out. The metrics
  pointer is inlined: \<open>None\<close> is nil.
\<close>

section \<open>State\<close>

record tunnel_base =
  tb_Config :: tunnel_config
  tb_MaxConns :: int
  tb_RateLimit :: float64
  tb_Status :: tunnel_status
  tb_Errors :: error_tracker
  tb_Metrics :: "tunnel_metrics option"

definition base_Name :: "tunnel_base \<Rightarrow> string" where
  "base_Name b = tc_Name (tb_Config b)"

definition base_ID :: "tunnel_base \<Rightarrow> string" where
  "base_ID b = Clean (base_Name b)"

definition base_Type :: "tunnel_base \<Rightarrow> string" where
  "base_Type b = tc_Type (tb_Config b)"

definition base_Error :: "tunnel_base \<Rightarrow> go_error option" where
  "base_Error b = Last (tb_Errors b)"

definition Status :: "tunnel_base \<Rightarrow> tunnel_status" where
  "Status b = tb_Status b"

definition SetTunnelMetrics :: "tunnel_metrics option \<Rightarrow> tunnel_base \<Rightarrow> tunnel_base" where
  "SetTunnelMetrics m b = b\<lparr>tb_Metrics := m\<rparr>"

definition SetStatus :: "tunnel_status \<Rightarrow> tunnel_base \<Rightarrow> tunnel_base" where
  "SetStatus s b = b\<lparr>tb_Status := s\<rparr>"

definition RecordError :: "go_error \<Rightarrow> tunnel_base \<Rightarrow> tunnel_base" where
  "RecordError err b =
     b\<lparr>tb_Errors := Record (base_Name b) err (tb_Errors b),
       tb_Metrics := map_option RecordError_metric (tb_Metrics b)\<rparr>"

text \<open>\<open>if b.Metrics != nil { b.Metrics.f() }\<close>\<close>

definition upd_metrics :: "(tunnel_metrics \<Rightarrow> tunnel_metrics) \<Rightarrow> tunnel_base \<Rightarrow> tunnel_base" where
  "upd_metrics f b = b\<lparr>tb_Metrics := map_option f (tb_Metrics b)\<rparr>"

definition base_Options :: "float_lib \<Rightarrow> tunnel_base \<Rightarrow> options" where
  "base_Options fl b =
     AddRateLimitOptions fl (tb_MaxConns b) (tb_RateLimit b) (BuildCommonOptions fl (tb_Config b))"

definition base_SetOptions :: "float_lib \<Rightarrow> options \<Rightarrow> tunnel_base \<Rightarrow> tunnel_base \<times> go_error option" where
  "base_SetOptions fl opts b =
     (case ApplyCommonOptions opts (tb_Config b) of
        (cfg, Some err) \<Rightarrow> (b\<lparr>tb_Config := cfg\<rparr>, Some err)
      | (cfg, None) \<Rightarrow>
          (case ApplyRateLimitOptions fl opts (tb_MaxConns b, tb_RateLimit b) of
             ((mc, rl), err) \<Rightarrow> (b\<lparr>tb_Config := cfg, tb_MaxConns := mc, tb_RateLimit := rl\<rparr>, err)))"

lemma SetStatus_simps [simp, status_simps]:
  "tb_Status (SetStatus s b) = s" "tb_Config (SetStatus s b) = tb_Config b"
  "tb_MaxConns (SetStatus s b) = tb_MaxConns b" "tb_RateLimit (SetStatus s b) = tb_RateLimit b"
  "tb_Errors (SetStatus s b) = tb_Errors b" "tb_Metrics (SetStatus s b) = tb_Metrics b"
  by (simp_all add: SetStatus_def)

lemma RecordError_simps [simp, status_simps]:
  "tb_Status (RecordError e b) = tb_Status b" "tb_Config (RecordError e b) = tb_Config b"
  "tb_MaxConns (RecordError e b) = tb_MaxConns b" "tb_RateLimit (RecordError e b) = tb_RateLimit b"
  "tb_Errors (RecordError e b) = Record (base_Name b) e (tb_Errors b)"
  "tb_Metrics (RecordError e b) = map_option RecordError_metric (tb_Metrics b)"
  by (simp_all add: RecordError_def)

lemma upd_metrics_simps [simp, status_simps]:
  "tb_Status (upd_metrics f b) = tb_Status b" "tb_Config (upd_metrics f b) = tb_Config b"
  "tb_MaxConns (upd_metrics f b) = tb_MaxConns b" "tb_RateLimit (upd_metrics f b) = tb_RateLimit b"
  "tb_Errors (upd_metrics f b) = tb_Errors b" "tb_Metrics (upd_metrics f b) = map_option f (tb_Metrics b)"
  by (simp_all add: upd_metrics_def)

lemma base_Name_simps [simp]:
  "base_Name (SetStatus s b) = base_Name b" "base_Name (RecordError e b) = base_Name b"
  "base_Name (upd_metrics f b) = base_Name b"
  by (simp_all add: base_Name_def)

text \<open>The owner name may change between records, so the history is a contract for each name.\<close>

definition base_ok :: "tunnel_base \<Rightarrow> bool" where
  "base_ok b \<longleftrightarrow> config_ok (tb_Config b) \<and> limits_ok (tb_MaxConns b, tb_RateLimit b) \<and>
     length (tb_Errors b) \<le> MaxErrors"

lemma base_SetOptions_ok: "base_ok b \<Longrightarrow> base_ok (fst (base_SetOptions fl opts b))"
  using ApplyCommon_ok [of "tb_Config b" opts] ApplyRateLimit_ok [of "(tb_MaxConns b, tb_RateLimit b)" fl opts]
  by (auto simp: base_SetOptions_def base_ok_def split: prod.splits option.splits)

lemma RecordError_ok: "base_ok b \<Longrightarrow> base_ok (RecordError e b)"
  by (simp add: base_ok_def length_Record)

section \<open>The accept loop\<close>

definition is_limit_error :: "go_error \<Rightarrow> bool" where
  "is_limit_error err \<longleftrightarrow>
     (case err of ErrMaxConnsReached _ \<Rightarrow> True | ErrRateLimitExceeded _ \<Rightarrow> True | _ \<Rightarrow> False)"

definition handleRateLimitError :: "go_error \<Rightarrow> tunnel_base \<Rightarrow> tunnel_base \<times> bool" where
  "handleRateLimitError err b =
     (if is_limit_error err then (upd_metrics RecordRateLimitHit b, True) else (b, False))"

text \<open>The result \<open>(cont, fatal)\<close> of the handlers, with the new counter of consecutive errors.\<close>

definition handleConsecutiveError ::
  "go_error \<Rightarrow> int \<Rightarrow> int \<Rightarrow> tunnel_base \<Rightarrow> tunnel_base \<times> int \<times> bool \<times> go_error option" where
  "handleConsecutiveError err consecutive maxErrors b =
     (let n = consecutive + 1;
          b1 = RecordError (Wrapf (''accept error ('' @ Itoa n @ '' consecutive)'') err) b
      in if n \<ge> maxErrors then
           (SetStatus StatusFailed b1, n, False,
            Some (Errorf (''listener failed after '' @ Itoa n @ '' consecutive accept errors'')))
         else (b1, n, True, None))"

text \<open>\<open>done\<close> tells whether the done channel is closed when the \<open>select\<close> looks at it.\<close>

definition HandleAcceptError ::
  "go_error \<Rightarrow> int \<Rightarrow> int \<Rightarrow> bool \<Rightarrow> tunnel_base \<Rightarrow> tunnel_base \<times> int \<times> bool \<times> go_error option" where
  "HandleAcceptError err consecutive maxErrors is_done b =
     (case handleRateLimitError err b of
        (b1, True) \<Rightarrow> (b1, consecutive, True, None)
      | (b1, False) \<Rightarrow>
          if is_done then (b1, consecutive, False, None)
          else handleConsecutiveError err consecutive maxErrors b1)"

text \<open>
  What the environment supplies to one turn of the loop: whether \<open>done\<close> is closed at the
  head of the turn, what \<open>Accept\<close> returns, and whether \<open>done\<close> is closed when an accept
  error is handled.
\<close>

record 'c turn =
  at_head :: bool
  accepted :: "go_error + 'c"
  at_error :: bool

definition acceptAndDispatch ::
  "'c turn \<Rightarrow> int \<Rightarrow> int \<Rightarrow> tunnel_base \<Rightarrow> tunnel_base \<times> int \<times> 'c list \<times> bool \<times> go_error option" where
  "acceptAndDispatch t consecutive maxErrors b =
     (case accepted t of
        Inl err \<Rightarrow>
          (case HandleAcceptError err consecutive maxErrors (at_error t) b of
             (b', n, cont, fatal) \<Rightarrow> (b', n, [], cont, fatal))
      | Inr con \<Rightarrow> (b, 0, [con], True, None))"

text \<open>
  The loop over the turns the environment has supplied so far: the base, the counter,
  the connections handed to \<open>handleConn\<close> in order, and the result, \<open>None\<close> while the loop
  is still running, \<open>Some None\<close> when it returned \<open>nil\<close>.
\<close>

fun accept_loop ::
  "int \<Rightarrow> 'c turn list \<Rightarrow> int \<Rightarrow> tunnel_base \<Rightarrow> tunnel_base \<times> int \<times> 'c list \<times> go_error option option" where
  "accept_loop maxErrors [] n b = (b, n, [], None)"
| "accept_loop maxErrors (t # ts) n b =
     (if at_head t then (b, n, [], Some None)
      else
        (case acceptAndDispatch t n maxErrors b of
           (b', n', cs, cont, fatal) \<Rightarrow>
             if cont then
               (case accept_loop maxErrors ts n' b' of (b'', n'', cs', r) \<Rightarrow> (b'', n'', cs @ cs', r))
             else (b', n', cs, Some fatal)))"

definition RunAcceptDispatch ::
  "'c turn list \<Rightarrow> int \<Rightarrow> tunnel_base \<Rightarrow> tunnel_base \<times> int \<times> 'c list \<times> go_error option option" where
  "RunAcceptDispatch ts maxErrors b = accept_loop maxErrors ts 0 b"

section \<open>What the loop counts\<close>

definition hard_error :: "'c turn \<Rightarrow> bool" where
  "hard_error t \<longleftrightarrow> (case accepted t of Inl err \<Rightarrow> \<not> is_limit_error err | Inr c \<Rightarrow> False)"

definition limit_error :: "'c turn \<Rightarrow> bool" where
  "limit_error t \<longleftrightarrow> (case accepted t of Inl err \<Rightarrow> is_limit_error err | Inr c \<Rightarrow> False)"

definition accepts :: "'c turn list \<Rightarrow> 'c list" where
  "accepts ts = concat (map (\<lambda>t. case accepted t of Inl err \<Rightarrow> [] | Inr c \<Rightarrow> [c]) ts)"

text \<open>No shutdown is seen in these turns.\<close>

definition undisturbed :: "'c turn list \<Rightarrow> bool" where
  "undisturbed ts \<longleftrightarrow> list_all (\<lambda>t. \<not> at_head t \<and> (hard_error t \<longrightarrow> \<not> at_error t)) ts"

text \<open>The consecutive-error counter as a function of the turns alone.\<close>

fun error_run :: "'c turn list \<Rightarrow> int \<Rightarrow> int" where
  "error_run [] n = n"
| "error_run (t # ts) n =
     error_run ts (case accepted t of Inr c \<Rightarrow> 0 | Inl err \<Rightarrow> if is_limit_error err then n else n + 1)"

lemma error_run_append: "error_run (ts @ us) n = error_run us (error_run ts n)"
  by (induction ts n rule: error_run.induct) simp_all

lemma error_run_nonneg: "0 \<le> n \<Longrightarrow> 0 \<le> error_run ts n"
  by (induction ts n rule: error_run.induct) (auto split: sum.splits)

text \<open>A turn that lets the loop go on, and what it does to the base.\<close>

definition turn_effect :: "'c turn \<Rightarrow> int \<Rightarrow> tunnel_base \<Rightarrow> tunnel_base" where
  "turn_effect t n b =
     (case accepted t of
        Inr c \<Rightarrow> b
      | Inl err \<Rightarrow>
          if is_limit_error err then upd_metrics RecordRateLimitHit b
          else RecordError (Wrapf (''accept error ('' @ Itoa (n + 1) @ '' consecutive)'') err) b)"

fun turns_effect :: "'c turn list \<Rightarrow> int \<Rightarrow> tunnel_base \<Rightarrow> tunnel_base" where
  "turns_effect [] n b = b"
| "turns_effect (t # ts) n b = turns_effect ts (error_run [t] n) (turn_effect t n b)"

lemma acceptAndDispatch_cases:
  "acceptAndDispatch t n maxErrors b =
     (case accepted t of
        Inr c \<Rightarrow> (b, 0, [c], True, None)
      | Inl err \<Rightarrow>
          if is_limit_error err then (turn_effect t n b, n, [], True, None)
          else if at_error t then (b, n, [], False, None)
          else if n + 1 \<ge> maxErrors then
            (SetStatus StatusFailed (turn_effect t n b), n + 1, [], False,
             Some (Errorf (''listener failed after '' @ Itoa (n + 1) @ '' consecutive accept errors'')))
          else (turn_effect t n b, n + 1, [], True, None))"
  by (auto simp: acceptAndDispatch_def HandleAcceptError_def handleRateLimitError_def
      handleConsecutiveError_def turn_effect_def Let_def split: sum.splits)

lemma error_run_step:
  "error_run [t] n = (case accepted t of Inr c \<Rightarrow> 0 | Inl err \<Rightarrow> if is_limit_error err then n else n + 1)"
  by simp

lemma loop_Cons:
  "accept_loop maxErrors (t # ts) n b =
     (if at_head t then (b, n, [], Some None)
      else case accepted t of
        Inr c \<Rightarrow> (case accept_loop maxErrors ts 0 b of (b2, n2, cs, r) \<Rightarrow> (b2, n2, c # cs, r))
      | Inl err \<Rightarrow>
          if is_limit_error err then accept_loop maxErrors ts n (turn_effect t n b)
          else if at_error t then (b, n, [], Some None)
          else if n + 1 \<ge> maxErrors then
            (SetStatus StatusFailed (turn_effect t n b), n + 1, [],
             Some (Some (Errorf (''listener failed after '' @ Itoa (n + 1) @ '' consecutive accept errors''))))
          else accept_loop maxErrors ts (n + 1) (turn_effect t n b))"
  by (auto simp: acceptAndDispatch_cases split: sum.splits prod.splits)

lemma loop_running:
  "accept_loop maxErrors ts n b = (b', n', cs, None) \<Longrightarrow>
     undisturbed ts \<and> n' = error_run ts n \<and> b' = turns_effect ts n b \<and> cs = accepts ts"
proof (induction ts arbitrary: n b cs)
  case (Cons t ts)
  show ?case
  proof (cases "accepted t")
    case (Inl err)
    with Cons.prems Cons.IH [of n "turn_effect t n b" cs] Cons.IH [of "n + 1" "turn_effect t n b" cs]
    show ?thesis
      by (simp add: loop_Cons undisturbed_def hard_error_def accepts_def del: accept_loop.simps split: if_splits)
  next
    case (Inr c)
    with Cons.prems obtain cs' where "\<not> at_head t" "accept_loop maxErrors ts 0 b = (b', n', cs', None)" "cs = c # cs'"
      by (auto simp: loop_Cons simp del: accept_loop.simps split: if_splits prod.splits)
    with Cons.IH [of 0 b cs'] Inr show ?thesis
      by (simp add: undisturbed_def hard_error_def accepts_def turn_effect_def)
  qed
qed (simp add: undisturbed_def accepts_def)

lemma loop_running_below:
  "accept_loop maxErrors ts n b = (b', n', cs, None) \<Longrightarrow> n < maxErrors \<Longrightarrow> 0 < maxErrors \<Longrightarrow> n' < maxErrors"
proof (induction ts arbitrary: n b cs)
  case (Cons t ts)
  show ?case
  proof (cases "accepted t")
    case (Inl err)
    with Cons.prems Cons.IH [of n "turn_effect t n b" cs] Cons.IH [of "n + 1" "turn_effect t n b" cs]
    show ?thesis by (simp add: loop_Cons del: accept_loop.simps split: if_splits)
  next
    case (Inr c)
    with Cons.prems obtain cs' where "accept_loop maxErrors ts 0 b = (b', n', cs', None)"
      by (auto simp: loop_Cons simp del: accept_loop.simps split: if_splits prod.splits)
    with Cons.IH [of 0 b cs'] Cons.prems show ?thesis by simp
  qed
qed simp

lemma loop_fatal:
  "accept_loop maxErrors ts n b = (b', n', cs, Some (Some e)) \<Longrightarrow>
     \<exists>pre t post. ts = pre @ t # post \<and> undisturbed (pre @ [t]) \<and> hard_error t \<and>
       n' = error_run (pre @ [t]) n \<and> maxErrors \<le> n' \<and>
       e = Errorf (''listener failed after '' @ Itoa n' @ '' consecutive accept errors'') \<and>
       b' = SetStatus StatusFailed (turns_effect (pre @ [t]) n b) \<and> cs = accepts pre"
proof (induction ts arbitrary: n b cs)
  case (Cons t ts)
  show ?case
  proof (cases "\<exists>b1 n1 cs1. acceptAndDispatch t n maxErrors b = (b1, n1, cs1, True, None)")
    case True
    then obtain b1 n1 cs1 where step: "acceptAndDispatch t n maxErrors b = (b1, n1, cs1, True, None)" by blast
    then have t: "n1 = error_run [t] n" "b1 = turn_effect t n b" "cs1 = accepts [t]" "hard_error t \<longrightarrow> \<not> at_error t"
      by (auto simp: acceptAndDispatch_cases turn_effect_def accepts_def hard_error_def split: sum.splits if_splits)
    from Cons.prems step obtain cs2 where
      rest: "accept_loop maxErrors ts n1 b1 = (b', n', cs2, Some (Some e))" and cs: "cs = cs1 @ cs2" and "\<not> at_head t"
      by (auto split: if_splits prod.splits)
    from Cons.IH [OF rest] obtain pre u post where
      "ts = pre @ u # post" "undisturbed (pre @ [u])" "hard_error u" "n' = error_run (pre @ [u]) n1" "maxErrors \<le> n'"
      "e = Errorf (''listener failed after '' @ Itoa n' @ '' consecutive accept errors'')"
      "b' = SetStatus StatusFailed (turns_effect (pre @ [u]) n1 b1)" "cs2 = accepts pre" by blast
    with t cs \<open>\<not> at_head t\<close> show ?thesis
      by (intro exI [of _ "t # pre"] exI [of _ u] exI [of _ post]) (simp add: undisturbed_def accepts_def)
  next
    case False
    with Cons.prems show ?thesis
      by (intro exI [of _ "[]"] exI [of _ t] exI [of _ ts])
        (auto simp: acceptAndDispatch_cases undisturbed_def hard_error_def accepts_def
          split: sum.splits if_splits)
  qed
qed simp

text \<open>The counter is the number of hard errors since the last accepted connection.\<close>

definition since_success :: "'c turn list \<Rightarrow> 'c turn list" where
  "since_success ts = takeWhile (\<lambda>t. isl (accepted t)) (rev ts)"

definition hard_errors :: "'c turn list \<Rightarrow> nat" where
  "hard_errors ts = length (filter hard_error ts)"

definition limit_errors :: "'c turn list \<Rightarrow> nat" where
  "limit_errors ts = length (filter limit_error ts)"

lemma error_run_since_success: "error_run ts 0 = int (hard_errors (since_success ts))"
proof (induction ts rule: rev_induct)
  case (snoc t ts)
  then show ?case
    by (cases "accepted t") (auto simp: error_run_append since_success_def hard_errors_def hard_error_def)
qed (simp add: since_success_def hard_errors_def)

lemma error_run_no_success:
  "list_all (\<lambda>t. isl (accepted t)) ts \<Longrightarrow> error_run ts n = n + int (hard_errors ts)"
  by (induction ts n rule: error_run.induct) (auto simp: hard_errors_def hard_error_def split: sum.splits)

lemma turns_effect_status [simp]: "tb_Status (turns_effect ts n b) = tb_Status b"
  by (induction ts n b rule: turns_effect.induct) (simp_all add: turn_effect_def split: sum.splits)

lemma turns_effect_config [simp]: "tb_Config (turns_effect ts n b) = tb_Config b"
  by (induction ts n b rule: turns_effect.induct) (simp_all add: turn_effect_def split: sum.splits)

lemma turns_effect_metrics:
  "tb_Metrics b = Some m \<Longrightarrow> \<exists>m'. tb_Metrics (turns_effect ts n b) = Some m' \<and>
     ErrorCount m' = ErrorCount m + of_nat (hard_errors ts) \<and>
     RateLimitHits m' = RateLimitHits m + of_nat (limit_errors ts)"
proof (induction ts n b arbitrary: m rule: turns_effect.induct)
  case (2 t ts n b)
  have "\<exists>m'. tb_Metrics (turn_effect t n b) = Some m' \<and>
     ErrorCount m' = ErrorCount m + of_nat (hard_errors [t]) \<and>
     RateLimitHits m' = RateLimitHits m + of_nat (limit_errors [t])"
    using "2.prems" by (auto simp: turn_effect_def hard_errors_def limit_errors_def hard_error_def limit_error_def
        RecordError_metric_def RecordRateLimitHit_def split: sum.splits)
  then obtain m1 where m1: "tb_Metrics (turn_effect t n b) = Some m1"
    "ErrorCount m1 = ErrorCount m + of_nat (hard_errors [t])"
    "RateLimitHits m1 = RateLimitHits m + of_nat (limit_errors [t])" by blast
  have "hard_errors (t # ts) = hard_errors [t] + hard_errors ts" "limit_errors (t # ts) = limit_errors [t] + limit_errors ts"
    by (simp_all add: hard_errors_def limit_errors_def)
  with "2.IH" [OF m1(1)] m1 show ?case by auto
qed (simp add: hard_errors_def limit_errors_def)

lemma base_SetOptions_agree:
  assumes ok: "base_ok b" and mc: "in_int64 (tb_MaxConns b)"
    and fl: "ParseFloat fl (FormatFloat fl (tb_RateLimit b)) = Some (tb_RateLimit b)"
    and get: "\<And>k. k \<in> {''name'', ''interface'', ''port'', ''maxconns'', ''ratelimit''} \<Longrightarrow>
      gm_get opts k = gm_get (base_Options fl b) k"
  shows "\<exists>b'. base_SetOptions fl opts b0 = (b', None) \<and>
    tc_Name (tb_Config b') = tc_Name (tb_Config b) \<and> tc_Interface (tb_Config b') = tc_Interface (tb_Config b) \<and>
    tc_Port (tb_Config b') = tc_Port (tb_Config b) \<and>
    tb_MaxConns b' = tb_MaxConns b \<and> tb_RateLimit b' = tb_RateLimit b \<and> tb_Status b' = tb_Status b0"
proof -
  let ?c = "(tb_Config b0)\<lparr>tc_Name := tc_Name (tb_Config b), tc_Interface := tc_Interface (tb_Config b),
    tc_Port := tc_Port (tb_Config b)\<rparr>"
  have cfg: "config_ok (tb_Config b)" and lim: "limits_ok (tb_MaxConns b, tb_RateLimit b)"
    using ok by (simp_all add: base_ok_def)
  have g: "gm_get opts ''name'' = Some (tc_Name (tb_Config b))"
    "gm_get opts ''interface'' = Some (tc_Interface (tb_Config b))"
    "gm_get opts ''port'' = Some (Itoa (tc_Port (tb_Config b)))"
    "gm_get opts ''maxconns'' = Some (Itoa (tb_MaxConns b))"
    "gm_get opts ''ratelimit'' = Some (FormatFloat fl (tb_RateLimit b))"
    by (subst get, simp, simp add: base_Options_def AddRateLimit_get BuildCommon_get)+
  have "ApplyCommonOptions opts (tb_Config b0) = (mergeI2CPOptionsInto opts ?c, None)"
    using cfg by (simp add: ApplyCommonOptions_def apply_None g config_ok_def PortString_Itoa)
  moreover have "ApplyRateLimitOptions fl opts lim = ((tb_MaxConns b, tb_RateLimit b), None)" for lim
    using lim by (simp add: ApplyRateLimitOptions_def then_step_def applyMaxConnsOption_def applyRateLimitOption_def
        g Atoi_Itoa [OF mc] limits_ok_def RateLimitString_def fl MaxConnections_def RateLimit_def)
  ultimately show ?thesis by (simp add: base_SetOptions_def)
qed

section \<open>Properties\<close>

text \<open>
  C1: the accept loop gives up only for the documented reason. When it returns a fatal
  error, no shutdown was seen, the last turns since the last accepted connection hold at
  least \<open>maxErrors\<close> accept errors other than the two limit errors, that number is the one
  in the error text, the status is Failed, and exactly the connections accepted before
  were dispatched, in order.
\<close>
theorem RunAcceptDispatch_fatal:
  assumes "RunAcceptDispatch ts maxErrors b = (b', n', cs, Some (Some e))"
  shows "\<exists>pre post. ts = pre @ post \<and> undisturbed pre \<and>
    maxErrors \<le> int (hard_errors (since_success pre)) \<and> hard_errors (since_success pre) > 0 \<and>
    e = Errorf (''listener failed after '' @ Itoa (int (hard_errors (since_success pre))) @ '' consecutive accept errors'') \<and>
    tb_Status b' = StatusFailed \<and> cs = accepts pre"
proof -
  from loop_fatal [OF assms [unfolded RunAcceptDispatch_def]] obtain pre t post where
    *: "ts = pre @ t # post" "undisturbed (pre @ [t])" "hard_error t" "n' = error_run (pre @ [t]) 0" "maxErrors \<le> n'"
      "e = Errorf (''listener failed after '' @ Itoa n' @ '' consecutive accept errors'')"
      "b' = SetStatus StatusFailed (turns_effect (pre @ [t]) 0 b)" "cs = accepts pre" by blast
  have "accepts (pre @ [t]) = accepts pre" and "hard_errors (since_success (pre @ [t])) > 0"
    using *(3) by (auto simp: accepts_def hard_error_def since_success_def hard_errors_def split: sum.splits)
  with * show ?thesis
    by (intro exI [of _ "pre @ [t]"] exI [of _ post]) (simp flip: error_run_since_success)
qed

text \<open>
  C2: the accept loop does give up: whatever happened before, once \<open>maxErrors\<close> accept
  errors that are not limit errors have come in with no connection accepted in between
  (limit errors may be interspersed), the loop has returned, fatally or because it saw
  the shutdown.
\<close>
theorem RunAcceptDispatch_stops:
  assumes "0 < maxErrors" and "list_all (\<lambda>t. isl (accepted t)) us" and "maxErrors \<le> int (hard_errors us)"
  shows "snd (snd (snd (RunAcceptDispatch (ts @ us) maxErrors b))) \<noteq> None"
proof
  assume "snd (snd (snd (RunAcceptDispatch (ts @ us) maxErrors b))) = None"
  then obtain b' n' cs where run: "accept_loop maxErrors (ts @ us) 0 b = (b', n', cs, None)"
    unfolding RunAcceptDispatch_def by (cases "accept_loop maxErrors (ts @ us) 0 b") auto
  from loop_running [OF run] have "n' = error_run us (error_run ts 0)"
    by (simp add: error_run_append)
  also have "\<dots> \<ge> maxErrors"
    using error_run_no_success [OF assms(2)] error_run_nonneg [of 0 ts] assms(3) by simp
  finally show False
    using loop_running_below [OF run _ assms(1)] assms(1) by simp
qed

text \<open>
  C3: as long as the loop runs, every accepted connection has been dispatched once and
  in order, the status is untouched, the counter is the number of hard errors since the
  last accepted connection and below the limit, and the metrics count every hard error
  as an error and every limit error as a rate-limit hit, so rate limiting alone never
  brings a tunnel down.
\<close>
theorem RunAcceptDispatch_running:
  assumes "0 < maxErrors" and "tb_Metrics b = Some m"
    and "RunAcceptDispatch ts maxErrors b = (b', n', cs, None)"
  shows "cs = accepts ts \<and> tb_Status b' = tb_Status b \<and>
    n' = int (hard_errors (since_success ts)) \<and> n' < maxErrors \<and>
    (\<exists>m'. tb_Metrics b' = Some m' \<and> ErrorCount m' = ErrorCount m + of_nat (hard_errors ts) \<and>
       RateLimitHits m' = RateLimitHits m + of_nat (limit_errors ts))"
proof -
  note run = assms(3) [unfolded RunAcceptDispatch_def]
  from loop_running [OF run] have "n' = error_run ts 0" "b' = turns_effect ts 0 b" "cs = accepts ts" by blast+
  then show ?thesis
    using loop_running_below [OF run] turns_effect_metrics [OF assms(2), of ts 0] assms(1)
    by (simp add: error_run_since_success)
qed

definition example_base :: tunnel_base where
  "example_base =
     \<lparr>tb_Config = example_config, tb_MaxConns = 3, tb_RateLimit = Fin False 0 0, tb_Status = StatusRunning,
      tb_Errors = [], tb_Metrics = Some (fresh_metrics ''irc'' ''irc'' ''tcpclient'')\<rparr>"

definition accept_turn :: "'c \<Rightarrow> 'c turn" where
  "accept_turn c = \<lparr>at_head = False, accepted = Inr c, at_error = False\<rparr>"

definition error_turn :: "go_error \<Rightarrow> 'c turn" where
  "error_turn e = \<lparr>at_head = False, accepted = Inl e, at_error = False\<rparr>"

lemmas turn_defs = accept_turn_def error_turn_def

lemma RunAcceptDispatch_fatal_witness:
  "\<exists>b' n' e. RunAcceptDispatch [accept_turn (7::nat), error_turn (External ''x''), error_turn (ErrMaxConnsReached ''m''),
       error_turn (External ''y'')] 2 example_base = (b', n', [7], Some (Some e)) \<and> tb_Status b' = StatusFailed"
proof -
  let ?ts = "[accept_turn (7::nat), error_turn (External ''x''), error_turn (ErrMaxConnsReached ''m''),
       error_turn (External ''y'')]"
  obtain b' n' e where run: "RunAcceptDispatch ?ts 2 example_base = (b', n', [7], Some (Some e))"
    by (simp add: RunAcceptDispatch_def loop_Cons turn_defs is_limit_error_def del: accept_loop.simps(2))
  with RunAcceptDispatch_fatal [OF run] show ?thesis by blast
qed

lemma RunAcceptDispatch_stops_witness:
  "snd (snd (snd (RunAcceptDispatch ([accept_turn (7::nat)] @
     [error_turn (External ''x''), error_turn (ErrMaxConnsReached ''m''), error_turn (External ''y'')]) 2 example_base))) \<noteq> None"
  by (rule RunAcceptDispatch_stops)
    (simp_all add: turn_defs hard_errors_def hard_error_def is_limit_error_def)

lemma RunAcceptDispatch_running_witness:
  "\<exists>b' n'. RunAcceptDispatch [error_turn (External ''x''), accept_turn (7::nat), error_turn (External ''y'')] 2 example_base =
     (b', n', [7], None) \<and> n' = 1"
proof -
  let ?ts = "[error_turn (External ''x''), accept_turn (7::nat), error_turn (External ''y'')]"
  obtain b' n' where run: "RunAcceptDispatch ?ts 2 example_base = (b', n', [7], None)"
    by (simp add: RunAcceptDispatch_def loop_Cons turn_defs is_limit_error_def del: accept_loop.simps(2))
  have "tb_Metrics example_base = Some (fresh_metrics ''irc'' ''irc'' ''tcpclient'')"
    by (simp add: example_base_def)
  from RunAcceptDispatch_running [OF _ this run] run show ?thesis
    by (simp add: since_success_def turn_defs hard_errors_def hard_error_def is_limit_error_def)
qed

text \<open>
  \<open>TunnelBase.SetOptions\<close> never leaves an invalid configuration behind: whatever the
  options map holds, and also when the call is rejected half way, a tunnel whose name was
  not blank, whose interface was empty or an IP address, whose port was in 1..65535 and
  whose limits were not negative still has all of this afterwards.
\<close>
theorem SetOptions_keeps_valid:
  assumes "base_ok b"
  shows "base_ok (fst (base_SetOptions fl opts b))"
  using assms by (rule base_SetOptions_ok)

lemma example_base_ok: "base_ok example_base"
  using example_config_ok
  by (simp add: base_ok_def example_base_def limits_ok_def float_neg_def MaxErrors_def)

lemma SetOptions_keeps_valid_witness:
  "base_ok (fst (base_SetOptions no_floats [(''name'', ''new''), (''port'', ''99999'')] example_base))"
  by (rule SetOptions_keeps_valid) (rule example_base_ok)

text \<open>
  \<open>TunnelBase.SetOptions\<close> is not all or nothing: when the port (checked last) is
  refused, the caller gets the port's error but the new name and interface, and nothing
  else, have already been stored.
\<close>
theorem base_SetOptions_partial:
  assumes "gm_get opts ''name'' = Some n" and "TrimSpace n \<noteq> ''''"
    and "gm_get opts ''interface'' = Some i" and "Interface i = None"
    and "gm_get opts ''port'' = Some s" and "PortString s = Inl e"
  shows "base_SetOptions fl opts b =
    (b\<lparr>tb_Config := (tb_Config b)\<lparr>tc_Name := n, tc_Interface := i\<rparr>\<rparr>, Some e)"
proof -
  have "ApplyCommonOptions opts (tb_Config b) = ((tb_Config b)\<lparr>tc_Name := n, tc_Interface := i\<rparr>, Some e)"
    using assms by (simp add: ApplyCommonOptions_def then_step_def applyNameOption_def applyInterfaceOption_def
        applyPortOption_def RequiredString_def Let_def del: Interface_None)
  then show ?thesis by (simp add: base_SetOptions_def)
qed

lemma base_SetOptions_partial_witness:
  "tc_Name (tb_Config (fst (base_SetOptions no_floats
     [(''name'', ''new''), (''interface'', ''''), (''port'', ''x'')] example_base))) = ''new''"
proof -
  have "TrimSpace ''new'' \<noteq> ''''" "PortString ''x'' = Inl (ValidationError ''port'' ''x'' ''invalid port format''
      ''port must be a numeric value between 1 and 65535'')" by code_simp+
  with base_SetOptions_partial [of "[(''name'', ''new''), (''interface'', ''''), (''port'', ''x'')]" "''new''" "''''" "''x''"
      _ no_floats example_base] show ?thesis by simp
qed

text \<open>
  A tunnel that applies its own options, or those of another valid tunnel, succeeds
  and takes over name, interface, port, connection limit and rate limit exactly, given
  that the shortest decimal form of the rate parses back to it, as \<open>strconv\<close> documents.
\<close>
theorem base_Options_roundtrip:
  assumes ok: "base_ok b" and mc: "in_int64 (tb_MaxConns b)"
    and fl: "ParseFloat fl (FormatFloat fl (tb_RateLimit b)) = Some (tb_RateLimit b)"
  shows "\<exists>b'. base_SetOptions fl (base_Options fl b) b0 = (b', None) \<and>
    tc_Name (tb_Config b') = tc_Name (tb_Config b) \<and> tc_Interface (tb_Config b') = tc_Interface (tb_Config b) \<and>
    tc_Port (tb_Config b') = tc_Port (tb_Config b) \<and>
    tb_MaxConns b' = tb_MaxConns b \<and> tb_RateLimit b' = tb_RateLimit b \<and> tb_Status b' = tb_Status b0"
  using assms by (rule base_SetOptions_agree) simp

lemma base_Options_roundtrip_witness:
  "\<exists>b'. base_SetOptions (no_floats\<lparr>ParseFloat := \<lambda>s. Some (Fin False 0 0)\<rparr>)
      (base_Options (no_floats\<lparr>ParseFloat := \<lambda>s. Some (Fin False 0 0)\<rparr>) example_base)
      (example_base\<lparr>tb_MaxConns := 9\<rparr>) = (b', None) \<and> tb_MaxConns b' = 3"
proof -
  have "in_int64 (tb_MaxConns example_base)" "ParseFloat (no_floats\<lparr>ParseFloat := \<lambda>s. Some (Fin False 0 0)\<rparr>)
      (FormatFloat (no_floats\<lparr>ParseFloat := \<lambda>s. Some (Fin False 0 0)\<rparr>) (tb_RateLimit example_base)) =
      Some (tb_RateLimit example_base)" "tb_MaxConns example_base = 3"
    by (simp_all add: example_base_def in_int64_def int64_min_def int64_max_def)
  with base_Options_roundtrip [OF example_base_ok, of "no_floats\<lparr>ParseFloat := \<lambda>s. Some (Fin False 0 0)\<rparr>"
      "example_base\<lparr>tb_MaxConns := 9\<rparr>"] show ?thesis by auto
qed

end
