(* ===== verification/Lifecycle.thy ===== *)
theory Lifecycle
  imports TunnelBase
begin

text \<open>
  The lifecycle that the listening tunnels share (\<open>Start\<close> and \<open>Stop\<close> of
  \<open>lib/tcp/client/tcp_client.go\<close>, and with the same statements of the TCP, HTTP and IRC
  servers and the IRC client): the contracts of stopping and reloading as locales, and
  the concurrent behaviour of any number of \<open>Start\<close> and \<open>Stop\<close> calls as a step relation
  whose steps are the code's critical sections.
\<close>

section \<open>Contracts\<close>

text \<open>
  What the callers of \<open>Stop\<close> rely on: it always ends in the stopped state, releases what
  the tunnel holds, and may be called again.
\<close>

locale stoppable =
  fixes stop :: "'t \<Rightarrow> 't" and stat :: "'t \<Rightarrow> tunnel_status" and stopped :: "'t \<Rightarrow> bool" and released :: "'t \<Rightarrow> bool"
  assumes stop_stops: "stopped (stop t)"
    and stop_again: "stopped t \<Longrightarrow> stop t = t"
    and stop_stat: "\<not> stopped t \<Longrightarrow> stat (stop t) = StatusStopped"
    and stop_releases: "\<not> stopped t \<Longrightarrow> released (stop t)"
begin

lemma stop_idem: "stop (stop t) = stop t"
  by (rule stop_again) (rule stop_stops)

lemma stop_many: "(stop ^^ Suc n) t = stop t"
  by (induction n) (simp_all add: stop_idem)

end

text \<open>
  What the callers of \<open>LoadConfig\<close> rely on: it is refused while the tunnel runs or starts,
  a failed load changes nothing, and a load never touches the lifecycle.
\<close>

locale reloadable =
  fixes load :: "'a \<Rightarrow> 't \<Rightarrow> 't \<times> go_error option" and stat :: "'t \<Rightarrow> tunnel_status" and life :: "'t \<Rightarrow> 'l"
  assumes load_guard: "CheckTunnelStopped (stat t) = Some e \<Longrightarrow> load x t = (t, Some e)"
    and load_error: "load x t = (t', Some e) \<Longrightarrow> t' = t"
    and load_life: "life (fst (load x t)) = life t"
    and load_stat: "stat (fst (load x t)) = stat t"
begin

lemma load_running: "stat t = StatusRunning \<or> stat t = StatusStarting \<Longrightarrow> fst (load x t) = t \<and> snd (load x t) \<noteq> None"
  by (auto simp: CheckTunnelStopped_def load_guard)

end

section \<open>Concurrent Start and Stop\<close>

text \<open>
  The lifecycle fields. Channels and listeners are numbered as they are created:
  \<open>l_done\<close> is the channel in \<open>t.done\<close>, \<open>l_closed\<close> the closed ones; \<open>l_listener\<close> is
  \<open>t.listener\<close>, \<open>l_open\<close> the listeners not yet closed; \<open>l_once\<close> tells that \<open>stopOnce\<close> has
  fired since it was last reset.
\<close>

record life =
  l_done :: nat
  l_closed :: "nat set"
  l_once :: bool
  l_listener :: "nat option"
  l_open :: "nat set"
  l_status :: tunnel_status
  l_next :: nat

text \<open>Where a call of \<open>Start\<close> stands; it remembers its own \<open>done\<close> channel and listener.\<close>

datatype starter = Idle | Bound nat nat | Looping nat nat | Leaving nat | Closing nat | Returned

definition life_init :: life where
  "life_init = \<lparr>l_done = 0, l_closed = {}, l_once = False, l_listener = None, l_open = {}, l_status = StatusStopped, l_next = 1\<rparr>"

definition life_stop :: "life \<Rightarrow> life" where
  "life_stop s =
     (if l_once s then s
      else s\<lparr>l_once := True, l_closed := insert (l_done s) (l_closed s),
             l_open := (case l_listener s of None \<Rightarrow> l_open s | Some l \<Rightarrow> l_open s - {l}),
             l_status := StatusStopped\<rparr>)"

definition life_begin :: "life \<Rightarrow> life" where
  "life_begin s = s\<lparr>l_done := l_next s, l_once := False, l_status := StatusStarting, l_next := Suc (l_next s)\<rparr>"

definition life_bind :: "life \<Rightarrow> life" where
  "life_bind s = s\<lparr>l_listener := Some (l_next s), l_open := insert (l_next s) (l_open s), l_next := Suc (l_next s)\<rparr>"

type_synonym life_state = "life \<times> (nat \<Rightarrow> starter)"

text \<open>
  The steps: the section of \<open>Start\<close> under \<open>lifeMu\<close>, with a listener or with the error of
  \<open>net.Listen\<close>; \<open>SetStatus(Running)\<close>; the end of the accept loop, because \<open>done\<close> is closed
  or fatally; the two deferred calls; and a call of \<open>Stop\<close> by anybody at any time.
\<close>

inductive life_step :: "life_state \<Rightarrow> life_state \<Rightarrow> bool" where
  begin_ok: "ps i = Idle \<Longrightarrow>
    life_step (s, ps) (life_bind (life_begin s), ps(i := Bound (l_next s) (Suc (l_next s))))"
| begin_fail: "ps i = Idle \<Longrightarrow> life_step (s, ps) (life_begin s, ps(i := Returned))"
| set_running: "ps i = Bound d l \<Longrightarrow> life_step (s, ps) (s\<lparr>l_status := StatusRunning\<rparr>, ps(i := Looping d l))"
| leave_done: "ps i = Looping d l \<Longrightarrow> d \<in> l_closed s \<Longrightarrow> life_step (s, ps) (s, ps(i := Leaving l))"
| leave_fatal: "ps i = Looping d l \<Longrightarrow> life_step (s, ps) (s\<lparr>l_status := StatusFailed\<rparr>, ps(i := Leaving l))"
| deferred_stop: "ps i = Leaving l \<Longrightarrow> life_step (s, ps) (life_stop s, ps(i := Closing l))"
| deferred_close: "ps i = Closing l \<Longrightarrow> life_step (s, ps) (s\<lparr>l_open := l_open s - {l}\<rparr>, ps(i := Returned))"
| stop_call: "life_step (s, ps) (life_stop s, ps)"

inductive_cases life_stepE: "life_step st st'"

definition life_start :: life_state where
  "life_start = (life_init, \<lambda>_. Idle)"

definition life_reachable :: "life_state \<Rightarrow> bool" where
  "life_reachable st \<longleftrightarrow> life_step\<^sup>*\<^sup>* life_start st"

definition quiet :: "(nat \<Rightarrow> starter) \<Rightarrow> bool" where
  "quiet ps \<longleftrightarrow> (\<forall>i. ps i = Idle \<or> ps i = Returned)"

fun holds :: "starter \<Rightarrow> nat \<Rightarrow> bool" where
  "holds (Bound d l) k \<longleftrightarrow> k = l"
| "holds (Looping d l) k \<longleftrightarrow> k = l"
| "holds (Leaving l) k \<longleftrightarrow> k = l"
| "holds (Closing l) k \<longleftrightarrow> k = l"
| "holds p k \<longleftrightarrow> False"

definition life_inv :: "life_state \<Rightarrow> bool" where
  "life_inv st \<longleftrightarrow> (case st of (s, ps) \<Rightarrow>
     (l_once s \<longleftrightarrow> l_done s \<in> l_closed s) \<and> l_done s < l_next s \<and> (\<forall>c\<in>l_closed s. c < l_next s) \<and>
     (\<forall>k\<in>l_open s. k < l_next s \<and> (\<exists>i. holds (ps i) k)))"

lemma life_inv_init: "life_inv life_start"
  by (simp add: life_inv_def life_start_def life_init_def)

lemma holds_other: "(\<exists>i. holds (ps i) k) \<Longrightarrow> (holds (ps j) k \<Longrightarrow> holds p k) \<Longrightarrow> \<exists>i. holds ((ps(j := p)) i) k"
  by (metis fun_upd_apply)

lemma life_inv_stop: "life_inv (s, ps) \<Longrightarrow> life_inv (life_stop s, ps)"
  by (auto simp: life_inv_def life_stop_def split: option.splits)

lemma life_inv_pc:
  assumes "life_inv (s, ps)" and "\<And>k. holds (ps i) k \<Longrightarrow> holds p k"
  shows "life_inv (s, ps(i := p))"
proof -
  have "\<exists>j. holds ((ps(i := p)) j) k" if "k \<in> l_open s" for k
    using assms(1) that by (intro holds_other assms(2)) (simp_all add: life_inv_def)
  with assms(1) show ?thesis by (auto simp: life_inv_def)
qed

lemma life_inv_status: "life_inv (s, ps) \<Longrightarrow> life_inv (s\<lparr>l_status := x\<rparr>, ps)"
  by (simp add: life_inv_def)

lemma life_inv_begin: "life_inv (s, ps) \<Longrightarrow> life_inv (life_begin s, ps)"
  by (auto simp: life_inv_def life_begin_def)

lemma life_inv_bind:
  assumes "life_inv (s, ps)" and "ps i = Idle"
  shows "life_inv (life_bind s, ps(i := Bound d (l_next s)))"
proof -
  have "\<exists>j. holds ((ps(i := Bound d (l_next s))) j) k" if "k \<in> l_open s" for k
    using assms that by (intro holds_other) (auto simp: life_inv_def)
  moreover have "\<exists>j. holds ((ps(i := Bound d (l_next s))) j) (l_next s)"
    by (intro exI [of _ i]) simp
  ultimately show ?thesis using assms(1) by (auto simp: life_inv_def life_bind_def)
qed

lemma life_inv_close:
  assumes "life_inv (s, ps)" and "ps i = Closing l"
  shows "life_inv (s\<lparr>l_open := l_open s - {l}\<rparr>, ps(i := Returned))"
proof -
  have "\<exists>j. holds ((ps(i := Returned)) j) k" if "k \<in> l_open s" "k \<noteq> l" for k
    using assms that by (intro holds_other) (auto simp: life_inv_def)
  with assms(1) show ?thesis by (auto simp: life_inv_def)
qed

lemma life_inv_step: "life_step st st' \<Longrightarrow> life_inv st \<Longrightarrow> life_inv st'"
proof (induction rule: life_step.induct)
  case (begin_ok ps i s)
  then have "life_inv (life_begin s, ps)" by (intro life_inv_begin)
  from life_inv_bind [OF this begin_ok(1), of "l_next s"] show ?case by (simp add: life_begin_def)
next
  case (begin_fail ps i s)
  then show ?case by (intro life_inv_pc life_inv_begin) simp_all
next
  case (set_running ps i d l s)
  then show ?case by (intro life_inv_pc life_inv_status) simp_all
next
  case (leave_done ps i d l s)
  then show ?case by (intro life_inv_pc) simp_all
next
  case (leave_fatal ps i d l s)
  then show ?case by (intro life_inv_pc life_inv_status) simp_all
next
  case (deferred_stop ps i l s)
  then show ?case by (intro life_inv_pc life_inv_stop) simp_all
next
  case (deferred_close ps i l s)
  then show ?case by (intro life_inv_close)
next
  case (stop_call s ps)
  then show ?case by (rule life_inv_stop)
qed

lemma life_inv_reachable: "life_reachable st \<Longrightarrow> life_inv st"
  unfolding life_reachable_def
  by (induction rule: rtranclp_induct) (auto intro: life_inv_init life_inv_step)

lemma life_reach_step: "life_reachable st \<Longrightarrow> life_step st st' \<Longrightarrow> life_reachable st'"
  unfolding life_reachable_def by (rule rtranclp.rtrancl_into_rtrancl)

interpretation life_stopping: stoppable life_stop l_status l_once "\<lambda>s. l_done s \<in> l_closed s"
  by unfold_locales (auto simp: life_stop_def)

section \<open>Properties\<close>

text \<open>
  C6: in every interleaving of any number of \<open>Start\<close> and \<open>Stop\<close> calls, the body of
  \<open>stopOnce\<close> never closes a channel that is already closed (no panic), a stopped tunnel's
  shutdown channel is closed, and once no \<open>Start\<close> is in progress every listener that any
  of them opened has been closed.
\<close>
theorem lifecycle_safe:
  assumes "life_reachable (s, ps)"
  shows "(l_once s \<longleftrightarrow> l_done s \<in> l_closed s) \<and> (quiet ps \<longrightarrow> l_open s = {})"
proof -
  from life_inv_reachable [OF assms] have inv: "life_inv (s, ps)" .
  have "\<not> holds (ps i) k" if "quiet ps" for i k
    using that by (cases "ps i") (auto simp: quiet_def dest: spec [of _ i])
  with inv show ?thesis by (auto simp: life_inv_def)
qed

lemma life_begin_reachable:
  "life_reachable (life_bind (life_begin life_init), (\<lambda>_. Idle)(0 := Bound 1 2))"
proof (rule life_reach_step)
  show "life_reachable life_start" by (simp add: life_reachable_def)
  show "life_step life_start (life_bind (life_begin life_init), (\<lambda>_. Idle)(0 := Bound 1 2))"
    using begin_ok [of "\<lambda>_. Idle" 0 life_init]
    by (simp add: life_start_def life_init_def numeral_2_eq_2)
qed

lemma lifecycle_safe_witness:
  "l_done (life_bind (life_begin life_init)) \<notin> l_closed (life_bind (life_begin life_init))"
  using lifecycle_safe [OF life_begin_reachable] by (simp add: life_bind_def life_begin_def)

text \<open>
  A \<open>Stop\<close> that arrives after \<open>Start\<close> has released the lock and before it sets the
  status leaves the tunnel reported as Running for good: no \<open>Start\<close> is in progress, every
  listener is closed, and no further \<open>Stop\<close> changes anything.
\<close>
theorem stop_race_reports_running:
  "\<exists>s ps. life_reachable (s, ps) \<and> quiet ps \<and> l_open s = {} \<and> l_status s = StatusRunning \<and> life_stop s = s"
proof -
  let ?p = "\<lambda>x. (\<lambda>_. Idle)(0 := x)"
  let ?s1 = "life_bind (life_begin life_init)"
  let ?s2 = "life_stop ?s1"
  let ?s3 = "?s2\<lparr>l_status := StatusRunning\<rparr>"
  have "life_reachable (?s1, ?p (Bound 1 2))" by (rule life_begin_reachable)
  then have "life_reachable (?s2, ?p (Bound 1 2))" by (rule life_reach_step) (rule stop_call)
  then have "life_reachable (?s3, ?p (Looping 1 2))"
    by (rule life_reach_step) (use set_running [of "?p (Bound 1 2)" 0 1 2 ?s2] in simp)
  moreover have "1 \<in> l_closed ?s3" by (simp add: life_stop_def life_bind_def life_begin_def life_init_def)
  ultimately have "life_reachable (?s3, ?p (Leaving 2))"
    by (elim life_reach_step) (use leave_done [of "?p (Looping 1 2)" 0 1 2 ?s3] in simp)
  moreover have once: "life_stop ?s3 = ?s3" by (simp add: life_stop_def life_bind_def life_begin_def)
  ultimately have "life_reachable (?s3, ?p (Closing 2))"
    by (elim life_reach_step) (use deferred_stop [of "?p (Leaving 2)" 0 2 ?s3] in simp)
  then have r: "life_reachable (?s3\<lparr>l_open := l_open ?s3 - {2}\<rparr>, ?p Returned)"
    by (elim life_reach_step) (use deferred_close [of "?p (Closing 2)" 0 2 ?s3] in simp)
  let ?s4 = "?s3\<lparr>l_open := l_open ?s3 - {2}\<rparr>"
  have "quiet (?p Returned)" by (simp add: quiet_def)
  moreover have "l_open ?s4 = {}" by (auto simp: life_stop_def life_bind_def life_begin_def life_init_def)
  moreover have "life_stop ?s4 = ?s4" by (simp add: life_stop_def life_bind_def life_begin_def)
  ultimately show ?thesis using r by (intro exI [of _ ?s4] exI [of _ "?p Returned"]) simp
qed

text \<open>
  A restart can stop itself. \<open>Stop\<close> followed at once by a new \<open>Start\<close> (a reload of the
  embedding API, a restart of the web interface) may leave the old \<open>Start\<close> with its
  deferred \<open>Stop\<close> still to come; the new \<open>Start\<close> has reset \<open>stopOnce\<close>, so this call closes
  the shutdown channel and the listener of the new run, without anybody asking for it.
\<close>
theorem restart_stopped_by_old_start:
  "\<exists>s ps s' d l l'. life_reachable (s, ps) \<and> ps 0 = Leaving l \<and> ps 1 = Looping d l' \<and>
     l_status s = StatusRunning \<and> d \<notin> l_closed s \<and> l' \<in> l_open s \<and>
     life_step (s, ps) (s', ps(0 := Closing l)) \<and>
     l_status s' = StatusStopped \<and> d \<in> l_closed s' \<and> l' \<notin> l_open s'"
proof -
  let ?p = "\<lambda>x. (\<lambda>_. Idle)(0 := x)"
  let ?s1 = "(life_bind (life_begin life_init))\<lparr>l_status := StatusRunning\<rparr>"
  let ?s2 = "life_stop ?s1"
  let ?s3 = "(life_bind (life_begin ?s2))\<lparr>l_status := StatusRunning\<rparr>"
  let ?q = "\<lambda>x. (?p (Leaving 2))(1 := x)"
  have "life_reachable (?s1, ?p (Looping 1 2))"
    using life_begin_reachable
    by (rule life_reach_step) (use set_running [of "?p (Bound 1 2)" 0 1 2] in simp)
  then have "life_reachable (?s2, ?p (Looping 1 2))" by (rule life_reach_step) (rule stop_call)
  moreover have "1 \<in> l_closed ?s2" by (simp add: life_stop_def life_bind_def life_begin_def life_init_def)
  ultimately have "life_reachable (?s2, ?p (Leaving 2))"
    by (elim life_reach_step) (use leave_done [of "?p (Looping 1 2)" 0 1 2 ?s2] in simp)
  moreover have n: "l_next ?s2 = 3" by (simp add: life_stop_def life_bind_def life_begin_def life_init_def)
  ultimately have "life_reachable (life_bind (life_begin ?s2), ?q (Bound 3 4))"
    by (elim life_reach_step) (use begin_ok [of "?p (Leaving 2)" 1 ?s2] in simp)
  then have r: "life_reachable (?s3, ?q (Looping 3 4))"
    by (rule life_reach_step) (use set_running [of "?q (Bound 3 4)" 1 3 4 "life_bind (life_begin ?s2)"] in \<open>simp add: fun_upd_twist\<close>)
  have step: "life_step (?s3, ?q (Looping 3 4)) (life_stop ?s3, (?q (Looping 3 4))(0 := Closing 2))"
    by (rule deferred_stop) simp
  have "l_status ?s3 = StatusRunning" "3 \<notin> l_closed ?s3" "4 \<in> l_open ?s3" "l_status (life_stop ?s3) = StatusStopped"
    "3 \<in> l_closed (life_stop ?s3)" "4 \<notin> l_open (life_stop ?s3)"
    by (auto simp: life_stop_def life_bind_def life_begin_def life_init_def)
  with r step show ?thesis
    by (intro exI [of _ ?s3] exI [of _ "?q (Looping 3 4)"] exI [of _ "life_stop ?s3"] exI [of _ 3] exI [of _ 2] exI [of _ 4]) simp
qed

end
