(* ===== verification/UdpConst.thy ===== *)
theory UdpConst
  imports GoNet
begin

text \<open>
  Package \<open>udpconst\<close> (\<open>lib/udp/const/const.go\<close>): the forwarding parameters and the
  retry delay of the UDP loops. A \<open>time.Duration\<close> is the \<^typ>\<open>int\<close> it holds, in
  nanoseconds; \<open>wrap64\<close> is the reduction to 64 bits that Go's arithmetic applies.
\<close>

section \<open>Forwarding parameters\<close>

record forward_config =
  fc_BufferSize :: int
  fc_IdleTimeout :: int
  fc_MaxPacketSize :: int
  fc_EnableMetrics :: bool
  fc_ShutdownClosed :: bool

definition NewDatagramForwardConfig :: forward_config where
  "NewDatagramForwardConfig =
     \<lparr>fc_BufferSize = 32 * 1024, fc_IdleTimeout = 30 * 1000000000, fc_MaxPacketSize = 65507 div 6,
      fc_EnableMetrics = True, fc_ShutdownClosed = False\<rparr>"

section \<open>Backoff\<close>

definition wrap64 :: "int \<Rightarrow> int" where
  "wrap64 n = signed_take_bit 63 n"

definition MinBackoff :: int where "MinBackoff = 50 * 1000000"
definition MaxBackoff :: int where "MaxBackoff = 5 * 1000000000"

definition next_delay :: "int \<Rightarrow> int" where
  "next_delay current =
     (let n = wrap64 (current * 2);
          n = (if n > MaxBackoff then MaxBackoff else n)
      in if n < MinBackoff then MinBackoff else n)"

text \<open>\<open>rnd\<close> is the value of \<open>rand.Int64N(int64(next)/2)\<close>, at least 0 and below its argument.\<close>

definition NextBackoff :: "int \<Rightarrow> int \<Rightarrow> int" where
  "NextBackoff rnd current =
     (let nxt = next_delay current;
          jitter = wrap64 (rnd - nxt div 4)
      in wrap64 (nxt + jitter))"

definition valid_rnd :: "int \<Rightarrow> int \<Rightarrow> bool" where
  "valid_rnd current rnd \<longleftrightarrow> 0 \<le> rnd \<and> rnd < next_delay current div 2"

lemma wrap64_id: "in_int64 n \<Longrightarrow> wrap64 n = n"
  unfolding wrap64_def in_int64_def int64_min_def int64_max_def
  by (rule signed_take_bit_int_eq_self) simp_all

lemma next_delay_bounds: "MinBackoff \<le> next_delay c \<and> next_delay c \<le> MaxBackoff"
  by (auto simp: next_delay_def Let_def MinBackoff_def MaxBackoff_def)

lemma NextBackoff_eq:
  "valid_rnd c rnd \<Longrightarrow> NextBackoff rnd c = next_delay c - next_delay c div 4 + rnd"
proof -
  assume v: "valid_rnd c rnd"
  note b = next_delay_bounds [of c, unfolded MinBackoff_def MaxBackoff_def]
  have "in_int64 (rnd - next_delay c div 4)" "in_int64 (next_delay c + (rnd - next_delay c div 4))"
    using v b by (auto simp: valid_rnd_def in_int64_def int64_min_def int64_max_def)
  then show ?thesis by (simp add: NextBackoff_def Let_def wrap64_id)
qed

lemma next_delay_small: "MinBackoff div 2 \<le> c \<Longrightarrow> c \<le> MaxBackoff div 2 \<Longrightarrow> next_delay c = 2 * c"
  by (simp add: next_delay_def Let_def MinBackoff_def MaxBackoff_def wrap64_id in_int64_def int64_min_def int64_max_def)

lemma next_delay_large: "MaxBackoff div 2 \<le> c \<Longrightarrow> c \<le> 10 * 1000000000 \<Longrightarrow> next_delay c = MaxBackoff"
  by (simp add: next_delay_def Let_def MinBackoff_def MaxBackoff_def wrap64_id in_int64_def int64_min_def int64_max_def)

text \<open>The delays of a run of failures: \<open>backoff = NextBackoff(backoff)\<close> after each.\<close>

fun backoff_run :: "int \<Rightarrow> int list \<Rightarrow> int" where
  "backoff_run c [] = c"
| "backoff_run c (rnd # rs) = backoff_run (NextBackoff rnd c) rs"

fun valid_run :: "int \<Rightarrow> int list \<Rightarrow> bool" where
  "valid_run c [] \<longleftrightarrow> True"
| "valid_run c (rnd # rs) \<longleftrightarrow> valid_rnd c rnd \<and> valid_run (NextBackoff rnd c) rs"

lemma NextBackoff_bounds:
  "valid_rnd c rnd \<Longrightarrow> 37500000 \<le> NextBackoff rnd c \<and> NextBackoff rnd c < 6250000000"
  using next_delay_bounds [of c] by (auto simp: NextBackoff_eq valid_rnd_def MinBackoff_def MaxBackoff_def)

lemma NextBackoff_grows:
  assumes "valid_rnd c rnd" and "MinBackoff \<le> c" and "c < 6250000000"
  shows "min (3 * c) 7500000000 \<le> 2 * NextBackoff rnd c"
proof (cases "c \<le> MaxBackoff div 2")
  case True
  then have "next_delay c = 2 * c" using assms(2) by (intro next_delay_small) (simp_all add: MinBackoff_def)
  then have "3 * c \<le> 2 * NextBackoff rnd c"
    using assms(1) NextBackoff_eq [OF assms(1)] by (auto simp: valid_rnd_def)
  then show ?thesis by (rule min.coboundedI1)
next
  case False
  then have "next_delay c = MaxBackoff" using assms(3) by (intro next_delay_large) simp_all
  then have "7500000000 \<le> 2 * NextBackoff rnd c"
    using assms(1) NextBackoff_eq [OF assms(1)] by (simp add: valid_rnd_def MaxBackoff_def)
  then show ?thesis by (rule min.coboundedI2)
qed

lemma backoff_run_grows:
  assumes "valid_run c rs" and "MinBackoff \<le> c" and "c < 6250000000"
  shows "min (3 ^ length rs * c) (2 ^ length rs * 3750000000) \<le> 2 ^ length rs * backoff_run c rs \<and>
     MinBackoff \<le> backoff_run c rs \<and> backoff_run c rs < 6250000000"
  using assms
proof (induction rs arbitrary: c)
  case (Cons rnd rs)
  let ?d = "NextBackoff rnd c"
  have d: "min (3 * c) 7500000000 \<le> 2 * ?d" "?d < 6250000000"
    using NextBackoff_grows [of c rnd] NextBackoff_bounds [of c rnd] Cons.prems by auto
  with Cons.prems have "MinBackoff \<le> ?d" by (simp add: MinBackoff_def)
  with d Cons.prems Cons.IH [of ?d] have
    ih: "min (3 ^ length rs * ?d) (2 ^ length rs * 3750000000) \<le> 2 ^ length rs * backoff_run ?d rs"
      "MinBackoff \<le> backoff_run ?d rs" "backoff_run ?d rs < 6250000000" by simp_all
  have "min (3 ^ length rs * (3 * c)) (2 * (2 ^ length rs * 3750000000)) \<le> 2 * min (3 ^ length rs * ?d) (2 ^ length rs * 3750000000)"
  proof (cases "3 * c \<le> 2 * ?d")
    case True
    then have "3 ^ length rs * (3 * c) \<le> 3 ^ length rs * (2 * ?d)" by (intro mult_left_mono) simp_all
    then have "3 ^ length rs * (3 * c) \<le> 2 * (3 ^ length rs * ?d)" by (simp only: mult.left_commute)
    then show ?thesis by (auto simp: min_mult_distrib_left min_le_iff_disj)
  next
    case False
    with d have "3750000000 \<le> ?d" by simp
    moreover have "(2::int) ^ length rs \<le> 3 ^ length rs" by (rule power_mono) simp_all
    ultimately have "2 ^ length rs * 3750000000 \<le> 3 ^ length rs * ?d" by (intro mult_mono) simp_all
    then show ?thesis by simp
  qed
  with ih show ?case by (simp add: algebra_simps)
qed simp

section \<open>Properties\<close>

text \<open>
  Every delay the UDP loops sleep, whatever the current delay and the random jitter,
  lies in [37.5 ms, 6.25 s): the loop neither spins nor stalls, and no step of the
  computation overflows into a negative delay.
\<close>
theorem NextBackoff_range:
  assumes "valid_rnd current rnd"
  shows "37500000 \<le> NextBackoff rnd current \<and> NextBackoff rnd current < 6250000000"
  using assms by (rule NextBackoff_bounds)

lemma NextBackoff_range_witness:
  "37500000 \<le> NextBackoff 12345 (9223372036854775807) \<and> NextBackoff 12345 (9223372036854775807) < 6250000000"
proof (rule NextBackoff_range)
  show "valid_rnd 9223372036854775807 12345" by code_simp
qed

text \<open>
  The result is not clamped to [MinBackoff, MaxBackoff] as the comment says: the
  jitter is added after the clamp, so from the smallest delay the next can be below
  MinBackoff and from the largest it can be above MaxBackoff.
\<close>
theorem NextBackoff_not_clamped:
  "(\<exists>rnd. valid_rnd 0 rnd \<and> NextBackoff rnd 0 < MinBackoff) \<and>
   (\<exists>rnd. valid_rnd MaxBackoff rnd \<and> NextBackoff rnd MaxBackoff > MaxBackoff)"
proof (intro conjI exI)
  show "valid_rnd 0 0" "NextBackoff 0 0 < MinBackoff" by code_simp+
  show "valid_rnd MaxBackoff 2400000000" "NextBackoff 2400000000 MaxBackoff > MaxBackoff" by code_simp+
qed

text \<open>
  Under persistent failure the delay does back off: starting from MinBackoff, after
  any 11 or more consecutive errors the delay is at least 3.75 s (three quarters of
  MaxBackoff), whatever the jitter.
\<close>
theorem backoff_run_reaches_cap:
  assumes "valid_run MinBackoff rs" and "11 \<le> length rs"
  shows "3750000000 \<le> backoff_run MinBackoff rs"
proof -
  let ?n = "length rs"
  have "min (3 ^ ?n * MinBackoff) (2 ^ ?n * 3750000000) \<le> 2 ^ ?n * backoff_run MinBackoff rs"
    using backoff_run_grows [OF assms(1)] by (simp add: MinBackoff_def)
  moreover have "2 ^ ?n * 3750000000 \<le> 3 ^ ?n * MinBackoff"
  proof -
    obtain k where n: "?n = 11 + k" using assms(2) le_Suc_ex by blast
    have "(2::int) ^ k \<le> 3 ^ k" by (rule power_mono) simp_all
    then have "(2::int) ^ k * (2 ^ 11 * 3750000000) \<le> 3 ^ k * (3 ^ 11 * 50000000)"
      by (rule mult_mono) simp_all
    then show ?thesis by (simp add: n power_add MinBackoff_def algebra_simps)
  qed
  ultimately have "2 ^ ?n * 3750000000 \<le> 2 ^ ?n * backoff_run MinBackoff rs" by simp
  then show ?thesis by simp
qed

lemma backoff_run_reaches_cap_witness: "3750000000 \<le> backoff_run MinBackoff (replicate 11 1000000)"
  by (rule backoff_run_reaches_cap) (code_simp, simp)

end
