(* ===== verification/StreamTunnel.thy ===== *)
theory StreamTunnel
  imports Lifecycle UdpConst
begin

text \<open>
  The state and the operations that the stream tunnels write out one by one with the same
  statements: \<open>TCPServer\<close>, \<open>HTTPServer\<close>, \<open>IRCServer\<close> and \<open>IRCClient\<close> (the last with an I2P
  address instead of a network address as target). The theories of these types
  instantiate the definitions with what differs: the listener, the resolver of the target,
  the type name and the defaults. Name resolution, dialing, SAM and the byte filters are
  parameters.

  \<open>Start\<close> is given the result of opening the listener, the clock, and the turns of its
  accept loop; it is modelled for one caller, with \<open>Stop\<close> calls of others visible only
  through the \<open>done\<close> channel the turns report (\<open>Lifecycle\<close> has the interleavings).
\<close>

section \<open>State\<close>

text \<open>The SAM session: whether it is open, and the Base32 address of its service keys.\<close>

record garlic =
  g_open :: bool
  g_service :: "string option"

record stream_tunnel =
  st_garlic :: "garlic option"
  st_base :: tunnel_base
  st_target :: "string option"
  st_done :: bool
  st_once :: bool
  st_listener :: "bool option"

definition stream_Address :: "stream_tunnel \<Rightarrow> string" where
  "stream_Address t =
     (case st_garlic t of
        None \<Rightarrow> ''''
      | Some g \<Rightarrow> (case g_service g of None \<Rightarrow> '''' | Some a \<Rightarrow> a))"

definition stream_LocalAddress :: "stream_tunnel \<Rightarrow> string" where
  "stream_LocalAddress t =
     JoinHostPort (tc_Interface (tb_Config (st_base t))) (Itoa (tc_Port (tb_Config (st_base t))))"

section \<open>Start and Stop\<close>

definition stream_Stop :: "stream_tunnel \<Rightarrow> stream_tunnel" where
  "stream_Stop t =
     (if st_once t then t
      else t\<lparr>st_once := True, st_done := True,
             st_listener := map_option (\<lambda>_. False) (st_listener t),
             st_garlic := map_option (\<lambda>g. g\<lparr>g_open := False\<rparr>) (st_garlic t),
             st_base := upd_metrics RecordStop (SetStatus StatusStopped (st_base t))\<rparr>)"

text \<open>The part of \<open>Start\<close> under \<open>lifeMu\<close>.\<close>

definition stream_bind :: "go_error option \<Rightarrow> stream_tunnel \<Rightarrow> stream_tunnel \<times> go_error option" where
  "stream_bind listen t =
     (let t1 = t\<lparr>st_done := False, st_once := False, st_base := SetStatus StatusStarting (st_base t)\<rparr>
      in case listen of
           Some err \<Rightarrow> (t1, Some err)
         | None \<Rightarrow> (t1\<lparr>st_listener := Some True\<rparr>, None))"

text \<open>
  The rest of \<open>Start\<close>: the loop, then the two deferred calls. The result is \<open>None\<close> while
  the loop runs.
\<close>

definition stream_serve ::
  "int \<Rightarrow> 64 word \<Rightarrow> 'c turn list \<Rightarrow> stream_tunnel \<Rightarrow> stream_tunnel \<times> 'c list \<times> go_error option option" where
  "stream_serve maxErrors now ts t =
     (let t1 = t\<lparr>st_base := upd_metrics (RecordStart now) (SetStatus StatusRunning (st_base t))\<rparr>
      in case RunAcceptDispatch ts maxErrors (st_base t1) of
           (b, n, cs, None) \<Rightarrow> (t1\<lparr>st_base := b\<rparr>, cs, None)
         | (b, n, cs, Some r) \<Rightarrow>
             (let t2 = stream_Stop (t1\<lparr>st_base := b\<rparr>) in
              (t2\<lparr>st_listener := map_option (\<lambda>_. False) (st_listener t2)\<rparr>, cs, Some r)))"

definition stream_Start ::
  "go_error option \<Rightarrow> int \<Rightarrow> 64 word \<Rightarrow> 'c turn list \<Rightarrow> stream_tunnel \<Rightarrow> stream_tunnel \<times> 'c list \<times> go_error option option" where
  "stream_Start listen maxErrors now ts t =
     (case stream_bind listen t of
        (t1, Some err) \<Rightarrow> (t1, [], Some (Some err))
      | (t1, None) \<Rightarrow> stream_serve maxErrors now ts t1)"

section \<open>Connections\<close>

text \<open>What \<open>stream.Forward\<close> does with the counted side of a connection.\<close>

datatype conn_io = IoRead int | IoWrite int

fun io_metrics :: "conn_io \<Rightarrow> tunnel_metrics option \<Rightarrow> tunnel_metrics option" where
  "io_metrics (IoRead n) m = CountingConn_Read n m"
| "io_metrics (IoWrite n) m = CountingConn_Write n m"

text \<open>
  \<open>handleConnection\<close>: \<open>filt\<close> is the error of \<open>ApplyTCPFilter\<close> and \<open>dial\<close> that of dialing the
  target; \<open>wrapped.Close()\<close> is deferred. A forwarding error is dropped.
\<close>

definition stream_handleConnection ::
  "go_error option \<Rightarrow> go_error option \<Rightarrow> conn_io list \<Rightarrow> tunnel_base \<Rightarrow> tunnel_base" where
  "stream_handleConnection filt dial io b =
     (let b1 = upd_metrics RecordConnection b;
          b2 = (case filt of
                  Some err \<Rightarrow> RecordError err b1
                | None \<Rightarrow>
                    (case dial of
                       Some err \<Rightarrow> upd_metrics RecordConnectionFailed (RecordError err b1)
                     | None \<Rightarrow> b1\<lparr>tb_Metrics := fold io_metrics io (tb_Metrics b1)\<rparr>))
      in b2\<lparr>tb_Metrics := snd (CountingConn_Close False (tb_Metrics b2))\<rparr>)"

section \<open>Options and configuration\<close>

definition stream_Options :: "float_lib \<Rightarrow> stream_tunnel \<Rightarrow> options" where
  "stream_Options fl t =
     (let opts = base_Options fl (st_base t) in
      case st_target t of None \<Rightarrow> opts | Some a \<Rightarrow> gm_set ''target'' a opts)"

text \<open>\<open>check\<close> is the validation of the target text, \<open>resolve\<close> its resolution.\<close>

definition stream_SetOptions ::
  "float_lib \<Rightarrow> (string \<Rightarrow> go_error option) \<Rightarrow> (string \<Rightarrow> go_error + string) \<Rightarrow> options \<Rightarrow> stream_tunnel \<Rightarrow>
   stream_tunnel \<times> go_error option" where
  "stream_SetOptions fl check resolve opts t =
     (case base_SetOptions fl opts (st_base t) of
        (b, Some err) \<Rightarrow> (t\<lparr>st_base := b\<rparr>, Some err)
      | (b, None) \<Rightarrow>
          let t1 = t\<lparr>st_base := b\<rparr> in
          (case gm_get opts ''target'' of
             None \<Rightarrow> (t1, None)
           | Some target \<Rightarrow>
               (case check target of
                  Some err \<Rightarrow> (t1, Some err)
                | None \<Rightarrow>
                    (case resolve target of
                       Inl err \<Rightarrow> (t1, Some err)
                     | Inr addr \<Rightarrow> (t1\<lparr>st_target := Some addr\<rparr>, None)))))"

definition stream_LoadConfig ::
  "(string \<Rightarrow> go_error + tunnel_config) \<Rightarrow> string \<Rightarrow> (string \<Rightarrow> go_error + string) \<Rightarrow> string \<Rightarrow> stream_tunnel \<Rightarrow>
   stream_tunnel \<times> go_error option" where
  "stream_LoadConfig parse ttype resolve path t =
     (case CheckTunnelStopped (Status (st_base t)) of
        Some err \<Rightarrow> (t, Some err)
      | None \<Rightarrow>
          (case parse path of
             Inl err \<Rightarrow> (t, Some err)
           | Inr newConfig \<Rightarrow>
               if tc_Type newConfig \<noteq> ttype then
                 (t, Some (Errorf (''config file contains '' @ tc_Type newConfig @ '' tunnel, expected '' @ ttype)))
               else
                 (case resolve (tc_Target newConfig) of
                    Inl err \<Rightarrow> (t, Some (Wrapf ''invalid target address in config'' err))
                  | Inr targetAddr \<Rightarrow>
                      (t\<lparr>st_base := (st_base t)\<lparr>tb_Config := newConfig\<rparr>, st_target := Some targetAddr\<rparr>, None))))"

definition stream_new ::
  "float_lib \<Rightarrow> (tunnel_config \<Rightarrow> go_error + garlic) \<Rightarrow> (string \<Rightarrow> go_error + string) \<Rightarrow> (string \<Rightarrow> go_error \<Rightarrow> go_error) \<Rightarrow>
   tunnel_config \<Rightarrow> go_error + stream_tunnel" where
  "stream_new fl newGarlic resolve wrap config =
     rbind (newGarlic config) (\<lambda>g.
       (case resolve (tc_Target config) of
          Inl err \<Rightarrow> Inl (wrap (tc_Target config) err)
        | Inr addr \<Rightarrow>
            Inr \<lparr>st_garlic = Some g,
                 st_base = \<lparr>tb_Config = config,
                            tb_MaxConns = TunnelOptionsMaxConns fl (tc_Tunnel config) 1000,
                            tb_RateLimit = TunnelOptionsRateLimit fl (tc_Tunnel config) (Fin False 100 0),
                            tb_Status = StatusStopped, tb_Errors = [], tb_Metrics = None\<rparr>,
                 st_target = Some addr, st_done = False, st_once = False, st_listener = None\<rparr>))"

section \<open>Lemmas\<close>

definition stream_released :: "stream_tunnel \<Rightarrow> bool" where
  "stream_released t \<longleftrightarrow> st_done t \<and> st_listener t \<noteq> Some True \<and>
     (case st_garlic t of None \<Rightarrow> True | Some g \<Rightarrow> \<not> g_open g)"

definition stream_life :: "stream_tunnel \<Rightarrow> bool \<times> bool \<times> bool option \<times> garlic option \<times> tunnel_status" where
  "stream_life t = (st_done t, st_once t, st_listener t, st_garlic t, tb_Status (st_base t))"

lemma stream_Stop_simps [simp, status_simps]:
  "st_once (stream_Stop t)"
  "\<not> st_once t \<Longrightarrow> tb_Status (st_base (stream_Stop t)) = StatusStopped"
  "\<not> st_once t \<Longrightarrow> stream_released (stream_Stop t)"
  "st_once t \<Longrightarrow> stream_Stop t = t"
  "st_target (stream_Stop t) = st_target t"
  "tb_Config (st_base (stream_Stop t)) = tb_Config (st_base t)"
  "tb_Errors (st_base (stream_Stop t)) = tb_Errors (st_base t)"
  by (auto simp: stream_Stop_def stream_released_def split: option.splits)

lemma stream_LoadConfig_error: "stream_LoadConfig parse ttype resolve path t = (t', Some e) \<Longrightarrow> t' = t"
  by (auto simp: stream_LoadConfig_def split: option.splits sum.splits if_splits)

lemma stream_LoadConfig_life: "stream_life (fst (stream_LoadConfig parse ttype resolve path t)) = stream_life t"
  by (auto simp: stream_LoadConfig_def stream_life_def split: option.splits sum.splits)

lemma stream_LoadConfig_ok:
  "stream_LoadConfig parse ttype resolve path t = (t', None) \<longleftrightarrow>
     CheckTunnelStopped (tb_Status (st_base t)) = None \<and>
     (\<exists>cfg a. parse path = Inr cfg \<and> tc_Type cfg = ttype \<and> resolve (tc_Target cfg) = Inr a \<and>
        t' = t\<lparr>st_base := (st_base t)\<lparr>tb_Config := cfg\<rparr>, st_target := Some a\<rparr>)"
  by (auto simp: stream_LoadConfig_def Status_def split: option.splits sum.splits if_splits)

interpretation stream_stopping: stoppable stream_Stop "\<lambda>t. tb_Status (st_base t)" st_once stream_released
  by unfold_locales simp_all

interpretation stream_loading: reloadable "\<lambda>(parse, ttype, resolve, path). stream_LoadConfig parse ttype resolve path"
  "\<lambda>t. tb_Status (st_base t)" stream_life
proof unfold_locales
  show "stream_life (fst ((\<lambda>(parse, ttype, resolve, path). stream_LoadConfig parse ttype resolve path) x t)) = stream_life t" for x t
    by (cases x) (simp add: stream_LoadConfig_life)
  then show "tb_Status (st_base (fst ((\<lambda>(parse, ttype, resolve, path). stream_LoadConfig parse ttype resolve path) x t))) =
      tb_Status (st_base t)" for x t
    by (simp add: stream_life_def)
qed (auto simp: stream_LoadConfig_def Status_def dest: stream_LoadConfig_error split: option.splits sum.splits if_splits)

text \<open>When \<open>Start\<close> has listened and returns, the tunnel is stopped, whatever the reason.\<close>

lemma stream_serve_returned:
  assumes "stream_serve maxErrors now ts t = (t', cs, Some r)" and "\<not> st_once t" and "\<not> st_done t"
  shows "tb_Status (st_base t') = StatusStopped \<and> stream_released t' \<and> st_once t'"
proof -
  let ?t1 = "t\<lparr>st_base := upd_metrics (RecordStart now) (SetStatus StatusRunning (st_base t))\<rparr>"
  obtain b n cs' r' where run: "RunAcceptDispatch ts maxErrors (st_base ?t1) = (b, n, cs', r')"
    by (metis prod_cases4)
  with assms(1) obtain t2 where t2: "t2 = stream_Stop (?t1\<lparr>st_base := b\<rparr>)"
    "t' = t2\<lparr>st_listener := map_option (\<lambda>_. False) (st_listener t2)\<rparr>"
    by (cases r') (auto simp: stream_serve_def Let_def)
  with assms(2) have "tb_Status (st_base t2) = StatusStopped" "stream_released t2" "st_once t2"
    by simp_all
  with t2 show ?thesis by (auto simp: stream_released_def)
qed

lemma stream_bind_ok:
  "stream_bind listen t = (t1, None) \<Longrightarrow> listen = None \<and> \<not> st_once t1 \<and> \<not> st_done t1 \<and>
     tb_Config (st_base t1) = tb_Config (st_base t) \<and> tb_Metrics (st_base t1) = tb_Metrics (st_base t)"
  by (auto simp: stream_bind_def Let_def split: option.splits)

lemma stream_Start_returned:
  assumes "stream_Start None maxErrors now ts t = (t', cs, Some r)"
  shows "tb_Status (st_base t') = StatusStopped \<and> stream_released t' \<and> st_once t'"
proof -
  obtain t1 where t1: "stream_bind None t = (t1, None)"
    by (simp add: stream_bind_def Let_def)
  with assms have "stream_serve maxErrors now ts t1 = (t', cs, Some r)" by (simp add: stream_Start_def)
  with stream_bind_ok [OF t1] stream_serve_returned [of maxErrors now ts t1 t' cs r] show ?thesis by simp
qed

lemma stream_Start_listen_error:
  "stream_Start (Some err) maxErrors now ts t = (t', cs, r) \<Longrightarrow>
     r = Some (Some err) \<and> tb_Status (st_base t') = StatusStarting \<and> cs = []"
  by (auto simp: stream_Start_def stream_bind_def Let_def)

text \<open>A connection is counted in and out exactly once.\<close>

lemma io_metrics_gauge:
  "tb_m = Some m \<Longrightarrow> \<exists>m'. fold io_metrics io tb_m = Some m' \<and> ActiveConnections m' = ActiveConnections m \<and>
     ConnectionsAccepted m' = ConnectionsAccepted m \<and> ConnectionsFailed m' = ConnectionsFailed m \<and> ErrorCount m' = ErrorCount m"
proof (induction io arbitrary: tb_m m)
  case (Cons x io)
  have "\<exists>m1. io_metrics x tb_m = Some m1 \<and> ActiveConnections m1 = ActiveConnections m \<and>
     ConnectionsAccepted m1 = ConnectionsAccepted m \<and> ConnectionsFailed m1 = ConnectionsFailed m \<and> ErrorCount m1 = ErrorCount m"
    using Cons.prems by (cases x)
      (auto simp: CountingConn_Read_def CountingConn_Write_def RecordBytesIn_def RecordBytesOut_def)
  then obtain m1 where "io_metrics x tb_m = Some m1 \<and> ActiveConnections m1 = ActiveConnections m \<and>
     ConnectionsAccepted m1 = ConnectionsAccepted m \<and> ConnectionsFailed m1 = ConnectionsFailed m \<and> ErrorCount m1 = ErrorCount m" ..
  with Cons.IH [of "io_metrics x tb_m" m1] show ?case by auto
qed simp

definition handled :: "tunnel_metrics \<Rightarrow> tunnel_metrics \<Rightarrow> bool \<Rightarrow> bool \<Rightarrow> bool" where
  "handled m m' failed erred \<longleftrightarrow>
     ActiveConnections m' = ActiveConnections m \<and> ConnectionsAccepted m' = ConnectionsAccepted m + 1 \<and>
     ConnectionsFailed m' = ConnectionsFailed m + (if failed then 1 else 0) \<and>
     ErrorCount m' = ErrorCount m + (if erred then 1 else 0)"

lemma stream_handleConnection_metrics:
  assumes "tb_Metrics b = Some m"
  shows "\<exists>m'. tb_Metrics (stream_handleConnection filt dial io b) = Some m' \<and>
    handled m m' (filt = None \<and> dial \<noteq> None) (filt \<noteq> None \<or> dial \<noteq> None)"
proof (cases "filt = None \<and> dial = None")
  case True
  let ?m1 = "RecordConnection m"
  obtain m2 where "fold io_metrics io (Some ?m1) = Some m2" "ActiveConnections m2 = ActiveConnections ?m1"
    "ConnectionsAccepted m2 = ConnectionsAccepted ?m1" "ConnectionsFailed m2 = ConnectionsFailed ?m1" "ErrorCount m2 = ErrorCount ?m1"
    using io_metrics_gauge [of "Some ?m1" ?m1 io] by auto
  with True assms show ?thesis
    by (simp add: stream_handleConnection_def Let_def CountingConn_Close_def handled_def RecordConnection_def RecordDisconnection_def)
next
  case False
  with assms show ?thesis
    by (auto simp: stream_handleConnection_def Let_def CountingConn_Close_def handled_def RecordConnection_def
        RecordDisconnection_def RecordError_metric_def RecordConnectionFailed_def split: option.splits)
qed

text \<open>Options: what a valid tunnel reports can be applied.\<close>

lemma stream_SetOptions_life: "stream_life (fst (stream_SetOptions fl check resolve opts t)) = stream_life t"
proof -
  have "tb_Status (fst (base_SetOptions fl opts b)) = tb_Status b" for b
    by (auto simp: base_SetOptions_def split: prod.splits option.splits)
  moreover obtain b e where p: "base_SetOptions fl opts (st_base t) = (b, e)" by fastforce
  ultimately have "tb_Status b = tb_Status (st_base t)" by (metis fst_conv)
  with p show ?thesis
    by (cases e) (simp_all add: stream_SetOptions_def stream_life_def Let_def split: option.split sum.split)
qed

end
