(* ===== verification/StreamTunnels.thy ===== *)
theory StreamTunnels
  imports StreamTunnel
begin

text \<open>
  The four stream tunnels with one listener: \<open>TCPServer\<close>
  (\<open>lib/tcp/server/tcp_server.go\<close>, \<open>new.go\<close>), \<open>HTTPServer\<close> (\<open>lib/http/server/http_server.go\<close>,
  \<open>new.go\<close>), \<open>IRCServer\<close> (\<open>lib/irc/server/server.go\<close>, \<open>new.go\<close>) and \<open>IRCClient\<close>
  (\<open>lib/irc/client/client.go\<close>, \<open>new.go\<close>). \<open>resolve\<close> is \<open>net.ResolveTCPAddr\<close>, giving the
  text and the port of the address; \<open>lookup\<close> is \<open>i2pkeys.Lookup\<close>, giving the Base32 text;
  both answer the same within one call. The rate-limiting and inspecting listeners that
  wrap the listener are libraries: what they accept is in the turns.
\<close>

section \<open>Targets\<close>

type_synonym tcp_resolver = "string \<Rightarrow> go_error + string \<times> int"
type_synonym i2p_lookup = "string \<Rightarrow> go_error + string"

definition tcp_port :: "tcp_resolver \<Rightarrow> string \<Rightarrow> int option" where
  "tcp_port resolve a = (case resolve a of Inl err \<Rightarrow> None | Inr (addr, port) \<Rightarrow> Some port)"

definition tcp_addr :: "tcp_resolver \<Rightarrow> string \<Rightarrow> go_error + string" where
  "tcp_addr resolve a = (case resolve a of Inl err \<Rightarrow> Inl err | Inr (addr, port) \<Rightarrow> Inr addr)"

definition tcp_target :: "tcp_resolver \<Rightarrow> string \<Rightarrow> go_error + string" where
  "tcp_target resolve a =
     (case resolve a of
        Inl err \<Rightarrow> Inl (Wrapf (''invalid target address '' @ Quote a) err)
      | Inr (addr, port) \<Rightarrow> Inr addr)"

definition i2p_ok :: "i2p_lookup \<Rightarrow> string \<Rightarrow> bool" where
  "i2p_ok lookup a = (case lookup a of Inl err \<Rightarrow> False | Inr addr \<Rightarrow> True)"

definition i2p_target :: "i2p_lookup \<Rightarrow> string \<Rightarrow> go_error + string" where
  "i2p_target lookup a =
     (case lookup a of Inl err \<Rightarrow> Inl (Wrapf ''invalid target address'' err) | Inr addr \<Rightarrow> Inr addr)"

definition maxConsecutiveErrors :: int where "maxConsecutiveErrors = 10"

section \<open>TCPServer\<close>

definition NewTCPServer ::
  "float_lib \<Rightarrow> (tunnel_config \<Rightarrow> go_error + garlic) \<Rightarrow> tcp_resolver \<Rightarrow> tunnel_config \<Rightarrow> go_error + stream_tunnel" where
  "NewTCPServer fl newGarlic resolve config =
     stream_new fl newGarlic (tcp_addr resolve)
       (\<lambda>target err. Wrapf (''invalid target address '' @ Quote target) err) config"

definition TCPServer_Address :: "stream_tunnel \<Rightarrow> string" where
  "TCPServer_Address t = stream_Address t"

definition TCPServer_LocalAddress :: "stream_tunnel \<Rightarrow> string" where
  "TCPServer_LocalAddress t = stream_LocalAddress t"

definition TCPServer_Start ::
  "go_error option \<Rightarrow> 64 word \<Rightarrow> 'c turn list \<Rightarrow> stream_tunnel \<Rightarrow> stream_tunnel \<times> 'c list \<times> go_error option option" where
  "TCPServer_Start listenStream now ts t = stream_Start listenStream maxConsecutiveErrors now ts t"

definition TCPServer_handleAcceptError ::
  "go_error \<Rightarrow> int \<Rightarrow> bool \<Rightarrow> tunnel_base \<Rightarrow> tunnel_base \<times> int \<times> bool \<times> go_error option" where
  "TCPServer_handleAcceptError err consecutive is_done b = HandleAcceptError err consecutive maxConsecutiveErrors is_done b"

definition TCPServer_handleConnection ::
  "go_error option \<Rightarrow> go_error option \<Rightarrow> conn_io list \<Rightarrow> tunnel_base \<Rightarrow> tunnel_base" where
  "TCPServer_handleConnection filt dial io b = stream_handleConnection filt dial io b"

definition TCPServer_Stop :: "stream_tunnel \<Rightarrow> stream_tunnel" where
  "TCPServer_Stop t = stream_Stop t"

text \<open>\<open>None\<close> is the nil dereference of a tunnel without address.\<close>

definition TCPServer_Target :: "stream_tunnel \<Rightarrow> string option" where
  "TCPServer_Target t = st_target t"

definition TCPServer_Options :: "float_lib \<Rightarrow> stream_tunnel \<Rightarrow> options" where
  "TCPServer_Options fl t = stream_Options fl t"

definition TCPServer_SetOptions ::
  "float_lib \<Rightarrow> tcp_resolver \<Rightarrow> options \<Rightarrow> stream_tunnel \<Rightarrow> stream_tunnel \<times> go_error option" where
  "TCPServer_SetOptions fl resolve opts t =
     stream_SetOptions fl (NetworkAddress (tcp_port resolve)) (tcp_target resolve) opts t"

definition TCPServer_LoadConfig ::
  "(string \<Rightarrow> go_error + tunnel_config) \<Rightarrow> tcp_resolver \<Rightarrow> string \<Rightarrow> stream_tunnel \<Rightarrow> stream_tunnel \<times> go_error option" where
  "TCPServer_LoadConfig parse resolve path t = stream_LoadConfig parse ''tcpserver'' (tcp_addr resolve) path t"

section \<open>HTTPServer\<close>

definition NewHTTPServer ::
  "float_lib \<Rightarrow> (tunnel_config \<Rightarrow> go_error + garlic) \<Rightarrow> tcp_resolver \<Rightarrow> tunnel_config \<Rightarrow> go_error + stream_tunnel" where
  "NewHTTPServer fl newGarlic resolve config =
     stream_new fl newGarlic (tcp_addr resolve)
       (\<lambda>target err. Wrapf (''invalid target address '' @ Quote target) err) config"

definition HTTPServer_Address :: "stream_tunnel \<Rightarrow> string" where
  "HTTPServer_Address t = stream_Address t"

definition HTTPServer_LocalAddress :: "stream_tunnel \<Rightarrow> string" where
  "HTTPServer_LocalAddress t = stream_LocalAddress t"

definition HTTPServer_Start ::
  "go_error option \<Rightarrow> 64 word \<Rightarrow> 'c turn list \<Rightarrow> stream_tunnel \<Rightarrow> stream_tunnel \<times> 'c list \<times> go_error option option" where
  "HTTPServer_Start listenStream now ts t = stream_Start listenStream maxConsecutiveErrors now ts t"

definition HTTPServer_handleAcceptError ::
  "go_error \<Rightarrow> int \<Rightarrow> bool \<Rightarrow> tunnel_base \<Rightarrow> tunnel_base \<times> int \<times> bool \<times> go_error option" where
  "HTTPServer_handleAcceptError err consecutive is_done b = HandleAcceptError err consecutive maxConsecutiveErrors is_done b"

definition HTTPServer_handleConnection :: "go_error option \<Rightarrow> conn_io list \<Rightarrow> tunnel_base \<Rightarrow> tunnel_base" where
  "HTTPServer_handleConnection dial io b = stream_handleConnection None dial io b"

definition HTTPServer_Stop :: "stream_tunnel \<Rightarrow> stream_tunnel" where
  "HTTPServer_Stop t = stream_Stop t"

text \<open>\<open>None\<close> is the nil dereference of a tunnel without address.\<close>

definition HTTPServer_Target :: "stream_tunnel \<Rightarrow> string option" where
  "HTTPServer_Target t = st_target t"

definition HTTPServer_Options :: "float_lib \<Rightarrow> stream_tunnel \<Rightarrow> options" where
  "HTTPServer_Options fl t = stream_Options fl t"

definition HTTPServer_SetOptions ::
  "float_lib \<Rightarrow> tcp_resolver \<Rightarrow> options \<Rightarrow> stream_tunnel \<Rightarrow> stream_tunnel \<times> go_error option" where
  "HTTPServer_SetOptions fl resolve opts t =
     stream_SetOptions fl (NetworkAddress (tcp_port resolve)) (tcp_target resolve) opts t"

definition HTTPServer_LoadConfig ::
  "(string \<Rightarrow> go_error + tunnel_config) \<Rightarrow> tcp_resolver \<Rightarrow> string \<Rightarrow> stream_tunnel \<Rightarrow> stream_tunnel \<times> go_error option" where
  "HTTPServer_LoadConfig parse resolve path t = stream_LoadConfig parse ''httpserver'' (tcp_addr resolve) path t"

section \<open>IRCServer\<close>

definition NewIRCServer ::
  "float_lib \<Rightarrow> (tunnel_config \<Rightarrow> go_error + garlic) \<Rightarrow> tcp_resolver \<Rightarrow> tunnel_config \<Rightarrow> go_error + stream_tunnel" where
  "NewIRCServer fl newGarlic resolve config =
     stream_new fl newGarlic (tcp_addr resolve)
       (\<lambda>target err. Wrapf (''invalid target address '' @ Quote target) err) config"

definition IRCServer_Address :: "stream_tunnel \<Rightarrow> string" where
  "IRCServer_Address t = stream_Address t"

definition IRCServer_LocalAddress :: "stream_tunnel \<Rightarrow> string" where
  "IRCServer_LocalAddress t = stream_LocalAddress t"

definition IRCServer_Start ::
  "go_error option \<Rightarrow> 64 word \<Rightarrow> 'c turn list \<Rightarrow> stream_tunnel \<Rightarrow> stream_tunnel \<times> 'c list \<times> go_error option option" where
  "IRCServer_Start listenStream now ts t = stream_Start listenStream maxConsecutiveErrors now ts t"

definition IRCServer_handleAcceptError ::
  "go_error \<Rightarrow> int \<Rightarrow> bool \<Rightarrow> tunnel_base \<Rightarrow> tunnel_base \<times> int \<times> bool \<times> go_error option" where
  "IRCServer_handleAcceptError err consecutive is_done b = HandleAcceptError err consecutive maxConsecutiveErrors is_done b"

definition IRCServer_handleConnection :: "go_error option \<Rightarrow> conn_io list \<Rightarrow> tunnel_base \<Rightarrow> tunnel_base" where
  "IRCServer_handleConnection dial io b = stream_handleConnection None dial io b"

definition IRCServer_Stop :: "stream_tunnel \<Rightarrow> stream_tunnel" where
  "IRCServer_Stop t = stream_Stop t"

text \<open>\<open>None\<close> is the nil dereference of a tunnel without address.\<close>

definition IRCServer_Target :: "stream_tunnel \<Rightarrow> string option" where
  "IRCServer_Target t = st_target t"

definition IRCServer_Options :: "float_lib \<Rightarrow> stream_tunnel \<Rightarrow> options" where
  "IRCServer_Options fl t = stream_Options fl t"

definition IRCServer_SetOptions ::
  "float_lib \<Rightarrow> tcp_resolver \<Rightarrow> options \<Rightarrow> stream_tunnel \<Rightarrow> stream_tunnel \<times> go_error option" where
  "IRCServer_SetOptions fl resolve opts t =
     stream_SetOptions fl (NetworkAddress (tcp_port resolve)) (tcp_target resolve) opts t"

definition IRCServer_LoadConfig ::
  "(string \<Rightarrow> go_error + tunnel_config) \<Rightarrow> tcp_resolver \<Rightarrow> string \<Rightarrow> stream_tunnel \<Rightarrow> stream_tunnel \<times> go_error option" where
  "IRCServer_LoadConfig parse resolve path t = stream_LoadConfig parse ''ircserver'' (tcp_addr resolve) path t"

section \<open>IRCClient\<close>

definition NewIRCClient ::
  "float_lib \<Rightarrow> (tunnel_config \<Rightarrow> go_error + garlic) \<Rightarrow> i2p_lookup \<Rightarrow> tunnel_config \<Rightarrow> go_error + stream_tunnel" where
  "NewIRCClient fl newGarlic lookup config = stream_new fl newGarlic lookup (\<lambda>target err. err) config"

definition IRCClient_Address :: "stream_tunnel \<Rightarrow> string" where
  "IRCClient_Address t = stream_Address t"

definition IRCClient_LocalAddress :: "stream_tunnel \<Rightarrow> string" where
  "IRCClient_LocalAddress t = stream_LocalAddress t"

text \<open>\<open>listen addr\<close> is the error of \<open>net.Listen("tcp", addr)\<close>.\<close>

definition IRCClient_Start ::
  "(string \<Rightarrow> go_error option) \<Rightarrow> 64 word \<Rightarrow> 'c turn list \<Rightarrow> stream_tunnel \<Rightarrow> stream_tunnel \<times> 'c list \<times> go_error option option" where
  "IRCClient_Start listen now ts t = stream_Start (listen (stream_LocalAddress t)) maxConsecutiveErrors now ts t"

definition IRCClient_handleAcceptError ::
  "go_error \<Rightarrow> int \<Rightarrow> bool \<Rightarrow> tunnel_base \<Rightarrow> tunnel_base \<times> int \<times> bool \<times> go_error option" where
  "IRCClient_handleAcceptError err consecutive is_done b = HandleAcceptError err consecutive maxConsecutiveErrors is_done b"

definition IRCClient_handleConnection :: "go_error option \<Rightarrow> conn_io list \<Rightarrow> tunnel_base \<Rightarrow> tunnel_base" where
  "IRCClient_handleConnection dial io b = stream_handleConnection None dial io b"

definition IRCClient_Stop :: "stream_tunnel \<Rightarrow> stream_tunnel" where
  "IRCClient_Stop t = stream_Stop t"

definition IRCClient_Target :: "stream_tunnel \<Rightarrow> string option" where
  "IRCClient_Target t = st_target t"

definition IRCClient_Options :: "float_lib \<Rightarrow> stream_tunnel \<Rightarrow> options" where
  "IRCClient_Options fl t = stream_Options fl t"

definition IRCClient_SetOptions ::
  "float_lib \<Rightarrow> i2p_lookup \<Rightarrow> options \<Rightarrow> stream_tunnel \<Rightarrow> stream_tunnel \<times> go_error option" where
  "IRCClient_SetOptions fl lookup opts t =
     stream_SetOptions fl (I2PAddress (i2p_ok lookup)) (i2p_target lookup) opts t"

definition IRCClient_LoadConfig ::
  "(string \<Rightarrow> go_error + tunnel_config) \<Rightarrow> i2p_lookup \<Rightarrow> string \<Rightarrow> stream_tunnel \<Rightarrow> stream_tunnel \<times> go_error option" where
  "IRCClient_LoadConfig parse lookup path t = stream_LoadConfig parse ''ircclient'' lookup path t"

lemmas stream_Start_defs =
  TCPServer_Start_def HTTPServer_Start_def IRCServer_Start_def IRCClient_Start_def

lemmas stream_Stop_defs =
  TCPServer_Stop_def HTTPServer_Stop_def IRCServer_Stop_def IRCClient_Stop_def

lemmas stream_LoadConfig_defs =
  TCPServer_LoadConfig_def HTTPServer_LoadConfig_def IRCServer_LoadConfig_def IRCClient_LoadConfig_def

lemmas stream_SetOptions_defs =
  TCPServer_SetOptions_def HTTPServer_SetOptions_def IRCServer_SetOptions_def IRCClient_SetOptions_def

lemmas stream_Options_defs =
  TCPServer_Options_def HTTPServer_Options_def IRCServer_Options_def IRCClient_Options_def

lemmas stream_handleConnection_defs =
  TCPServer_handleConnection_def HTTPServer_handleConnection_def IRCServer_handleConnection_def IRCClient_handleConnection_def

lemmas stream_new_defs = NewTCPServer_def NewHTTPServer_def NewIRCServer_def NewIRCClient_def

section \<open>Lemmas\<close>

lemma stream_SetOptions_Options:
  assumes ok: "base_ok (st_base t)" and mc: "in_int64 (tb_MaxConns (st_base t))"
    and fl: "ParseFloat fl (FormatFloat fl (tb_RateLimit (st_base t))) = Some (tb_RateLimit (st_base t))"
    and a: "st_target t = Some a" "check a = None" "resolve a = Inr a"
  shows "\<exists>t'. stream_SetOptions fl check resolve (stream_Options fl t) t0 = (t', None) \<and>
    tc_Name (tb_Config (st_base t')) = tc_Name (tb_Config (st_base t)) \<and>
    tc_Interface (tb_Config (st_base t')) = tc_Interface (tb_Config (st_base t)) \<and>
    tc_Port (tb_Config (st_base t')) = tc_Port (tb_Config (st_base t)) \<and>
    tb_MaxConns (st_base t') = tb_MaxConns (st_base t) \<and> tb_RateLimit (st_base t') = tb_RateLimit (st_base t) \<and>
    st_target t' = Some a \<and> stream_life t' = stream_life t0"
proof -
  let ?o = "stream_Options fl t"
  have "\<exists>b'. base_SetOptions fl ?o (st_base t0) = (b', None) \<and>
    tc_Name (tb_Config b') = tc_Name (tb_Config (st_base t)) \<and> tc_Interface (tb_Config b') = tc_Interface (tb_Config (st_base t)) \<and>
    tc_Port (tb_Config b') = tc_Port (tb_Config (st_base t)) \<and>
    tb_MaxConns b' = tb_MaxConns (st_base t) \<and> tb_RateLimit b' = tb_RateLimit (st_base t) \<and> tb_Status b' = tb_Status (st_base t0)"
    using ok mc fl by (rule base_SetOptions_agree) (auto simp: stream_Options_def a)
  moreover have "gm_get ?o ''target'' = Some a"
    by (simp add: stream_Options_def a)
  ultimately show ?thesis
    by (auto simp: stream_SetOptions_def a stream_life_def)
qed

lemma stream_new_limits:
  "stream_new fl newGarlic resolve wrap cfg = Inr t \<Longrightarrow>
     tb_MaxConns (st_base t) = TunnelOptionsMaxConns fl (tc_Tunnel cfg) 1000 \<and>
     tb_RateLimit (st_base t) = TunnelOptionsRateLimit fl (tc_Tunnel cfg) (Fin False 100 0)"
  by (cases "resolve (tc_Target cfg)") (auto simp: stream_new_def rbind_Inr_iff)

section \<open>Properties\<close>


definition example_stream :: stream_tunnel where
  "example_stream =
     \<lparr>st_garlic = Some \<lparr>g_open = True, g_service = Some ''abc.b32.i2p''\<rparr>, st_base = example_base,
      st_target = Some ''127.0.0.1:80'', st_done = False, st_once = False, st_listener = None\<rparr>"


text \<open>
  When the listener cannot be opened, \<open>Start\<close> returns the error but leaves the status
  Starting: from then on \<open>LoadConfig\<close> refuses to run, although nothing is running, until
  somebody calls \<open>Stop\<close>.
\<close>
theorem listen_error_stays_starting:
  assumes "TCPServer_Start (Some err) now ts t = (t', cs, r)"
  shows "r = Some (Some err) \<and> tb_Status (st_base t') = StatusStarting \<and>
    (\<exists>e. TCPServer_LoadConfig parse resolve path t' = (t', Some e)) \<and>
    tb_Status (st_base (TCPServer_Stop t')) = StatusStopped"
proof -
  have r: "r = Some (Some err)" "tb_Status (st_base t') = StatusStarting"
    using assms stream_Start_listen_error by (fastforce simp: TCPServer_Start_def)+
  have "\<not> st_once t'" using assms by (auto simp: TCPServer_Start_def stream_Start_def stream_bind_def Let_def)
  with r show ?thesis
    by (simp add: TCPServer_LoadConfig_def TCPServer_Stop_def stream_LoadConfig_def Status_def CheckTunnelStopped_def)
qed

lemma listen_error_stays_starting_witness:
  "\<exists>t' e. TCPServer_Start (Some (External ''no session'')) 5 ([] :: nat turn list) example_stream = (t', [], Some (Some (External ''no session''))) \<and>
     TCPServer_LoadConfig (\<lambda>p. Inr example_config) (\<lambda>a. Inr (a, 80)) ''f'' t' = (t', Some e)"
proof -
  obtain t' where run: "TCPServer_Start (Some (External ''no session'')) 5 ([] :: nat turn list) example_stream =
      (t', [], Some (Some (External ''no session'')))"
    by (simp add: TCPServer_Start_def stream_Start_def stream_bind_def Let_def)
  with listen_error_stays_starting [OF run, of "\<lambda>p. Inr example_config" "\<lambda>a. Inr (a, 80)" "''f''"] show ?thesis by blast
qed

text \<open>
  C32: each handled connection is counted in and out exactly once on every path: when the
  handler of any of the four tunnels returns, the gauge of active connections is back
  where it was, one more connection is accepted, a failed connection is counted exactly
  when the target could not be dialed, and one error exactly when filter or dial failed.
\<close>
theorem handleConnection_balanced:
  assumes "tb_Metrics b = Some m"
  shows "(\<exists>m'. tb_Metrics (TCPServer_handleConnection filt dial io b) = Some m' \<and>
      handled m m' (filt = None \<and> dial \<noteq> None) (filt \<noteq> None \<or> dial \<noteq> None)) \<and>
    (\<exists>m'. tb_Metrics (HTTPServer_handleConnection dial io b) = Some m' \<and> handled m m' (dial \<noteq> None) (dial \<noteq> None)) \<and>
    (\<exists>m'. tb_Metrics (IRCServer_handleConnection dial io b) = Some m' \<and> handled m m' (dial \<noteq> None) (dial \<noteq> None)) \<and>
    (\<exists>m'. tb_Metrics (IRCClient_handleConnection dial io b) = Some m' \<and> handled m m' (dial \<noteq> None) (dial \<noteq> None))"
  using stream_handleConnection_metrics [OF assms, of filt dial io] stream_handleConnection_metrics [OF assms, of None dial io]
  by (simp add: stream_handleConnection_defs)

lemma handleConnection_balanced_witness:
  "\<exists>m'. tb_Metrics (HTTPServer_handleConnection (Some (External ''refused'')) [IoRead 5] example_base) = Some m' \<and>
     handled (fresh_metrics ''irc'' ''irc'' ''tcpclient'') m' True True"
proof -
  have "tb_Metrics example_base = Some (fresh_metrics ''irc'' ''irc'' ''tcpclient'')"
    by (simp add: example_base_def)
  from handleConnection_balanced [OF this, of None "Some (External ''refused'')" "[IoRead 5]"] show ?thesis by simp
qed

text \<open>
  C33: loading a configuration is all or nothing for the four tunnels: it is refused while
  the tunnel is running or starting, any error leaves the tunnel exactly as it was, a
  success takes the parsed configuration of the right type with its resolved target, and
  no load touches status, channels, listener or session.
\<close>
theorem LoadConfig_atomic:
  assumes "ld = TCPServer_LoadConfig parse resolve path \<and> ty = ''tcpserver'' \<and> res = tcp_addr resolve \<or>
    ld = HTTPServer_LoadConfig parse resolve path \<and> ty = ''httpserver'' \<and> res = tcp_addr resolve \<or>
    ld = IRCServer_LoadConfig parse resolve path \<and> ty = ''ircserver'' \<and> res = tcp_addr resolve \<or>
    ld = IRCClient_LoadConfig parse lookup path \<and> ty = ''ircclient'' \<and> res = lookup"
  shows "stream_life (fst (ld t)) = stream_life t \<and>
    (if snd (ld t) = None then
       tb_Status (st_base t) \<noteq> StatusRunning \<and> tb_Status (st_base t) \<noteq> StatusStarting \<and>
       (\<exists>cfg a. parse path = Inr cfg \<and> tc_Type cfg = ty \<and> res (tc_Target cfg) = Inr a \<and>
          fst (ld t) = t\<lparr>st_base := (st_base t)\<lparr>tb_Config := cfg\<rparr>, st_target := Some a\<rparr>)
     else fst (ld t) = t)"
proof -
  have ld: "ld t = stream_LoadConfig parse ty res path t"
    using assms by (auto simp: stream_LoadConfig_defs)
  obtain t' e where r: "stream_LoadConfig parse ty res path t = (t', e)" by fastforce
  show ?thesis
  proof (cases e)
    case None
    with r stream_LoadConfig_ok [of parse ty res path t t'] stream_LoadConfig_life [of parse ty res path t]
    show ?thesis by (auto simp: ld CheckTunnelStopped_def split: if_splits)
  next
    case (Some err)
    with r stream_LoadConfig_error [of parse ty res path t t' err] show ?thesis by (simp add: ld)
  qed
qed

lemma LoadConfig_atomic_witness:
  "fst (IRCServer_LoadConfig (\<lambda>p. Inr example_config) (\<lambda>a. Inr (a, 80)) ''f'' example_stream) = example_stream"
proof -
  have "snd (IRCServer_LoadConfig (\<lambda>p. Inr example_config) (\<lambda>a. Inr (a, 80)) ''f'' example_stream) \<noteq> None"
    by (simp add: IRCServer_LoadConfig_def stream_LoadConfig_def CheckTunnelStopped_def Status_def
        example_stream_def example_base_def)
  then show ?thesis
    using LoadConfig_atomic [of "IRCServer_LoadConfig (\<lambda>p. Inr example_config) (\<lambda>a. Inr (a, 80)) ''f''"
        "\<lambda>p. Inr example_config" "\<lambda>a. Inr (a, 80)" "''f''" "''ircserver''" "tcp_addr (\<lambda>a. Inr (a, 80))"
        "\<lambda>a. Inr a" example_stream] by simp
qed

text \<open>
  A server reloaded from a file keeps its old connection and rate limits: \<open>LoadConfig\<close>
  replaces the configuration but not the limits, so when the file asks for other limits
  than the tunnel had, the reloaded tunnel differs from a tunnel created from that file.
\<close>
theorem LoadConfig_keeps_old_limits:
  assumes load: "TCPServer_LoadConfig parse resolve path t = (t', None)" and cfg: "parse path = Inr cfg"
    and new: "NewTCPServer fl newGarlic resolve cfg = Inr t2"
  shows "tb_MaxConns (st_base t') = tb_MaxConns (st_base t) \<and> tb_RateLimit (st_base t') = tb_RateLimit (st_base t) \<and>
    tb_MaxConns (st_base t2) = TunnelOptionsMaxConns fl (tc_Tunnel cfg) 1000 \<and>
    tb_RateLimit (st_base t2) = TunnelOptionsRateLimit fl (tc_Tunnel cfg) (Fin False 100 0)"
  using load new by (auto simp: TCPServer_LoadConfig_def NewTCPServer_def stream_LoadConfig_ok dest: stream_new_limits)

definition example_server_config :: tunnel_config where
  "example_server_config = example_config\<lparr>tc_Type := ''tcpserver'', tc_Target := ''127.0.0.1:80'', tc_Tunnel := Some [(''maxconns'', IInt 5)]\<rparr>"

lemma LoadConfig_keeps_old_limits_witness:
  "\<exists>t' t2. TCPServer_LoadConfig (\<lambda>p. Inr example_server_config) (\<lambda>a. Inr (a, 80)) ''f''
       (example_stream\<lparr>st_base := SetStatus StatusStopped example_base\<rparr>) = (t', None) \<and>
     NewTCPServer no_floats (\<lambda>c. Inr \<lparr>g_open = True, g_service = None\<rparr>) (\<lambda>a. Inr (a, 80)) example_server_config = Inr t2 \<and>
     tb_MaxConns (st_base t') = 3 \<and> tb_MaxConns (st_base t2) = 5"
proof -
  let ?t = "example_stream\<lparr>st_base := SetStatus StatusStopped example_base\<rparr>"
  obtain t' where load: "TCPServer_LoadConfig (\<lambda>p. Inr example_server_config) (\<lambda>a. Inr (a, 80)) ''f'' ?t = (t', None)"
    by (simp add: TCPServer_LoadConfig_def stream_LoadConfig_def CheckTunnelStopped_def Status_def tcp_addr_def
        example_server_config_def example_config_def)
  obtain t2 where new: "NewTCPServer no_floats (\<lambda>c. Inr \<lparr>g_open = True, g_service = None\<rparr>) (\<lambda>a. Inr (a, 80))
      example_server_config = Inr t2"
    by (simp add: NewTCPServer_def stream_new_def tcp_addr_def)
  from LoadConfig_keeps_old_limits [OF load _ new] load new show ?thesis
    by (simp add: example_base_def TunnelOptionsMaxConns_def example_server_config_def)
qed

text \<open>
  The options of a server tunnel can be applied to another tunnel of the type: if the
  target text resolves to itself with a valid port and the rate's text parses back, the
  call succeeds and name, interface, port, limits and target are taken over, while the
  lifecycle of the receiver is untouched.
\<close>
theorem server_Options_roundtrip:
  assumes ok: "base_ok (st_base t)" and mc: "in_int64 (tb_MaxConns (st_base t))"
    and fl: "ParseFloat fl (FormatFloat fl (tb_RateLimit (st_base t))) = Some (tb_RateLimit (st_base t))"
    and a: "st_target t = Some a" "a \<noteq> ''''" "resolve a = Inr (a, p)" "valid_port p"
  shows "\<exists>t'. TCPServer_SetOptions fl resolve (TCPServer_Options fl t) u = (t', None) \<and>
    tc_Name (tb_Config (st_base t')) = tc_Name (tb_Config (st_base t)) \<and>
    tc_Interface (tb_Config (st_base t')) = tc_Interface (tb_Config (st_base t)) \<and>
    tc_Port (tb_Config (st_base t')) = tc_Port (tb_Config (st_base t)) \<and>
    tb_MaxConns (st_base t') = tb_MaxConns (st_base t) \<and> tb_RateLimit (st_base t') = tb_RateLimit (st_base t) \<and>
    st_target t' = Some a \<and> stream_life t' = stream_life u"
  unfolding TCPServer_SetOptions_def TCPServer_Options_def
  by (rule stream_SetOptions_Options [OF ok mc fl a(1)])
    (use a in \<open>simp_all add: NetworkAddress_None tcp_port_def tcp_target_def\<close>)

lemma server_Options_roundtrip_witness:
  "\<exists>t'. TCPServer_SetOptions (no_floats\<lparr>ParseFloat := \<lambda>s. Some (Fin False 0 0)\<rparr>) (\<lambda>a. Inr (a, 80))
      (TCPServer_Options (no_floats\<lparr>ParseFloat := \<lambda>s. Some (Fin False 0 0)\<rparr>) example_stream)
      (example_stream\<lparr>st_target := None\<rparr>) = (t', None) \<and> st_target t' = Some ''127.0.0.1:80''"
proof -
  have "base_ok (st_base example_stream)" "in_int64 (tb_MaxConns (st_base example_stream))"
    "ParseFloat (no_floats\<lparr>ParseFloat := \<lambda>s. Some (Fin False 0 0)\<rparr>)
      (FormatFloat (no_floats\<lparr>ParseFloat := \<lambda>s. Some (Fin False 0 0)\<rparr>) (tb_RateLimit (st_base example_stream))) =
      Some (tb_RateLimit (st_base example_stream))"
    "st_target example_stream = Some ''127.0.0.1:80''"
    using example_base_ok by (simp_all add: example_stream_def example_base_def in_int64_def int64_min_def int64_max_def)
  from server_Options_roundtrip [OF this, where resolve = "\<lambda>a. Inr (a, 80)" and p = 80
      and u = "example_stream\<lparr>st_target := None\<rparr>"] show ?thesis
    by (auto simp: valid_port_def)
qed

end
