(* ===== verification/ErrorLoop.thy ===== *)
theory ErrorLoop
  imports TunnelBase
begin

text \<open>
  The shape of the forwarding and accept loops: \<open>for { if cont, fatal := step(...); !cont { return
  fatal } }\<close> over the turns the environment supplies, and the contract of a step that
  gives up after a number of consecutive errors, or at a turn that makes it quit, as a locale with its consequences.
\<close>

fun run_loop :: "('t \<Rightarrow> 's \<Rightarrow> 's \<times> bool \<times> go_error option) \<Rightarrow> 't list \<Rightarrow> 's \<Rightarrow> 's \<times> go_error option option" where
  "run_loop step [] s = (s, None)"
| "run_loop step (t # ts) s =
     (case step t s of (s', cont, fatal) \<Rightarrow> if cont then run_loop step ts s' else (s', Some fatal))"

lemma run_loop_append:
  "run_loop step (ts @ us) s =
     (case run_loop step ts s of (s', None) \<Rightarrow> run_loop step us s' | (s', Some r) \<Rightarrow> (s', Some r))"
  by (induction ts arbitrary: s) (auto split: prod.splits)

lemma run_loop_inv:
  assumes "\<And>t s. P s \<Longrightarrow> P (fst (step t s))"
  shows "P s \<Longrightarrow> P (fst (run_loop step ts s))"
proof (induction ts arbitrary: s)
  case (Cons t ts)
  from assms [OF Cons.prems, of t] Cons.IH [of "fst (step t s)"] show ?case
    by (auto split: prod.splits)
qed simp

text \<open>The counter of consecutive errors as a function of the turns.\<close>

fun err_run :: "('t \<Rightarrow> bool) \<Rightarrow> ('t \<Rightarrow> bool) \<Rightarrow> 't list \<Rightarrow> int \<Rightarrow> int" where
  "err_run bad good [] n = n"
| "err_run bad good (t # ts) n = err_run bad good ts (if bad t then n + 1 else if good t then 0 else n)"

lemma err_run_append: "err_run bad good (ts @ us) n = err_run bad good us (err_run bad good ts n)"
  by (induction ts arbitrary: n) simp_all

definition errors_since :: "('t \<Rightarrow> bool) \<Rightarrow> ('t \<Rightarrow> bool) \<Rightarrow> 't list \<Rightarrow> nat" where
  "errors_since bad good ts = length (filter bad (takeWhile (\<lambda>t. bad t \<or> \<not> good t) (rev ts)))"

lemma err_run_since: "err_run bad good ts 0 = int (errors_since bad good ts)"
  by (induction ts rule: rev_induct) (simp_all add: err_run_append errors_since_def)

locale error_budget =
  fixes step :: "'t \<Rightarrow> 's \<Rightarrow> 's \<times> bool \<times> go_error option" and cnt :: "'s \<Rightarrow> int"
    and bad :: "'t \<Rightarrow> bool" and good :: "'t \<Rightarrow> bool"
    and quit :: "'t \<Rightarrow> bool" and limit :: int
  assumes step_continue: "step t s = (s', True, x) \<Longrightarrow> cnt s' = (if bad t then cnt s + 1 else if good t then 0 else cnt s)"
    and step_fatal: "step t s = (s', False, Some e) \<Longrightarrow> quit t \<or> bad t \<and> cnt s' = cnt s + 1 \<and> limit \<le> cnt s'"
    and step_below: "step t s = (s', True, x) \<Longrightarrow> bad t \<Longrightarrow> cnt s + 1 < limit"
    and limit_pos: "0 < limit"
begin

lemma running_count: "run_loop step ts s = (s', None) \<Longrightarrow> cnt s' = err_run bad good ts (cnt s)"
proof (induction ts arbitrary: s)
  case (Cons t ts)
  obtain s1 c f where st: "step t s = (s1, c, f)" by (metis prod_cases3)
  with Cons.prems have c: "c" "run_loop step ts s1 = (s', None)" by (auto split: if_splits)
  with st step_continue [of t s s1 f] Cons.IH [of s1] show ?case by simp
qed simp

lemma running_below: "run_loop step ts s = (s', None) \<Longrightarrow> cnt s < limit \<Longrightarrow> cnt s' < limit"
proof (induction ts arbitrary: s)
  case (Cons t ts)
  obtain s1 c f where st: "step t s = (s1, c, f)" by (metis prod_cases3)
  with Cons.prems have c: "c" "run_loop step ts s1 = (s', None)" by (auto split: if_splits)
  with st have "cnt s1 < limit"
    using step_continue [of t s s1 f] step_below [of t s s1 f] limit_pos Cons.prems by (simp split: if_splits)
  with c Cons.IH show ?case by blast
qed simp

lemma fatal_cause:
  "run_loop step ts s = (s', Some (Some e)) \<Longrightarrow>
     \<exists>pre t post. ts = pre @ t # post \<and>
       (quit t \<or> bad t \<and> cnt s' = err_run bad good (pre @ [t]) (cnt s) \<and> limit \<le> cnt s')"
proof (induction ts arbitrary: s)
  case (Cons t ts)
  obtain s1 c f where st: "step t s = (s1, c, f)" by (metis prod_cases3)
  show ?case
  proof (cases c)
    case True
    with st Cons.prems have "run_loop step ts s1 = (s', Some (Some e))" by simp
    from Cons.IH [OF this] obtain pre u post where u: "ts = pre @ u # post"
      "quit u \<or> bad u \<and> cnt s' = err_run bad good (pre @ [u]) (cnt s1) \<and> limit \<le> cnt s'" by blast
    with True st step_continue [of t s s1 f] show ?thesis by (intro exI [of _ "t # pre"] exI [of _ u] exI [of _ post]) simp
  next
    case False
    with st Cons.prems have "step t s = (s', False, Some e)" by simp
    from step_fatal [OF this] show ?thesis by - (rule exI [of _ "[]"], rule exI [of _ t], rule exI [of _ ts], auto)
  qed
qed simp

text \<open>For a loop that starts with a zero counter.\<close>

lemma fatal_only_after_errors:
  assumes "run_loop step ts s = (s', Some (Some e))" and "cnt s = 0"
  shows "\<exists>pre t post. ts = pre @ t # post \<and> (quit t \<or> bad t \<and> limit \<le> int (errors_since bad good (pre @ [t])))"
  using fatal_cause [OF assms(1)] assms(2) by (metis err_run_since)

lemma running_means_few_errors:
  assumes "run_loop step ts s = (s', None)" and "cnt s = 0"
  shows "int (errors_since bad good ts) < limit"
  using running_count [OF assms(1)] running_below [OF assms(1)] limit_pos assms(2) by (simp only: err_run_since)

end

end
