(* ===== verification/HttpDial.thy ===== *)
theory HttpDial
  imports CoreTypes
begin

text \<open>
  How the HTTP client proxy reaches a host (\<open>lib/http/client/outproxy.go\<close>, \<open>jump.go\<close> and the
  dialing half of \<open>new.go\<close>): which addresses belong to I2P, the jump service with its
  cache, the outproxy, and the dispatch between them. The network is a parameter: the
  HTTP exchange with the jump service, and \<open>Garlic.Dial\<close>, whose argument is what the
  definitions return. Times are nanoseconds as \<^typ>\<open>int\<close>; \<open>ul\<close> is the multi-byte branch
  of \<open>strings.ToLower\<close>.
\<close>

section \<open>Host names\<close>

definition stripPort :: "string \<Rightarrow> string" where
  "stripPort host = (case LastIndexByte host CHR '':'' of Some i \<Rightarrow> take i host | None \<Rightarrow> host)"

definition IsI2PAddress :: "(string \<Rightarrow> string) \<Rightarrow> string \<Rightarrow> bool" where
  "IsI2PAddress ul host =
     (let h = stripPort host in
      if h = '''' then False else HasSuffix (ToLower ul h) ''.i2p'')"

definition NeedsJump :: "(string \<Rightarrow> string) \<Rightarrow> string \<Rightarrow> bool" where
  "NeedsJump ul host =
     (let h = stripPort host in
      if h = '''' then False
      else
        let lower = ToLower ul h in
        if \<not> HasSuffix lower ''.i2p'' then False
        else if HasSuffix lower ''.b32.i2p'' then False
        else True)"

definition extractHostFromURL :: "string \<Rightarrow> string" where
  "extractHostFromURL rawURL =
     (let u1 = (case Index rawURL ''://'' of Some i \<Rightarrow> drop (i + 3) rawURL | None \<Rightarrow> rawURL);
          u2 = (case Index u1 ''/'' of Some i \<Rightarrow> take i u1 | None \<Rightarrow> u1)
      in stripPort u2)"

section \<open>Destinations\<close>

definition isBase64Char :: "char \<Rightarrow> bool" where
  "isBase64Char c =
     (let n = of_char c :: int in
      (65 \<le> n \<and> n \<le> 90) \<or> (97 \<le> n \<and> n \<le> 122) \<or> (48 \<le> n \<and> n \<le> 57) \<or>
      c = CHR ''+'' \<or> c = CHR ''/'' \<or> c = CHR ''='' \<or> c = CHR ''-'' \<or> c = CHR ''~'')"

definition isI2PDestination :: "string \<Rightarrow> bool" where
  "isI2PDestination s0 =
     (let s = TrimSpace s0 in
      if length s < 516 then False
      else if \<not> HasSuffix s ''AAAA'' then False
      else list_all isBase64Char s)"

fun first_destination :: "string list \<Rightarrow> string" where
  "first_destination [] = ''''"
| "first_destination (l # ls) =
     (let line = TrimSpace l in if isI2PDestination line then line else first_destination ls)"

definition scanLinesForDestination :: "string \<Rightarrow> string" where
  "scanLinesForDestination body = first_destination (Split body newline_char)"

definition parseDestinationFromBody :: "string \<Rightarrow> string" where
  "parseDestinationFromBody body0 =
     (let body = TrimSpace body0;
          rest = (if isI2PDestination body then body else scanLinesForDestination body)
      in case Index body ''='' of
           Some i \<Rightarrow>
             (let dest = TrimSpace (drop (i + 1) body) in if isI2PDestination dest then dest else rest)
         | None \<Rightarrow> rest)"

section \<open>The answer of the jump service\<close>

text \<open>
  \<open>resp_read n\<close> is what \<open>io.ReadAll(io.LimitReader(resp.Body, n))\<close> returns;
  \<open>resp_Location\<close> is \<open>Header.Get("Location")\<close>.
\<close>

record jump_response =
  resp_Status :: int
  resp_Location :: string
  resp_read :: "nat \<Rightarrow> go_error + string"

definition maxResponseBody :: nat where "maxResponseBody = 4096"

definition parseJumpRedirect :: "jump_response \<Rightarrow> go_error + string" where
  "parseJumpRedirect resp =
     (let location = resp_Location resp in
      if location = '''' then Inl (Errorf ''jump service returned redirect without Location header'')
      else
        let dest = extractHostFromURL location in
        if dest = '''' then Inl (Errorf (''could not extract destination from redirect: '' @ location))
        else Inr dest)"

definition parseJumpBody :: "jump_response \<Rightarrow> string \<Rightarrow> go_error + string" where
  "parseJumpBody resp hostname =
     (case resp_read resp maxResponseBody of
        Inl err \<Rightarrow> Inl (Wrapf ''failed to read jump service response'' err)
      | Inr body \<Rightarrow>
          let dest = parseDestinationFromBody body in
          if dest = '''' then Inl (Errorf (''jump service returned no destination for '' @ hostname))
          else Inr dest)"

definition parseJumpResponse :: "jump_response \<Rightarrow> string \<Rightarrow> go_error + string" where
  "parseJumpResponse resp hostname =
     (if resp_Status resp = 302 \<or> resp_Status resp = 301 then parseJumpRedirect resp
      else if resp_Status resp = 200 then parseJumpBody resp hostname
      else Inl (Errorf (''jump service returned status '' @ Itoa (resp_Status resp) @ '' for '' @ hostname)))"

section \<open>The jump service and its cache\<close>

definition DefaultJumpServiceURL :: string where
  "DefaultJumpServiceURL = ''http://stats.i2p/cgi-bin/jump.cgi''"

definition defaultCacheTTL :: int where "defaultCacheTTL = 3600 * 1000000000"
definition maxCacheEntries :: nat where "maxCacheEntries = 1000"

record jump_cache_entry =
  destination :: string
  expiresAt :: int

record 'cl jump_service =
  js_url :: string
  js_client :: 'cl
  cacheTTL :: int
  cache :: "(string, jump_cache_entry) gomap"

definition NewJumpService :: "'cl \<Rightarrow> 'cl option \<Rightarrow> string \<Rightarrow> 'cl jump_service" where
  "NewJumpService defaultClient client url =
     \<lparr>js_url = (if url = '''' then DefaultJumpServiceURL else url),
      js_client = (case client of None \<Rightarrow> defaultClient | Some c \<Rightarrow> c),
      cacheTTL = defaultCacheTTL, cache = []\<rparr>"

definition SetClient :: "'cl option \<Rightarrow> 'cl jump_service \<Rightarrow> 'cl jump_service" where
  "SetClient client j = (case client of None \<Rightarrow> j | Some c \<Rightarrow> j\<lparr>js_client := c\<rparr>)"

definition SetCacheTTL :: "int \<Rightarrow> 'cl jump_service \<Rightarrow> 'cl jump_service" where
  "SetCacheTTL ttl j = j\<lparr>cacheTTL := ttl\<rparr>"

definition ClearCache :: "'cl jump_service \<Rightarrow> 'cl jump_service" where
  "ClearCache j = j\<lparr>cache := []\<rparr>"

definition CacheSize :: "'cl jump_service \<Rightarrow> nat" where
  "CacheSize j = length (cache j)"

definition getCached :: "int \<Rightarrow> string \<Rightarrow> 'cl jump_service \<Rightarrow> 'cl jump_service \<times> string option" where
  "getCached now hostname j =
     (case gm_get (cache j) hostname of
        None \<Rightarrow> (j, None)
      | Some entry \<Rightarrow>
          if now > expiresAt entry then (j\<lparr>cache := gm_del hostname (cache j)\<rparr>, None)
          else (j, Some (destination entry)))"

definition putCache :: "int \<Rightarrow> string \<Rightarrow> string \<Rightarrow> 'cl jump_service \<Rightarrow> 'cl jump_service" where
  "putCache now hostname dest j =
     (if cacheTTL j \<le> 0 then j
      else
        let c = (if length (cache j) \<ge> maxCacheEntries then [] else cache j) in
        j\<lparr>cache := gm_set hostname \<lparr>destination = dest, expiresAt = now + cacheTTL j\<rparr> c\<rparr>)"

text \<open>
  \<open>newRequest url\<close> is the error of \<open>http.NewRequest\<close>, \<open>doRequest client url\<close> the result of
  the client's \<open>Do\<close> with redirects left unfollowed.
\<close>

definition query ::
  "(string \<Rightarrow> go_error option) \<Rightarrow> ('cl \<Rightarrow> string \<Rightarrow> go_error + jump_response) \<Rightarrow> 'cl jump_service \<Rightarrow> string \<Rightarrow> go_error + string" where
  "query newRequest doRequest j hostname =
     (let reqURL = js_url j @ ''?q='' @ hostname in
      case newRequest reqURL of
        Some err \<Rightarrow> Inl (Wrapf ''failed to create request'' err)
      | None \<Rightarrow>
          (case doRequest (js_client j) reqURL of
             Inl err \<Rightarrow> Inl (Wrapf ''jump service request failed'' err)
           | Inr resp \<Rightarrow> parseJumpResponse resp hostname))"

text \<open>\<open>now\<close> and \<open>later\<close> are the clock readings of the cache lookup and of the insertion.\<close>

definition Lookup ::
  "(string \<Rightarrow> string) \<Rightarrow> (string \<Rightarrow> go_error option) \<Rightarrow> ('cl \<Rightarrow> string \<Rightarrow> go_error + jump_response) \<Rightarrow>
   int \<Rightarrow> int \<Rightarrow> string \<Rightarrow> 'cl jump_service \<Rightarrow> 'cl jump_service \<times> (go_error + string)" where
  "Lookup ul newRequest doRequest now later hostname0 j =
     (let hostname = ToLower ul (stripPort hostname0) in
      case getCached now hostname j of
        (j1, Some dest) \<Rightarrow> (j1, Inr dest)
      | (j1, None) \<Rightarrow>
          (case query newRequest doRequest j1 hostname of
             Inl err \<Rightarrow> (j1, Inl (Wrapf (''jump service lookup failed for '' @ hostname) err))
           | Inr dest \<Rightarrow> (putCache later hostname dest j1, Inr dest)))"

section \<open>The outproxy\<close>

record outproxy =
  op_Address :: string
  op_Enabled :: bool

definition IsActive :: "outproxy option \<Rightarrow> bool" where
  "IsActive o' = (case o' of None \<Rightarrow> False | Some p \<Rightarrow> op_Enabled p \<and> op_Address p \<noteq> '''')"

definition outproxy_addr :: "outproxy \<Rightarrow> string" where
  "outproxy_addr p = (if \<not> Contains (op_Address p) '':'' then JoinHostPort (op_Address p) ''80'' else op_Address p)"

text \<open>\<open>garlic addr\<close> is the result of dialing \<open>addr\<close> over I2P.\<close>

definition dialOutproxy :: "(string \<Rightarrow> go_error + 'c) \<Rightarrow> outproxy option \<Rightarrow> string \<Rightarrow> go_error + 'c" where
  "dialOutproxy garlic outproxy addr =
     (case outproxy of
        Some p \<Rightarrow>
          if IsActive (Some p) then
            (case garlic (if \<not> Contains (op_Address p) '':'' then JoinHostPort (op_Address p) ''80'' else op_Address p) of
               Inl err \<Rightarrow> Inl (Wrapf (''outproxy dial failed ('' @ op_Address p @ '')'') err)
             | Inr conn \<Rightarrow> Inr conn)
          else Inl (Errorf (''clearnet address '' @ stripPort addr @ '' cannot be reached: no outproxy configured''))
      | None \<Rightarrow> Inl (Errorf (''clearnet address '' @ stripPort addr @ '' cannot be reached: no outproxy configured'')))"

definition dialOutproxySnapshot :: "(string \<Rightarrow> go_error + 'c) \<Rightarrow> outproxy option \<Rightarrow> string \<Rightarrow> go_error + 'c" where
  "dialOutproxySnapshot garlic outproxy addr =
     (case outproxy of
        None \<Rightarrow> Inl (Errorf (''clearnet address '' @ stripPort addr @ '' cannot be reached: no outproxy configured''))
      | Some p \<Rightarrow>
          if \<not> IsActive outproxy then
            Inl (Errorf (''clearnet address '' @ stripPort addr @ '' cannot be reached: no outproxy configured''))
          else
            (case garlic (outproxy_addr p) of
               Inl err \<Rightarrow> Inl (Wrapf (''outproxy dial failed ('' @ op_Address p @ '')'') err)
             | Inr conn \<Rightarrow> Inr conn))"

section \<open>Dialing\<close>

definition resolveJumpSnapshot ::
  "(string \<Rightarrow> string) \<Rightarrow> (string \<Rightarrow> go_error option) \<Rightarrow> ('cl \<Rightarrow> string \<Rightarrow> go_error + jump_response) \<Rightarrow>
   int \<Rightarrow> int \<Rightarrow> 'cl jump_service option \<Rightarrow> string \<Rightarrow> 'cl jump_service option \<times> string" where
  "resolveJumpSnapshot ul newRequest doRequest now later jump addr =
     (case jump of
        None \<Rightarrow> (None, addr)
      | Some j \<Rightarrow>
          let hp = (case SplitHostPort addr of None \<Rightarrow> (addr, '''') | Some hp \<Rightarrow> hp);
              host = fst hp; port = snd hp
          in
            if \<not> NeedsJump ul host then (Some j, addr)
            else
              (case Lookup ul newRequest doRequest now later host j of
                 (j', Inl err) \<Rightarrow> (Some j', addr)
               | (j', Inr dest) \<Rightarrow> (Some j', if port \<noteq> '''' then JoinHostPort dest port else dest)))"

text \<open>
  \<open>DialContext\<close> and \<open>Dial\<close> differ only in the context passed on. On an error of
  \<open>SplitHostPort\<close> the host it returns is empty.
\<close>

definition dial_host :: "string \<Rightarrow> string" where
  "dial_host addr =
     (let host = (case SplitHostPort addr of None \<Rightarrow> '''' | Some (h, p) \<Rightarrow> h) in if host = '''' then addr else host)"

definition DialContext ::
  "(string \<Rightarrow> string) \<Rightarrow> (string \<Rightarrow> go_error option) \<Rightarrow> ('cl \<Rightarrow> string \<Rightarrow> go_error + jump_response) \<Rightarrow>
   (string \<Rightarrow> go_error + 'c) \<Rightarrow> int \<Rightarrow> int \<Rightarrow> outproxy option \<Rightarrow> 'cl jump_service option \<Rightarrow> string \<Rightarrow>
   'cl jump_service option \<times> (go_error + 'c)" where
  "DialContext ul newRequest doRequest garlic now later outproxy jump addr =
     (if \<not> IsI2PAddress ul (dial_host addr) then (jump, dialOutproxySnapshot garlic outproxy addr)
      else
        (case resolveJumpSnapshot ul newRequest doRequest now later jump addr of
           (jump', addr') \<Rightarrow> (jump', garlic addr')))"

section \<open>Facts about destinations\<close>

lemma space_rune_edges:
  "p \<in> set space_runes \<Longrightarrow> p \<noteq> [] \<and> \<not> isBase64Char (hd p) \<and> \<not> isBase64Char (last p)"
proof -
  have "list_all (\<lambda>p. p \<noteq> [] \<and> \<not> isBase64Char (hd p) \<and> \<not> isBase64Char (last p)) space_runes"
    by code_simp
  then show "p \<in> set space_runes \<Longrightarrow> ?thesis" by (simp add: list_all_iff)
qed

lemma TrimSpace_base64:
  assumes "list_all isBase64Char s" shows "TrimSpace s = s"
proof (cases "s = []")
  case False
  have "first_of space_runes s = None"
  proof (rule ccontr)
    assume "first_of space_runes s \<noteq> None"
    then obtain p where "p \<in> set space_runes" "p \<noteq> []" "prefix p s" by (blast dest: first_of_SomeD)
    then have "hd p \<in> set s" by (cases p) (auto simp: prefix_def)
    with space_rune_edges [OF \<open>p \<in> set space_runes\<close>] assms show False by (auto simp: list_all_iff)
  qed
  moreover have "first_of (map rev space_runes) (rev s) = None"
  proof (rule ccontr)
    assume "first_of (map rev space_runes) (rev s) \<noteq> None"
    then obtain p where "p \<in> set (map rev space_runes)" "p \<noteq> []" "prefix p (rev s)" by (blast dest: first_of_SomeD)
    then obtain q where q: "q \<in> set space_runes" "q \<noteq> []" "suffix q s"
      by (auto simp: suffix_to_prefix)
    then have "last q \<in> set s" by (auto simp: suffix_def)
    with space_rune_edges [OF q(1)] assms show False by (auto simp: list_all_iff)
  qed
  ultimately show ?thesis by (simp add: TrimSpace_def trim_left_set_id)
qed simp

text \<open>A destination in the strict sense: what the parser promises of its result.\<close>

definition valid_destination :: "string \<Rightarrow> bool" where
  "valid_destination d \<longleftrightarrow> 516 \<le> length d \<and> suffix ''AAAA'' d \<and> list_all isBase64Char d"

lemma valid_isI2PDestination: "valid_destination d \<Longrightarrow> isI2PDestination d"
  by (simp add: valid_destination_def isI2PDestination_def TrimSpace_base64 HasSuffix_def)

lemma isI2PDestination_trim: "isI2PDestination s \<Longrightarrow> valid_destination (TrimSpace s)"
  by (simp add: valid_destination_def isI2PDestination_def Let_def HasSuffix_def split: if_splits)

lemma TrimSpace_valid [simp]: "valid_destination d \<Longrightarrow> TrimSpace d = d"
  by (simp add: valid_destination_def TrimSpace_base64)

lemma not_base64_Nil [simp]: "\<not> isI2PDestination []" "\<not> valid_destination []"
  by (simp_all add: isI2PDestination_def valid_destination_def)

lemma isI2PDestination_valid: "isI2PDestination (TrimSpace s) \<Longrightarrow> valid_destination (TrimSpace s)"
  using isI2PDestination_trim [of "TrimSpace s"] by simp

lemma first_destination_valid:
  "first_destination ls \<noteq> '''' \<Longrightarrow> valid_destination (first_destination ls)"
  by (induction ls) (auto simp: Let_def isI2PDestination_valid)

lemma parseDestination_valid:
  "parseDestinationFromBody b \<noteq> '''' \<Longrightarrow> valid_destination (parseDestinationFromBody b)"
  by (auto simp: parseDestinationFromBody_def scanLinesForDestination_def Let_def isI2PDestination_valid
      dest: first_destination_valid split: option.splits if_splits)

lemma Index_char: "Index s [c] = IndexByte s c"
  by (induction s) (simp_all add: Index.simps [of "[]"] Index.simps [of "x # s" for x s])

lemma parseDestination_plain:
  "valid_destination d \<Longrightarrow> CHR ''='' \<notin> set d \<Longrightarrow> parseDestinationFromBody d = d"
  by (simp add: parseDestinationFromBody_def Let_def valid_isI2PDestination Index_char IndexByte_None [THEN iffD2])

lemma TrimSpace_edges:
  assumes "s \<noteq> []" "isBase64Char (hd s)" "isBase64Char (last s)"
  shows "TrimSpace s = s"
proof -
  have "first_of space_runes s = None"
  proof (rule ccontr)
    assume "first_of space_runes s \<noteq> None"
    then obtain p where "p \<in> set space_runes" "p \<noteq> []" "prefix p s" by (blast dest: first_of_SomeD)
    with space_rune_edges [of p] assms(2) show False by (cases p) (auto simp: prefix_def)
  qed
  moreover have "first_of (map rev space_runes) (rev s) = None"
  proof (rule ccontr)
    assume "first_of (map rev space_runes) (rev s) \<noteq> None"
    then obtain p where "p \<in> set (map rev space_runes)" "p \<noteq> []" "prefix p (rev s)" by (blast dest: first_of_SomeD)
    then obtain q where "q \<in> set space_runes" "q \<noteq> []" "suffix q s" by (auto simp: suffix_to_prefix)
    with space_rune_edges [of q] assms(3) show False by (auto simp: suffix_def)
  qed
  ultimately show ?thesis by (simp add: TrimSpace_def trim_left_set_id)
qed

lemma parseDestination_named:
  assumes d: "valid_destination d" and h: "CHR ''='' \<notin> set h" "h \<noteq> []" "isBase64Char (hd h)"
  shows "parseDestinationFromBody (h @ ''='' @ d) = d"
proof -
  have "d \<noteq> []" using d by (auto simp: valid_destination_def)
  moreover from this have "isBase64Char (last d)" using d by (simp add: valid_destination_def list_all_iff)
  ultimately
  have "TrimSpace (h @ ''='' @ d) = h @ ''='' @ d" using h by (intro TrimSpace_edges) simp_all
  moreover have "Index (h @ ''='' @ d) ''='' = Some (length h)"
    using IndexByte_append [OF h(1), of d] by (simp add: Index_char)
  ultimately show ?thesis
    using d by (simp add: parseDestinationFromBody_def Let_def valid_isI2PDestination)
qed

section \<open>The bidirectional proxy\<close>

text \<open>\<open>lib/http/bidirectional/handle.go\<close> has its own copy of the dispatch.\<close>

definition bidi_stripPort :: "string \<Rightarrow> string" where
  "bidi_stripPort addr = (case SplitHostPort addr of None \<Rightarrow> addr | Some (host, p) \<Rightarrow> host)"

definition bidi_resolveJump ::
  "(string \<Rightarrow> string) \<Rightarrow> (string \<Rightarrow> go_error option) \<Rightarrow> ('cl \<Rightarrow> string \<Rightarrow> go_error + jump_response) \<Rightarrow>
   int \<Rightarrow> int \<Rightarrow> 'cl jump_service option \<Rightarrow> string \<Rightarrow> 'cl jump_service option \<times> string" where
  "bidi_resolveJump ul newRequest doRequest now later jump addr =
     (case jump of
        None \<Rightarrow> (None, addr)
      | Some j \<Rightarrow>
          (case (case SplitHostPort addr of None \<Rightarrow> (addr, '''') | Some hp \<Rightarrow> hp) of
             (host, port) \<Rightarrow>
               if \<not> NeedsJump ul host then (Some j, addr)
               else
                 (case Lookup ul newRequest doRequest now later host j of
                    (j', Inl err) \<Rightarrow> (Some j', addr)
                  | (j', Inr dest) \<Rightarrow> if port \<noteq> '''' then (Some j', JoinHostPort dest port) else (Some j', dest))))"

definition bidi_dialOutproxy :: "(string \<Rightarrow> go_error + 'c) \<Rightarrow> outproxy option \<Rightarrow> string \<Rightarrow> go_error + 'c" where
  "bidi_dialOutproxy garlic outproxy addr =
     (case outproxy of
        None \<Rightarrow> Inl (Errorf (''clearnet address '' @ bidi_stripPort addr @ '' cannot be reached: no outproxy configured''))
      | Some p \<Rightarrow>
          if \<not> IsActive outproxy then
            Inl (Errorf (''clearnet address '' @ bidi_stripPort addr @ '' cannot be reached: no outproxy configured''))
          else
            (case garlic (if \<not> Contains (op_Address p) '':'' then JoinHostPort (op_Address p) ''80'' else op_Address p) of
               Inl err \<Rightarrow> Inl (Wrapf (''outproxy dial failed ('' @ op_Address p @ '')'') err)
             | Inr conn \<Rightarrow> Inr conn))"

definition bidi_DialContext ::
  "(string \<Rightarrow> string) \<Rightarrow> (string \<Rightarrow> go_error option) \<Rightarrow> ('cl \<Rightarrow> string \<Rightarrow> go_error + jump_response) \<Rightarrow>
   (string \<Rightarrow> go_error + 'c) \<Rightarrow> int \<Rightarrow> int \<Rightarrow> outproxy option \<Rightarrow> 'cl jump_service option \<Rightarrow> string \<Rightarrow>
   'cl jump_service option \<times> (go_error + 'c)" where
  "bidi_DialContext ul newRequest doRequest garlic now later outproxy jump addr =
     (if \<not> IsI2PAddress ul (dial_host addr) then (jump, bidi_dialOutproxy garlic outproxy addr)
      else
        (case bidi_resolveJump ul newRequest doRequest now later jump addr of
           (jump', addr') \<Rightarrow> (jump', garlic addr')))"

lemma bidi_resolveJump_eq: "bidi_resolveJump = resolveJumpSnapshot"
  by (intro ext) (auto simp: bidi_resolveJump_def resolveJumpSnapshot_def Let_def split: option.splits prod.splits sum.splits)

lemma dialOutproxy_eq: "dialOutproxy garlic op addr = dialOutproxySnapshot garlic op addr"
  by (auto simp: dialOutproxy_def dialOutproxySnapshot_def outproxy_addr_def split: option.splits)

lemma bidi_dialOutproxy_active: "IsActive op \<Longrightarrow> bidi_dialOutproxy garlic op addr = dialOutproxySnapshot garlic op addr"
  by (auto simp: bidi_dialOutproxy_def dialOutproxySnapshot_def outproxy_addr_def IsActive_def split: option.splits)

section \<open>The cache contract\<close>

text \<open>
  A cache of bounded size whose entries expire: it may forget, but it returns only what
  was put under that key, and only until it expires.
\<close>

datatype cache_op = CPut int string string | CGet int string | CClear | CSetTTL int

locale expiring_cache =
  fixes put :: "int \<Rightarrow> string \<Rightarrow> string \<Rightarrow> 's \<Rightarrow> 's" and get :: "int \<Rightarrow> string \<Rightarrow> 's \<Rightarrow> 's \<times> string option"
    and clear :: "'s \<Rightarrow> 's" and set_ttl :: "int \<Rightarrow> 's \<Rightarrow> 's" and ttl :: "'s \<Rightarrow> int"
    and look :: "'s \<Rightarrow> string \<Rightarrow> (string \<times> int) option" and size_of :: "'s \<Rightarrow> nat" and cap :: nat
    and inv :: "'s \<Rightarrow> bool"
  assumes get_look: "inv s \<Longrightarrow> snd (get t k s) =
      (case look s k of None \<Rightarrow> None | Some (v, e) \<Rightarrow> if t \<le> e then Some v else None)"
    and look_get: "inv s \<Longrightarrow> look (fst (get t k s)) k' = Some w \<Longrightarrow> look s k' = Some w"
    and look_put: "inv s \<Longrightarrow> look (put t k v s) k' = Some w \<Longrightarrow>
      look s k' = Some w \<or> k' = k \<and> 0 < ttl s \<and> w = (v, t + ttl s)"
    and look_put_same: "inv s \<Longrightarrow> 0 < ttl s \<Longrightarrow> look (put t k v s) k = Some (v, t + ttl s)"
    and look_clear: "look (clear s) k = None"
    and look_set_ttl: "look (set_ttl d s) k = look s k"
    and inv_ops: "inv s \<Longrightarrow> inv (put t k v s)" "inv s \<Longrightarrow> inv (fst (get t k s))"
      "inv s \<Longrightarrow> inv (clear s)" "inv s \<Longrightarrow> inv (set_ttl d s)"
    and inv_size: "inv s \<Longrightarrow> size_of s \<le> cap"
    and ttl_ops: "ttl (put t k v s) = ttl s" "ttl (fst (get t k s)) = ttl s" "ttl (clear s) = ttl s"
      "ttl (set_ttl d s) = d"
begin

fun apply_op :: "cache_op \<Rightarrow> 's \<Rightarrow> 's" where
  "apply_op (CPut t k v) s = put t k v s"
| "apply_op (CGet t k) s = fst (get t k s)"
| "apply_op CClear s = clear s"
| "apply_op (CSetTTL d) s = set_ttl d s"

lemma inv_run: "inv s \<Longrightarrow> inv (fold apply_op ops s)"
proof (induction ops arbitrary: s)
  case (Cons x ops)
  then show ?case by (cases x) (simp_all add: inv_ops)
qed simp

lemma size_run: "inv s \<Longrightarrow> size_of (fold apply_op ops s) \<le> cap"
  by (intro inv_size inv_run)

lemma put_then_get:
  assumes "inv s" "0 < ttl s" "t' \<le> t + ttl s"
  shows "snd (get t' k (put t k v s)) = Some v"
  using assms by (simp add: get_look inv_ops look_put_same)

lemma look_provenance:
  assumes "inv s" and "\<And>k. look s k = None"
  shows "look (fold apply_op ops s) k = Some (v, e) \<Longrightarrow>
    \<exists>pre t post. ops = pre @ CPut t k v # post \<and> 0 < ttl (fold apply_op pre s) \<and> e = t + ttl (fold apply_op pre s)"
proof (induction ops arbitrary: v e rule: rev_induct)
  case Nil
  then show ?case using assms(2) by simp
next
  case (snoc x ops)
  let ?s = "fold apply_op ops s"
  have inv: "inv ?s" using assms(1) by (rule inv_run)
  from snoc.prems have cases: "look ?s k = Some (v, e) \<or>
      (\<exists>t. x = CPut t k v \<and> 0 < ttl ?s \<and> e = t + ttl ?s)"
    by (cases x) (auto simp: look_clear look_set_ttl dest: look_put [OF inv] look_get [OF inv])
  then show ?case
  proof
    assume "look ?s k = Some (v, e)"
    from snoc.IH [OF this] obtain pre t post where "ops = pre @ CPut t k v # post" "0 < ttl (fold apply_op pre s)"
      "e = t + ttl (fold apply_op pre s)" by blast
    then show ?thesis by (intro exI [of _ pre] exI [of _ t] exI [of _ "post @ [x]"]) simp
  next
    assume "\<exists>t. x = CPut t k v \<and> 0 < ttl ?s \<and> e = t + ttl ?s"
    then show ?thesis by auto
  qed
qed

lemma get_provenance:
  assumes "inv s" and "\<And>k. look s k = None" and "snd (get now k (fold apply_op ops s)) = Some v"
  shows "\<exists>pre t post. ops = pre @ CPut t k v # post \<and> 0 < ttl (fold apply_op pre s) \<and>
    now \<le> t + ttl (fold apply_op pre s)"
proof -
  from assms(3) obtain e where "look (fold apply_op ops s) k = Some (v, e)" "now \<le> e"
    by (auto simp: get_look [OF inv_run [OF assms(1)]] split: option.splits if_splits)
  with look_provenance [OF assms(1,2)] show ?thesis by blast
qed

end

definition cache_inv :: "'cl jump_service \<Rightarrow> bool" where
  "cache_inv j \<longleftrightarrow> gm_wf (cache j) \<and> length (cache j) \<le> maxCacheEntries"

definition cache_look :: "'cl jump_service \<Rightarrow> string \<Rightarrow> (string \<times> int) option" where
  "cache_look j k = map_option (\<lambda>e. (destination e, expiresAt e)) (gm_get (cache j) k)"

lemma length_gm_set: "length (gm_set k v m) \<le> Suc (length m)"
  by (induction m) auto

lemma length_gm_del: "length (gm_del k m) \<le> length m"
  by (simp add: AList.delete_eq)

lemma cache_inv_put: "cache_inv j \<Longrightarrow> cache_inv (putCache t k v j)"
proof -
  assume j: "cache_inv j"
  show ?thesis
  proof (cases "cacheTTL j \<le> 0 \<or> length (cache j) \<ge> maxCacheEntries")
    case True
    with j show ?thesis by (auto simp: cache_inv_def putCache_def Let_def gm_wf_def maxCacheEntries_def)
  next
    case False
    with j length_gm_set [of k "\<lparr>destination = v, expiresAt = t + cacheTTL j\<rparr>" "cache j"] show ?thesis
      by (simp add: cache_inv_def putCache_def Let_def)
  qed
qed

lemma cache_inv_get: "cache_inv j \<Longrightarrow> cache_inv (fst (getCached t k j))"
  using length_gm_del [of k "cache j"]
  by (auto simp: cache_inv_def getCached_def split: option.splits)

lemma cache_inv_clear: "cache_inv (ClearCache j)"
  by (simp add: cache_inv_def ClearCache_def)

lemma cache_inv_ttl: "cache_inv j \<Longrightarrow> cache_inv (SetCacheTTL d j)"
  by (simp add: cache_inv_def SetCacheTTL_def)

lemma snd_getCached: "snd (getCached t k s) =
    (case cache_look s k of None \<Rightarrow> None | Some (v, e) \<Rightarrow> if t \<le> e then Some v else None)"
  by (auto simp: getCached_def cache_look_def split: option.splits)

lemma cacheTTL_ops:
  "cacheTTL (putCache t k v s) = cacheTTL s" "cacheTTL (fst (getCached t k s)) = cacheTTL s"
  "cacheTTL (ClearCache s) = cacheTTL s" "cacheTTL (SetCacheTTL d s) = d"
  by (auto simp: getCached_def putCache_def ClearCache_def SetCacheTTL_def Let_def split: option.splits)

lemma cache_look_ops:
  "cache_look (fst (getCached t k s)) k' = Some w \<Longrightarrow> cache_look s k' = Some w"
  "cache_look (putCache t k v s) k' = Some w \<Longrightarrow>
     cache_look s k' = Some w \<or> k' = k \<and> 0 < cacheTTL s \<and> w = (v, t + cacheTTL s)"
  "0 < cacheTTL s \<Longrightarrow> cache_look (putCache t k v s) k = Some (v, t + cacheTTL s)"
  "cache_look (ClearCache s) k = None"
  "cache_look (SetCacheTTL d s) k = cache_look s k"
  by (auto simp: cache_look_def getCached_def putCache_def ClearCache_def SetCacheTTL_def Let_def
      split: option.splits if_splits)

interpretation jump_cache: expiring_cache putCache getCached ClearCache SetCacheTTL cacheTTL cache_look
  CacheSize maxCacheEntries cache_inv
proof unfold_locales
  show "cache_inv s \<Longrightarrow> CacheSize s \<le> maxCacheEntries" for s :: "'a jump_service"
    by (simp add: cache_inv_def CacheSize_def)
qed (auto simp: snd_getCached cache_look_ops(3-) cacheTTL_ops cache_inv_put cache_inv_get cache_inv_clear
    cache_inv_ttl intro: cache_look_ops(1) dest: cache_look_ops(2))

lemma cache_inv_New: "cache_inv (NewJumpService c0 c url)"
  by (simp add: cache_inv_def NewJumpService_def)

lemma cache_inv_Lookup: "cache_inv j \<Longrightarrow> cache_inv (fst (Lookup ul nr dr now later h j))"
  using cache_inv_get [of j now "ToLower ul (stripPort h)"]
  by (auto simp: Lookup_def Let_def cache_inv_put split: prod.splits option.splits sum.splits)

section \<open>Properties\<close>

text \<open>
  C4: a clearnet address is never dialed. When the host of the address is not an I2P
  name, the only address the proxy hands to the I2P dialer is the configured outproxy's,
  port 80 added if it has none, and the jump service is not asked; without an active
  outproxy nothing is dialed at all and the call fails.
\<close>
theorem clearnet_only_via_outproxy:
  assumes "\<not> IsI2PAddress ul (dial_host addr)"
    and "\<And>p. outproxy = Some p \<Longrightarrow> IsActive outproxy \<Longrightarrow> garlic (outproxy_addr p) = garlic' (outproxy_addr p)"
  shows "DialContext ul nr dr garlic now later outproxy jump addr = DialContext ul nr' dr' garlic' now' later' outproxy jump addr \<and>
    fst (DialContext ul nr dr garlic now later outproxy jump addr) = jump \<and>
    (\<not> IsActive outproxy \<longrightarrow> isl (snd (DialContext ul nr dr garlic now later outproxy jump addr)))"
  using assms by (auto simp: DialContext_def dialOutproxySnapshot_def split: option.splits)

lemma clearnet_only_via_outproxy_witness:
  "isl (snd (DialContext (\<lambda>s. s) (\<lambda>u. None) (\<lambda>c u. Inl (Errorf ''x'')) (\<lambda>a. Inr (7::nat)) 0 0
     (Some \<lparr>op_Address = '''', op_Enabled = True\<rparr>) (None :: unit jump_service option) ''example.com:443''))"
proof -
  have "\<not> IsI2PAddress (\<lambda>s. s) (dial_host ''example.com:443'')" by code_simp
  moreover have "\<not> IsActive (Some \<lparr>op_Address = '''', op_Enabled = True\<rparr>)" by (simp add: IsActive_def)
  ultimately show ?thesis
    using clearnet_only_via_outproxy [of "\<lambda>s. s" "''example.com:443''" "Some \<lparr>op_Address = '''', op_Enabled = True\<rparr>"
        "\<lambda>a. Inr (7::nat)" "\<lambda>a. Inr (7::nat)"] by blast
qed

text \<open>
  The HTTP proxy side of the bidirectional tunnel reaches every host exactly as the
  standalone HTTP client does: same routing, same jump cache, same dialed address, same
  errors, whenever the address is an I2P address or an outproxy is active; otherwise both
  refuse (their messages differ in how they strip the port).
\<close>
theorem bidirectional_dial_equiv:
  "if IsI2PAddress ul (dial_host addr) \<or> IsActive outproxy then
     bidi_DialContext ul nr dr garlic now later outproxy jump addr = DialContext ul nr dr garlic now later outproxy jump addr
   else
     fst (bidi_DialContext ul nr dr garlic now later outproxy jump addr) = jump \<and>
     isl (snd (bidi_DialContext ul nr dr garlic now later outproxy jump addr)) \<and>
     fst (DialContext ul nr dr garlic now later outproxy jump addr) = jump \<and>
     isl (snd (DialContext ul nr dr garlic now later outproxy jump addr))"
  by (cases outproxy)
    (auto simp: bidi_DialContext_def DialContext_def bidi_resolveJump_eq bidi_dialOutproxy_def
      dialOutproxySnapshot_def outproxy_addr_def IsActive_def)

text \<open>
  After a successful lookup the jump service answers from its cache: for the next
  TTL any spelling of the host with the same lower-case form (and any port) gives the
  same destination without touching the network or the cache, and once the TTL has
  passed the service is asked again.
\<close>
theorem Lookup_cached:
  assumes inv: "cache_inv j" and ttl: "0 < cacheTTL j"
    and first: "Lookup ul nr dr now now h j = (j', Inr dest)"
    and miss: "snd (getCached now (ToLower ul (stripPort h)) j) = None"
    and same: "ToLower ul (stripPort h') = ToLower ul (stripPort h)"
  shows "if now' \<le> now + cacheTTL j then Lookup ul nr' dr' now' later' h' j' = (j', Inr dest)
    else snd (Lookup ul nr' dr' now' later' h' j') =
      (case query nr' dr' (j'\<lparr>cache := gm_del (ToLower ul (stripPort h)) (cache j')\<rparr>) (ToLower ul (stripPort h)) of
         Inl err \<Rightarrow> Inl (Wrapf (''jump service lookup failed for '' @ ToLower ul (stripPort h)) err)
       | Inr d \<Rightarrow> Inr d)"
proof -
  let ?k = "ToLower ul (stripPort h)"
  obtain j1 where g: "getCached now ?k j = (j1, None)"
    using miss by (cases "getCached now ?k j") auto
  have j1: "cacheTTL j1 = cacheTTL j" using g cacheTTL_ops(2) [of now ?k j] by simp
  have j': "j' = putCache now ?k dest j1"
    using first g by (auto simp: Lookup_def Let_def split: sum.splits)
  have look: "gm_get (cache j') ?k = Some \<lparr>destination = dest, expiresAt = now + cacheTTL j\<rparr>"
    using ttl j1 by (simp add: j' putCache_def Let_def)
  show ?thesis
    using look same by (auto simp: Lookup_def Let_def getCached_def split: sum.splits)
qed

definition example_destination :: string where
  "example_destination = replicate 512 (CHR ''x'') @ ''AAAA''"

definition example_response :: jump_response where
  "example_response = \<lparr>resp_Status = 301, resp_Location = ''http://abc.b32.i2p/x'', resp_read = (\<lambda>n. Inr [])\<rparr>"

lemma Lookup_cached_witness:
  "snd (Lookup (\<lambda>s. s) (\<lambda>u. Some (Errorf ''down'')) (\<lambda>c u. Inl (Errorf ''down'')) 3599000000000 0 ''FORUM.i2p:80''
     (fst (Lookup (\<lambda>s. s) (\<lambda>u. None) (\<lambda>c u. Inr example_response) 0 0 ''forum.i2p''
       (NewJumpService () None '''')))) = Inr ''abc.b32.i2p''"
proof -
  let ?j = "NewJumpService () None ''''"
  have l: "ToLower (\<lambda>s. s) (stripPort ''FORUM.i2p:80'') = ToLower (\<lambda>s. s) (stripPort ''forum.i2p'')" by code_simp
  have "extractHostFromURL ''http://abc.b32.i2p/x'' = ''abc.b32.i2p''" by code_simp
  then have "snd (Lookup (\<lambda>s. s) (\<lambda>u. None) (\<lambda>c u. Inr example_response) 0 0 ''forum.i2p'' ?j) = Inr ''abc.b32.i2p''"
    by (simp add: Lookup_def Let_def getCached_def NewJumpService_def query_def parseJumpResponse_def
        parseJumpRedirect_def example_response_def)
  then obtain j' where first:
    "Lookup (\<lambda>s. s) (\<lambda>u. None) (\<lambda>c u. Inr example_response) 0 0 ''forum.i2p'' ?j = (j', Inr ''abc.b32.i2p'')"
    by (metis prod.collapse)
  have "0 < cacheTTL ?j" "snd (getCached 0 (ToLower (\<lambda>s. s) (stripPort ''forum.i2p'')) ?j) = None"
    "cacheTTL ?j = 3600000000000"
    by (simp_all add: NewJumpService_def defaultCacheTTL_def getCached_def)
  with Lookup_cached [OF cache_inv_New _ first _ l, where now' = 3599000000000 and later' = 0
      and nr' = "\<lambda>u. Some (Errorf ''down'')" and dr' = "\<lambda>c u. Inl (Errorf ''down'')"] first
  show ?thesis by simp
qed

text \<open>
  C29: through every sequence of insertions, lookups, clears and TTL changes on a new
  jump service, the cache holds at most 1000 entries, and a destination it returns for a
  host was inserted for exactly that host, under a positive TTL that has not yet run out.
\<close>
theorem jump_cache_sound:
  "CacheSize (fold jump_cache.apply_op ops (NewJumpService c0 c url)) \<le> 1000 \<and>
   (\<forall>v. snd (getCached now k (fold jump_cache.apply_op ops (NewJumpService c0 c url))) = Some v \<longrightarrow>
     (\<exists>pre t post. ops = pre @ CPut t k v # post \<and>
        0 < cacheTTL (fold jump_cache.apply_op pre (NewJumpService c0 c url)) \<and>
        now \<le> t + cacheTTL (fold jump_cache.apply_op pre (NewJumpService c0 c url))))"
proof -
  let ?j = "NewJumpService c0 c url"
  have none: "cache_look ?j k = None" for k by (simp add: cache_look_def NewJumpService_def)
  show ?thesis
    using jump_cache.get_provenance [OF cache_inv_New none]
      jump_cache.size_run [OF cache_inv_New, of ops c0 c url, unfolded maxCacheEntries_def] by blast
qed

lemma jump_cache_sound_witness:
  "\<exists>pre t post. [CPut 5 ''forum.i2p'' ''d'', CGet 6 ''x.i2p''] = pre @ CPut t ''forum.i2p'' ''d'' # post \<and>
     7 \<le> t + cacheTTL (fold jump_cache.apply_op pre (NewJumpService () None ''''))"
proof -
  let ?ops = "[CPut 5 ''forum.i2p'' ''d'', CGet 6 ''x.i2p'']"
  let ?j = "NewJumpService () None ''''"
  have "snd (getCached 7 ''forum.i2p'' (fold jump_cache.apply_op ?ops ?j)) = Some ''d''"
    by (simp add: NewJumpService_def putCache_def getCached_def Let_def defaultCacheTTL_def maxCacheEntries_def)
  with jump_cache_sound [of ?ops "()" None "''''" 7 "''forum.i2p''"] show ?thesis by blast
qed

text \<open>
  C30: what the code takes for a destination out of a jump service's answer is one: a
  string of at least 516 characters, all of the I2P base64 alphabet (so no white space,
  quote, colon or line break), ending in AAAA. Conversely a bare destination, and a line
  of the form host=destination, are read back exactly when no other equals sign
  precedes the destination.
\<close>
theorem parseDestination_correct:
  "(parseDestinationFromBody body \<noteq> '''' \<longrightarrow> valid_destination (parseDestinationFromBody body)) \<and>
   (valid_destination d \<and> CHR ''='' \<notin> set d \<longrightarrow> parseDestinationFromBody d = d) \<and>
   (valid_destination d \<and> CHR ''='' \<notin> set host \<and> host \<noteq> '''' \<and> isBase64Char (hd host) \<longrightarrow>
      parseDestinationFromBody (host @ ''='' @ d) = d)"
  using parseDestination_valid parseDestination_plain parseDestination_named by blast

lemma valid_replicate: "516 \<le> n + 4 \<Longrightarrow> isBase64Char c \<Longrightarrow> valid_destination (replicate n c @ ''AAAA'')"
  by (simp add: valid_destination_def list_all_iff isBase64Char_def suffix_def)

lemma parseDestination_correct_witness:
  "parseDestinationFromBody (''forum.i2p='' @ example_destination) = example_destination"
proof -
  have "isBase64Char (CHR ''x'')" "isBase64Char (CHR ''f'')" by code_simp+
  then have "valid_destination example_destination"
    unfolding example_destination_def by (intro valid_replicate) simp_all
  with parseDestination_correct [of "[]" example_destination "''forum.i2p''"] \<open>isBase64Char (CHR ''f'')\<close>
  show ?thesis by simp
qed

end
