(* ===== verification/Bidirectional.thy ===== *)
theory Bidirectional
  imports StreamTunnels ErrorLoop HttpDial
begin

text \<open>
  The bidirectional stream tunnels: \<open>TCPBidirectional\<close>
  (\<open>lib/tcp/bidirectional/tcp_bidirectional.go\<close>, \<open>new.go\<close>) and \<open>HTTPBidirectional\<close>
  (\<open>lib/http/bidirectional/http_bidirectional.go\<close>, \<open>new.go\<close>): an accept loop that also watches
  the local proxy (SOCKS5 or HTTP). A turn of the loop is what its \<open>select\<close> takes: the
  closed \<open>done\<close> channel, the exit of the proxy, or one call of \<open>Accept\<close>. The dialing of the
  HTTP proxy is in \<open>HttpDial\<close>.
\<close>

section \<open>The shared loop\<close>

text \<open>\<open>bd_proxy\<close> is the proxy server: \<open>None\<close> before it exists, then whether it was shut down.\<close>

record bidi =
  bd_stream :: stream_tunnel
  bd_proxy :: "bool option"

abbreviation bd_base :: "bidi \<Rightarrow> tunnel_base" where
  "bd_base t \<equiv> st_base (bd_stream t)"

datatype 'c accept_turn = BDone | BProxyExit "go_error option" | BAccept "go_error + 'c" bool

text \<open>The base, the counter of consecutive errors, and the connections dispatched.\<close>

type_synonym 'c bidi_state = "tunnel_base \<times> int \<times> 'c list"

definition acceptOne :: "go_error + 'c \<Rightarrow> bool \<Rightarrow> 'c bidi_state \<Rightarrow> 'c bidi_state \<times> bool \<times> go_error option" where
  "acceptOne acc is_done s =
     (case s of (b, n, cs) \<Rightarrow>
        (case acc of
           Inl err \<Rightarrow>
             (case HandleAcceptError err n maxConsecutiveErrors is_done b of
                (b', n', cont, fatal) \<Rightarrow> ((b', n', cs), cont, fatal))
         | Inr con \<Rightarrow> ((b, 0, cs @ [con]), True, None)))"

definition accept_turn_step ::
  "(go_error option \<Rightarrow> tunnel_base \<Rightarrow> tunnel_base \<times> go_error option) \<Rightarrow> 'c accept_turn \<Rightarrow> 'c bidi_state \<Rightarrow>
   'c bidi_state \<times> bool \<times> go_error option" where
  "accept_turn_step onExit turn s =
     (case turn of
        BDone \<Rightarrow> (s, False, None)
      | BProxyExit err \<Rightarrow>
          (case s of (b, n, cs) \<Rightarrow> (case onExit err b of (b', ret) \<Rightarrow> ((b', n, cs), False, ret)))
      | BAccept acc is_done \<Rightarrow> acceptOne acc is_done s)"

definition runBidirectionalAcceptLoop ::
  "(go_error option \<Rightarrow> tunnel_base \<Rightarrow> tunnel_base \<times> go_error option) \<Rightarrow> 'c accept_turn list \<Rightarrow> tunnel_base \<Rightarrow>
   'c bidi_state \<times> go_error option option" where
  "runBidirectionalAcceptLoop onExit ts b = run_loop (accept_turn_step onExit) ts (b, 0, [])"

definition bidi_Stop :: "bidi \<Rightarrow> bidi" where
  "bidi_Stop t =
     (if st_once (bd_stream t) then t
      else t\<lparr>bd_stream := stream_Stop (bd_stream t), bd_proxy := map_option (\<lambda>_. True) (bd_proxy t)\<rparr>)"

text \<open>
  The body of both \<open>Start\<close> functions: \<open>proxy\<close> is the error of creating (and binding) the
  proxy, with the text that the code puts before it.
\<close>

definition bidi_close_listener :: "bidi \<Rightarrow> bidi" where
  "bidi_close_listener t =
     t\<lparr>bd_stream := (bd_stream t)\<lparr>st_listener := map_option (\<lambda>_. False) (st_listener (bd_stream t))\<rparr>\<rparr>"

definition bidi_Start ::
  "go_error option \<Rightarrow> go_error option \<Rightarrow> (go_error option \<Rightarrow> tunnel_base \<Rightarrow> tunnel_base \<times> go_error option) \<Rightarrow>
   64 word \<Rightarrow> 'c accept_turn list \<Rightarrow> bidi \<Rightarrow> bidi \<times> 'c list \<times> go_error option option" where
  "bidi_Start listen proxy onExit now ts t =
     (case stream_bind listen (bd_stream t) of
        (s1, Some err) \<Rightarrow> (t\<lparr>bd_stream := s1\<rparr>, [], Some (Some (Wrapf ''failed to start I2P listener'' err)))
      | (s1, None) \<Rightarrow>
          (let t1 = t\<lparr>bd_stream := s1\<rparr> in
           case proxy of
             Some err \<Rightarrow> (bidi_close_listener (bidi_Stop t1), [], Some (Some err))
           | None \<Rightarrow>
               (let b2 = upd_metrics (RecordStart now) (SetStatus StatusRunning (st_base s1));
                    t2 = t1\<lparr>bd_proxy := Some False, bd_stream := s1\<lparr>st_base := b2\<rparr>\<rparr>
                in case runBidirectionalAcceptLoop onExit ts b2 of
                     ((b, n, cs), None) \<Rightarrow> (t2\<lparr>bd_stream := (bd_stream t2)\<lparr>st_base := b\<rparr>\<rparr>, cs, None)
                   | ((b, n, cs), Some r) \<Rightarrow>
                       (bidi_close_listener (bidi_Stop (t2\<lparr>bd_stream := (bd_stream t2)\<lparr>st_base := b\<rparr>\<rparr>)), cs, Some r))))"

section \<open>TCPBidirectional\<close>

definition NewTCPBidirectional ::
  "float_lib \<Rightarrow> (tunnel_config \<Rightarrow> go_error + garlic) \<Rightarrow> tcp_resolver \<Rightarrow> tunnel_config \<Rightarrow> go_error + bidi" where
  "NewTCPBidirectional fl newGarlic resolve config =
     rbind (stream_new fl newGarlic (tcp_addr resolve)
             (\<lambda>target err. Wrapf (''invalid target address '' @ Quote target) err) config)
       (\<lambda>s. Inr \<lparr>bd_stream = s, bd_proxy = None\<rparr>)"

definition handleSocksError :: "go_error option \<Rightarrow> tunnel_base \<Rightarrow> tunnel_base \<times> go_error option" where
  "handleSocksError err b =
     (case err of None \<Rightarrow> (b, None) | Some e \<Rightarrow> (SetStatus StatusFailed (RecordError e b), Some e))"

definition TCPBidirectional_startSOCKS5Proxy :: "go_error option \<Rightarrow> go_error option" where
  "TCPBidirectional_startSOCKS5Proxy newSocks = map_option (Wrapf ''failed to create SOCKS5 server'') newSocks"

definition TCPBidirectional_Start ::
  "go_error option \<Rightarrow> (string \<Rightarrow> go_error option) \<Rightarrow> 64 word \<Rightarrow> 'c accept_turn list \<Rightarrow> bidi \<Rightarrow>
   bidi \<times> 'c list \<times> go_error option option" where
  "TCPBidirectional_Start listen newSocks now ts t =
     bidi_Start listen (TCPBidirectional_startSOCKS5Proxy (newSocks (stream_LocalAddress (bd_stream t))))
       handleSocksError now ts t"

definition TCPBidirectional_handleServerConnection ::
  "go_error option \<Rightarrow> go_error option \<Rightarrow> conn_io list \<Rightarrow> tunnel_base \<Rightarrow> tunnel_base" where
  "TCPBidirectional_handleServerConnection filt dial io b = stream_handleConnection filt dial io b"

definition TCPBidirectional_Stop :: "bidi \<Rightarrow> bidi" where
  "TCPBidirectional_Stop t = bidi_Stop t"

definition TCPBidirectional_Options :: "float_lib \<Rightarrow> bidi \<Rightarrow> options" where
  "TCPBidirectional_Options fl t = stream_Options fl (bd_stream t)"

definition TCPBidirectional_SetOptions ::
  "float_lib \<Rightarrow> tcp_resolver \<Rightarrow> options \<Rightarrow> bidi \<Rightarrow> bidi \<times> go_error option" where
  "TCPBidirectional_SetOptions fl resolve opts t =
     (case stream_SetOptions fl (NetworkAddress (tcp_port resolve)) (tcp_target resolve) opts (bd_stream t) of
        (s, err) \<Rightarrow> (t\<lparr>bd_stream := s\<rparr>, err))"

definition TCPBidirectional_LoadConfig ::
  "(string \<Rightarrow> go_error + tunnel_config) \<Rightarrow> tcp_resolver \<Rightarrow> string \<Rightarrow> bidi \<Rightarrow> bidi \<times> go_error option" where
  "TCPBidirectional_LoadConfig parse resolve path t =
     (case stream_LoadConfig parse ''tcpbidirectional'' (tcp_addr resolve) path (bd_stream t) of
        (s, err) \<Rightarrow> (t\<lparr>bd_stream := s\<rparr>, err))"

section \<open>HTTPBidirectional\<close>

text \<open>\<open>hb_jump\<close> and \<open>hb_outproxy\<close> are the \<open>Jump\<close> and \<open>Outproxy\<close> pointers.\<close>

record 'cl http_bidi =
  hb_bidi :: bidi
  hb_jump :: "'cl jump_service option"
  hb_outproxy :: "outproxy option"

definition NewHTTPBidirectional ::
  "float_lib \<Rightarrow> (tunnel_config \<Rightarrow> go_error + garlic) \<Rightarrow> tcp_resolver \<Rightarrow> 'cl \<Rightarrow> 'cl \<Rightarrow> tunnel_config \<Rightarrow> go_error + 'cl http_bidi" where
  "NewHTTPBidirectional fl newGarlic resolve defaultClient jumpClient config =
     rbind (stream_new fl newGarlic (tcp_addr resolve)
             (\<lambda>target err. Wrapf (''invalid target address '' @ Quote target) err) config)
       (\<lambda>s. Inr \<lparr>hb_bidi = \<lparr>bd_stream = s, bd_proxy = None\<rparr>,
                 hb_jump = Some (NewJumpService defaultClient (Some jumpClient) DefaultJumpServiceURL), hb_outproxy = Some \<lparr>op_Address = '''', op_Enabled = False\<rparr>\<rparr>)"

definition handleProxyError :: "go_error option \<Rightarrow> tunnel_base \<Rightarrow> tunnel_base \<times> go_error option" where
  "handleProxyError err b =
     (case err of
        None \<Rightarrow> (b, None)
      | Some e \<Rightarrow> (if e \<noteq> ErrServerClosed then SetStatus StatusFailed (RecordError e b) else b, Some e))"

definition startHTTPProxy :: "(string \<Rightarrow> go_error option) \<Rightarrow> stream_tunnel \<Rightarrow> go_error option" where
  "startHTTPProxy listen s =
     (let proxyAddr = stream_LocalAddress s in
      map_option (Wrapf (''failed to listen on '' @ proxyAddr)) (listen proxyAddr))"

definition HTTPBidirectional_Start ::
  "go_error option \<Rightarrow> (string \<Rightarrow> go_error option) \<Rightarrow> 64 word \<Rightarrow> 'c accept_turn list \<Rightarrow> 'cl http_bidi \<Rightarrow>
   'cl http_bidi \<times> 'c list \<times> go_error option option" where
  "HTTPBidirectional_Start listenI2P listen now ts t =
     (case bidi_Start listenI2P (startHTTPProxy listen (bd_stream (hb_bidi t))) handleProxyError now ts (hb_bidi t) of
        (d, cs, r) \<Rightarrow> (t\<lparr>hb_bidi := d\<rparr>, cs, r))"

definition HTTPBidirectional_handleServerConnection :: "go_error option \<Rightarrow> conn_io list \<Rightarrow> tunnel_base \<Rightarrow> tunnel_base" where
  "HTTPBidirectional_handleServerConnection dial io b = stream_handleConnection None dial io b"

definition HTTPBidirectional_Stop :: "'cl http_bidi \<Rightarrow> 'cl http_bidi" where
  "HTTPBidirectional_Stop t = t\<lparr>hb_bidi := bidi_Stop (hb_bidi t)\<rparr>"

definition HTTPBidirectional_Options :: "float_lib \<Rightarrow> 'cl http_bidi \<Rightarrow> options" where
  "HTTPBidirectional_Options fl t =
     (let opts = stream_Options fl (bd_stream (hb_bidi t)) in
      case hb_outproxy t of
        None \<Rightarrow> opts
      | Some p \<Rightarrow>
          gm_set ''outproxy.enabled'' (if op_Enabled p then ''true'' else ''false'')
            (gm_set ''outproxy'' (op_Address p) opts))"

definition or_empty_outproxy :: "outproxy option \<Rightarrow> outproxy" where
  "or_empty_outproxy p = (case p of None \<Rightarrow> \<lparr>op_Address = '''', op_Enabled = False\<rparr> | Some q \<Rightarrow> q)"

definition applyOutproxyOpts :: "options \<Rightarrow> outproxy option \<Rightarrow> outproxy option" where
  "applyOutproxyOpts opts p =
     (let p1 = (case gm_get opts ''outproxy'' of
                  None \<Rightarrow> p
                | Some a \<Rightarrow> Some ((or_empty_outproxy p)\<lparr>op_Address := a\<rparr>))
      in case gm_get opts ''outproxy.enabled'' of
           None \<Rightarrow> p1
         | Some e \<Rightarrow> Some ((or_empty_outproxy p1)\<lparr>op_Enabled := (e = ''true'' \<or> e = ''1'')\<rparr>))"

definition HTTPBidirectional_SetOptions ::
  "float_lib \<Rightarrow> tcp_resolver \<Rightarrow> options \<Rightarrow> 'cl http_bidi \<Rightarrow> 'cl http_bidi \<times> go_error option" where
  "HTTPBidirectional_SetOptions fl resolve opts t =
     (case stream_SetOptions fl (NetworkAddress (tcp_port resolve)) (tcp_target resolve) opts (bd_stream (hb_bidi t)) of
        (s, Some err) \<Rightarrow> (t\<lparr>hb_bidi := (hb_bidi t)\<lparr>bd_stream := s\<rparr>\<rparr>, Some err)
      | (s, None) \<Rightarrow>
          (t\<lparr>hb_bidi := (hb_bidi t)\<lparr>bd_stream := s\<rparr>, hb_outproxy := applyOutproxyOpts opts (hb_outproxy t)\<rparr>, None))"

definition HTTPBidirectional_LoadConfig ::
  "(string \<Rightarrow> go_error + tunnel_config) \<Rightarrow> tcp_resolver \<Rightarrow> string \<Rightarrow> 'cl http_bidi \<Rightarrow> 'cl http_bidi \<times> go_error option" where
  "HTTPBidirectional_LoadConfig parse resolve path t =
     (case stream_LoadConfig parse ''httpbidirectional'' (tcp_addr resolve) path (bd_stream (hb_bidi t)) of
        (s, err) \<Rightarrow> (t\<lparr>hb_bidi := (hb_bidi t)\<lparr>bd_stream := s\<rparr>\<rparr>, err))"

section \<open>Lemmas\<close>

fun accept_failed :: "'c accept_turn \<Rightarrow> bool" where
  "accept_failed (BAccept (Inl err) d) \<longleftrightarrow> \<not> is_limit_error err"
| "accept_failed _ \<longleftrightarrow> False"

fun accept_worked :: "'c accept_turn \<Rightarrow> bool" where
  "accept_worked (BAccept (Inr c) d) \<longleftrightarrow> True"
| "accept_worked _ \<longleftrightarrow> False"

fun proxy_failed :: "'c accept_turn \<Rightarrow> bool" where
  "proxy_failed (BProxyExit err) \<longleftrightarrow> err \<noteq> None"
| "proxy_failed _ \<longleftrightarrow> False"

definition bidi_count :: "'c bidi_state \<Rightarrow> int" where
  "bidi_count s = fst (snd s)"

lemma acceptOne_cont:
  "acceptOne acc d s = (s', True, x) \<Longrightarrow>
     bidi_count s' = (if accept_failed (BAccept acc d) then bidi_count s + 1
                      else if accept_worked (BAccept acc d) then 0 else bidi_count s) \<and>
     (accept_failed (BAccept acc d) \<longrightarrow> bidi_count s + 1 < maxConsecutiveErrors)"
  by (cases acc) (auto simp: acceptOne_def HandleAcceptError_def handleRateLimitError_def handleConsecutiveError_def
      bidi_count_def Let_def split: prod.splits if_splits)

lemma acceptOne_fatal:
  "acceptOne acc d s = (s', False, Some e) \<Longrightarrow>
     accept_failed (BAccept acc d) \<and> bidi_count s' = bidi_count s + 1 \<and> maxConsecutiveErrors \<le> bidi_count s'"
  by (cases acc) (auto simp: acceptOne_def HandleAcceptError_def handleRateLimitError_def handleConsecutiveError_def
      bidi_count_def Let_def split: prod.splits if_splits)

lemma onExit_result: "snd (handleSocksError err b) = err" "snd (handleProxyError err b) = err"
  by (simp_all add: handleSocksError_def handleProxyError_def split: option.splits)

lemma accept_turn_budget:
  assumes "\<And>err b. snd (onExit err b) = err"
  shows "error_budget (accept_turn_step onExit) bidi_count accept_failed accept_worked proxy_failed maxConsecutiveErrors"
proof
  fix t :: "'c accept_turn" and s s' x e
  show "accept_turn_step onExit t s = (s', True, x) \<Longrightarrow>
      bidi_count s' = (if accept_failed t then bidi_count s + 1 else if accept_worked t then 0 else bidi_count s)"
    by (cases t) (auto simp: accept_turn_step_def dest: acceptOne_cont split: prod.splits)
  show "accept_turn_step onExit t s = (s', True, x) \<Longrightarrow> accept_failed t \<Longrightarrow> bidi_count s + 1 < maxConsecutiveErrors"
    by (cases t) (auto simp: accept_turn_step_def dest: acceptOne_cont split: prod.splits)
  show "proxy_failed t \<or> accept_failed t \<and> bidi_count s' = bidi_count s + 1 \<and> maxConsecutiveErrors \<le> bidi_count s'"
    if r: "accept_turn_step onExit t s = (s', False, Some e)"
  proof (cases t)
    case (BProxyExit err)
    with r assms [of err "fst s"] show ?thesis by (auto simp: accept_turn_step_def split: prod.splits)
  next
    case (BAccept acc d)
    with r acceptOne_fatal [of acc d s s' e] show ?thesis by (simp add: accept_turn_step_def)
  qed (use r in \<open>simp add: accept_turn_step_def\<close>)
qed (simp add: maxConsecutiveErrors_def)

interpretation tcp_bidi_loop: error_budget "accept_turn_step handleSocksError" bidi_count accept_failed accept_worked proxy_failed
    maxConsecutiveErrors
  by (rule accept_turn_budget) (rule onExit_result)

interpretation http_bidi_loop: error_budget "accept_turn_step handleProxyError" bidi_count accept_failed accept_worked proxy_failed
    maxConsecutiveErrors
  by (rule accept_turn_budget) (rule onExit_result)

definition bidi_released :: "bidi \<Rightarrow> bool" where
  "bidi_released t \<longleftrightarrow> stream_released (bd_stream t) \<and> bd_proxy t \<noteq> Some False"

interpretation bidi_stopping: stoppable bidi_Stop "\<lambda>t. tb_Status (bd_base t)" "\<lambda>t. st_once (bd_stream t)" bidi_released
  by unfold_locales (auto simp: bidi_Stop_def bidi_released_def)

lemma close_listener_simps [simp]:
  "bd_base (bidi_close_listener t) = bd_base t" "st_once (bd_stream (bidi_close_listener t)) = st_once (bd_stream t)"
  "bidi_released t \<Longrightarrow> bidi_released (bidi_close_listener t)"
  by (auto simp: bidi_close_listener_def bidi_released_def stream_released_def)

lemma bidi_Stop_errors [simp]: "tb_Errors (bd_base (bidi_Stop t)) = tb_Errors (bd_base t)"
  by (simp add: bidi_Stop_def)

text \<open>How \<open>Start\<close> ends once the I2P listener is open, and where its error comes from.\<close>

definition bidi_ended :: "(go_error option \<Rightarrow> tunnel_base \<Rightarrow> tunnel_base \<times> go_error option) \<Rightarrow> go_error option \<Rightarrow>
    'c accept_turn list \<Rightarrow> bidi \<Rightarrow> go_error option \<Rightarrow> bool" where
  "bidi_ended onExit proxy ts t r \<longleftrightarrow>
     tb_Status (bd_base t) = StatusStopped \<and> st_once (bd_stream t) \<and> bidi_released t \<and>
     (r = None \<or> proxy = r \<or> (\<exists>pre u post. ts = pre @ u # post \<and>
        (proxy_failed u \<or> accept_failed u \<and> 10 \<le> errors_since accept_failed accept_worked (pre @ [u]))))"

lemma bidi_Start_ended:
  assumes fatal: "\<And>s s' e. run_loop (accept_turn_step onExit) ts s = (s', Some (Some e)) \<Longrightarrow> bidi_count s = 0 \<Longrightarrow>
      \<exists>pre u post. ts = pre @ u # post \<and>
        (proxy_failed u \<or> accept_failed u \<and> maxConsecutiveErrors \<le> int (errors_since accept_failed accept_worked (pre @ [u])))"
    and run: "bidi_Start None proxy onExit now ts t = (t', cs, Some r)"
  shows "bidi_ended onExit proxy ts t' r"
proof -
  obtain s1 where s1: "stream_bind None (bd_stream t) = (s1, None)" by (simp add: stream_bind_def Let_def)
  from stream_bind_ok [OF s1] have once: "\<not> st_once s1" by blast
  show ?thesis
  proof (cases proxy)
    case (Some err)
    let ?t1 = "t\<lparr>bd_stream := s1\<rparr>"
    from Some run s1 have t': "t' = bidi_close_listener (bidi_Stop ?t1)" "r = Some err"
      by (auto simp: bidi_Start_def Let_def)
    have "\<not> st_once (bd_stream ?t1)" using once by simp
    then have "bidi_released (bidi_Stop ?t1)" "tb_Status (bd_base (bidi_Stop ?t1)) = StatusStopped"
      by (rule bidi_stopping.stop_releases bidi_stopping.stop_stat)+
    with Some bidi_stopping.stop_stops show ?thesis by (simp add: bidi_ended_def t')
  next
    case None
    let ?b2 = "upd_metrics (RecordStart now) (SetStatus StatusRunning (st_base s1))"
    obtain b n cs' r' where loop: "runBidirectionalAcceptLoop onExit ts ?b2 = ((b, n, cs'), r')" by (metis surj_pair)
    with None run s1 have r': "r' = Some r" by (cases r') (auto simp: bidi_Start_def Let_def)
    have cause: "\<exists>pre u post. ts = pre @ u # post \<and>
        (proxy_failed u \<or> accept_failed u \<and> 10 \<le> errors_since accept_failed accept_worked (pre @ [u]))" if "r = Some e" for e
    proof -
      have "run_loop (accept_turn_step onExit) ts (?b2, 0, []) = ((b, n, cs'), Some (Some e))"
        using loop r' that by (simp add: runBidirectionalAcceptLoop_def)
      from fatal [OF this] show ?thesis by (simp add: bidi_count_def maxConsecutiveErrors_def)
    qed
    let ?t3 = "t\<lparr>bd_proxy := Some False, bd_stream := s1\<lparr>st_base := b\<rparr>\<rparr>"
    from None run s1 loop r' have t': "t' = bidi_close_listener (bidi_Stop ?t3)"
      by (auto simp: bidi_Start_def Let_def)
    have "\<not> st_once (bd_stream ?t3)" using once by simp
    then have "bidi_released (bidi_Stop ?t3)" "tb_Status (bd_base (bidi_Stop ?t3)) = StatusStopped"
      by (rule bidi_stopping.stop_releases bidi_stopping.stop_stat)+
    with cause bidi_stopping.stop_stops show ?thesis
      by (cases r) (simp_all add: bidi_ended_def t')
  qed
qed

section \<open>Properties\<close>

text \<open>
  \<open>Start\<close> of both bidirectional tunnels: once the I2P listener is open, whatever makes
  it return leaves the tunnel stopped with listener, session and proxy shut down; and an
  error is returned only because the proxy could not be created, because the proxy exited
  with an error, or after ten consecutive accept errors. A listener that cannot be opened
  leaves the tunnel starting.
\<close>
theorem bidirectional_Start_returned:
  "(TCPBidirectional_Start None newSocks now ts t = (t1, cs1, Some r1) \<longrightarrow>
      bidi_ended handleSocksError (TCPBidirectional_startSOCKS5Proxy (newSocks (stream_LocalAddress (bd_stream t)))) ts t1 r1) \<and>
   (HTTPBidirectional_Start None listen now us h = (h2, cs2, Some r2) \<longrightarrow>
      bidi_ended handleProxyError (startHTTPProxy listen (bd_stream (hb_bidi h))) us (hb_bidi h2) r2) \<and>
   (TCPBidirectional_Start (Some err) newSocks now ts t = (t3, cs3, r3) \<longrightarrow>
      tb_Status (bd_base t3) = StatusStarting \<and> r3 \<noteq> Some None \<and> r3 \<noteq> None)"
proof (intro conjI impI)
  assume "TCPBidirectional_Start None newSocks now ts t = (t1, cs1, Some r1)"
  then show "bidi_ended handleSocksError (TCPBidirectional_startSOCKS5Proxy (newSocks (stream_LocalAddress (bd_stream t)))) ts t1 r1"
    unfolding TCPBidirectional_Start_def
    by (rule bidi_Start_ended [rotated]) (erule (1) tcp_bidi_loop.fatal_only_after_errors)
next
  assume "HTTPBidirectional_Start None listen now us h = (h2, cs2, Some r2)"
  then obtain d where "bidi_Start None (startHTTPProxy listen (bd_stream (hb_bidi h))) handleProxyError now us (hb_bidi h) = (d, cs2, Some r2)"
    and h2: "hb_bidi h2 = d"
    by (auto simp: HTTPBidirectional_Start_def split: prod.splits)
  from this(1) show "bidi_ended handleProxyError (startHTTPProxy listen (bd_stream (hb_bidi h))) us (hb_bidi h2) r2"
    unfolding h2 by (rule bidi_Start_ended [rotated]) (erule (1) http_bidi_loop.fatal_only_after_errors)
qed (auto simp: TCPBidirectional_Start_def bidi_Start_def stream_bind_def Let_def)

definition example_bidi :: bidi where
  "example_bidi = \<lparr>bd_stream = example_stream, bd_proxy = None\<rparr>"

lemma bidirectional_Start_returned_witness:
  "\<exists>t1. TCPBidirectional_Start None (\<lambda>a. None) 5 [BAccept (Inr (7::nat)) False, BProxyExit (Some (External ''bind''))] example_bidi =
       (t1, [7], Some (Some (External ''bind''))) \<and> tb_Status (bd_base t1) = StatusStopped \<and> bd_proxy t1 = Some True"
proof -
  let ?ts = "[BAccept (Inr (7::nat)) False, BProxyExit (Some (External ''bind''))]"
  have "\<exists>t1. TCPBidirectional_Start None (\<lambda>a. None) 5 ?ts example_bidi = (t1, [7], Some (Some (External ''bind''))) \<and>
      bd_proxy t1 \<noteq> None"
    by (simp add: TCPBidirectional_Start_def TCPBidirectional_startSOCKS5Proxy_def bidi_Start_def stream_bind_def Let_def
        runBidirectionalAcceptLoop_def accept_turn_step_def acceptOne_def handleSocksError_def bidi_close_listener_def bidi_Stop_def) auto
  then obtain t1 where run: "TCPBidirectional_Start None (\<lambda>a. None) 5 ?ts example_bidi = (t1, [7], Some (Some (External ''bind'')))"
    and p: "bd_proxy t1 \<noteq> None" by blast
  have "bidi_ended handleSocksError (TCPBidirectional_startSOCKS5Proxy None) ?ts t1 (Some (External ''bind''))"
    by (rule mp [OF conjunct1 [OF bidirectional_Start_returned] run])
  with run p show ?thesis by (auto simp: bidi_ended_def bidi_released_def)
qed

text \<open>
  A clean stop of the HTTP bidirectional tunnel can be reported as an error: when the
  accept loop sees the exit of the proxy that \<open>Stop\<close> has shut down before it sees the
  closed \<open>done\<close> channel, \<open>Start\<close> returns \<open>http.ErrServerClosed\<close>, although nothing failed,
  no error is recorded and the tunnel is stopped.
\<close>
theorem http_bidi_clean_stop_error:
  assumes "listen (stream_LocalAddress (bd_stream (hb_bidi h))) = None"
  shows "\<exists>h'. HTTPBidirectional_Start None listen now (map (\<lambda>c. BAccept (Inr c) False) cs @ [BProxyExit (Some ErrServerClosed)]) h =
      (h', cs, Some (Some ErrServerClosed)) \<and>
    tb_Status (bd_base (hb_bidi h')) = StatusStopped \<and> tb_Errors (bd_base (hb_bidi h')) = tb_Errors (bd_base (hb_bidi h))"
proof -
  have loop: "run_loop (accept_turn_step handleProxyError) (map (\<lambda>c. BAccept (Inr c) False) cs @ [BProxyExit (Some ErrServerClosed)]) (b, n, ds) =
      ((b, if cs = [] then n else 0, ds @ cs), Some (Some ErrServerClosed))" for b n ds
    by (induction cs arbitrary: n ds) (auto simp: accept_turn_step_def acceptOne_def handleProxyError_def)
  obtain s1 where s1: "stream_bind None (bd_stream (hb_bidi h)) = (s1, None)" "\<not> st_once s1"
    "tb_Errors (st_base s1) = tb_Errors (bd_base (hb_bidi h))"
    by (simp add: stream_bind_def Let_def)
  with assms show ?thesis
    by (simp add: HTTPBidirectional_Start_def bidi_Start_def startHTTPProxy_def Let_def runBidirectionalAcceptLoop_def loop
        bidi_Stop_def)
qed

definition example_http_bidi :: "nat http_bidi" where
  "example_http_bidi = \<lparr>hb_bidi = example_bidi, hb_jump = None, hb_outproxy = None\<rparr>"

lemma http_bidi_clean_stop_error_witness:
  "\<exists>h'. HTTPBidirectional_Start None (\<lambda>a. None) 5 (map (\<lambda>c. BAccept (Inr c) False) [7::nat] @ [BProxyExit (Some ErrServerClosed)])
       example_http_bidi = (h', [7], Some (Some ErrServerClosed)) \<and> tb_Errors (bd_base (hb_bidi h')) = []"
proof -
  have "tb_Errors (bd_base (hb_bidi example_http_bidi)) = []"
    by (simp add: example_http_bidi_def example_bidi_def example_stream_def example_base_def)
  with http_bidi_clean_stop_error [of "\<lambda>a. None" example_http_bidi 5 "[7::nat]"] show ?thesis by metis
qed

end
