(* ===== verification/SocksHandlers.thy ===== *)
theory SocksHandlers
  imports Bidirectional
begin

text \<open>
  The SOCKS5 request handlers of the bidirectional tunnels
  (\<open>lib/tcp/bidirectional/handle.go\<close>, \<open>lib/udp/bidirectional/handle.go\<close>). A handler is the
  list of calls it makes on connections, in order, deferred closes included, with the error
  it returns. The results of dialing, of the lookup, of the write and of forwarding are
  arguments.
\<close>

datatype net_call =
    DialI2P string string
  | CloseI2P
  | WriteTo string string
  | DialLocal string
  | CloseLocal
  | ForwardStream
  | ForwardPackets

text \<open>The dialer gets the network and the address.\<close>

type_synonym socks_dialer = "string \<Rightarrow> string \<Rightarrow> go_error option"

definition tcp_TCPHandle :: "socks_dialer \<Rightarrow> go_error option \<Rightarrow> string \<Rightarrow> net_call list \<times> go_error option" where
  "tcp_TCPHandle dial forward addr =
     (case dial ''tcp'' addr of
        Some err \<Rightarrow> ([DialI2P ''tcp'' addr], Some err)
      | None \<Rightarrow> ([DialI2P ''tcp'' addr, ForwardStream, CloseI2P], forward))"

definition tcp_UDPHandle ::
  "socks_dialer \<Rightarrow> i2p_lookup \<Rightarrow> (string \<Rightarrow> string \<Rightarrow> go_error option) \<Rightarrow> (string \<Rightarrow> go_error option) \<Rightarrow> go_error option \<Rightarrow>
   string \<Rightarrow> string \<Rightarrow> string \<Rightarrow> net_call list \<times> go_error option" where
  "tcp_UDPHandle dial lookup writeTo dialUDP forward addr data_addr data =
     (case dial ''udp'' data_addr of
        Some err \<Rightarrow> ([DialI2P ''udp'' data_addr], Some err)
      | None \<Rightarrow>
          (case lookup data_addr of
             Inl err \<Rightarrow>
               ([DialI2P ''udp'' data_addr, CloseI2P], Some (Wrapf ''failed to lookup remote address'' err))
           | Inr remoteAddr \<Rightarrow>
               (case writeTo data remoteAddr of
                  Some err \<Rightarrow>
                    ([DialI2P ''udp'' data_addr, WriteTo data remoteAddr, CloseI2P],
                     Some (Wrapf ''failed to write initial datagram'' err))
                | None \<Rightarrow>
                    (case dialUDP addr of
                       Some err \<Rightarrow>
                         ([DialI2P ''udp'' data_addr, WriteTo data remoteAddr, DialLocal addr, CloseI2P], Some err)
                     | None \<Rightarrow>
                         ([DialI2P ''udp'' data_addr, WriteTo data remoteAddr, DialLocal addr, ForwardPackets, CloseLocal, CloseI2P],
                          forward)))))"

text \<open>The handlers of the UDP tunnel have the same code over their own struct.\<close>

definition udp_TCPHandle :: "socks_dialer \<Rightarrow> go_error option \<Rightarrow> string \<Rightarrow> net_call list \<times> go_error option" where
  "udp_TCPHandle dial forward addr =
     (case dial ''tcp'' addr of
        Some err \<Rightarrow> ([DialI2P ''tcp'' addr], Some err)
      | None \<Rightarrow> ([DialI2P ''tcp'' addr, ForwardStream, CloseI2P], forward))"

definition udp_UDPHandle ::
  "socks_dialer \<Rightarrow> i2p_lookup \<Rightarrow> (string \<Rightarrow> string \<Rightarrow> go_error option) \<Rightarrow> (string \<Rightarrow> go_error option) \<Rightarrow> go_error option \<Rightarrow>
   string \<Rightarrow> string \<Rightarrow> string \<Rightarrow> net_call list \<times> go_error option" where
  "udp_UDPHandle dial lookup writeTo dialUDP forward addr data_addr data =
     (case dial ''udp'' data_addr of
        Some err \<Rightarrow> ([DialI2P ''udp'' data_addr], Some err)
      | None \<Rightarrow>
          (case lookup data_addr of
             Inl err \<Rightarrow>
               ([DialI2P ''udp'' data_addr, CloseI2P], Some (Wrapf ''failed to lookup remote address'' err))
           | Inr remoteAddr \<Rightarrow>
               (case writeTo data remoteAddr of
                  Some err \<Rightarrow>
                    ([DialI2P ''udp'' data_addr, WriteTo data remoteAddr, CloseI2P],
                     Some (Wrapf ''failed to write initial datagram'' err))
                | None \<Rightarrow>
                    (case dialUDP addr of
                       Some err \<Rightarrow>
                         ([DialI2P ''udp'' data_addr, WriteTo data remoteAddr, DialLocal addr, CloseI2P], Some err)
                     | None \<Rightarrow>
                         ([DialI2P ''udp'' data_addr, WriteTo data remoteAddr, DialLocal addr, ForwardPackets, CloseLocal, CloseI2P],
                          forward)))))"

section \<open>Connections left open\<close>

text \<open>The dials of a call list that have succeeded and were not closed, as a pair of counters; \<open>None\<close> if a close or a use comes without one.\<close>

fun open_after :: "socks_dialer \<Rightarrow> (string \<Rightarrow> go_error option) \<Rightarrow> net_call list \<Rightarrow> nat \<times> nat \<Rightarrow> (nat \<times> nat) option" where
  "open_after dial local [] s = Some s"
| "open_after dial local (c # cs) (i, l) =
     (case c of
        DialI2P n a \<Rightarrow> open_after dial local cs (if dial n a = None then (Suc i, l) else (i, l))
      | CloseI2P \<Rightarrow> if i = 0 then None else open_after dial local cs (i - 1, l)
      | WriteTo d a \<Rightarrow> if i = 0 then None else open_after dial local cs (i, l)
      | DialLocal a \<Rightarrow> open_after dial local cs (if local a = None then (i, Suc l) else (i, l))
      | CloseLocal \<Rightarrow> if l = 0 then None else open_after dial local cs (i, l - 1)
      | ForwardStream \<Rightarrow> if i = 0 then None else open_after dial local cs (i, l)
      | ForwardPackets \<Rightarrow> if i = 0 \<or> l = 0 then None else open_after dial local cs (i, l))"

text \<open>
  The four handlers use only open connections and close every connection they have opened,
  on every path; a datagram is written once at most, to the destination that the lookup of
  the requested address gave; the error is the first one met, or that of forwarding.
\<close>

lemma socks_handlers_release:
  "open_after dial local (fst (tcp_TCPHandle dial fwd a)) (0, 0) = Some (0, 0)"
  "open_after dial local (fst (tcp_UDPHandle dial lookup writeTo local fwd addr a d)) (0, 0) = Some (0, 0)"
  "udp_TCPHandle = tcp_TCPHandle"
  "udp_UDPHandle = tcp_UDPHandle"
  by (auto simp: tcp_TCPHandle_def tcp_UDPHandle_def udp_TCPHandle_def udp_UDPHandle_def fun_eq_iff split: option.split sum.split)

lemma tcp_UDPHandle_ok:
  "snd (tcp_UDPHandle dial lookup writeTo local fwd addr a d) = None \<longleftrightarrow>
     dial ''udp'' a = None \<and> (\<exists>r. lookup a = Inr r \<and> writeTo d r = None) \<and> local addr = None \<and> fwd = None"
  "WriteTo x r \<in> set (fst (tcp_UDPHandle dial lookup writeTo local fwd addr a d)) \<Longrightarrow> x = d \<and> lookup a = Inr r"
  by (auto simp: tcp_UDPHandle_def split: option.splits sum.splits)

end
