(* ===== verification/Semaphore.thy ===== *)
theory Semaphore
  imports Main
begin

text \<open>
  Counting semaphores made of buffered channels (\<open>make(chan struct{}, n)\<close>), which the TCP
  client and the SOCKS5 tunnel replace while connections are in flight. A store lists the
  channels made so far, each with its capacity and the slots taken; a holder is the
  channel a goroutine took its slot from, \<open>None\<close> if it needed none.
\<close>

definition slots_inv :: "(int \<times> int) list \<Rightarrow> nat option list \<Rightarrow> bool" where
  "slots_inv cs gs \<longleftrightarrow>
     (\<forall>s<length cs. snd (cs ! s) = int (count_list gs (Some s)) \<and> snd (cs ! s) \<le> fst (cs ! s)) \<and>
     (\<forall>s. Some s \<in> set gs \<longrightarrow> s < length cs)"

lemma slots_inv_Nil: "slots_inv [] gs \<longleftrightarrow> list_all (\<lambda>g. g = None) gs"
proof
  assume i: "slots_inv [] gs"
  have "g = None" if "g \<in> set gs" for g
    using i that by (cases g) (auto simp: slots_inv_def)
  then show "list_all (\<lambda>g. g = None) gs" by (auto simp: list_all_iff)
qed (auto simp: slots_inv_def list_all_iff)

lemma slots_inv_free: "slots_inv cs (None # gs) \<longleftrightarrow> slots_inv cs gs"
  by (auto simp: slots_inv_def)

lemma slots_inv_take:
  "slots_inv cs gs \<Longrightarrow> s < length cs \<Longrightarrow> cs ! s = (c, n) \<Longrightarrow> n < c \<Longrightarrow> slots_inv (cs[s := (c, n + 1)]) (Some s # gs)"
  by (auto simp: slots_inv_def nth_list_update)

lemma slots_inv_give:
  "slots_inv cs (gs @ Some s # hs) \<Longrightarrow> cs ! s = (c, n) \<Longrightarrow> slots_inv (cs[s := (c, n - 1)]) (gs @ hs)"
  by (auto simp: slots_inv_def nth_list_update count_list_append)

lemma slots_inv_drop_free: "slots_inv cs (gs @ None # hs) \<longleftrightarrow> slots_inv cs (gs @ hs)"
  by (auto simp: slots_inv_def count_list_append)

lemma slots_inv_new:
  assumes "slots_inv cs gs" and "0 \<le> c"
  shows "slots_inv (cs @ [(c, 0)]) gs"
proof -
  have "count_list gs (Some (length cs)) = 0"
    using assms(1) by (auto simp: slots_inv_def count_list_0_iff)
  with assms show ?thesis by (auto simp: slots_inv_def nth_append less_Suc_eq)
qed

lemma slots_inv_held: "slots_inv cs gs \<Longrightarrow> Some s \<in> set gs \<Longrightarrow> 0 < snd (cs ! s)"
  by (metis slots_inv_def count_list_0_iff gr0I of_nat_0_less_iff)

lemma slots_inv_full:
  "slots_inv cs gs \<Longrightarrow> s < length cs \<Longrightarrow>
     int (count_list gs (Some s)) \<le> fst (cs ! s) \<and>
     (\<not> snd (cs ! s) < fst (cs ! s) \<longleftrightarrow> int (count_list gs (Some s)) = fst (cs ! s))"
  by (auto simp: slots_inv_def)

end
