(* ===== verification/TcpClient.thy ===== *)
theory TcpClient
  imports StreamTunnels Semaphore
begin

text \<open>
  The TCP client tunnel (\<open>lib/tcp/client/tcp_client.go\<close>, \<open>new.go\<close>): the shared stream state
  with a dial timeout and a counting semaphore that bounds the connections in flight,
  two-phase options, and connection handling. Semaphore channels live in an explicit
  store, because a goroutine keeps the channel it took its slot from while \<open>SetOptions\<close>
  may install a new one. Durations are nanoseconds; \<open>time.ParseDuration\<close> and
  \<open>Duration.String\<close> are parameters.
\<close>

section \<open>State\<close>

text \<open>
  \<open>cl_stream\<close> has the embedded \<open>Garlic\<close>, \<open>TunnelBase\<close> and \<open>I2PAddr\<close> (its Base32 text) and the
  lifecycle fields. A channel of the store is its capacity and the slots taken.
\<close>

record tcp_client =
  cl_stream :: stream_tunnel
  cl_dialTimeout :: int
  cl_connSem :: "nat option"
  cl_chans :: "(int \<times> int) list"

definition maxConsecutiveAcceptErrors :: int where "maxConsecutiveAcceptErrors = 10"

definition defaultDialTimeout :: int where "defaultDialTimeout = 30 * 1000000000"

abbreviation cl_base :: "tcp_client \<Rightarrow> tunnel_base" where
  "cl_base t \<equiv> st_base (cl_stream t)"

definition upd_base :: "(tunnel_base \<Rightarrow> tunnel_base) \<Rightarrow> tcp_client \<Rightarrow> tcp_client" where
  "upd_base f t = t\<lparr>cl_stream := (cl_stream t)\<lparr>st_base := f (cl_base t)\<rparr>\<rparr>"

definition NewTCPClient ::
  "(tunnel_config \<Rightarrow> go_error + garlic) \<Rightarrow> i2p_lookup \<Rightarrow> tunnel_config \<Rightarrow> go_error + tcp_client" where
  "NewTCPClient newGarlic lookup config =
     rbind (newGarlic config) (\<lambda>garlic.
       rbind (lookup (tc_Target config)) (\<lambda>addr.
         Inr \<lparr>cl_stream =
                \<lparr>st_garlic = Some garlic,
                 st_base = \<lparr>tb_Config = config, tb_MaxConns = 0, tb_RateLimit = Fin False 0 0,
                            tb_Status = StatusStopped, tb_Errors = [], tb_Metrics = None\<rparr>,
                 st_target = Some addr, st_done = False, st_once = False, st_listener = None\<rparr>,
              cl_dialTimeout = defaultDialTimeout, cl_connSem = None, cl_chans = []\<rparr>))"

definition TCPClient_Address :: "tcp_client \<Rightarrow> string" where
  "TCPClient_Address t = (case st_target (cl_stream t) of None \<Rightarrow> '''' | Some a \<Rightarrow> a)"

definition TCPClient_Target :: "tcp_client \<Rightarrow> string" where
  "TCPClient_Target t = (case st_target (cl_stream t) of None \<Rightarrow> '''' | Some a \<Rightarrow> a)"

definition TCPClient_ErrorHistory :: "tcp_client \<Rightarrow> tunnel_error list" where
  "TCPClient_ErrorHistory t = All (tb_Errors (cl_base t))"

definition TCPClient_LocalAddress :: "tcp_client \<Rightarrow> string" where
  "TCPClient_LocalAddress t = stream_LocalAddress (cl_stream t)"

section \<open>Lifecycle\<close>

text \<open>The connections in the result are those handed to \<open>spawnConnection\<close>, in order.\<close>

definition TCPClient_Start ::
  "(string \<Rightarrow> go_error option) \<Rightarrow> 64 word \<Rightarrow> 'c turn list \<Rightarrow> tcp_client \<Rightarrow> tcp_client \<times> 'c list \<times> go_error option option" where
  "TCPClient_Start listen now ts t =
     (case stream_Start (listen (TCPClient_LocalAddress t)) maxConsecutiveAcceptErrors now ts (cl_stream t) of
        (s, cs, r) \<Rightarrow> (t\<lparr>cl_stream := s\<rparr>, cs, r))"

definition TCPClient_handleAcceptError ::
  "go_error \<Rightarrow> int \<Rightarrow> bool \<Rightarrow> tunnel_base \<Rightarrow> tunnel_base \<times> int \<times> bool \<times> go_error option" where
  "TCPClient_handleAcceptError err consecutive is_done b =
     HandleAcceptError err consecutive maxConsecutiveAcceptErrors is_done b"

definition TCPClient_Stop :: "tcp_client \<Rightarrow> tcp_client" where
  "TCPClient_Stop t = t\<lparr>cl_stream := stream_Stop (cl_stream t)\<rparr>"

section \<open>Connections\<close>

definition snapshotConnSem :: "tcp_client \<Rightarrow> nat option" where
  "snapshotConnSem t = cl_connSem t"

text \<open>
  The result tells whether a goroutine was started, and the semaphore it releases in the
  end; otherwise the connection was closed.
\<close>

definition spawnConnection :: "tcp_client \<Rightarrow> tcp_client \<times> nat option option" where
  "spawnConnection t =
     (case snapshotConnSem t of
        None \<Rightarrow> (t, Some None)
      | Some sem \<Rightarrow>
          (case cl_chans t ! sem of
             (capacity, taken) \<Rightarrow>
               if taken < capacity then
                 (t\<lparr>cl_chans := (cl_chans t)[sem := (capacity, taken + 1)]\<rparr>, Some (Some sem))
               else
                 (upd_base (RecordError (Errorf
                    (''connection rejected: at capacity ('' @ Itoa capacity @ '' max concurrent)''))) t, None)))"

text \<open>The deferred receive of the goroutine.\<close>

definition releaseSem :: "nat option \<Rightarrow> tcp_client \<Rightarrow> tcp_client" where
  "releaseSem g t =
     (case g of
        None \<Rightarrow> t
      | Some sem \<Rightarrow>
          (case cl_chans t ! sem of
             (capacity, taken) \<Rightarrow> t\<lparr>cl_chans := (cl_chans t)[sem := (capacity, taken - 1)]\<rparr>))"

text \<open>The deadline of the dial, \<open>None\<close> for \<open>context.Background()\<close>.\<close>

definition dialContext :: "tcp_client \<Rightarrow> int option" where
  "dialContext t = (if cl_dialTimeout t > 0 then Some (cl_dialTimeout t) else None)"

text \<open>\<open>dial timeout target\<close> is the error of \<open>Garlic.DialContext\<close>.\<close>

definition dialI2P :: "(int option \<Rightarrow> string \<Rightarrow> go_error option) \<Rightarrow> tcp_client \<Rightarrow> go_error option" where
  "dialI2P dial t =
     (let target = TCPClient_Target t in
      if target = '''' then Some (Errorf ''handleConnection: no target I2P address configured'')
      else dial (dialContext t) target)"

text \<open>\<open>fwd\<close> is the error of \<open>stream.Forward\<close>, \<open>io\<close> what it moves on the counted side.\<close>

definition forwardStream :: "conn_io list \<Rightarrow> go_error option \<Rightarrow> tunnel_base \<Rightarrow> tunnel_base" where
  "forwardStream io fwd b =
     (let b1 = b\<lparr>tb_Metrics := fold io_metrics io (tb_Metrics b)\<rparr> in
      case fwd of None \<Rightarrow> b1 | Some err \<Rightarrow> RecordError err b1)"

definition TCPClient_handleConnection ::
  "go_error option \<Rightarrow> (int option \<Rightarrow> string \<Rightarrow> go_error option) \<Rightarrow> conn_io list \<Rightarrow> go_error option \<Rightarrow> tcp_client \<Rightarrow> tcp_client" where
  "TCPClient_handleConnection filt dial io fwd t =
     (let b1 = upd_metrics RecordConnection (cl_base t);
          b2 = (case filt of
                  Some err \<Rightarrow> RecordError err b1
                | None \<Rightarrow>
                    (case dialI2P dial t of
                       Some err \<Rightarrow> upd_metrics RecordConnectionFailed (RecordError err b1)
                     | None \<Rightarrow> forwardStream io fwd b1))
      in upd_base (\<lambda>_. b2\<lparr>tb_Metrics := snd (CountingConn_Close False (tb_Metrics b2))\<rparr>) t)"

section \<open>Options\<close>

definition TCPClient_Options :: "float_lib \<Rightarrow> (int \<Rightarrow> string) \<Rightarrow> tcp_client \<Rightarrow> options" where
  "TCPClient_Options fl durString t =
     (let opts = BuildCommonOptions fl (tb_Config (cl_base t));
          opts = (case st_target (cl_stream t) of None \<Rightarrow> opts | Some a \<Rightarrow> gm_set ''target'' a opts);
          opts = gm_set ''maxconns''
                   (Itoa (case cl_connSem t of None \<Rightarrow> 0 | Some sem \<Rightarrow> fst (cl_chans t ! sem))) opts
      in gm_set ''dialtimeout'' (durString (cl_dialTimeout t)) opts)"

text \<open>A value with its \<open>set\<close> flag is an option.\<close>

record tcp_client_opts =
  newName :: "string option"
  newIface :: "string option"
  newPort :: "int option"
  newAddr :: "string option"
  i2cpOpts :: "(string, ival) gomap option"
  newMaxConns :: "int option"
  newDialTimeout :: "int option"

definition no_client_opts :: tcp_client_opts where
  "no_client_opts = \<lparr>newName = None, newIface = None, newPort = None, newAddr = None, i2cpOpts = None,
     newMaxConns = None, newDialTimeout = None\<rparr>"

definition validatePortOpt :: "options \<Rightarrow> tcp_client_opts \<Rightarrow> go_error + tcp_client_opts" where
  "validatePortOpt opts x =
     (case gm_get opts ''port'' of
        None \<Rightarrow> Inr x
      | Some v \<Rightarrow> rbind (PortString v) (\<lambda>port. Inr (x\<lparr>newPort := Some port\<rparr>)))"

definition validateName :: "options \<Rightarrow> tcp_client_opts \<Rightarrow> go_error + tcp_client_opts" where
  "validateName opts x =
     (case gm_get opts ''name'' of
        None \<Rightarrow> Inr x
      | Some v \<Rightarrow> (case RequiredString ''name'' v of Some err \<Rightarrow> Inl err | None \<Rightarrow> Inr (x\<lparr>newName := Some v\<rparr>)))"

definition validateIface :: "options \<Rightarrow> tcp_client_opts \<Rightarrow> go_error + tcp_client_opts" where
  "validateIface opts x =
     (case gm_get opts ''interface'' of
        None \<Rightarrow> Inr x
      | Some v \<Rightarrow> (case Interface v of Some err \<Rightarrow> Inl err | None \<Rightarrow> Inr (x\<lparr>newIface := Some v\<rparr>)))"

definition validateNameIFacePort :: "options \<Rightarrow> tcp_client_opts \<Rightarrow> go_error + tcp_client_opts" where
  "validateNameIFacePort opts x = rbind (rbind (validateName opts x) (validateIface opts)) (validatePortOpt opts)"

definition validateTarget :: "i2p_lookup \<Rightarrow> string \<Rightarrow> tcp_client_opts \<Rightarrow> go_error + tcp_client_opts" where
  "validateTarget lookup v x =
     (case I2PAddress (i2p_ok lookup) v of
        Some err \<Rightarrow> Inl err
      | None \<Rightarrow>
          (case lookup v of
             Inl err \<Rightarrow> Inl (Wrapf ''invalid target address'' err)
           | Inr addr \<Rightarrow> Inr (x\<lparr>newAddr := Some addr\<rparr>)))"

definition validateCommonFields :: "i2p_lookup \<Rightarrow> options \<Rightarrow> tcp_client_opts \<Rightarrow> go_error + tcp_client_opts" where
  "validateCommonFields lookup opts x =
     rbind (validateNameIFacePort opts x) (\<lambda>x1.
       case gm_get opts ''target'' of None \<Rightarrow> Inr x1 | Some v \<Rightarrow> validateTarget lookup v x1)"

definition validateMaxConns :: "options \<Rightarrow> tcp_client_opts \<Rightarrow> go_error + tcp_client_opts" where
  "validateMaxConns opts x =
     (case gm_get opts ''maxconns'' of
        None \<Rightarrow> Inr x
      | Some v \<Rightarrow>
          (case Atoi v of
             None \<Rightarrow> Inl (Errorf (''invalid maxconns '' @ Quote v @ '': must be a non-negative integer''))
           | Some mc \<Rightarrow> (case MaxConnections mc of Some err \<Rightarrow> Inl err | None \<Rightarrow> Inr (x\<lparr>newMaxConns := Some mc\<rparr>))))"

definition validateDialTimeout :: "(string \<Rightarrow> int option) \<Rightarrow> options \<Rightarrow> tcp_client_opts \<Rightarrow> go_error + tcp_client_opts" where
  "validateDialTimeout parseDuration opts x =
     (case gm_get opts ''dialtimeout'' of
        None \<Rightarrow> Inr x
      | Some v \<Rightarrow>
          (let err = Errorf (''invalid dialtimeout '' @ Quote v @ '': must be a non-negative duration (e.g. 30s, 1m30s)'') in
           case parseDuration v of
             None \<Rightarrow> Inl err
           | Some d \<Rightarrow> if d < 0 then Inl err else Inr (x\<lparr>newDialTimeout := Some d\<rparr>)))"

definition validateTCPSpecificFields ::
  "(string \<Rightarrow> int option) \<Rightarrow> options \<Rightarrow> tcp_client_opts \<Rightarrow> go_error + tcp_client_opts" where
  "validateTCPSpecificFields parseDuration opts x =
     rbind (validateMaxConns opts x) (validateDialTimeout parseDuration opts)"

definition validateTCPClientOptions ::
  "i2p_lookup \<Rightarrow> (string \<Rightarrow> int option) \<Rightarrow> options \<Rightarrow> go_error + tcp_client_opts" where
  "validateTCPClientOptions lookup parseDuration opts =
     rbind (rbind (validateCommonFields lookup opts no_client_opts) (validateTCPSpecificFields parseDuration opts))
       (\<lambda>x. Inr (x\<lparr>i2cpOpts := ExtractI2CPOptions opts\<rparr>))"

definition mergeI2CPOpts :: "(string, ival) gomap option \<Rightarrow> tunnel_config \<Rightarrow> tunnel_config" where
  "mergeI2CPOpts i2cp cfg =
     (case i2cp of
        None \<Rightarrow> cfg
      | Some m \<Rightarrow>
          cfg\<lparr>tc_I2CP := Some (gm_copy_into (\<lambda>k. k) (\<lambda>v. v) m (case tc_I2CP cfg of None \<Rightarrow> [] | Some old \<Rightarrow> old))\<rparr>)"

definition set_opt :: "('v \<Rightarrow> 's \<Rightarrow> 's) \<Rightarrow> 'v option \<Rightarrow> 's \<Rightarrow> 's" where
  "set_opt f v s = (case v of None \<Rightarrow> s | Some x \<Rightarrow> f x s)"

definition applyTCPConfigFields :: "tcp_client_opts \<Rightarrow> tcp_client \<Rightarrow> tcp_client" where
  "applyTCPConfigFields x t =
     (let cfg = tb_Config (cl_base t);
          cfg = set_opt (\<lambda>v c. c\<lparr>tc_Name := v\<rparr>) (newName x) cfg;
          cfg = set_opt (\<lambda>v c. c\<lparr>tc_Interface := v\<rparr>) (newIface x) cfg;
          cfg = set_opt (\<lambda>v c. c\<lparr>tc_Port := v\<rparr>) (newPort x) cfg;
          t1 = set_opt (\<lambda>a s. s\<lparr>cl_stream := (cl_stream s)\<lparr>st_target := Some a\<rparr>\<rparr>) (newAddr x) t
      in upd_base (\<lambda>b. b\<lparr>tb_Config := mergeI2CPOpts (i2cpOpts x) cfg\<rparr>) t1)"

definition applyTCPConnOpts :: "tcp_client_opts \<Rightarrow> tcp_client \<Rightarrow> tcp_client" where
  "applyTCPConnOpts x t =
     (let t1 = set_opt (\<lambda>mc s.
                 if mc > 0 then s\<lparr>cl_chans := cl_chans s @ [(mc, 0)], cl_connSem := Some (length (cl_chans s))\<rparr>
                 else s\<lparr>cl_connSem := None\<rparr>) (newMaxConns x) t
      in set_opt (\<lambda>d s. s\<lparr>cl_dialTimeout := d\<rparr>) (newDialTimeout x) t1)"

definition applyTCPClientOpts :: "tcp_client_opts \<Rightarrow> tcp_client \<Rightarrow> tcp_client" where
  "applyTCPClientOpts x t = applyTCPConnOpts x (applyTCPConfigFields x t)"

definition TCPClient_SetOptions ::
  "i2p_lookup \<Rightarrow> (string \<Rightarrow> int option) \<Rightarrow> options \<Rightarrow> tcp_client \<Rightarrow> tcp_client \<times> go_error option" where
  "TCPClient_SetOptions lookup parseDuration opts t =
     (case validateTCPClientOptions lookup parseDuration opts of
        Inl err \<Rightarrow> (t, Some err)
      | Inr x \<Rightarrow> (applyTCPClientOpts x t, None))"

section \<open>Configuration\<close>

definition loadTCPClientConfig ::
  "(string \<Rightarrow> go_error + tunnel_config) \<Rightarrow> i2p_lookup \<Rightarrow> string \<Rightarrow> go_error + tunnel_config \<times> string" where
  "loadTCPClientConfig parse lookup path =
     rbind (parse path) (\<lambda>newConfig.
       if tc_Type newConfig \<noteq> ''tcpclient'' then
         Inl (Errorf (''config file contains '' @ tc_Type newConfig @ '' tunnel, expected tcpclient''))
       else
         (case lookup (tc_Target newConfig) of
            Inl err \<Rightarrow> Inl (Wrapf ''invalid target address in config'' err)
          | Inr addr \<Rightarrow> Inr (newConfig, addr)))"

text \<open>
  \<open>before\<close> is the status that the first check reads; the tunnel is the one found when the
  lock is held, after the file has been read.
\<close>

definition i2cp_len :: "(string, ival) gomap option \<Rightarrow> nat" where
  "i2cp_len m = (case m of None \<Rightarrow> 0 | Some l \<Rightarrow> length l)"

definition TCPClient_LoadConfig ::
  "(string \<Rightarrow> go_error + tunnel_config) \<Rightarrow> i2p_lookup \<Rightarrow> string \<Rightarrow> tunnel_status \<Rightarrow> tcp_client \<Rightarrow> tcp_client \<times> go_error option" where
  "TCPClient_LoadConfig parse lookup path before t =
     (case CheckTunnelStopped before of
        Some err \<Rightarrow> (t, Some err)
      | None \<Rightarrow>
          (case loadTCPClientConfig parse lookup path of
             Inl err \<Rightarrow> (t, Some err)
           | Inr (newConfig, addr) \<Rightarrow>
               (case CheckTunnelStopped (Status (cl_base t)) of
                  Some err \<Rightarrow> (t, Some err)
                | None \<Rightarrow>
                    let newConfig = (if i2cp_len (tc_I2CP newConfig) = 0 \<and> i2cp_len (tc_I2CP (tb_Config (cl_base t))) > 0
                                     then newConfig\<lparr>tc_I2CP := tc_I2CP (tb_Config (cl_base t))\<rparr> else newConfig)
                    in (t\<lparr>cl_stream := (cl_stream t)\<lparr>st_base := (cl_base t)\<lparr>tb_Config := newConfig\<rparr>,
                                                       st_target := Some addr\<rparr>\<rparr>, None))))"

section \<open>Options: lemmas\<close>

lemma upd_base_simps [simp]:
  "cl_base (upd_base f t) = f (cl_base t)" "stream_life (cl_stream (upd_base f t)) = (let s = stream_life (cl_stream t) in
     (fst s, fst (snd s), fst (snd (snd s)), fst (snd (snd (snd s))), tb_Status (f (cl_base t))))"
  "cl_chans (upd_base f t) = cl_chans t" "cl_connSem (upd_base f t) = cl_connSem t"
  "cl_dialTimeout (upd_base f t) = cl_dialTimeout t" "st_target (cl_stream (upd_base f t)) = st_target (cl_stream t)"
  by (simp_all add: upd_base_def stream_life_def)

lemma validateName_Inr:
  "validateName opts x = Inr y \<longleftrightarrow>
     (case gm_get opts ''name'' of None \<Rightarrow> y = x | Some n \<Rightarrow> TrimSpace n \<noteq> '''' \<and> y = x\<lparr>newName := Some n\<rparr>)"
  by (auto simp: validateName_def RequiredString_def Let_def split: option.splits)

lemma validateIface_Inr:
  "validateIface opts x = Inr y \<longleftrightarrow>
     (case gm_get opts ''interface'' of None \<Rightarrow> y = x | Some n \<Rightarrow> (n = '''' \<or> ParseIP n) \<and> y = x\<lparr>newIface := Some n\<rparr>)"
  by (auto simp: validateIface_def Interface_def split: option.splits)

lemma validatePort_Inr:
  "validatePortOpt opts x = Inr y \<longleftrightarrow>
     (case gm_get opts ''port'' of None \<Rightarrow> y = x | Some s \<Rightarrow> \<exists>p. PortString s = Inr p \<and> y = x\<lparr>newPort := Some p\<rparr>)"
  by (auto simp: validatePortOpt_def rbind_Inr_iff split: option.splits)

lemma validateTarget_Inr:
  "validateTarget lookup v x = Inr y \<longleftrightarrow> v \<noteq> '''' \<and> (\<exists>a. lookup v = Inr a \<and> y = x\<lparr>newAddr := Some a\<rparr>)"
  by (auto simp: validateTarget_def I2PAddress_def i2p_ok_def split: option.splits sum.splits)

lemma validateMaxConns_Inr:
  "validateMaxConns opts x = Inr y \<longleftrightarrow>
     (case gm_get opts ''maxconns'' of None \<Rightarrow> y = x | Some s \<Rightarrow> \<exists>n. Atoi s = Some n \<and> 0 \<le> n \<and> y = x\<lparr>newMaxConns := Some n\<rparr>)"
  by (auto simp: validateMaxConns_def MaxConnections_def split: option.splits)

lemma validateDialTimeout_Inr:
  "validateDialTimeout pd opts x = Inr y \<longleftrightarrow>
     (case gm_get opts ''dialtimeout'' of None \<Rightarrow> y = x | Some s \<Rightarrow> \<exists>d. pd s = Some d \<and> 0 \<le> d \<and> y = x\<lparr>newDialTimeout := Some d\<rparr>)"
  by (auto simp: validateDialTimeout_def Let_def split: option.splits)

lemmas validated_Inr = validateName_Inr validateIface_Inr validatePort_Inr validateTarget_Inr validateMaxConns_Inr
  validateDialTimeout_Inr rbind_Inr_iff

text \<open>What a validated set of options holds.\<close>

definition opts_agree :: "i2p_lookup \<Rightarrow> (string \<Rightarrow> int option) \<Rightarrow> options \<Rightarrow> tcp_client_opts \<Rightarrow> bool" where
  "opts_agree lookup pd opts x \<longleftrightarrow>
     newName x = gm_get opts ''name'' \<and> pred_option (\<lambda>n. TrimSpace n \<noteq> '''') (newName x) \<and>
     newIface x = gm_get opts ''interface'' \<and> pred_option (\<lambda>n. n = '''' \<or> ParseIP n) (newIface x) \<and>
     (case gm_get opts ''port'' of None \<Rightarrow> newPort x = None | Some s \<Rightarrow> \<exists>p. PortString s = Inr p \<and> newPort x = Some p) \<and>
     (case gm_get opts ''target'' of None \<Rightarrow> newAddr x = None | Some s \<Rightarrow> s \<noteq> '''' \<and> (\<exists>a. lookup s = Inr a \<and> newAddr x = Some a)) \<and>
     i2cpOpts x = ExtractI2CPOptions opts \<and>
     (case gm_get opts ''maxconns'' of None \<Rightarrow> newMaxConns x = None
      | Some s \<Rightarrow> \<exists>n. Atoi s = Some n \<and> 0 \<le> n \<and> newMaxConns x = Some n) \<and>
     (case gm_get opts ''dialtimeout'' of None \<Rightarrow> newDialTimeout x = None
      | Some s \<Rightarrow> \<exists>d. pd s = Some d \<and> 0 \<le> d \<and> newDialTimeout x = Some d)"

lemma validateNameIFacePort_agree:
  assumes "validateNameIFacePort opts no_client_opts = Inr y"
  shows "pred_option (\<lambda>n. TrimSpace n \<noteq> '''') (gm_get opts ''name'') \<and>
    pred_option (\<lambda>n. n = '''' \<or> ParseIP n) (gm_get opts ''interface'') \<and>
    (\<exists>p. y = no_client_opts\<lparr>newName := gm_get opts ''name'', newIface := gm_get opts ''interface'', newPort := p\<rparr> \<and>
       (case gm_get opts ''port'' of None \<Rightarrow> p = None | Some s \<Rightarrow> \<exists>q. PortString s = Inr q \<and> p = Some q))"
  using assms
  by (cases "gm_get opts ''name''"; cases "gm_get opts ''interface''"; cases "gm_get opts ''port''")
    (auto simp: validateNameIFacePort_def validated_Inr no_client_opts_def)

lemma validateTCPSpecific_agree:
  assumes "validateTCPSpecificFields pd opts x = Inr y" and "newMaxConns x = None" and "newDialTimeout x = None"
  shows "\<exists>mc d. y = x\<lparr>newMaxConns := mc, newDialTimeout := d\<rparr> \<and>
    (case gm_get opts ''maxconns'' of None \<Rightarrow> mc = None | Some s \<Rightarrow> \<exists>n. Atoi s = Some n \<and> 0 \<le> n \<and> mc = Some n) \<and>
    (case gm_get opts ''dialtimeout'' of None \<Rightarrow> d = None | Some s \<Rightarrow> \<exists>q. pd s = Some q \<and> 0 \<le> q \<and> d = Some q)"
  using assms
  by (cases "gm_get opts ''maxconns''"; cases "gm_get opts ''dialtimeout''"; cases x)
    (auto simp: validateTCPSpecificFields_def validated_Inr)

lemma validated_agree:
  assumes "validateTCPClientOptions lookup pd opts = Inr x"
  shows "opts_agree lookup pd opts x"
proof -
  from assms obtain x1 x2 x3 where x1: "validateNameIFacePort opts no_client_opts = Inr x1"
    and x2: "(case gm_get opts ''target'' of None \<Rightarrow> Inr x1 | Some v \<Rightarrow> validateTarget lookup v x1) = Inr x2"
    and x3: "validateTCPSpecificFields pd opts x2 = Inr x3" and x: "x = x3\<lparr>i2cpOpts := ExtractI2CPOptions opts\<rparr>"
    by (auto simp: validateTCPClientOptions_def validateCommonFields_def rbind_Inr_iff)
  from x2 obtain a where a: "x2 = x1\<lparr>newAddr := a\<rparr>" "case gm_get opts ''target'' of None \<Rightarrow> a = newAddr x1
      | Some s \<Rightarrow> s \<noteq> '''' \<and> (\<exists>b. lookup s = Inr b \<and> a = Some b)"
    by (cases "gm_get opts ''target''") (auto simp: validateTarget_Inr)
  note n = validateNameIFacePort_agree [OF x1]
  then have "newMaxConns x2 = None" "newDialTimeout x2 = None" by (auto simp: a(1) no_client_opts_def)
  from validateTCPSpecific_agree [OF x3 this] obtain mc d where
    y: "x3 = x2\<lparr>newMaxConns := mc, newDialTimeout := d\<rparr>"
    "case gm_get opts ''maxconns'' of None \<Rightarrow> mc = None | Some s \<Rightarrow> \<exists>n. Atoi s = Some n \<and> 0 \<le> n \<and> mc = Some n"
    "case gm_get opts ''dialtimeout'' of None \<Rightarrow> d = None | Some s \<Rightarrow> \<exists>q. pd s = Some q \<and> 0 \<le> q \<and> d = Some q" by blast
  from n obtain p where p: "x1 = no_client_opts\<lparr>newName := gm_get opts ''name'', newIface := gm_get opts ''interface'', newPort := p\<rparr>"
    "case gm_get opts ''port'' of None \<Rightarrow> p = None | Some s \<Rightarrow> \<exists>q. PortString s = Inr q \<and> p = Some q" by blast
  show ?thesis
    using n a(2) y(2,3) p(2) by (simp add: opts_agree_def x y(1) a(1) p(1) no_client_opts_def cong: option.case_cong)
qed

lemma applied_config:
  assumes "opts_agree lookup pd opts x"
  shows "ApplyCommonOptions opts (tb_Config (cl_base t)) = (tb_Config (cl_base (applyTCPClientOpts x t)), None)"
proof -
  have cfg: "tb_Config (cl_base (applyTCPConnOpts x s)) = tb_Config (cl_base s)" for s
    by (simp add: applyTCPConnOpts_def set_opt_def Let_def split: option.splits)
  have base: "tb_Config (cl_base (set_opt (\<lambda>a s. s\<lparr>cl_stream := (cl_stream s)\<lparr>st_target := Some a\<rparr>\<rparr>) a t)) = tb_Config (cl_base t)" for a
    by (simp add: set_opt_def split: option.splits)
  have merge: "mergeI2CPOpts (ExtractI2CPOptions opts) c = mergeI2CPOptionsInto opts c" for c
    by (simp add: mergeI2CPOpts_def mergeI2CPOptionsInto_def)
  show ?thesis
    using assms
    by (cases "gm_get opts ''name''"; cases "gm_get opts ''interface''"; cases "gm_get opts ''port''")
      (auto simp: ApplyCommonOptions_def apply_None opts_agree_def applyTCPClientOpts_def cfg applyTCPConfigFields_def
        merge Let_def set_opt_def [of _ "Some _"] set_opt_def [of _ None])
qed

lemma applied_life: "stream_life (cl_stream (applyTCPClientOpts x t)) = stream_life (cl_stream t)"
  by (auto simp: applyTCPClientOpts_def applyTCPConnOpts_def applyTCPConfigFields_def set_opt_def Let_def stream_life_def
      upd_base_def split: option.splits)

definition fresh_chan :: "int option \<Rightarrow> (int \<times> int) list" where
  "fresh_chan mc = (case mc of None \<Rightarrow> [] | Some n \<Rightarrow> if n > 0 then [(n, 0)] else [])"

lemma applied_chans:
  "cl_chans (applyTCPClientOpts x t) = cl_chans t @ fresh_chan (newMaxConns x)"
  "cl_connSem (applyTCPClientOpts x t) =
     (case newMaxConns x of None \<Rightarrow> cl_connSem t | Some n \<Rightarrow> if n > 0 then Some (length (cl_chans t)) else None)"
  by (auto simp: applyTCPClientOpts_def applyTCPConnOpts_def applyTCPConfigFields_def set_opt_def Let_def fresh_chan_def
      split: option.splits)

lemma SetOptions_cases:
  obtains (invalid) e where "TCPClient_SetOptions lookup pd opts t = (t, Some e)"
  | (valid) x where "TCPClient_SetOptions lookup pd opts t = (applyTCPClientOpts x t, None)" "opts_agree lookup pd opts x"
  using validated_agree [of lookup pd opts]
  by (cases "validateTCPClientOptions lookup pd opts") (auto simp: TCPClient_SetOptions_def)

section \<open>The semaphore: lemmas\<close>

text \<open>
  The concurrent behaviour: the accept loop spawns or rejects a connection, a goroutine
  handles its connection and gives its slot back, somebody sets options. The list holds
  the semaphore of each running goroutine.
\<close>

type_synonym slot_state = "tcp_client \<times> nat option list"

inductive slot_step :: "i2p_lookup \<Rightarrow> (string \<Rightarrow> int option) \<Rightarrow> slot_state \<Rightarrow> slot_state \<Rightarrow> bool"
  for lookup :: i2p_lookup and pd :: "string \<Rightarrow> int option" where
  spawned: "spawnConnection t = (t', Some g) \<Longrightarrow> slot_step lookup pd (t, gs) (t', g # gs)"
| rejected: "spawnConnection t = (t', None) \<Longrightarrow> slot_step lookup pd (t, gs) (t', gs)"
| finished: "slot_step lookup pd (t, gs @ g # hs)
    (releaseSem g (TCPClient_handleConnection filt dial io fwd t), gs @ hs)"
| reconfigured: "slot_step lookup pd (t, gs) (fst (TCPClient_SetOptions lookup pd opts t), gs)"

inductive_cases slot_stepE: "slot_step lookup pd st st'"

definition slot_reachable :: "i2p_lookup \<Rightarrow> (string \<Rightarrow> int option) \<Rightarrow> slot_state \<Rightarrow> bool" where
  "slot_reachable lookup pd st \<longleftrightarrow>
     (\<exists>t0. cl_chans t0 = [] \<and> cl_connSem t0 = None \<and> (slot_step lookup pd)\<^sup>*\<^sup>* (t0, []) st)"

definition sem_inv :: "slot_state \<Rightarrow> bool" where
  "sem_inv st \<longleftrightarrow> (case st of (t, gs) \<Rightarrow>
     slots_inv (cl_chans t) gs \<and> (\<forall>s. cl_connSem t = Some s \<longrightarrow> s < length (cl_chans t)))"

lemma handleConnection_sem [simp]:
  "cl_chans (TCPClient_handleConnection filt dial io fwd t) = cl_chans t"
  "cl_connSem (TCPClient_handleConnection filt dial io fwd t) = cl_connSem t"
  by (simp_all add: TCPClient_handleConnection_def Let_def)

lemma sem_inv_cong: "cl_chans t' = cl_chans t \<Longrightarrow> cl_connSem t' = cl_connSem t \<Longrightarrow> sem_inv (t', gs) = sem_inv (t, gs)"
  by (simp add: sem_inv_def)

lemma sem_inv_spawned:
  assumes "spawnConnection t = (t', Some g)" and "sem_inv (t, gs)"
  shows "sem_inv (t', g # gs)"
proof (cases "cl_connSem t")
  case None
  with assms show ?thesis by (auto simp: spawnConnection_def snapshotConnSem_def sem_inv_def slots_inv_free)
next
  case (Some s)
  obtain c n where cn: "cl_chans t ! s = (c, n)" by fastforce
  with Some assms have "n < c" "t' = t\<lparr>cl_chans := (cl_chans t)[s := (c, n + 1)]\<rparr>" "g = Some s"
    by (simp_all add: spawnConnection_def snapshotConnSem_def split: if_splits)
  with Some cn assms(2) show ?thesis by (simp add: sem_inv_def slots_inv_take)
qed

lemma sem_inv_rejected:
  assumes "spawnConnection t = (t', None)" and "sem_inv (t, gs)"
  shows "sem_inv (t', gs)"
  using assms
  by (auto simp: spawnConnection_def snapshotConnSem_def sem_inv_def split: option.splits prod.splits if_splits)

lemma sem_inv_release:
  assumes "sem_inv (t, gs @ g # hs)"
  shows "sem_inv (releaseSem g t, gs @ hs)"
proof (cases g)
  case None
  with assms show ?thesis by (simp add: sem_inv_def releaseSem_def slots_inv_drop_free)
next
  case (Some s)
  obtain c n where "cl_chans t ! s = (c, n)" by fastforce
  with Some assms show ?thesis by (simp add: sem_inv_def releaseSem_def slots_inv_give)
qed

lemma sem_inv_SetOptions:
  assumes inv: "sem_inv (t, gs)"
  shows "sem_inv (fst (TCPClient_SetOptions lookup pd opts t), gs)"
proof (cases rule: SetOptions_cases [of lookup pd opts t])
  case (invalid e)
  with inv show ?thesis by simp
next
  case (valid x)
  with inv show ?thesis
    by (auto simp: sem_inv_def applied_chans fresh_chan_def slots_inv_new less_Suc_eq split: option.splits if_splits)
qed

lemma sem_inv_step: "slot_step lookup pd st st' \<Longrightarrow> sem_inv st \<Longrightarrow> sem_inv st'"
proof (induction rule: slot_step.induct)
  case (finished t gs g hs filt dial io fwd)
  then have "sem_inv (TCPClient_handleConnection filt dial io fwd t, gs @ g # hs)"
    by (simp only: sem_inv_cong [OF handleConnection_sem])
  then show ?case by (rule sem_inv_release)
qed (blast intro: sem_inv_spawned sem_inv_rejected sem_inv_SetOptions)+

lemma sem_inv_reachable: "slot_reachable lookup pd st \<Longrightarrow> sem_inv st"
proof -
  assume "slot_reachable lookup pd st"
  then obtain t0 where t0: "cl_chans t0 = []" "cl_connSem t0 = None" and r: "(slot_step lookup pd)\<^sup>*\<^sup>* (t0, []) st"
    by (auto simp: slot_reachable_def)
  from t0 have "sem_inv (t0, [])" by (simp add: sem_inv_def slots_inv_Nil)
  with r show ?thesis by (induction rule: rtranclp_induct) (blast intro: sem_inv_step)+
qed

lemma TCPClient_Stop_simps:
  "stream_life (cl_stream (TCPClient_Stop t)) = stream_life (stream_Stop (cl_stream t))"
  by (simp add: TCPClient_Stop_def)

interpretation tcp_client_stopping: stoppable TCPClient_Stop "\<lambda>t. tb_Status (cl_base t)" "\<lambda>t. st_once (cl_stream t)"
    "\<lambda>t. stream_released (cl_stream t)"
  by unfold_locales (simp_all add: TCPClient_Stop_def)

lemma loadTCPClientConfig_Inr:
  "loadTCPClientConfig parse lookup path = Inr (cfg, a) \<longleftrightarrow>
     parse path = Inr cfg \<and> tc_Type cfg = ''tcpclient'' \<and> lookup (tc_Target cfg) = Inr a"
proof (cases "parse path")
  case (Inr c)
  then show ?thesis by (cases "lookup (tc_Target c)") (auto simp: loadTCPClientConfig_def)
qed (simp add: loadTCPClientConfig_def)

lemma TCPClient_LoadConfig_error:
  "TCPClient_LoadConfig parse lookup path before t = (t', Some e) \<Longrightarrow> t' = t"
  by (auto simp: TCPClient_LoadConfig_def Let_def split: option.splits sum.splits prod.splits)

lemma TCPClient_LoadConfig_life:
  "stream_life (cl_stream (fst (TCPClient_LoadConfig parse lookup path before t))) = stream_life (cl_stream t)"
  by (auto simp: TCPClient_LoadConfig_def Let_def stream_life_def split: option.splits sum.splits prod.splits)

interpretation tcp_client_loading: reloadable "\<lambda>(parse, lookup, path) t. TCPClient_LoadConfig parse lookup path (Status (cl_base t)) t"
  "\<lambda>t. tb_Status (cl_base t)" "\<lambda>t. stream_life (cl_stream t)"
proof unfold_locales
  show "stream_life (cl_stream (fst ((\<lambda>(parse, lookup, path) t. TCPClient_LoadConfig parse lookup path (Status (cl_base t)) t) x t))) =
      stream_life (cl_stream t)" for x t
    by (cases x) (simp add: TCPClient_LoadConfig_life)
  then show "tb_Status (cl_base (fst ((\<lambda>(parse, lookup, path) t. TCPClient_LoadConfig parse lookup path (Status (cl_base t)) t) x t))) =
      tb_Status (cl_base t)" for x t
    by (simp add: stream_life_def)
qed (auto simp: TCPClient_LoadConfig_def Status_def dest: TCPClient_LoadConfig_error split: option.splits sum.splits if_splits)

lemma forwardStream_metrics:
  assumes "tb_Metrics b = Some m"
  shows "\<exists>m'. tb_Metrics (forwardStream io fwd b) = Some m' \<and> ActiveConnections m' = ActiveConnections m \<and>
    ConnectionsAccepted m' = ConnectionsAccepted m \<and> ConnectionsFailed m' = ConnectionsFailed m \<and>
    ErrorCount m' = ErrorCount m + (if fwd = None then 0 else 1)"
  using io_metrics_gauge [OF assms, of io]
  by (auto simp: forwardStream_def RecordError_metric_def split: option.splits)

section \<open>Properties\<close>

text \<open>
  C8: the option handling of the TCP client is all or nothing, and agrees with the shared
  one: a rejected call changes nothing at all; an accepted call gives exactly the
  configuration that \<open>ApplyCommonOptions\<close> gives (which then cannot fail), never touches
  the lifecycle, and leaves every semaphore channel in use as it is, so goroutines still
  release what they acquired.
\<close>
theorem TCPClient_SetOptions_atomic:
  "case TCPClient_SetOptions lookup pd opts t of
     (t', Some e) \<Rightarrow> t' = t
   | (t', None) \<Rightarrow>
       ApplyCommonOptions opts (tb_Config (cl_base t)) = (tb_Config (cl_base t'), None) \<and>
       stream_life (cl_stream t') = stream_life (cl_stream t) \<and>
       take (length (cl_chans t)) (cl_chans t') = cl_chans t"
  by (cases rule: SetOptions_cases [of lookup pd opts t]) (simp_all add: applied_config applied_life applied_chans)

text \<open>
  C7: in every interleaving of accepted connections, finished connections and option
  changes, the connections admitted under the current limit never exceed it, a new
  connection is rejected exactly when the limit is reached (never without a limit), and
  every running goroutine finds a slot to give back, whatever semaphore it came from.
\<close>
theorem semaphore_bound:
  assumes "slot_reachable lookup pd (t, gs)"
  shows "(case cl_connSem t of
       None \<Rightarrow> snd (spawnConnection t) = Some None
     | Some s \<Rightarrow>
         int (count_list gs (Some s)) \<le> fst (cl_chans t ! s) \<and>
         (snd (spawnConnection t) = None \<longleftrightarrow> int (count_list gs (Some s)) = fst (cl_chans t ! s))) \<and>
    list_all (\<lambda>g. case g of None \<Rightarrow> True | Some s \<Rightarrow> 0 < snd (cl_chans t ! s)) gs"
proof -
  from sem_inv_reachable [OF assms] have inv: "slots_inv (cl_chans t) gs"
    and cur: "\<And>s. cl_connSem t = Some s \<Longrightarrow> s < length (cl_chans t)"
    by (simp_all add: sem_inv_def)
  have "list_all (\<lambda>g. case g of None \<Rightarrow> True | Some s \<Rightarrow> 0 < snd (cl_chans t ! s)) gs"
    using slots_inv_held [OF inv] by (auto simp: list_all_iff split: option.splits)
  moreover have "(snd (spawnConnection t) = None) = (\<not> snd (cl_chans t ! s) < fst (cl_chans t ! s))" if "cl_connSem t = Some s" for s
    using that by (simp add: spawnConnection_def snapshotConnSem_def split: prod.splits)
  ultimately show ?thesis
    using slots_inv_full [OF inv cur] by (auto simp: spawnConnection_def snapshotConnSem_def split: option.splits)
qed

definition example_client :: tcp_client where
  "example_client = \<lparr>cl_stream = example_stream, cl_dialTimeout = defaultDialTimeout, cl_connSem = None, cl_chans = []\<rparr>"

definition one_slot_client :: tcp_client where
  "one_slot_client = fst (spawnConnection (fst (TCPClient_SetOptions (\<lambda>a. Inr a) (\<lambda>s. None) [(''maxconns'', ''1'')] example_client)))"

lemma Atoi_1: "Atoi ''1'' = Some 1"
  by code_simp

lemma one_slot_chans: "cl_chans one_slot_client = [(1, 1)]" "cl_connSem one_slot_client = Some 0"
  by (simp_all add: one_slot_client_def TCPClient_SetOptions_def validateTCPClientOptions_def validateCommonFields_def
      validateNameIFacePort_def validateName_def validateIface_def validatePortOpt_def validateTCPSpecificFields_def
      validateMaxConns_def validateDialTimeout_def Atoi_1 MaxConnections_def no_client_opts_def
      spawnConnection_def snapshotConnSem_def applied_chans fresh_chan_def example_client_def)

lemma semaphore_bound_witness:
  "snd (spawnConnection one_slot_client) = None"
proof -
  let ?l = "\<lambda>a. Inr a" and ?p = "\<lambda>s. None"
  let ?t1 = "fst (TCPClient_SetOptions ?l ?p [(''maxconns'', ''1'')] example_client)"
  have sp: "spawnConnection ?t1 = (one_slot_client, Some (Some 0))"
    by (simp add: prod_eq_iff one_slot_client_def) (simp add: TCPClient_SetOptions_def validateTCPClientOptions_def validateCommonFields_def
      validateNameIFacePort_def validateName_def validateIface_def validatePortOpt_def validateTCPSpecificFields_def
      validateMaxConns_def validateDialTimeout_def Atoi_1 MaxConnections_def no_client_opts_def
      spawnConnection_def snapshotConnSem_def applied_chans fresh_chan_def example_client_def)
  have "slot_step ?l ?p (example_client, []) (?t1, [])" by (rule reconfigured)
  moreover from sp have "slot_step ?l ?p (?t1, []) (one_slot_client, [Some 0])" by (rule spawned)
  ultimately have "(slot_step ?l ?p)\<^sup>*\<^sup>* (example_client, []) (one_slot_client, [Some 0])" by simp
  then have "slot_reachable ?l ?p (one_slot_client, [Some 0])"
    unfolding slot_reachable_def by (intro exI [of _ example_client]) (simp add: example_client_def)
  from semaphore_bound [OF this] show ?thesis by (simp add: one_slot_chans)
qed

text \<open>
  A tunnel that is starting or running never has its configuration replaced, also
  when it was stopped at the first check of \<open>LoadConfig\<close> and started while the file was
  read; every failed load changes nothing; a successful one takes the file's
  configuration and target but keeps the old I2CP options if the file has none.
\<close>
theorem TCPClient_LoadConfig_guarded:
  "case TCPClient_LoadConfig parse lookup path before t of
     (t', Some e) \<Rightarrow> t' = t
   | (t', None) \<Rightarrow>
       tb_Status (cl_base t) \<noteq> StatusRunning \<and> tb_Status (cl_base t) \<noteq> StatusStarting \<and>
       stream_life (cl_stream t') = stream_life (cl_stream t) \<and>
       (\<exists>cfg a. parse path = Inr cfg \<and> tc_Type cfg = ''tcpclient'' \<and> lookup (tc_Target cfg) = Inr a \<and>
          st_target (cl_stream t') = Some a \<and>
          tb_Config (cl_base t') =
            (if i2cp_len (tc_I2CP cfg) = 0 \<and> 0 < i2cp_len (tc_I2CP (tb_Config (cl_base t)))
             then cfg\<lparr>tc_I2CP := tc_I2CP (tb_Config (cl_base t))\<rparr> else cfg))"
proof (cases "TCPClient_LoadConfig parse lookup path before t")
  case (Pair t' e)
  with TCPClient_LoadConfig_life [of parse lookup path before t]
  have life: "stream_life (cl_stream t') = stream_life (cl_stream t)" by simp
  show ?thesis
  proof (cases e)
    case None
    with Pair life show ?thesis
      by (cases "loadTCPClientConfig parse lookup path")
        (auto simp: TCPClient_LoadConfig_def loadTCPClientConfig_Inr Let_def Status_def CheckTunnelStopped_def
          split: option.splits prod.splits if_splits)
  next
    case (Some err)
    with Pair TCPClient_LoadConfig_error show ?thesis by fastforce
  qed
qed

text \<open>
  A connection of the TCP client is counted in and out exactly once on every path,
  counts as failed exactly when it passed the filter and could not be dialed, which
  includes every connection of a tunnel without target, and counts one error exactly
  when filter, dial or forwarding failed.
\<close>
theorem TCPClient_handleConnection_balanced:
  assumes "tb_Metrics (cl_base t) = Some m"
  shows "\<exists>m'. tb_Metrics (cl_base (TCPClient_handleConnection filt dial io fwd t)) = Some m' \<and>
    handled m m' (filt = None \<and> (TCPClient_Target t = '''' \<or> dial (dialContext t) (TCPClient_Target t) \<noteq> None))
      (filt \<noteq> None \<or> TCPClient_Target t = '''' \<or> dial (dialContext t) (TCPClient_Target t) \<noteq> None \<or> fwd \<noteq> None)"
proof -
  let ?b1 = "upd_metrics RecordConnection (cl_base t)"
  have m1: "tb_Metrics ?b1 = Some (RecordConnection m)" using assms by simp
  have d: "dialI2P dial t = None \<longleftrightarrow> TCPClient_Target t \<noteq> '''' \<and> dial (dialContext t) (TCPClient_Target t) = None"
    by (simp add: dialI2P_def Let_def)
  show ?thesis
  proof (cases "filt = None \<and> dialI2P dial t = None")
    case True
    from forwardStream_metrics [OF m1, of io fwd] obtain m2 where
      "tb_Metrics (forwardStream io fwd ?b1) = Some m2" "ActiveConnections m2 = ActiveConnections (RecordConnection m)"
      "ConnectionsAccepted m2 = ConnectionsAccepted (RecordConnection m)" "ConnectionsFailed m2 = ConnectionsFailed (RecordConnection m)"
      "ErrorCount m2 = ErrorCount (RecordConnection m) + (if fwd = None then 0 else 1)" by blast
    with True d show ?thesis
      by (simp add: TCPClient_handleConnection_def Let_def CountingConn_Close_def handled_def RecordConnection_def RecordDisconnection_def)
  next
    case False
    with m1 d show ?thesis
      by (auto simp: TCPClient_handleConnection_def Let_def CountingConn_Close_def handled_def RecordConnection_def
          RecordDisconnection_def RecordError_metric_def RecordConnectionFailed_def split: option.splits)
  qed
qed

lemma TCPClient_handleConnection_balanced_witness:
  "\<exists>m'. tb_Metrics (cl_base (TCPClient_handleConnection None (\<lambda>d a. None) [IoRead 5] (Some (External ''reset'')) example_client)) = Some m' \<and>
     handled (fresh_metrics ''irc'' ''irc'' ''tcpclient'') m' False True"
proof -
  have "tb_Metrics (cl_base example_client) = Some (fresh_metrics ''irc'' ''irc'' ''tcpclient'')"
    by (simp add: example_client_def example_stream_def example_base_def)
  from TCPClient_handleConnection_balanced [OF this, of None "\<lambda>d a. None" "[IoRead 5]" "Some (External ''reset'')"]
  show ?thesis by (simp add: TCPClient_Target_def example_client_def example_stream_def)
qed

end
