(* ===== verification/LockedServer.thy ===== *)
theory LockedServer
  imports TunnelBase
begin

text \<open>
  The locking of the tunnels whose \<open>Start\<close> serves while it holds \<open>mu\<close> (\<open>HTTPClient\<close>,
  \<open>SOCKS\<close>): \<open>Start\<close> and \<open>Stop\<close> both begin with \<open>mu.Lock()\<close> and unlock when they return, and
  \<open>Start\<close> returns only after \<open>Serve\<close> has. The step relation is over the three pieces of
  code: the part of \<open>Start\<close> before \<open>Serve\<close>, the part after it, and \<open>Stop\<close>.
\<close>

text \<open>Before \<open>Serve\<close>, \<open>Start\<close> either goes on to serve or returns its result.\<close>

datatype 's begun = Serving 's | Done 's "go_error option"

fun begun_state :: "'s begun \<Rightarrow> 's" where
  "begun_state (Serving s) = s"
| "begun_state (Done s r) = s"

text \<open>
  The tunnel, whether some call of \<open>Start\<close> is serving (and holds \<open>mu\<close>), and how many calls
  of \<open>Stop\<close> wait for \<open>mu\<close>.
\<close>

record 's locked =
  lk_tunnel :: 's
  lk_held :: bool
  lk_waiting :: nat

text \<open>
  What happens: a call of \<open>Start\<close> gets the lock, \<open>Serve\<close> returns, a call of \<open>Stop\<close> reaches
  the lock, a waiting call of \<open>Stop\<close> gets it.
\<close>

datatype 'i lock_event = StartRuns 'i | ServeReturns "go_error option" | StopArrives | StopRuns

inductive locked_step ::
  "('i \<Rightarrow> 's \<Rightarrow> 's begun) \<Rightarrow> (go_error option \<Rightarrow> 's \<Rightarrow> 's) \<Rightarrow> ('s \<Rightarrow> 's) \<Rightarrow> 'i lock_event \<Rightarrow> 's locked \<Rightarrow> 's locked \<Rightarrow> bool"
  for enter :: "'i \<Rightarrow> 's \<Rightarrow> 's begun" and serve_end :: "go_error option \<Rightarrow> 's \<Rightarrow> 's" and stop :: "'s \<Rightarrow> 's" where
  start_serves: "\<not> lk_held l \<Longrightarrow> enter i (lk_tunnel l) = Serving s \<Longrightarrow>
    locked_step enter serve_end stop (StartRuns i) l (l\<lparr>lk_tunnel := s, lk_held := True\<rparr>)"
| start_returns: "\<not> lk_held l \<Longrightarrow> enter i (lk_tunnel l) = Done s r \<Longrightarrow>
    locked_step enter serve_end stop (StartRuns i) l (l\<lparr>lk_tunnel := s\<rparr>)"
| serve_returns: "lk_held l \<Longrightarrow>
    locked_step enter serve_end stop (ServeReturns r) l (l\<lparr>lk_tunnel := serve_end r (lk_tunnel l), lk_held := False\<rparr>)"
| stop_arrives: "locked_step enter serve_end stop StopArrives l (l\<lparr>lk_waiting := Suc (lk_waiting l)\<rparr>)"
| stop_runs: "\<not> lk_held l \<Longrightarrow> lk_waiting l = Suc n \<Longrightarrow>
    locked_step enter serve_end stop StopRuns l (l\<lparr>lk_tunnel := stop (lk_tunnel l), lk_waiting := n\<rparr>)"

inductive_cases locked_stepE: "locked_step enter serve_end stop e l l'"

inductive locked_run ::
  "('i \<Rightarrow> 's \<Rightarrow> 's begun) \<Rightarrow> (go_error option \<Rightarrow> 's \<Rightarrow> 's) \<Rightarrow> ('s \<Rightarrow> 's) \<Rightarrow> 'i lock_event list \<Rightarrow> 's locked \<Rightarrow> 's locked \<Rightarrow> bool"
  for enter :: "'i \<Rightarrow> 's \<Rightarrow> 's begun" and serve_end :: "go_error option \<Rightarrow> 's \<Rightarrow> 's" and stop :: "'s \<Rightarrow> 's" where
  run_nil: "locked_run enter serve_end stop [] l l"
| run_cons: "locked_step enter serve_end stop e l l' \<Longrightarrow> locked_run enter serve_end stop es l' l'' \<Longrightarrow>
    locked_run enter serve_end stop (e # es) l l''"

inductive_simps locked_run_Nil [simp]: "locked_run enter serve_end stop [] l l'"
inductive_simps locked_run_Cons: "locked_run enter serve_end stop (e # es) l l'"

fun stop_arrivals :: "'i lock_event list \<Rightarrow> nat" where
  "stop_arrivals [] = 0"
| "stop_arrivals (e # es) = (case e of StopArrives \<Rightarrow> Suc (stop_arrivals es) | _ \<Rightarrow> stop_arrivals es)"

fun serve_goes_on :: "'i lock_event list \<Rightarrow> bool" where
  "serve_goes_on [] \<longleftrightarrow> True"
| "serve_goes_on (e # es) \<longleftrightarrow> (case e of ServeReturns r \<Rightarrow> False | _ \<Rightarrow> serve_goes_on es)"

text \<open>While \<open>Serve\<close> goes on nothing else happens: calls of \<open>Stop\<close> pile up at the lock.\<close>

lemma held_step:
  "locked_step enter serve_end stop e l l' \<Longrightarrow> lk_held l \<Longrightarrow> (\<forall>r. e \<noteq> ServeReturns r) \<Longrightarrow>
     e = StopArrives \<and> l' = l\<lparr>lk_waiting := Suc (lk_waiting l)\<rparr>"
  by (erule locked_stepE) simp_all

lemma held_run:
  "locked_run enter serve_end stop es l l' \<Longrightarrow> lk_held l \<Longrightarrow> serve_goes_on es \<Longrightarrow>
     lk_tunnel l' = lk_tunnel l \<and> lk_held l' \<and> lk_waiting l' = lk_waiting l + stop_arrivals es"
proof (induction rule: locked_run.induct)
  case (run_cons e l l' es l'')
  then have "e = StopArrives \<and> l' = l\<lparr>lk_waiting := Suc (lk_waiting l)\<rparr>"
    by (intro held_step) (auto split: lock_event.splits)
  with run_cons show ?case by simp
qed simp

text \<open>What holds of the tunnel whatever the interleaving.\<close>

lemma locked_inv:
  assumes "\<And>i s. P s \<Longrightarrow> P (begun_state (enter i s))" and "\<And>r s. P s \<Longrightarrow> P (serve_end r s)" and "\<And>s. P s \<Longrightarrow> P (stop s)"
  shows "locked_run enter serve_end stop es l l' \<Longrightarrow> P (lk_tunnel l) \<Longrightarrow> P (lk_tunnel l')"
proof (induction rule: locked_run.induct)
  case (run_cons e l l' es l'')
  from run_cons.hyps(1) have "P (lk_tunnel l')"
    by (cases rule: locked_step.cases) (use assms run_cons.prems in \<open>auto, metis begun_state.simps, metis begun_state.simps\<close>)
  with run_cons.IH show ?case by blast
qed simp

end
