(* ===== verification/HttpClient.thy ===== *)
theory HttpClient
  imports HttpDial StreamTunnel Bidirectional LockedServer
begin

text \<open>
  The HTTP client tunnel (\<open>lib/http/client/http_client.go\<close>, \<open>new.go\<close>): a local proxy that
  serves while \<open>Start\<close> holds \<open>mu\<close>, its dialer for CONNECT requests, and its options with the
  jump service and the outproxy. The dialing functions and the jump service are in
  \<open>HttpDial\<close>; the proxy and HTTP server libraries, of which the code uses only creation,
  \<open>Serve\<close> and \<open>Shutdown\<close>, are represented by whether they exist and what these calls return.
\<close>

section \<open>State\<close>

text \<open>
  \<open>hc_proxy\<close> and \<open>hc_server\<close> tell whether \<open>ProxyHttpServer\<close> and \<open>Server\<close> are set;
  \<open>hc_cancelled\<close> whether the last context was cancelled.
\<close>

record 'cl http_client =
  hc_garlic :: "garlic option"
  hc_base :: tunnel_base
  hc_proxy :: bool
  hc_server :: bool
  hc_done :: bool
  hc_once :: bool
  hc_cancelled :: bool
  hc_jump :: "'cl jump_service option"
  hc_outproxy :: "outproxy option"

definition NewHTTPClient ::
  "(tunnel_config \<Rightarrow> go_error + garlic) \<Rightarrow> 'cl \<Rightarrow> 'cl \<Rightarrow> tunnel_config \<Rightarrow> go_error + 'cl http_client" where
  "NewHTTPClient newGarlic defaultClient jumpClient config =
     rbind (newGarlic config) (\<lambda>garlic.
       Inr \<lparr>hc_garlic = Some garlic,
            hc_base = \<lparr>tb_Config = config, tb_MaxConns = 0, tb_RateLimit = Fin False 0 0,
                       tb_Status = StatusStopped, tb_Errors = [], tb_Metrics = None\<rparr>,
            hc_proxy = False, hc_server = False, hc_done = False, hc_once = False, hc_cancelled = False,
            hc_jump = Some (NewJumpService defaultClient (Some jumpClient) DefaultJumpServiceURL),
            hc_outproxy = Some \<lparr>op_Address = '''', op_Enabled = False\<rparr>\<rparr>)"

definition HTTPClient_Address :: "'cl http_client \<Rightarrow> string" where
  "HTTPClient_Address h =
     (case hc_garlic h of None \<Rightarrow> '''' | Some g \<Rightarrow> (case g_service g of None \<Rightarrow> '''' | Some a \<Rightarrow> a))"

definition HTTPClient_LocalAddress :: "'cl http_client \<Rightarrow> string" where
  "HTTPClient_LocalAddress h =
     JoinHostPort (tc_Interface (tb_Config (hc_base h))) (Itoa (tc_Port (tb_Config (hc_base h))))"

definition HTTPClient_Target :: "'cl http_client \<Rightarrow> string" where
  "HTTPClient_Target h = ''''"

section \<open>Dialing\<close>

text \<open>\<open>Dial\<close>: \<open>DialContext\<close> without a context.\<close>

definition HTTPClient_Dial ::
  "(string \<Rightarrow> string) \<Rightarrow> (string \<Rightarrow> go_error option) \<Rightarrow> ('cl \<Rightarrow> string \<Rightarrow> go_error + jump_response) \<Rightarrow>
   (string \<Rightarrow> go_error + 'c) \<Rightarrow> int \<Rightarrow> int \<Rightarrow> string \<Rightarrow> 'cl http_client \<Rightarrow> 'cl http_client \<times> (go_error + 'c)" where
  "HTTPClient_Dial ul newRequest doRequest garlic now later addr h =
     (if \<not> IsI2PAddress ul (dial_host addr) then (h, dialOutproxySnapshot garlic (hc_outproxy h) addr)
      else
        (case resolveJumpSnapshot ul newRequest doRequest now later (hc_jump h) addr of
           (jump', addr') \<Rightarrow> (h\<lparr>hc_jump := jump'\<rparr>, garlic addr')))"

text \<open>The dialer of CONNECT requests also counts; the counted connection is the result.\<close>

definition connectDial ::
  "(string \<Rightarrow> string) \<Rightarrow> (string \<Rightarrow> go_error option) \<Rightarrow> ('cl \<Rightarrow> string \<Rightarrow> go_error + jump_response) \<Rightarrow>
   (string \<Rightarrow> go_error + 'c) \<Rightarrow> int \<Rightarrow> int \<Rightarrow> string \<Rightarrow> 'cl http_client \<Rightarrow> 'cl http_client \<times> (go_error + 'c)" where
  "connectDial ul newRequest doRequest garlic now later addr h =
     (let dialed =
            (if \<not> IsI2PAddress ul (dial_host addr) then (h, dialOutproxySnapshot garlic (hc_outproxy h) addr)
             else
               (case resolveJumpSnapshot ul newRequest doRequest now later (hc_jump h) addr of
                  (jump', addr') \<Rightarrow> (h\<lparr>hc_jump := jump'\<rparr>, garlic addr')))
      in case dialed of
           (h1, Inl err) \<Rightarrow> (h1\<lparr>hc_base := upd_metrics RecordConnectionFailed (hc_base h1)\<rparr>, Inl err)
         | (h1, Inr conn) \<Rightarrow> (h1\<lparr>hc_base := upd_metrics RecordConnection (hc_base h1)\<rparr>, Inr conn))"

section \<open>Start and Stop\<close>

text \<open>
  \<open>Start\<close> up to \<open>Serve\<close>: the argument pairs the error of \<open>net.Listen\<close> with the clock.
\<close>

definition HTTPClient_begin :: "(string \<Rightarrow> go_error option) \<times> 64 word \<Rightarrow> 'cl http_client \<Rightarrow> 'cl http_client begun" where
  "HTTPClient_begin env h =
     (case env of (listen, now) \<Rightarrow>
        if hc_proxy h then Done h None
        else
          let h1 = h\<lparr>hc_cancelled := False, hc_done := False, hc_once := False,
                     hc_base := SetStatus StatusStarting (hc_base h), hc_proxy := True\<rparr>
          in case listen (HTTPClient_LocalAddress h1) of
               Some err \<Rightarrow> Done h1 (Some err)
             | None \<Rightarrow>
                 Serving (h1\<lparr>hc_server := True,
                             hc_base := upd_metrics (RecordStart now) (SetStatus StatusRunning (hc_base h1))\<rparr>))"

text \<open>What \<open>Start\<close> does with the result of \<open>Serve\<close>, and what it returns.\<close>

definition HTTPClient_serve_end :: "go_error option \<Rightarrow> 'cl http_client \<Rightarrow> 'cl http_client" where
  "HTTPClient_serve_end err h =
     (case err of
        None \<Rightarrow> h
      | Some e \<Rightarrow>
          if e \<noteq> ErrServerClosed then h\<lparr>hc_base := RecordError e (SetStatus StatusFailed (hc_base h))\<rparr> else h)"

definition serve_result :: "go_error option \<Rightarrow> go_error option" where
  "serve_result err = (case err of None \<Rightarrow> None | Some e \<Rightarrow> if e \<noteq> ErrServerClosed then Some e else None)"

text \<open>A whole call of \<open>Start\<close> that is not disturbed: \<open>serve\<close> is \<open>None\<close> while \<open>Serve\<close> runs.\<close>

definition HTTPClient_Start ::
  "(string \<Rightarrow> go_error option) \<times> 64 word \<Rightarrow> go_error option option \<Rightarrow> 'cl http_client \<Rightarrow>
   'cl http_client \<times> go_error option option" where
  "HTTPClient_Start env serve h =
     (case HTTPClient_begin env h of
        Done h1 r \<Rightarrow> (h1, Some r)
      | Serving h1 \<Rightarrow>
          (case serve of
             None \<Rightarrow> (h1, None)
           | Some err \<Rightarrow> (HTTPClient_serve_end err h1, Some (serve_result err))))"

text \<open>\<open>shutdown\<close> is the error of \<open>Server.Shutdown\<close>, at the latest after \<open>shutdownTimeout\<close>.\<close>

definition shutdownTimeout :: int where "shutdownTimeout = 30 * 1000000000"

definition HTTPClient_Stop :: "go_error option \<Rightarrow> 'cl http_client \<Rightarrow> 'cl http_client \<times> go_error option" where
  "HTTPClient_Stop shutdown h =
     (if \<not> hc_server h then (h, None)
      else
        let h1 = h\<lparr>hc_base := SetStatus StatusStopping (hc_base h), hc_once := True,
                   hc_done := (if hc_once h then hc_done h else True)\<rparr>
        in case shutdown of
             Some err \<Rightarrow> (h1\<lparr>hc_base := RecordError err (hc_base h1)\<rparr>, Some err)
           | None \<Rightarrow>
               (h1\<lparr>hc_garlic := map_option (\<lambda>g. g\<lparr>g_open := False\<rparr>) (hc_garlic h1), hc_cancelled := True,
                   hc_server := False, hc_proxy := False,
                   hc_base := upd_metrics RecordStop (SetStatus StatusStopped (hc_base h1))\<rparr>, None))"

section \<open>Options\<close>

definition HTTPClient_Options :: "float_lib \<Rightarrow> 'cl http_client \<Rightarrow> options" where
  "HTTPClient_Options fl h =
     (let opts = BuildCommonOptions fl (tb_Config (hc_base h));
          opts = (case hc_jump h of None \<Rightarrow> opts | Some j \<Rightarrow> gm_set ''jumpservice'' (js_url j) opts)
      in case hc_outproxy h of
           None \<Rightarrow> opts
         | Some p \<Rightarrow>
             if op_Address p = '''' then opts
             else
               gm_set ''outproxy.enabled'' (if op_Enabled p then ''true'' else ''false'')
                 (gm_set ''outproxy'' (op_Address p) opts))"

definition validateHTTPClientOpts :: "(string \<Rightarrow> string) \<Rightarrow> options \<Rightarrow> go_error option" where
  "validateHTTPClientOpts ul opts =
     (case gm_get opts ''outproxy'' of
        None \<Rightarrow> None
      | Some outAddr \<Rightarrow>
          if outAddr \<noteq> '''' \<and> \<not> IsI2PAddress ul outAddr then
            Some (Errorf (''outproxy address must be an I2P address (.i2p), got '' @ Quote outAddr))
          else None)"

definition applyJumpOption :: "'cl \<Rightarrow> string \<Rightarrow> 'cl jump_service option \<Rightarrow> 'cl jump_service option" where
  "applyJumpOption defaultClient jumpURL jump =
     (if jumpURL = '''' then None
      else
        (case jump of
           Some j \<Rightarrow> Some (NewJumpService defaultClient (Some (js_client j)) jumpURL)
         | None \<Rightarrow> Some (NewJumpService defaultClient None jumpURL)))"

definition applyOutproxyAddress :: "string \<Rightarrow> outproxy option \<Rightarrow> outproxy option" where
  "applyOutproxyAddress outAddr p =
     (let q = or_empty_outproxy p in
      if outAddr = '''' then Some (q\<lparr>op_Address := '''', op_Enabled := False\<rparr>)
      else Some (q\<lparr>op_Address := outAddr, op_Enabled := True\<rparr>))"

definition applyOutproxyEnabled :: "string \<Rightarrow> outproxy option \<Rightarrow> outproxy option" where
  "applyOutproxyEnabled enabledStr p =
     Some ((or_empty_outproxy p)\<lparr>op_Enabled := (enabledStr = ''true'' \<or> enabledStr = ''1'' \<or> enabledStr = ''yes'')\<rparr>)"

definition opt_apply :: "(string \<Rightarrow> 's \<Rightarrow> 's) \<Rightarrow> string option \<Rightarrow> 's \<Rightarrow> 's" where
  "opt_apply f v s = (case v of None \<Rightarrow> s | Some x \<Rightarrow> f x s)"

definition applyHTTPClientOpts :: "'cl \<Rightarrow> options \<Rightarrow> 'cl http_client \<Rightarrow> 'cl http_client" where
  "applyHTTPClientOpts defaultClient opts h =
     h\<lparr>hc_jump := opt_apply (applyJumpOption defaultClient) (gm_get opts ''jumpservice'') (hc_jump h),
       hc_outproxy :=
         opt_apply applyOutproxyEnabled (gm_get opts ''outproxy.enabled'')
           (opt_apply applyOutproxyAddress (gm_get opts ''outproxy'') (hc_outproxy h))\<rparr>"

definition HTTPClient_SetOptions ::
  "(string \<Rightarrow> string) \<Rightarrow> 'cl \<Rightarrow> options \<Rightarrow> 'cl http_client \<Rightarrow> 'cl http_client \<times> go_error option" where
  "HTTPClient_SetOptions ul defaultClient opts h =
     (case ApplyCommonOptions opts (tb_Config (hc_base h)) of
        (cfg, Some err) \<Rightarrow> (h\<lparr>hc_base := (hc_base h)\<lparr>tb_Config := cfg\<rparr>\<rparr>, Some err)
      | (cfg, None) \<Rightarrow>
          let h1 = h\<lparr>hc_base := (hc_base h)\<lparr>tb_Config := cfg\<rparr>\<rparr> in
          (case validateHTTPClientOpts ul opts of
             Some err \<Rightarrow> (h1, Some err)
           | None \<Rightarrow> (applyHTTPClientOpts defaultClient opts h1, None)))"

definition HTTPClient_LoadConfig ::
  "(string \<Rightarrow> go_error + tunnel_config) \<Rightarrow> string \<Rightarrow> 'cl http_client \<Rightarrow> 'cl http_client \<times> go_error option" where
  "HTTPClient_LoadConfig parse path h =
     (case CheckTunnelStopped (Status (hc_base h)) of
        Some err \<Rightarrow> (h, Some err)
      | None \<Rightarrow>
          (case parse path of
             Inl err \<Rightarrow> (h, Some err)
           | Inr newConfig \<Rightarrow>
               if tc_Type newConfig \<noteq> ''httpclient'' then
                 (h, Some (Errorf (''config file contains '' @ tc_Type newConfig @ '' tunnel, expected httpclient'')))
               else (h\<lparr>hc_base := (hc_base h)\<lparr>tb_Config := newConfig\<rparr>\<rparr>, None)))"

section \<open>Lemmas\<close>

definition http_released :: "'cl http_client \<Rightarrow> bool" where
  "http_released h \<longleftrightarrow> \<not> hc_server h \<and> \<not> hc_proxy h \<and> hc_cancelled h \<and>
     (case hc_garlic h of None \<Rightarrow> True | Some g \<Rightarrow> \<not> g_open g)"

text \<open>A shutdown that succeeds satisfies the contract of stopping; without server there is nothing to stop.\<close>

interpretation http_stopping: stoppable "\<lambda>h. fst (HTTPClient_Stop None h)" "\<lambda>h. tb_Status (hc_base h)" "\<lambda>h. \<not> hc_server h" http_released
  by unfold_locales (auto simp: HTTPClient_Stop_def Let_def http_released_def split: option.splits)

lemma HTTPClient_Stop_failed:
  "hc_server h \<Longrightarrow> HTTPClient_Stop (Some e) h = (h', r) \<Longrightarrow> r = Some e \<and> tb_Status (hc_base h') = StatusStopping \<and> hc_server h'"
  by (auto simp: HTTPClient_Stop_def Let_def)

definition http_life :: "'cl http_client \<Rightarrow> bool \<times> bool \<times> bool \<times> bool \<times> bool \<times> garlic option \<times> tunnel_status" where
  "http_life h = (hc_proxy h, hc_server h, hc_done h, hc_once h, hc_cancelled h, hc_garlic h, tb_Status (hc_base h))"

interpretation http_loading: reloadable "\<lambda>(parse, path). HTTPClient_LoadConfig parse path" "\<lambda>h. tb_Status (hc_base h)" http_life
  by unfold_locales (auto simp: HTTPClient_LoadConfig_def Status_def http_life_def split: option.splits sum.splits if_splits)

text \<open>A client whose listener could not be opened: the proxy is set, the server is not.\<close>

definition wedged :: "'cl http_client \<Rightarrow> bool" where
  "wedged h \<longleftrightarrow> hc_proxy h \<and> \<not> hc_server h \<and> tb_Status (hc_base h) = StatusStarting"

lemma wedged_noop:
  assumes "wedged h"
  shows "HTTPClient_begin env h = Done h None" and "HTTPClient_Stop sd h = (h, None)"
  using assms by (simp_all add: wedged_def HTTPClient_begin_def HTTPClient_Stop_def split: prod.splits)

lemma listen_error_wedged:
  "\<not> hc_proxy h \<Longrightarrow> \<not> hc_server h \<Longrightarrow> listen (HTTPClient_LocalAddress h) = Some err \<Longrightarrow>
     \<exists>h'. HTTPClient_begin (listen, now) h = Done h' (Some err) \<and> wedged h'"
  by (simp add: HTTPClient_begin_def Let_def HTTPClient_LocalAddress_def wedged_def)

lemma wedged_run:
  assumes "locked_run HTTPClient_begin HTTPClient_serve_end (\<lambda>h. fst (HTTPClient_Stop sd h)) es l l'"
    and "wedged (lk_tunnel l)" and "\<not> lk_held l"
  shows "lk_tunnel l' = lk_tunnel l \<and> \<not> lk_held l'"
  using assms
proof (induction rule: locked_run.induct)
  case (run_cons e l l' es l'')
  from run_cons.hyps(1) run_cons.prems have "lk_tunnel l' = lk_tunnel l \<and> \<not> lk_held l'"
    by (cases rule: locked_step.cases) (simp_all add: wedged_noop)
  with run_cons show ?case by simp
qed simp

lemma Dial_eq_DialContext:
  "HTTPClient_Dial ul newRequest doRequest garlic now later addr h =
     (case DialContext ul newRequest doRequest garlic now later (hc_outproxy h) (hc_jump h) addr of
        (jump', r) \<Rightarrow> (h\<lparr>hc_jump := jump'\<rparr>, r))"
  by (simp add: HTTPClient_Dial_def DialContext_def split: prod.splits)

lemma or_empty_Some [simp]: "or_empty_outproxy (Some p) = p"
  by (simp add: or_empty_outproxy_def)

definition outproxy_ok :: "(string \<Rightarrow> string) \<Rightarrow> outproxy option \<Rightarrow> bool" where
  "outproxy_ok ul p \<longleftrightarrow> (case p of None \<Rightarrow> True | Some q \<Rightarrow> op_Address q = '''' \<or> IsI2PAddress ul (op_Address q))"

lemma outproxy_ok_apply:
  "outproxy_ok ul p \<Longrightarrow> validateHTTPClientOpts ul opts = None \<Longrightarrow>
     outproxy_ok ul (opt_apply applyOutproxyAddress (gm_get opts ''outproxy'') p)"
  by (auto simp: outproxy_ok_def validateHTTPClientOpts_def opt_apply_def applyOutproxyAddress_def or_empty_outproxy_def Let_def
      split: option.splits if_splits)

lemma outproxy_ok_enable: "outproxy_ok ul p \<Longrightarrow> outproxy_ok ul (opt_apply applyOutproxyEnabled v p)"
  by (auto simp: outproxy_ok_def opt_apply_def applyOutproxyEnabled_def or_empty_outproxy_def split: option.splits)

lemma SetOptions_outproxy_ok:
  "outproxy_ok ul (hc_outproxy h) \<Longrightarrow> outproxy_ok ul (hc_outproxy (fst (HTTPClient_SetOptions ul dc opts h)))"
  by (auto simp: HTTPClient_SetOptions_def applyHTTPClientOpts_def Let_def split: prod.splits option.splits
      intro!: outproxy_ok_enable outproxy_ok_apply)

lemma HTTPClient_Options_get:
  "gm_get (HTTPClient_Options fl h) k =
     (if k = ''outproxy.enabled'' \<and> (\<exists>p. hc_outproxy h = Some p \<and> op_Address p \<noteq> '''') then
        Some (if op_Enabled (the (hc_outproxy h)) then ''true'' else ''false'')
      else if k = ''outproxy'' \<and> (\<exists>p. hc_outproxy h = Some p \<and> op_Address p \<noteq> '''') then
        Some (op_Address (the (hc_outproxy h)))
      else if k = ''jumpservice'' \<and> hc_jump h \<noteq> None then Some (js_url (the (hc_jump h)))
      else gm_get (BuildCommonOptions fl (tb_Config (hc_base h))) k)"
  by (auto simp: HTTPClient_Options_def Let_def split: option.splits)

lemma ApplyCommon_agree:
  assumes "config_ok cfg" and "gm_get opts ''name'' = Some (tc_Name cfg)" "gm_get opts ''interface'' = Some (tc_Interface cfg)"
    "gm_get opts ''port'' = Some (Itoa (tc_Port cfg))"
  shows "\<exists>cfg'. ApplyCommonOptions opts cfg0 = (cfg', None) \<and> tc_Name cfg' = tc_Name cfg \<and>
    tc_Interface cfg' = tc_Interface cfg \<and> tc_Port cfg' = tc_Port cfg"
  using assms
  by (intro exI [of _ "mergeI2CPOptionsInto opts (cfg0\<lparr>tc_Name := tc_Name cfg, tc_Interface := tc_Interface cfg, tc_Port := tc_Port cfg\<rparr>)"])
    (simp add: ApplyCommonOptions_def apply_None config_ok_def PortString_Itoa)

text \<open>Options without any of the common keys leave the configuration alone.\<close>

lemma ApplyCommon_plain:
  assumes "gm_get opts ''name'' = None" "gm_get opts ''interface'' = None" "gm_get opts ''port'' = None"
    and p: "list_all (\<lambda>(k, v). \<not> HasPrefix k ''i2cp.'') opts"
  shows "ApplyCommonOptions opts cfg = (cfg, None)"
proof -
  have "fold (\<lambda>(k, v) i2cp. if HasPrefix k ''i2cp.'' \<and> v \<noteq> '''' then gm_set (TrimPrefix k ''i2cp.'') (IStr v) i2cp else i2cp) opts acc = acc" for acc
    using p by (induction opts arbitrary: acc) auto
  then have "ExtractI2CPOptions opts = None" by (simp add: ExtractI2CPOptions_def)
  with assms show ?thesis by (simp add: ApplyCommonOptions_def apply_None mergeI2CPOptionsInto_def)
qed

lemma base_SetOptions_plain:
  "gm_get opts ''name'' = None \<Longrightarrow> gm_get opts ''interface'' = None \<Longrightarrow> gm_get opts ''port'' = None \<Longrightarrow>
     gm_get opts ''maxconns'' = None \<Longrightarrow> gm_get opts ''ratelimit'' = None \<Longrightarrow>
     list_all (\<lambda>(k, v). \<not> HasPrefix k ''i2cp.'') opts \<Longrightarrow> base_SetOptions fl opts b = (b, None)"
  by (simp add: base_SetOptions_def ApplyCommon_plain ApplyRateLimitOptions_def then_step_def applyMaxConnsOption_def
      applyRateLimitOption_def)

section \<open>Properties\<close>

text \<open>
  An HTTP client whose port could not be opened is stuck: the failed \<open>Start\<close> has set the
  proxy but no server, so afterwards, in every interleaving of any further calls, each
  \<open>Start\<close> returns at once without an error and without serving, each \<open>Stop\<close> does nothing,
  the status stays Starting, and \<open>LoadConfig\<close> is refused.
\<close>
theorem listen_error_wedges_client:
  assumes "\<not> hc_proxy h" and "\<not> hc_server h" and "listen (HTTPClient_LocalAddress h) = Some err"
  shows "\<exists>h'. HTTPClient_Start (listen, now) serve h = (h', Some (Some err)) \<and> tb_Status (hc_base h') = StatusStarting \<and>
    HTTPClient_Start env serve2 h' = (h', Some None) \<and> HTTPClient_Stop sd h' = (h', None) \<and>
    (\<exists>e. HTTPClient_LoadConfig parse path h' = (h', Some e)) \<and>
    (\<forall>es l. locked_run HTTPClient_begin HTTPClient_serve_end (\<lambda>h. fst (HTTPClient_Stop sd h)) es
       \<lparr>lk_tunnel = h', lk_held = False, lk_waiting = n\<rparr> l \<longrightarrow> lk_tunnel l = h' \<and> \<not> lk_held l)"
proof -
  from listen_error_wedged [of h listen err now] assms obtain h' where h': "HTTPClient_begin (listen, now) h = Done h' (Some err)" "wedged h'"
    by blast
  have "CheckTunnelStopped (tb_Status (hc_base h')) \<noteq> None"
    using h'(2) by (simp add: wedged_def CheckTunnelStopped_def)
  then have "\<exists>e. HTTPClient_LoadConfig parse path h' = (h', Some e)"
    by (auto simp: HTTPClient_LoadConfig_def Status_def)
  moreover have "lk_tunnel l = h' \<and> \<not> lk_held l" if
    "locked_run HTTPClient_begin HTTPClient_serve_end (\<lambda>h. fst (HTTPClient_Stop sd h)) es \<lparr>lk_tunnel = h', lk_held = False, lk_waiting = n\<rparr> l"
    for es l
    using wedged_run [OF that] h'(2) by simp
  ultimately show ?thesis
    using h' wedged_noop [OF h'(2)] by (intro exI [of _ h']) (simp add: HTTPClient_Start_def wedged_def)
qed

definition example_http_client :: "nat http_client" where
  "example_http_client =
     \<lparr>hc_garlic = Some \<lparr>g_open = True, g_service = None\<rparr>, hc_base = SetStatus StatusStopped example_base, hc_proxy = False,
      hc_server = False, hc_done = False, hc_once = False, hc_cancelled = False,
      hc_jump = Some (NewJumpService 0 (Some 1) DefaultJumpServiceURL),
      hc_outproxy = Some \<lparr>op_Address = ''exit.i2p'', op_Enabled = False\<rparr>\<rparr>"

lemma listen_error_wedges_client_witness:
  "\<exists>h'. HTTPClient_Start (\<lambda>a. Some (External ''address already in use''), 0) None example_http_client = (h', Some (Some (External ''address already in use''))) \<and>
     HTTPClient_Start (\<lambda>a. None, 1) None h' = (h', Some None)"
proof -
  have "\<not> hc_proxy example_http_client" "\<not> hc_server example_http_client" by (simp_all add: example_http_client_def)
  from listen_error_wedges_client [OF this, of "\<lambda>a. Some (External ''address already in use'')" "External ''address already in use''"
      0 None "(\<lambda>a. None, 1)" None None undefined undefined 0]
  show ?thesis by blast
qed

text \<open>
  The dialer of CONNECT requests and \<open>Dial\<close> route every address exactly as \<open>DialContext\<close>
  does, and \<open>connectDial\<close> counts exactly one connection for a success and one failed
  connection otherwise.
\<close>
theorem connectDial_equiv:
  "(case connectDial ul newRequest doRequest garlic now later addr h of
      (h1, r) \<Rightarrow>
        (hc_jump h1, r) = DialContext ul newRequest doRequest garlic now later (hc_outproxy h) (hc_jump h) addr \<and>
        tb_Metrics (hc_base h1) =
          map_option (case r of Inl e \<Rightarrow> RecordConnectionFailed | Inr c \<Rightarrow> RecordConnection) (tb_Metrics (hc_base h))) \<and>
   (case HTTPClient_Dial ul newRequest doRequest garlic now later addr h of
      (h2, r2) \<Rightarrow> (hc_jump h2, r2) = DialContext ul newRequest doRequest garlic now later (hc_outproxy h) (hc_jump h) addr \<and>
        h2\<lparr>hc_jump := hc_jump h\<rparr> = h)"
  by (auto simp: connectDial_def Dial_eq_DialContext DialContext_def Let_def split: prod.splits sum.splits)

text \<open>
  The options an HTTP client reports can be applied to another one: name, interface,
  port, the URL of the jump service (still asked through the receiver's own client) and
  the outproxy with its switch are taken over exactly.
\<close>
theorem HTTPClient_Options_roundtrip:
  assumes "config_ok (tb_Config (hc_base h))" and "hc_jump h = Some j" and "js_url j \<noteq> ''''" and "hc_jump k = Some j0"
    and "hc_outproxy h = Some p" and "op_Address p \<noteq> ''''" and "IsI2PAddress ul (op_Address p)"
  shows "\<exists>k' j1. HTTPClient_SetOptions ul dc (HTTPClient_Options fl h) k = (k', None) \<and>
    tc_Name (tb_Config (hc_base k')) = tc_Name (tb_Config (hc_base h)) \<and>
    tc_Interface (tb_Config (hc_base k')) = tc_Interface (tb_Config (hc_base h)) \<and>
    tc_Port (tb_Config (hc_base k')) = tc_Port (tb_Config (hc_base h)) \<and>
    hc_jump k' = Some j1 \<and> js_url j1 = js_url j \<and> js_client j1 = js_client j0 \<and> hc_outproxy k' = Some p"
proof -
  let ?o = "HTTPClient_Options fl h"
  obtain cfg where cfg: "ApplyCommonOptions ?o (tb_Config (hc_base k)) = (cfg, None)"
    "tc_Name cfg = tc_Name (tb_Config (hc_base h))" "tc_Interface cfg = tc_Interface (tb_Config (hc_base h))"
    "tc_Port cfg = tc_Port (tb_Config (hc_base h))"
    using ApplyCommon_agree [OF assms(1), of ?o "tb_Config (hc_base k)"] by (auto simp: HTTPClient_Options_get BuildCommon_get)
  have "validateHTTPClientOpts ul ?o = None"
    using assms by (simp add: validateHTTPClientOpts_def HTTPClient_Options_get)
  with cfg assms show ?thesis
    by (cases p) (simp add: HTTPClient_SetOptions_def applyHTTPClientOpts_def opt_apply_def HTTPClient_Options_get
        applyJumpOption_def applyOutproxyAddress_def applyOutproxyEnabled_def or_empty_outproxy_def NewJumpService_def Let_def)
qed

lemma HTTPClient_Options_roundtrip_witness:
  "\<exists>k'. HTTPClient_SetOptions (\<lambda>s. s) 0 (HTTPClient_Options no_floats example_http_client)
      (example_http_client\<lparr>hc_outproxy := None\<rparr>) = (k', None) \<and>
     hc_outproxy k' = Some \<lparr>op_Address = ''exit.i2p'', op_Enabled = False\<rparr>"
proof -
  let ?j = "NewJumpService (0::nat) (Some 1) DefaultJumpServiceURL" and ?k = "example_http_client\<lparr>hc_outproxy := None\<rparr>"
  have h: "hc_jump example_http_client = Some ?j" "js_url ?j \<noteq> ''''" "hc_jump ?k = Some ?j"
    "hc_outproxy example_http_client = Some \<lparr>op_Address = ''exit.i2p'', op_Enabled = False\<rparr>"
    by (simp_all add: example_http_client_def NewJumpService_def DefaultJumpServiceURL_def)
  have i: "IsI2PAddress (\<lambda>s. s) (op_Address \<lparr>op_Address = ''exit.i2p'', op_Enabled = False\<rparr>)" by code_simp
  have c: "config_ok (tb_Config (hc_base example_http_client))"
    using example_config_ok by (simp add: example_http_client_def example_base_def)
  have n: "op_Address \<lparr>op_Address = ''exit.i2p'', op_Enabled = False\<rparr> \<noteq> ''''" by simp
  from HTTPClient_Options_roundtrip [OF c h n i, of 0 no_floats] show ?thesis by blast
qed

text \<open>
  Through every sequence of option changes, accepted or refused, the outproxy of an
  HTTP client is empty or an I2P address. The HTTP bidirectional tunnel has no such
  check: it accepts a clearnet host as its outproxy and routes clearnet requests to it.
  It also takes the value "yes" of \<open>outproxy.enabled\<close>, which the client accepts, for off.
\<close>
theorem outproxy_option_checked:
  "outproxy_ok ul (hc_outproxy (fold (\<lambda>o' k. fst (HTTPClient_SetOptions ul dc o' k)) changes
      (h\<lparr>hc_outproxy := Some \<lparr>op_Address = '''', op_Enabled = False\<rparr>\<rparr>))) \<and>
   (case HTTPBidirectional_SetOptions fl resolve [(''outproxy'', ''proxy.example.com''), (''outproxy.enabled'', ''true'')] t of
      (t', e) \<Rightarrow> e = None \<and> IsActive (hb_outproxy t') \<and> \<not> outproxy_ok (\<lambda>s. s) (hb_outproxy t')) \<and>
   (case HTTPBidirectional_SetOptions fl resolve [(''outproxy.enabled'', ''yes'')] t of
      (t', e) \<Rightarrow> e = None \<and> \<not> IsActive (hb_outproxy t')) \<and>
   (case HTTPClient_SetOptions ul dc [(''outproxy.enabled'', ''yes'')] h of
      (k, e) \<Rightarrow> e = None \<and> op_Enabled (the (hc_outproxy k)))"
proof (intro conjI)
  have "outproxy_ok ul (hc_outproxy k) \<Longrightarrow>
      outproxy_ok ul (hc_outproxy (fold (\<lambda>o' k. fst (HTTPClient_SetOptions ul dc o' k)) changes k))" for k
    by (induction changes arbitrary: k) (simp_all add: SetOptions_outproxy_ok)
  then show "outproxy_ok ul (hc_outproxy (fold (\<lambda>o' k. fst (HTTPClient_SetOptions ul dc o' k)) changes
      (h\<lparr>hc_outproxy := Some \<lparr>op_Address = '''', op_Enabled = False\<rparr>\<rparr>)))"
    by (simp add: outproxy_ok_def)
next
  have "\<not> IsI2PAddress (\<lambda>s. s) ''proxy.example.com''" by code_simp
  then show "case HTTPBidirectional_SetOptions fl resolve [(''outproxy'', ''proxy.example.com''), (''outproxy.enabled'', ''true'')] t of
      (t', e) \<Rightarrow> e = None \<and> IsActive (hb_outproxy t') \<and> \<not> outproxy_ok (\<lambda>s. s) (hb_outproxy t')"
    by (simp add: HTTPBidirectional_SetOptions_def stream_SetOptions_def base_SetOptions_plain applyOutproxyOpts_def HasPrefix_def
        outproxy_ok_def IsActive_def Let_def)
next
  show "case HTTPBidirectional_SetOptions fl resolve [(''outproxy.enabled'', ''yes'')] t of
      (t', e) \<Rightarrow> e = None \<and> \<not> IsActive (hb_outproxy t')"
    by (simp add: HTTPBidirectional_SetOptions_def stream_SetOptions_def base_SetOptions_plain applyOutproxyOpts_def HasPrefix_def
        IsActive_def Let_def)
next
  show "case HTTPClient_SetOptions ul dc [(''outproxy.enabled'', ''yes'')] h of (k, e) \<Rightarrow> e = None \<and> op_Enabled (the (hc_outproxy k))"
    by (simp add: HTTPClient_SetOptions_def ApplyCommon_plain validateHTTPClientOpts_def applyHTTPClientOpts_def opt_apply_def HasPrefix_def
        applyOutproxyEnabled_def Let_def)
qed

section \<open>Wrappers\<close>

definition HTTPClient_resolveJump ::
  "(string \<Rightarrow> string) \<Rightarrow> (string \<Rightarrow> go_error option) \<Rightarrow> ('cl \<Rightarrow> string \<Rightarrow> go_error + jump_response) \<Rightarrow>
   int \<Rightarrow> int \<Rightarrow> string \<Rightarrow> 'cl http_client \<Rightarrow> 'cl http_client \<times> string" where
  "HTTPClient_resolveJump ul newRequest doRequest now later addr h =
     (case resolveJumpSnapshot ul newRequest doRequest now later (hc_jump h) addr of
        (jump', addr') \<Rightarrow> (h\<lparr>hc_jump := jump'\<rparr>, addr'))"

definition dialOutproxyNoCtx :: "(string \<Rightarrow> go_error + 'c) \<Rightarrow> string \<Rightarrow> 'cl http_client \<Rightarrow> go_error + 'c" where
  "dialOutproxyNoCtx garlic addr h = dialOutproxy garlic (hc_outproxy h) addr"

definition JumpService_URL :: "'cl jump_service \<Rightarrow> string" where
  "JumpService_URL j = js_url j"

definition HTTPBidirectional_Dial ::
  "(string \<Rightarrow> string) \<Rightarrow> (string \<Rightarrow> go_error option) \<Rightarrow> ('cl \<Rightarrow> string \<Rightarrow> go_error + jump_response) \<Rightarrow>
   (string \<Rightarrow> go_error + 'c) \<Rightarrow> int \<Rightarrow> int \<Rightarrow> outproxy option \<Rightarrow> 'cl jump_service option \<Rightarrow> string \<Rightarrow>
   'cl jump_service option \<times> (go_error + 'c)" where
  "HTTPBidirectional_Dial ul newRequest doRequest garlic now later outproxy jump addr =
     bidi_DialContext ul newRequest doRequest garlic now later outproxy jump addr"

text \<open>\<open>Dial\<close> is these wrappers, put together.\<close>

lemma HTTPClient_Dial_wrappers:
  "HTTPClient_Dial ul nr dr garlic now later addr h =
     (if \<not> IsI2PAddress ul (dial_host addr) then (h, dialOutproxyNoCtx garlic addr h)
      else case HTTPClient_resolveJump ul nr dr now later addr h of (h1, addr') \<Rightarrow> (h1, garlic addr'))"
  by (simp add: HTTPClient_Dial_def dialOutproxyNoCtx_def HTTPClient_resolveJump_def dialOutproxy_eq split: prod.split)

end
