(* ===== verification/Socks.thy ===== *)
theory Socks
  imports TcpClient HttpClient
begin

text \<open>
  The SOCKS5 tunnel (\<open>lib/socks/client/socks.go\<close>, \<open>handle.go\<close>, \<open>new.go\<close>): a proxy that serves
  while \<open>Start\<close> holds \<open>mu\<close>, with a rate limiter and a semaphore that its handlers consult.
  The SOCKS5 server, dialing, forwarding and the limiter of \<open>golang.org/x/time/rate\<close> are
  libraries: the limiter is a value of type \<^typ>\<open>'l\<close> with \<open>newLimiter\<close> and \<open>allow\<close> as
  parameters. Semaphores live in a store, as for the TCP client.
\<close>

section \<open>State\<close>

record 'l socks =
  sk_garlic :: "garlic option"
  sk_base :: tunnel_base
  sk_connSem :: "nat option"
  sk_chans :: "(int \<times> int) list"
  sk_limiter :: "'l option"
  sk_server :: bool
  sk_done :: bool
  sk_once :: bool
  sk_cancelled :: bool

definition upd_sk :: "(tunnel_base \<Rightarrow> tunnel_base) \<Rightarrow> 'l socks \<Rightarrow> 'l socks" where
  "upd_sk f s = s\<lparr>sk_base := f (sk_base s)\<rparr>"

definition SOCKS_recordError :: "go_error \<Rightarrow> 'l socks \<Rightarrow> 'l socks" where
  "SOCKS_recordError err s = upd_sk (RecordError err) s"

definition SOCKS_setStatus :: "tunnel_status \<Rightarrow> 'l socks \<Rightarrow> 'l socks" where
  "SOCKS_setStatus st s = upd_sk (SetStatus st) s"

definition NewSocksClient ::
  "float_lib \<Rightarrow> (float64 \<Rightarrow> int \<Rightarrow> 'l) \<Rightarrow> (tunnel_config \<Rightarrow> go_error + garlic) \<Rightarrow> tunnel_config \<Rightarrow> go_error + 'l socks" where
  "NewSocksClient fl newLimiter newGarlic config =
     rbind (newGarlic config) (\<lambda>garlic.
       let maxConns = TunnelOptionsMaxConns fl (tc_Tunnel config) 1000;
           rateLimit = TunnelOptionsRateLimit fl (tc_Tunnel config) (Fin False 100 0)
       in Inr \<lparr>sk_garlic = Some garlic,
               sk_base = \<lparr>tb_Config = config, tb_MaxConns = maxConns, tb_RateLimit = rateLimit,
                          tb_Status = StatusStopped, tb_Errors = [], tb_Metrics = None\<rparr>,
               sk_connSem = (if maxConns > 0 then Some 0 else None),
               sk_chans = (if maxConns > 0 then [(maxConns, 0)] else []),
               sk_limiter = (if float_pos rateLimit then Some (newLimiter rateLimit (int_of_float64 fl rateLimit)) else None),
               sk_server = False, sk_done = False, sk_once = False, sk_cancelled = False\<rparr>)"

definition SOCKS_Address :: "'l socks \<Rightarrow> string" where
  "SOCKS_Address s =
     (case sk_garlic s of None \<Rightarrow> '''' | Some g \<Rightarrow> (case g_service g of None \<Rightarrow> '''' | Some a \<Rightarrow> a))"

definition SOCKS_LocalAddress :: "'l socks \<Rightarrow> string" where
  "SOCKS_LocalAddress s =
     JoinHostPort (tc_Interface (tb_Config (sk_base s))) (Itoa (tc_Port (tb_Config (sk_base s))))"

section \<open>Admission\<close>

definition checkRateLimit :: "('l \<Rightarrow> bool \<times> 'l) \<Rightarrow> 'l socks \<Rightarrow> 'l socks \<times> go_error option" where
  "checkRateLimit allow s =
     (case sk_limiter s of
        None \<Rightarrow> (s, None)
      | Some l \<Rightarrow>
          (case allow l of
             (True, l') \<Rightarrow> (s\<lparr>sk_limiter := Some l'\<rparr>, None)
           | (False, l') \<Rightarrow>
               (SOCKS_recordError (Errorf ''connection rejected: rate limit exceeded'')
                  (upd_sk (upd_metrics RecordRateLimitHit) (s\<lparr>sk_limiter := Some l'\<rparr>)),
                Some (Errorf ''rate limit exceeded''))))"

definition checkConcurrencyLimit :: "'l socks \<Rightarrow> 'l socks \<times> go_error option" where
  "checkConcurrencyLimit s =
     (case sk_connSem s of
        None \<Rightarrow> (s, None)
      | Some sem \<Rightarrow>
          (case sk_chans s ! sem of
             (capacity, taken) \<Rightarrow>
               if taken < capacity then (s\<lparr>sk_chans := (sk_chans s)[sem := (capacity, taken + 1)]\<rparr>, None)
               else
                 (SOCKS_recordError (Errorf (''connection rejected: at capacity ('' @ Itoa capacity @ '' max concurrent)'')) s,
                  Some (Errorf ''connection limit reached''))))"

definition admitConnection :: "('l \<Rightarrow> bool \<times> 'l) \<Rightarrow> 'l socks \<Rightarrow> 'l socks \<times> go_error option" where
  "admitConnection allow = then_step (checkRateLimit allow) checkConcurrencyLimit"

text \<open>
  The deferred \<open><-s.connSem\<close> reads the field when it runs. \<open>None\<close>: it blocks, because the
  channel is nil or empty.
\<close>

definition receiveSem :: "'l socks \<Rightarrow> 'l socks option" where
  "receiveSem s =
     (case sk_connSem s of
        None \<Rightarrow> None
      | Some sem \<Rightarrow>
          (case sk_chans s ! sem of
             (capacity, taken) \<Rightarrow>
               if taken > 0 then Some (s\<lparr>sk_chans := (sk_chans s)[sem := (capacity, taken - 1)]\<rparr>) else None))"

section \<open>Handlers\<close>

text \<open>
  One call that nothing else disturbs. \<open>closes\<close> tells whether \<open>stream.Forward\<close> closed the
  counted connection; \<open>None\<close> is a call that blocks for ever at its deferred receive.
\<close>

definition SOCKS_TCPHandle ::
  "('l \<Rightarrow> bool \<times> 'l) \<Rightarrow> (string \<Rightarrow> go_error option) \<Rightarrow> conn_io list \<Rightarrow> bool \<Rightarrow> go_error option \<Rightarrow> string \<Rightarrow>
   'l socks \<Rightarrow> ('l socks \<times> go_error option) option" where
  "SOCKS_TCPHandle allow dial io closes fwd addr s =
     (case admitConnection allow s of
        (s1, Some err) \<Rightarrow> Some (s1, Some err)
      | (s1, None) \<Rightarrow>
          let releases = (sk_connSem s1 \<noteq> None);
              s2 = upd_sk (upd_metrics RecordConnection) s1;
              (s3, ret) =
                (case dial addr of
                   Some err \<Rightarrow> (upd_sk (upd_metrics RecordConnectionFailed) s2, Some err)
                 | None \<Rightarrow>
                     (upd_sk (\<lambda>b. let m = fold io_metrics io (tb_Metrics b) in
                        b\<lparr>tb_Metrics := (if closes then snd (CountingConn_Close False m) else m)\<rparr>) s2, fwd));
              s4 = upd_sk (upd_metrics RecordDisconnection) s3
          in if releases then map_option (\<lambda>s5. (s5, ret)) (receiveSem s4) else Some (s4, ret))"

definition SOCKS_UDPHandle ::
  "(string \<Rightarrow> go_error option) \<Rightarrow> i2p_lookup \<Rightarrow> (string \<Rightarrow> go_error option) \<Rightarrow> go_error option \<Rightarrow> go_error option \<Rightarrow>
   string \<Rightarrow> 'l socks \<Rightarrow> 'l socks \<times> go_error option" where
  "SOCKS_UDPHandle dial lookup writeTo dialUDP fwd addr s =
     (case dial addr of
        Some err \<Rightarrow> (upd_sk (upd_metrics RecordConnectionFailed) s, Some err)
      | None \<Rightarrow>
          (case lookup addr of
             Inl err \<Rightarrow> (s, Some (Wrapf ''failed to lookup remote address'' err))
           | Inr remoteAddr \<Rightarrow>
               (case writeTo remoteAddr of
                  Some err \<Rightarrow> (s, Some (Wrapf ''failed to write initial datagram'' err))
                | None \<Rightarrow> (case dialUDP of Some err \<Rightarrow> (s, Some err) | None \<Rightarrow> (s, fwd)))))"

section \<open>Start and Stop\<close>

definition SOCKS_begin :: "(string \<Rightarrow> go_error option) \<times> 64 word \<Rightarrow> 'l socks \<Rightarrow> 'l socks begun" where
  "SOCKS_begin env s =
     (case env of (newServer, now) \<Rightarrow>
        if sk_server s then Done s None
        else
          let s1 = s\<lparr>sk_cancelled := False, sk_done := False, sk_once := False\<rparr> in
          (case newServer (SOCKS_LocalAddress s1) of
             Some err \<Rightarrow> Done (SOCKS_recordError err s1) (Some (Wrapf ''failed to create SOCKS5 server'' err))
           | None \<Rightarrow>
               Serving (upd_sk (upd_metrics (RecordStart now))
                 (SOCKS_setStatus StatusRunning (SOCKS_setStatus StatusStarting (s1\<lparr>sk_server := True\<rparr>))))))"

definition SOCKS_serve_end :: "go_error option \<Rightarrow> 'l socks \<Rightarrow> 'l socks" where
  "SOCKS_serve_end err s =
     (case err of None \<Rightarrow> s | Some e \<Rightarrow> SOCKS_recordError e (SOCKS_setStatus StatusFailed s))"

definition SOCKS_Start ::
  "(string \<Rightarrow> go_error option) \<times> 64 word \<Rightarrow> go_error option option \<Rightarrow> 'l socks \<Rightarrow> 'l socks \<times> go_error option option" where
  "SOCKS_Start env serve s =
     (case SOCKS_begin env s of
        Done s1 r \<Rightarrow> (s1, Some r)
      | Serving s1 \<Rightarrow> (case serve of None \<Rightarrow> (s1, None) | Some err \<Rightarrow> (SOCKS_serve_end err s1, Some err)))"

definition SOCKS_Stop :: "go_error option \<Rightarrow> 'l socks \<Rightarrow> 'l socks \<times> go_error option" where
  "SOCKS_Stop shutdown s =
     (if \<not> sk_server s then (s, None)
      else
        let s1 = (SOCKS_setStatus StatusStopping s)\<lparr>sk_once := True, sk_done := (if sk_once s then sk_done s else True),
                                                     sk_cancelled := True\<rparr>
        in case shutdown of
             Some err \<Rightarrow> (SOCKS_recordError err s1, Some err)
           | None \<Rightarrow>
               (upd_sk (upd_metrics RecordStop) (SOCKS_setStatus StatusStopped
                  (s1\<lparr>sk_garlic := map_option (\<lambda>g. g\<lparr>g_open := False\<rparr>) (sk_garlic s1), sk_server := False\<rparr>)), None))"

section \<open>Options\<close>

definition SOCKS_Options :: "float_lib \<Rightarrow> 'l socks \<Rightarrow> options" where
  "SOCKS_Options fl s =
     AddRateLimitOptions fl (tb_MaxConns (sk_base s)) (tb_RateLimit (sk_base s)) (BuildCommonOptions fl (tb_Config (sk_base s)))"

definition SOCKS_rebuild :: "float_lib \<Rightarrow> (float64 \<Rightarrow> int \<Rightarrow> 'l) \<Rightarrow> 'l socks \<Rightarrow> 'l socks" where
  "SOCKS_rebuild fl newLimiter s =
     (let mc = tb_MaxConns (sk_base s); rl = tb_RateLimit (sk_base s);
          s1 = (if mc > 0 then s\<lparr>sk_chans := sk_chans s @ [(mc, 0)], sk_connSem := Some (length (sk_chans s))\<rparr>
                else s\<lparr>sk_connSem := None\<rparr>)
      in s1\<lparr>sk_limiter := (if float_pos rl then Some (newLimiter rl (int_of_float64 fl rl)) else None)\<rparr>)"

definition SOCKS_SetOptions ::
  "float_lib \<Rightarrow> (float64 \<Rightarrow> int \<Rightarrow> 'l) \<Rightarrow> options \<Rightarrow> 'l socks \<Rightarrow> 'l socks \<times> go_error option" where
  "SOCKS_SetOptions fl newLimiter opts s =
     (case base_SetOptions fl opts (sk_base s) of
        (b, Some err) \<Rightarrow> (s\<lparr>sk_base := b\<rparr>, Some err)
      | (b, None) \<Rightarrow> (SOCKS_rebuild fl newLimiter (s\<lparr>sk_base := b\<rparr>), None))"

definition SOCKS_LoadConfig ::
  "(string \<Rightarrow> go_error + tunnel_config) \<Rightarrow> string \<Rightarrow> 'l socks \<Rightarrow> 'l socks \<times> go_error option" where
  "SOCKS_LoadConfig parse path s =
     (case CheckTunnelStopped (Status (sk_base s)) of
        Some err \<Rightarrow> (s, Some err)
      | None \<Rightarrow>
          (case parse path of
             Inl err \<Rightarrow> (s, Some err)
           | Inr newConfig \<Rightarrow>
               if tc_Type newConfig \<noteq> ''socks'' \<and> tc_Type newConfig \<noteq> ''socksclient'' then
                 (s, Some (Errorf (''config file contains '' @ tc_Type newConfig @ '' tunnel, expected socks or socksclient'')))
               else (upd_sk (\<lambda>b. b\<lparr>tb_Config := newConfig\<rparr>) s, None)))"

section \<open>Lemmas\<close>

lemma upd_sk_simps [simp]:
  "sk_base (upd_sk f s) = f (sk_base s)" "sk_connSem (upd_sk f s) = sk_connSem s" "sk_chans (upd_sk f s) = sk_chans s"
  "sk_limiter (upd_sk f s) = sk_limiter s" "sk_server (upd_sk f s) = sk_server s" "sk_garlic (upd_sk f s) = sk_garlic s"
  "sk_done (upd_sk f s) = sk_done s" "sk_once (upd_sk f s) = sk_once s" "sk_cancelled (upd_sk f s) = sk_cancelled s"
  by (simp_all add: upd_sk_def)

lemmas sk_upd_defs = SOCKS_recordError_def SOCKS_setStatus_def

definition socks_released :: "'l socks \<Rightarrow> bool" where
  "socks_released s \<longleftrightarrow> \<not> sk_server s \<and> sk_cancelled s \<and> (case sk_garlic s of None \<Rightarrow> True | Some g \<Rightarrow> \<not> g_open g)"

interpretation socks_stopping: stoppable "\<lambda>s. fst (SOCKS_Stop None s)" "\<lambda>s. tb_Status (sk_base s)" "\<lambda>s. \<not> sk_server s" socks_released
  by unfold_locales (auto simp: SOCKS_Stop_def Let_def socks_released_def sk_upd_defs split: option.splits)

definition socks_life :: "'l socks \<Rightarrow> bool \<times> bool \<times> bool \<times> bool \<times> garlic option \<times> tunnel_status" where
  "socks_life s = (sk_server s, sk_done s, sk_once s, sk_cancelled s, sk_garlic s, tb_Status (sk_base s))"

interpretation socks_loading: reloadable "\<lambda>(parse, path). SOCKS_LoadConfig parse path" "\<lambda>s. tb_Status (sk_base s)" socks_life
  by unfold_locales (auto simp: SOCKS_LoadConfig_def Status_def socks_life_def split: option.splits sum.splits if_splits)

text \<open>
  The concurrent behaviour of the handlers: one is admitted or refused, one returns (its
  deferred receive must not block), errors and metrics change. The list has the channel
  each handler in flight took its slot from.
\<close>

type_synonym 'l sk_state = "'l socks \<times> nat option list"

inductive sk_step :: "('l \<Rightarrow> bool \<times> 'l) \<Rightarrow> 'l sk_state \<Rightarrow> 'l sk_state \<Rightarrow> bool" for allow :: "'l \<Rightarrow> bool \<times> 'l" where
  sk_admitted: "admitConnection allow s = (s', None) \<Longrightarrow> sk_step allow (s, hs) (s', sk_connSem s' # hs)"
| sk_refused: "admitConnection allow s = (s', Some e) \<Longrightarrow> sk_step allow (s, hs) (s', hs)"
| sk_returned_free: "sk_step allow (s, gs @ None # hs) (s, gs @ hs)"
| sk_returned: "receiveSem s = Some s' \<Longrightarrow> sk_step allow (s, gs @ Some k # hs) (s', gs @ hs)"
| sk_counted: "sk_step allow (s, hs) (upd_sk f s, hs)"

text \<open>The same with option changes in between.\<close>

inductive sk_reconf :: "float_lib \<Rightarrow> (float64 \<Rightarrow> int \<Rightarrow> 'l) \<Rightarrow> ('l \<Rightarrow> bool \<times> 'l) \<Rightarrow> 'l sk_state \<Rightarrow> 'l sk_state \<Rightarrow> bool"
  for fl :: float_lib and newLimiter :: "float64 \<Rightarrow> int \<Rightarrow> 'l" and allow :: "'l \<Rightarrow> bool \<times> 'l" where
  reconf_step: "sk_step allow st st' \<Longrightarrow> sk_reconf fl newLimiter allow st st'"
| reconf_set: "sk_reconf fl newLimiter allow (s, hs) (fst (SOCKS_SetOptions fl newLimiter opts s), hs)"

text \<open>Without option changes there is one semaphore, \<open>sem\<close>, with capacity \<open>c\<close>.\<close>

definition sk_inv :: "int \<Rightarrow> 'l sk_state \<Rightarrow> bool" where
  "sk_inv c st \<longleftrightarrow> (case st of (s, hs) \<Rightarrow>
     sk_connSem s = Some 0 \<and> length (sk_chans s) = 1 \<and> fst (sk_chans s ! 0) = c \<and> slots_inv (sk_chans s) hs \<and>
     list_all (\<lambda>g. g = Some 0) hs)"

lemma checkRateLimit_sem [simp]:
  "sk_connSem (fst (checkRateLimit allow s)) = sk_connSem s" "sk_chans (fst (checkRateLimit allow s)) = sk_chans s"
  by (auto simp: checkRateLimit_def sk_upd_defs split: option.splits prod.splits bool.splits)

lemma admit_cases:
  assumes "sk_connSem s = Some k"
  obtains (ok) c n s' where "admitConnection allow s = (s', None)" "sk_chans s ! k = (c, n)" "n < c"
      "sk_connSem s' = Some k" "sk_chans s' = (sk_chans s)[k := (c, n + 1)]"
  | (no) s' e where "admitConnection allow s = (s', Some e)" "sk_connSem s' = Some k" "sk_chans s' = sk_chans s"
proof -
  obtain s1 r where r: "checkRateLimit allow s = (s1, r)" by fastforce
  then have s1: "sk_connSem s1 = Some k" "sk_chans s1 = sk_chans s"
    using checkRateLimit_sem [of allow s] assms by simp_all
  obtain c n where cn: "sk_chans s ! k = (c, n)" by fastforce
  show ?thesis
  proof (cases r)
    case (Some e)
    with r s1 no show ?thesis by (simp add: admitConnection_def then_step_def)
  next
    case None
    show ?thesis
    proof (cases "n < c")
      case True
      show ?thesis
        by (rule ok [of "s1\<lparr>sk_chans := (sk_chans s1)[k := (c, n + 1)]\<rparr>" c n])
          (use r None s1 cn True in \<open>simp_all add: admitConnection_def then_step_def checkConcurrencyLimit_def\<close>)
    next
      case False
      with r None s1 cn obtain s2 e where "admitConnection allow s = (s2, Some e)" "sk_connSem s2 = Some k" "sk_chans s2 = sk_chans s"
        by (simp add: admitConnection_def then_step_def checkConcurrencyLimit_def sk_upd_defs)
      then show ?thesis by (rule no)
    qed
  qed
qed

lemma sk_inv_step: "sk_step allow st st' \<Longrightarrow> sk_inv c st \<Longrightarrow> sk_inv c st'"
proof (induction rule: sk_step.induct)
  case (sk_admitted s s' hs)
  then have k: "sk_connSem s = Some 0" by (simp add: sk_inv_def)
  from this show ?case
    by (cases rule: admit_cases [of s 0 allow])
      (use sk_admitted in \<open>auto simp: sk_inv_def slots_inv_take\<close>)
next
  case (sk_refused s s' e hs)
  then have k: "sk_connSem s = Some 0" by (simp add: sk_inv_def)
  from this show ?case
    by (cases rule: admit_cases [of s 0 allow]) (use sk_refused in \<open>auto simp: sk_inv_def\<close>)
next
  case (sk_returned s s' gs k hs)
  then have k: "k = 0" "sk_connSem s = Some 0" by (simp_all add: sk_inv_def)
  obtain d n where dn: "sk_chans s ! 0 = (d, n)" by fastforce
  with sk_returned.hyps k have "s' = s\<lparr>sk_chans := (sk_chans s)[0 := (d, n - 1)]\<rparr>"
    by (simp add: receiveSem_def split: if_splits)
  with sk_returned.prems k dn show ?case by (simp add: sk_inv_def slots_inv_give)
qed (simp_all add: sk_inv_def)

lemma sk_inv_run: "(sk_step allow)\<^sup>*\<^sup>* st st' \<Longrightarrow> sk_inv c st \<Longrightarrow> sk_inv c st'"
  by (induction rule: rtranclp_induct) (blast intro: sk_inv_step)+

lemma NewSocksClient_inv:
  "NewSocksClient fl newLimiter newGarlic cfg = Inr s \<Longrightarrow> 0 < tb_MaxConns (sk_base s) \<Longrightarrow> sk_inv (tb_MaxConns (sk_base s)) (s, [])"
  by (auto simp: NewSocksClient_def rbind_Inr_iff Let_def sk_inv_def slots_inv_def)

lemma count_all: "list_all (\<lambda>g. g = x) xs \<Longrightarrow> count_list xs x = length xs"
  by (induction xs) auto

section \<open>Properties\<close>

text \<open>
  As long as nobody changes the options, the SOCKS5 tunnel keeps its limit: in every
  interleaving of admissions and returns at most the configured number of handlers is in
  flight, and a handler that returns is never blocked at its deferred receive.
\<close>
theorem socks_limit:
  assumes "NewSocksClient fl newLimiter newGarlic cfg = Inr s0" and "0 < tb_MaxConns (sk_base s0)"
    and "(sk_step allow)\<^sup>*\<^sup>* (s0, []) (s, hs)"
  shows "int (length hs) \<le> tb_MaxConns (sk_base s0) \<and> (hs \<noteq> [] \<longrightarrow> receiveSem s \<noteq> None)"
proof -
  have inv: "sk_inv (tb_MaxConns (sk_base s0)) (s, hs)"
    using sk_inv_run [OF assms(3)] NewSocksClient_inv [OF assms(1,2)] by blast
  then have len: "count_list hs (Some 0) = length hs" by (simp add: sk_inv_def count_all)
  with inv have "snd (sk_chans s ! 0) = int (length hs)" "snd (sk_chans s ! 0) \<le> tb_MaxConns (sk_base s0)"
    by (auto simp: sk_inv_def slots_inv_def)
  with inv show ?thesis by (auto simp: sk_inv_def receiveSem_def split: prod.splits)
qed

definition one_conn_config :: tunnel_config where
  "one_conn_config = example_config\<lparr>tc_Type := ''socks'', tc_Tunnel := Some [(''maxconns'', IInt 1)]\<rparr>"

text \<open>A limiter that admits everything.\<close>

definition all_pass :: "unit \<Rightarrow> bool \<times> unit" where
  "all_pass l = (True, l)"

definition sk_ex :: "(int \<times> int) list \<Rightarrow> nat option \<Rightarrow> unit socks" where
  "sk_ex cs k =
     \<lparr>sk_garlic = Some \<lparr>g_open = True, g_service = None\<rparr>,
      sk_base = \<lparr>tb_Config = one_conn_config, tb_MaxConns = 1, tb_RateLimit = Fin False 100 0,
                 tb_Status = StatusStopped, tb_Errors = [], tb_Metrics = None\<rparr>,
      sk_connSem = k, sk_chans = cs, sk_limiter = Some (), sk_server = False, sk_done = False, sk_once = False,
      sk_cancelled = False\<rparr>"

lemma sk_ex_new:
  "NewSocksClient no_floats (\<lambda>r b. ()) (\<lambda>c. Inr \<lparr>g_open = True, g_service = None\<rparr>) one_conn_config = Inr (sk_ex [(1, 0)] (Some 0))"
  by (simp add: NewSocksClient_def one_conn_config_def TunnelOptionsMaxConns_def TunnelOptionsRateLimit_def float_pos_def
      sk_ex_def Let_def)

lemma sk_ex_admit:
  "k < length cs \<Longrightarrow> cs ! k = (1, 0) \<Longrightarrow>
     sk_step all_pass (sk_ex cs (Some k), hs) (sk_ex (cs[k := (1, 1)]) (Some k), Some k # hs)"
  using sk_admitted [of all_pass "sk_ex cs (Some k)" "sk_ex (cs[k := (1, 1)]) (Some k)" hs]
  by (simp add: admitConnection_def then_step_def checkRateLimit_def all_pass_def checkConcurrencyLimit_def sk_ex_def)

lemma sk_ex_return:
  "cs ! k = (1, 1) \<Longrightarrow> sk_step all_pass (sk_ex cs (Some k), gs @ Some j # hs) (sk_ex (cs[k := (1, 0)]) (Some k), gs @ hs)"
  using sk_returned [of "sk_ex cs (Some k)" "sk_ex (cs[k := (1, 0)]) (Some k)" all_pass gs j hs]
  by (simp add: receiveSem_def sk_ex_def)

lemma sk_ex_set: "fst (SOCKS_SetOptions no_floats (\<lambda>r b. ()) [] (sk_ex cs k)) = sk_ex (cs @ [(1, 0)]) (Some (length cs))"
  by (simp add: SOCKS_SetOptions_def base_SetOptions_plain SOCKS_rebuild_def sk_ex_def float_pos_def Let_def)

lemma socks_limit_witness:
  "int (length [Some (0::nat)]) \<le> 1 \<and> receiveSem (sk_ex [(1, 1)] (Some 0)) \<noteq> None"
proof -
  have "sk_step all_pass (sk_ex [(1, 0)] (Some 0), []) (sk_ex [(1, 1)] (Some 0), [Some 0])"
    using sk_ex_admit [of 0 "[(1, 0)]" "[]"] by simp
  then have "(sk_step all_pass)\<^sup>*\<^sup>* (sk_ex [(1, 0)] (Some 0), []) (sk_ex [(1, 1)] (Some 0), [Some 0])" by blast
  from socks_limit [OF sk_ex_new _ this] show ?thesis by (simp add: sk_ex_def)
qed

text \<open>
  Any call of \<open>SetOptions\<close>, even with no option at all, breaks the limit of a SOCKS5
  tunnel with handlers in flight: a returning handler takes a slot out of the new
  semaphore, which another handler holds. With a limit of one, two handlers admitted
  under the new semaphore are in flight together; when both return, the second is blocked
  for ever. (The TCP client avoids this by remembering the channel.)
\<close>
theorem socks_reconfigure_breaks_limit:
  "\<exists>s0 s s'. NewSocksClient no_floats (\<lambda>r b. ()) (\<lambda>c. Inr \<lparr>g_open = True, g_service = None\<rparr>) one_conn_config = Inr s0 \<and>
     tb_MaxConns (sk_base s0) = 1 \<and>
     (sk_reconf no_floats (\<lambda>r b. ()) all_pass)\<^sup>*\<^sup>* (s0, []) (s, [Some 1, Some 1]) \<and>
     sk_connSem s = Some 1 \<and> tb_MaxConns (sk_base s) = 1 \<and>
     sk_step all_pass (s, [Some 1, Some 1]) (s', [Some 1]) \<and> receiveSem s' = None"
proof -
  let ?R = "sk_reconf no_floats (\<lambda>r b. ()) all_pass"
  have "?R (sk_ex [(1, 0)] (Some 0), []) (sk_ex [(1, 1)] (Some 0), [Some 0])"
    using sk_ex_admit [of 0 "[(1, 0)]" "[]"] by (simp add: reconf_step)
  moreover have "?R (sk_ex [(1, 1)] (Some 0), [Some 0]) (sk_ex [(1, 1), (1, 0)] (Some 1), [Some 0])"
    using reconf_set [of no_floats "\<lambda>r b. ()" all_pass "sk_ex [(1, 1)] (Some 0)" "[Some 0]" "[]"] by (simp add: sk_ex_set)
  moreover have "?R (sk_ex [(1, 1), (1, 0)] (Some 1), [Some 0]) (sk_ex [(1, 1), (1, 1)] (Some 1), [Some 1, Some 0])"
    using sk_ex_admit [of 1 "[(1, 1), (1, 0)]" "[Some 0]"] by (simp add: reconf_step)
  moreover have "?R (sk_ex [(1, 1), (1, 1)] (Some 1), [Some 1, Some 0]) (sk_ex [(1, 1), (1, 0)] (Some 1), [Some 1])"
    using sk_ex_return [of "[(1, 1), (1, 1)]" 1 "[Some 1]" 0 "[]"] by (simp add: reconf_step)
  moreover have "?R (sk_ex [(1, 1), (1, 0)] (Some 1), [Some 1]) (sk_ex [(1, 1), (1, 1)] (Some 1), [Some 1, Some 1])"
    using sk_ex_admit [of 1 "[(1, 1), (1, 0)]" "[Some 1]"] by (simp add: reconf_step)
  ultimately have "?R\<^sup>*\<^sup>* (sk_ex [(1, 0)] (Some 0), []) (sk_ex [(1, 1), (1, 1)] (Some 1), [Some 1, Some 1])"
    by (meson converse_rtranclp_into_rtranclp rtranclp.rtrancl_refl)
  moreover have "sk_step all_pass (sk_ex [(1, 1), (1, 1)] (Some 1), [Some 1, Some 1]) (sk_ex [(1, 1), (1, 0)] (Some 1), [Some 1])"
    using sk_ex_return [of "[(1, 1), (1, 1)]" 1 "[]" 1 "[Some 1]"] by simp
  ultimately show ?thesis
    using sk_ex_new by (intro exI conjI) (assumption | simp add: sk_ex_def receiveSem_def)+
qed

text \<open>The limiter never allows an event from this state on.\<close>

definition refuses_all :: "('l \<Rightarrow> bool \<times> 'l) \<Rightarrow> 'l \<Rightarrow> bool" where
  "refuses_all allow l \<longleftrightarrow> (\<forall>n. \<not> fst (allow (((\<lambda>x. snd (allow x)) ^^ n) l)))"

lemma refuses_all_step:
  assumes "refuses_all allow l"
  shows "\<not> fst (allow l)" and "refuses_all allow (snd (allow l))"
proof -
  from assms have "\<not> fst (allow (((\<lambda>x. snd (allow x)) ^^ 0) l))" unfolding refuses_all_def by blast
  then show "\<not> fst (allow l)" by simp
  have "\<not> fst (allow (((\<lambda>x. snd (allow x)) ^^ n) (snd (allow l))))" for n
  proof -
    from assms have "\<not> fst (allow (((\<lambda>x. snd (allow x)) ^^ Suc n) l))" unfolding refuses_all_def by blast
    then show ?thesis by (simp add: funpow_Suc_right del: funpow.simps)
  qed
  then show "refuses_all allow (snd (allow l))" by (simp add: refuses_all_def)
qed

lemma refused_again:
  assumes "sk_limiter s = Some l" and "refuses_all allow l"
  shows "snd (admitConnection allow s) \<noteq> None \<and>
    (\<exists>l'. sk_limiter (fst (admitConnection allow s)) = Some l' \<and> refuses_all allow l')"
  using refuses_all_step [OF assms(2)] assms(1)
  by (cases "allow l") (auto simp: admitConnection_def then_step_def checkRateLimit_def sk_upd_defs)

text \<open>
  A rate limit below one connection per second closes the SOCKS5 tunnel for good: the
  limiter is made with the burst \<open>int(rate)\<close>, which is zero, and a limiter with burst zero
  admits nothing (the documented behaviour of the library, the last hypothesis), so every
  connection after the change is refused.
\<close>
theorem fractional_rate_refuses_all:
  assumes "SOCKS_SetOptions fl newLimiter opts s = (s', None)" and "tb_RateLimit (sk_base s') = r"
    and "float_pos r" and "float_trunc r = Some 0" and "refuses_all allow (newLimiter r 0)"
  shows "snd (admitConnection allow (((\<lambda>t. fst (admitConnection allow t)) ^^ n) s')) \<noteq> None"
proof -
  have lim: "sk_limiter s' = Some (newLimiter r 0)"
    using assms(1-4) by (auto simp: SOCKS_SetOptions_def SOCKS_rebuild_def Let_def int_of_float64_def in_int64_def
        int64_min_def int64_max_def split: prod.splits option.splits if_splits)
  have "\<exists>l. sk_limiter (((\<lambda>t. fst (admitConnection allow t)) ^^ n) s') = Some l \<and> refuses_all allow l"
  proof (induction n)
    case 0
    with lim assms(5) show ?case by simp
  next
    case (Suc n)
    then obtain l where "sk_limiter (((\<lambda>t. fst (admitConnection allow t)) ^^ n) s') = Some l" "refuses_all allow l" by blast
    from refused_again [OF this] show ?case by simp
  qed
  then obtain l where "sk_limiter (((\<lambda>t. fst (admitConnection allow t)) ^^ n) s') = Some l" "refuses_all allow l" by blast
  from refused_again [OF this] show ?thesis by simp
qed

lemma fractional_rate_refuses_all_witness:
  "snd (admitConnection (\<lambda>b. (b > (0::int), b)) (((\<lambda>t. fst (admitConnection (\<lambda>b. (b > 0, b)) t)) ^^ 7)
     (fst (SOCKS_SetOptions (no_floats\<lparr>ParseFloat := \<lambda>s. Some (Fin False 2 (- 2))\<rparr>) (\<lambda>r b. b) [(''ratelimit'', ''0.5'')]
       \<lparr>sk_garlic = None, sk_base = example_base, sk_connSem = None, sk_chans = [], sk_limiter = None, sk_server = False,
        sk_done = False, sk_once = False, sk_cancelled = False\<rparr>)))) \<noteq> None"
proof -
  let ?fl = "no_floats\<lparr>ParseFloat := \<lambda>s. Some (Fin False 2 (- 2))\<rparr>" and ?o = "[(''ratelimit'', ''0.5'')]"
  let ?s = "\<lparr>sk_garlic = None, sk_base = example_base, sk_connSem = None, sk_chans = [], sk_limiter = None, sk_server = False,
        sk_done = False, sk_once = False, sk_cancelled = False\<rparr> :: int socks"
  have b: "base_SetOptions ?fl ?o example_base = (example_base\<lparr>tb_RateLimit := Fin False 2 (- 2)\<rparr>, None)"
    by (simp add: base_SetOptions_def ApplyCommon_plain HasPrefix_def ApplyRateLimitOptions_def then_step_def
        applyMaxConnsOption_def applyRateLimitOption_def RateLimitString_def RateLimit_def float_neg_def example_base_def)
  obtain s' where s': "SOCKS_SetOptions ?fl (\<lambda>r b. b) ?o ?s = (s', None)" "tb_RateLimit (sk_base s') = Fin False 2 (- 2)"
    by (simp add: SOCKS_SetOptions_def b SOCKS_rebuild_def Let_def)
  have "((\<lambda>x. snd (x > (0::int), x)) ^^ n) 0 = 0" for n by (induction n) simp_all
  then have "refuses_all (\<lambda>b. (b > (0::int), b)) 0" by (simp add: refuses_all_def)
  with fractional_rate_refuses_all [OF s', of "\<lambda>b. (b > 0, b)" 7] s'(1) show ?thesis
    by (simp add: float_pos_def float_trunc_def)
qed

lemma check_base:
  "checkRateLimit allow s = (s', None) \<Longrightarrow> sk_base s' = sk_base s"
  "checkConcurrencyLimit s = (s', None) \<Longrightarrow> sk_base s' = sk_base s"
proof -
  show "checkRateLimit allow s = (s', None) \<Longrightarrow> sk_base s' = sk_base s"
    by (auto simp: checkRateLimit_def split: option.splits prod.splits bool.splits)
  show "checkConcurrencyLimit s = (s', None) \<Longrightarrow> sk_base s' = sk_base s"
  proof (cases "sk_connSem s")
    case (Some k)
    then show "checkConcurrencyLimit s = (s', None) \<Longrightarrow> sk_base s' = sk_base s"
      by (cases "sk_chans s ! k") (auto simp: checkConcurrencyLimit_def split: if_splits)
  qed (simp add: checkConcurrencyLimit_def)
qed

text \<open>
  A handled SOCKS5 connection is counted as accepted once, and its deferred
  \<open>RecordDisconnection\<close> brings the gauge of active connections back; but the counted
  connection records its own disconnection when it is closed, so if forwarding closes the
  connection the gauge ends one below where it was (as a 64-bit counter, it wraps at zero).
\<close>
theorem socks_gauge:
  assumes "SOCKS_TCPHandle allow dial io closes fwd addr s = Some (s', r)" and "tb_Metrics (sk_base s) = Some m"
    and "snd (admitConnection allow s) = None"
  shows "\<exists>m'. tb_Metrics (sk_base s') = Some m' \<and> ConnectionsAccepted m' = ConnectionsAccepted m + 1 \<and>
    ActiveConnections m' = ActiveConnections m - (if dial addr = None \<and> closes then 1 else 0) \<and>
    ConnectionsFailed m' = ConnectionsFailed m + (if dial addr \<noteq> None then 1 else 0)"
proof -
  obtain s1 where s1: "admitConnection allow s = (s1, None)" using assms(3) by (cases "admitConnection allow s") simp
  then obtain s2 where "checkRateLimit allow s = (s2, None)" "checkConcurrencyLimit s2 = (s1, None)"
    by (auto simp: admitConnection_def then_step_None)
  then have "sk_base s1 = sk_base s" by (metis check_base)
  with assms(2) have m1: "tb_Metrics (sk_base s1) = Some m" by simp
  have rel: "receiveSem x = Some y \<Longrightarrow> sk_base y = sk_base x" for x y :: "'a socks"
    by (auto simp: receiveSem_def split: option.splits prod.splits if_splits)
  obtain m2 where m2: "fold io_metrics io (Some (RecordConnection m)) = Some m2"
    "ActiveConnections m2 = ActiveConnections (RecordConnection m)"
    "ConnectionsAccepted m2 = ConnectionsAccepted (RecordConnection m)"
    "ConnectionsFailed m2 = ConnectionsFailed (RecordConnection m)"
    using io_metrics_gauge [of "Some (RecordConnection m)" "RecordConnection m" io] by auto
  show ?thesis
    using assms(1) s1 m1 m2
    by (cases "dial addr")
      (auto simp: SOCKS_TCPHandle_def Let_def RecordConnection_def RecordDisconnection_def RecordConnectionFailed_def
        CountingConn_Close_def dest!: rel split: if_splits)
qed

definition sk_counted_ex :: "unit socks" where
  "sk_counted_ex = upd_sk (\<lambda>b. b\<lparr>tb_Metrics := Some (fresh_metrics ''s'' ''s'' ''socks'')\<rparr>) (sk_ex [(1, 0)] (Some 0))"

lemma socks_gauge_witness:
  "\<exists>s' r m'. SOCKS_TCPHandle all_pass (\<lambda>a. None) [IoRead 3] True None ''a.i2p:80'' sk_counted_ex = Some (s', r) \<and>
     tb_Metrics (sk_base s') = Some m' \<and> ActiveConnections m' = - 1"
proof -
  have "\<exists>s' r. SOCKS_TCPHandle all_pass (\<lambda>a. None) [IoRead 3] True None ''a.i2p:80'' sk_counted_ex = Some (s', r)"
    by (simp add: SOCKS_TCPHandle_def sk_counted_ex_def sk_ex_def admitConnection_def then_step_def checkRateLimit_def all_pass_def
        checkConcurrencyLimit_def receiveSem_def upd_sk_def Let_def)
  then obtain s' r where run: "SOCKS_TCPHandle all_pass (\<lambda>a. None) [IoRead 3] True None ''a.i2p:80'' sk_counted_ex = Some (s', r)" by blast
  have m: "tb_Metrics (sk_base sk_counted_ex) = Some (fresh_metrics ''s'' ''s'' ''socks'')"
    by (simp add: sk_counted_ex_def)
  have a: "snd (admitConnection all_pass sk_counted_ex) = None"
    by (simp add: sk_counted_ex_def sk_ex_def admitConnection_def then_step_def checkRateLimit_def all_pass_def
        checkConcurrencyLimit_def upd_sk_def)
  from socks_gauge [OF run m a] run show ?thesis by (auto simp: fresh_metrics_def)
qed



end
