(* ===== verification/Udp.thy ===== *)
theory Udp
  imports StreamTunnels ErrorLoop
begin

text \<open>
  The UDP tunnels: \<open>UDPClient\<close> (\<open>lib/udp/client/udp_client.go\<close>, \<open>new.go\<close>), \<open>UDPServer\<close>
  (\<open>lib/udp/server/udp_server.go\<close>, \<open>new.go\<close>) and \<open>UDPBidirectional\<close>
  (\<open>lib/udp/bidirectional/udp_bidirectional.go\<close>, \<open>new.go\<close>). They share the fields of the
  stream tunnels but have no listener (\<open>st_listener\<close> stays \<open>None\<close>). The environment of a
  loop is a list of turns: what \<open>select\<close> finds, what dialing or \<open>packet.Forward\<close> returns,
  what is counted meanwhile, and the random value of the backoff. \<open>resolveUDP\<close> is
  \<open>net.ResolveUDPAddr\<close>, giving the text of the address. The delays slept are recorded.
\<close>

section \<open>Shared operations\<close>

definition udp_Stop :: "stream_tunnel \<Rightarrow> stream_tunnel" where
  "udp_Stop t =
     (if st_once t then t
      else t\<lparr>st_once := True, st_done := True,
             st_garlic := map_option (\<lambda>g. g\<lparr>g_open := False\<rparr>) (st_garlic t),
             st_base := upd_metrics RecordStop (SetStatus StatusStopped (st_base t))\<rparr>)"

text \<open>The section of \<open>Start\<close> under \<open>lifeMu\<close>.\<close>

definition udp_begin :: "stream_tunnel \<Rightarrow> stream_tunnel" where
  "udp_begin t = t\<lparr>st_done := False, st_once := False, st_base := SetStatus StatusStarting (st_base t)\<rparr>"

definition udp_running :: "64 word \<Rightarrow> stream_tunnel \<Rightarrow> stream_tunnel" where
  "udp_running now t = t\<lparr>st_base := upd_metrics (RecordStart now) (SetStatus StatusRunning (st_base t))\<rparr>"

datatype packet_io = PacketRead int | PacketWrite int

fun packet_metrics :: "packet_io \<Rightarrow> tunnel_metrics option \<Rightarrow> tunnel_metrics option" where
  "packet_metrics (PacketRead n) m = CountingPacketConn_ReadFrom n m"
| "packet_metrics (PacketWrite n) m = CountingPacketConn_WriteTo n m"

definition count_packets :: "packet_io list \<Rightarrow> tunnel_base \<Rightarrow> tunnel_base" where
  "count_packets io b = b\<lparr>tb_Metrics := fold packet_metrics io (tb_Metrics b)\<rparr>"

section \<open>UDPClient\<close>

definition maxConsecutiveForwardErrors :: int where "maxConsecutiveForwardErrors = 10"

text \<open>The struct has the fields of \<open>stream_tunnel\<close> except the listener, which stays \<open>None\<close>.\<close>

type_synonym udp_client = stream_tunnel

definition NewUDPClient ::
  "float_lib \<Rightarrow> (tunnel_config \<Rightarrow> go_error + garlic) \<Rightarrow> i2p_lookup \<Rightarrow> tunnel_config \<Rightarrow> go_error + udp_client" where
  "NewUDPClient fl newGarlic lookup config = stream_new fl newGarlic lookup (\<lambda>target err. err) config"

definition UDPClient_Address :: "stream_tunnel \<Rightarrow> string" where
  "UDPClient_Address t = stream_Address t"

definition UDPClient_LocalAddress :: "stream_tunnel \<Rightarrow> string" where
  "UDPClient_LocalAddress t = stream_LocalAddress t"

text \<open>A turn of the forwarding loop: \<open>done\<close> at its head, the forwarding, \<open>done\<close> at its end.\<close>

record client_turn =
  ct_done :: bool
  ct_io :: "packet_io list"
  ct_forward :: "go_error option"
  ct_done_after :: bool

definition forwardOnce :: "client_turn \<Rightarrow> tunnel_base \<times> int \<Rightarrow> (tunnel_base \<times> int) \<times> bool \<times> go_error option" where
  "forwardOnce turn s =
     (case s of (b, n) \<Rightarrow>
        let b1 = count_packets (ct_io turn) b in
        case ct_forward turn of
          Some err \<Rightarrow>
            (let n1 = n + 1;
                 b2 = RecordError (Wrapf (''forward error ('' @ Itoa n1 @ '' consecutive)'') err) b1
             in if n1 \<ge> maxConsecutiveForwardErrors then
                  ((SetStatus StatusFailed b2, n1), False,
                   Some (Errorf (''tunnel failed after '' @ Itoa n1 @ '' consecutive forward errors'')))
                else ((b2, n1), \<not> ct_done_after turn, None))
        | None \<Rightarrow> ((b1, 0), \<not> ct_done_after turn, None))"

definition client_turn_step :: "client_turn \<Rightarrow> tunnel_base \<times> int \<Rightarrow> (tunnel_base \<times> int) \<times> bool \<times> go_error option" where
  "client_turn_step turn s = (if ct_done turn then (s, False, None) else forwardOnce turn s)"

definition UDPClient_runForwardLoop :: "client_turn list \<Rightarrow> tunnel_base \<Rightarrow> (tunnel_base \<times> int) \<times> go_error option option" where
  "UDPClient_runForwardLoop ts b = run_loop client_turn_step ts (b, 0)"

definition listenLocalUDP ::
  "(string \<Rightarrow> go_error + string) \<Rightarrow> (string \<Rightarrow> go_error option) \<Rightarrow> stream_tunnel \<Rightarrow> go_error option" where
  "listenLocalUDP resolveUDP listenUDP t =
     (case resolveUDP (stream_LocalAddress t) of
        Inl err \<Rightarrow> Some (Wrapf ''failed to resolve local UDP address'' err)
      | Inr raddr \<Rightarrow>
          (case listenUDP raddr of
             Some err \<Rightarrow> Some (Wrapf ''failed to listen on local UDP address'' err)
           | None \<Rightarrow> None))"

definition UDPClient_Stop :: "stream_tunnel \<Rightarrow> stream_tunnel" where
  "UDPClient_Stop t = udp_Stop t"

text \<open>\<open>dial\<close> is the error of \<open>Garlic.Dial("udp", target)\<close>; the result is \<open>None\<close> while the loop runs.\<close>

definition UDPClient_Start ::
  "go_error option \<Rightarrow> (string \<Rightarrow> go_error + string) \<Rightarrow> (string \<Rightarrow> go_error option) \<Rightarrow> 64 word \<Rightarrow> client_turn list \<Rightarrow>
   udp_client \<Rightarrow> udp_client \<times> go_error option option" where
  "UDPClient_Start dial resolveUDP listenUDP now ts t =
     (let t1 = udp_begin t in
      case dial of
        Some err \<Rightarrow> (t1, Some (Some err))
      | None \<Rightarrow>
          (case listenLocalUDP resolveUDP listenUDP t1 of
             Some err \<Rightarrow> (udp_Stop t1, Some (Some err))
           | None \<Rightarrow>
               (let t2 = udp_running now t1 in
                case UDPClient_runForwardLoop ts (st_base t2) of
                  ((b, n), None) \<Rightarrow> (t2\<lparr>st_base := b\<rparr>, None)
                | ((b, n), Some r) \<Rightarrow> (udp_Stop (t2\<lparr>st_base := b\<rparr>), Some r))))"

definition UDPClient_Target :: "stream_tunnel \<Rightarrow> string option" where
  "UDPClient_Target t = st_target t"

definition UDPClient_Options :: "float_lib \<Rightarrow> stream_tunnel \<Rightarrow> options" where
  "UDPClient_Options fl t = stream_Options fl t"

definition UDPClient_SetOptions ::
  "float_lib \<Rightarrow> i2p_lookup \<Rightarrow> options \<Rightarrow> stream_tunnel \<Rightarrow> stream_tunnel \<times> go_error option" where
  "UDPClient_SetOptions fl lookup opts t =
     stream_SetOptions fl (I2PAddress (i2p_ok lookup)) (i2p_target lookup) opts t"

definition UDPClient_LoadConfig ::
  "(string \<Rightarrow> go_error + tunnel_config) \<Rightarrow> i2p_lookup \<Rightarrow> string \<Rightarrow> stream_tunnel \<Rightarrow> stream_tunnel \<times> go_error option" where
  "UDPClient_LoadConfig parse lookup path t = stream_LoadConfig parse ''udpclient'' lookup path t"

section \<open>UDPServer\<close>

definition maxConsecutiveDialErrors :: int where "maxConsecutiveDialErrors = 10"

definition udp_target :: "(string \<Rightarrow> go_error + string) \<Rightarrow> string \<Rightarrow> go_error + string" where
  "udp_target resolveUDP a =
     (case resolveUDP a of
        Inl err \<Rightarrow> Inl (Wrapf (''invalid target address '' @ Quote a) err)
      | Inr addr \<Rightarrow> Inr addr)"

text \<open>Here too there is no listener.\<close>

type_synonym udp_server = stream_tunnel

definition NewUDPServer ::
  "float_lib \<Rightarrow> (tunnel_config \<Rightarrow> go_error + garlic) \<Rightarrow> (string \<Rightarrow> go_error + string) \<Rightarrow> tunnel_config \<Rightarrow> go_error + udp_server" where
  "NewUDPServer fl newGarlic resolveUDP config = stream_new fl newGarlic resolveUDP (\<lambda>target err. err) config"

definition UDPServer_Address :: "stream_tunnel \<Rightarrow> string" where
  "UDPServer_Address t = stream_Address t"

definition UDPServer_LocalAddress :: "stream_tunnel \<Rightarrow> string" where
  "UDPServer_LocalAddress t = stream_LocalAddress t"

definition UDPServer_Name :: "stream_tunnel \<Rightarrow> string" where
  "UDPServer_Name t = tc_Name (tb_Config (st_base t))"

record dial_turn =
  dt_done :: bool
  dt_dial :: "go_error option"
  dt_done_dial :: bool
  dt_rnd :: int
  dt_io :: "packet_io list"
  dt_done_after :: bool

record dial_state =
  ds_base :: tunnel_base
  ds_errors :: int
  ds_backoff :: int
  ds_slept :: "int list"

definition handleDialError :: "go_error \<Rightarrow> dial_turn \<Rightarrow> dial_state \<Rightarrow> dial_state \<times> bool \<times> go_error option" where
  "handleDialError err turn s =
     (if dt_done_dial turn then (s, False, None)
      else
        let n = ds_errors s + 1;
            b = RecordError (Wrapf (''dial error ('' @ Itoa n @ '' consecutive)'') err) (ds_base s)
        in if n \<ge> maxConsecutiveDialErrors then
             (s\<lparr>ds_errors := n, ds_base := SetStatus StatusFailed b\<rparr>, False,
              Some (Errorf (''tunnel failed after '' @ Itoa n @ '' consecutive dial errors'')))
           else
             (s\<lparr>ds_errors := n, ds_base := b, ds_slept := ds_slept s @ [ds_backoff s],
                ds_backoff := NextBackoff (dt_rnd turn) (ds_backoff s)\<rparr>, True, None))"

definition dialAndForward :: "dial_turn \<Rightarrow> dial_state \<Rightarrow> dial_state \<times> bool \<times> go_error option" where
  "dialAndForward turn s =
     (case dt_dial turn of
        Some err \<Rightarrow> handleDialError err turn s
      | None \<Rightarrow>
          (s\<lparr>ds_backoff := MinBackoff, ds_errors := 0, ds_base := count_packets (dt_io turn) (ds_base s)\<rparr>,
           \<not> dt_done_after turn, None))"

definition server_turn_step :: "dial_turn \<Rightarrow> dial_state \<Rightarrow> dial_state \<times> bool \<times> go_error option" where
  "server_turn_step turn s = (if dt_done turn then (s, False, None) else dialAndForward turn s)"

definition dial_start :: "tunnel_base \<Rightarrow> dial_state" where
  "dial_start b = \<lparr>ds_base = b, ds_errors = 0, ds_backoff = MinBackoff, ds_slept = []\<rparr>"

definition UDPServer_runForwardLoop :: "dial_turn list \<Rightarrow> tunnel_base \<Rightarrow> dial_state \<times> go_error option option" where
  "UDPServer_runForwardLoop ts b = run_loop server_turn_step ts (dial_start b)"

definition UDPServer_Stop :: "stream_tunnel \<Rightarrow> stream_tunnel" where
  "UDPServer_Stop t = udp_Stop t"

text \<open>A tunnel without address is a nil dereference in \<open>Target\<close>; \<open>New\<close> always sets one.\<close>

definition UDPServer_Target :: "stream_tunnel \<Rightarrow> string option" where
  "UDPServer_Target t = st_target t"

definition UDPServer_Start ::
  "go_error option \<Rightarrow> (string \<Rightarrow> go_error + string) \<Rightarrow> 64 word \<Rightarrow> dial_turn list \<Rightarrow> udp_server \<Rightarrow>
   udp_server \<times> go_error option option" where
  "UDPServer_Start listenPacket resolveUDP now ts t =
     (let t1 = udp_begin t in
      case listenPacket of
        Some err \<Rightarrow> (t1, Some (Some err))
      | None \<Rightarrow>
          (case resolveUDP (the (UDPServer_Target t1)) of
             Inl err \<Rightarrow> (udp_Stop t1, Some (Some (Wrapf ''failed to resolve target UDP address'' err)))
           | Inr raddr \<Rightarrow>
               (let t2 = udp_running now t1 in
                case UDPServer_runForwardLoop ts (st_base t2) of
                  (s, None) \<Rightarrow> (t2\<lparr>st_base := ds_base s\<rparr>, None)
                | (s, Some r) \<Rightarrow> (udp_Stop (t2\<lparr>st_base := ds_base s\<rparr>), Some r))))"

definition UDPServer_Options :: "float_lib \<Rightarrow> stream_tunnel \<Rightarrow> options" where
  "UDPServer_Options fl t = stream_Options fl t"

definition UDPServer_SetOptions ::
  "float_lib \<Rightarrow> tcp_resolver \<Rightarrow> (string \<Rightarrow> go_error + string) \<Rightarrow> options \<Rightarrow> stream_tunnel \<Rightarrow> stream_tunnel \<times> go_error option" where
  "UDPServer_SetOptions fl resolve resolveUDP opts t =
     stream_SetOptions fl (NetworkAddress (tcp_port resolve)) (udp_target resolveUDP) opts t"

definition UDPServer_LoadConfig ::
  "(string \<Rightarrow> go_error + tunnel_config) \<Rightarrow> (string \<Rightarrow> go_error + string) \<Rightarrow> string \<Rightarrow> stream_tunnel \<Rightarrow> stream_tunnel \<times> go_error option" where
  "UDPServer_LoadConfig parse resolveUDP path t = stream_LoadConfig parse ''udpserver'' resolveUDP path t"

section \<open>UDPBidirectional\<close>

text \<open>
  \<open>ub_socks\<close> is the SOCKS5 server: \<open>None\<close> before the first start, then whether it has been
  shut down since it was created. The status, limits, errors and metrics that the struct
  has as fields of its own are those of \<^typ>\<open>tunnel_base\<close>.
\<close>

record udp_bidi =
  ub_stream :: stream_tunnel
  ub_socks :: "bool option"

abbreviation ub_base :: "udp_bidi \<Rightarrow> tunnel_base" where
  "ub_base t \<equiv> st_base (ub_stream t)"

definition NewUDPBidirectional ::
  "float_lib \<Rightarrow> (tunnel_config \<Rightarrow> go_error + garlic) \<Rightarrow> (string \<Rightarrow> go_error + string) \<Rightarrow> tunnel_config \<Rightarrow> go_error + udp_bidi" where
  "NewUDPBidirectional fl newGarlic resolveUDP config =
     rbind (stream_new fl newGarlic resolveUDP
             (\<lambda>target err. Wrapf (''invalid target address '' @ Quote target) err) config)
       (\<lambda>s. Inr \<lparr>ub_stream = s, ub_socks = None\<rparr>)"

definition UDPBidirectional_recordError :: "go_error \<Rightarrow> tunnel_base \<Rightarrow> tunnel_base" where
  "UDPBidirectional_recordError err b = RecordError err b"

definition UDPBidirectional_setStatus :: "tunnel_status \<Rightarrow> tunnel_base \<Rightarrow> tunnel_base" where
  "UDPBidirectional_setStatus s b = SetStatus s b"

definition UDPBidirectional_Stop :: "udp_bidi \<Rightarrow> udp_bidi" where
  "UDPBidirectional_Stop t =
     (if st_once (ub_stream t) then t
      else t\<lparr>ub_stream := udp_Stop (ub_stream t), ub_socks := map_option (\<lambda>_. True) (ub_socks t)\<rparr>)"

text \<open>What \<open>select\<close> takes in a turn: \<open>done\<close>, a result of the SOCKS5 server, or the default.\<close>

datatype bidi_turn = SawDone | SocksExit "go_error option" bool | Cycle dial_turn

definition UDPBidirectional_handleSOCKSError ::
  "go_error option \<Rightarrow> bool \<Rightarrow> dial_state \<Rightarrow> dial_state \<times> bool \<times> go_error option" where
  "UDPBidirectional_handleSOCKSError err is_done s =
     (let s1 = (case err of
                  None \<Rightarrow> s
                | Some e \<Rightarrow> s\<lparr>ds_base := UDPBidirectional_recordError (Wrapf ''SOCKS5 server error (restarting)'' e) (ds_base s)\<rparr>)
      in (s1, \<not> is_done, None))"

definition runForwardCycle :: "dial_turn \<Rightarrow> dial_state \<Rightarrow> dial_state \<times> bool \<times> go_error option" where
  "runForwardCycle turn s = dialAndForward turn s"

fun bidi_turn_step :: "bidi_turn \<Rightarrow> dial_state \<Rightarrow> dial_state \<times> bool \<times> go_error option" where
  "bidi_turn_step SawDone s = (s, False, None)"
| "bidi_turn_step (SocksExit err is_done) s = UDPBidirectional_handleSOCKSError err is_done s"
| "bidi_turn_step (Cycle turn) s = runForwardCycle turn s"

definition UDPBidirectional_runForwardLoop :: "bidi_turn list \<Rightarrow> tunnel_base \<Rightarrow> dial_state \<times> go_error option option" where
  "UDPBidirectional_runForwardLoop ts b = run_loop bidi_turn_step ts (dial_start b)"

text \<open>\<open>newSocks\<close> is the error of \<open>socks5.NewClassicServer\<close>.\<close>

definition UDPBidirectional_Start ::
  "go_error option \<Rightarrow> (string \<Rightarrow> go_error option) \<Rightarrow> (string \<Rightarrow> go_error + string) \<Rightarrow> 64 word \<Rightarrow> bidi_turn list \<Rightarrow>
   udp_bidi \<Rightarrow> udp_bidi \<times> go_error option option" where
  "UDPBidirectional_Start listenPacket newSocks resolveUDP now ts t =
     (let t1 = t\<lparr>ub_stream := udp_begin (ub_stream t)\<rparr> in
      case listenPacket of
        Some err \<Rightarrow> (t1, Some (Some (Wrapf ''failed to start I2P datagram listener'' err)))
      | None \<Rightarrow>
          (case newSocks (stream_LocalAddress (ub_stream t1)) of
             Some err \<Rightarrow> (UDPBidirectional_Stop t1, Some (Some (Wrapf ''failed to create SOCKS5 server'' err)))
           | None \<Rightarrow>
               (let t2 = t1\<lparr>ub_socks := Some False, ub_stream := udp_running now (ub_stream t1)\<rparr> in
                case resolveUDP (the (st_target (ub_stream t2))) of
                  Inl err \<Rightarrow>
                    (UDPBidirectional_Stop t2, Some (Some (Wrapf ''failed to resolve target UDP address'' err)))
                | Inr raddr \<Rightarrow>
                    (case UDPBidirectional_runForwardLoop ts (ub_base t2) of
                       (s, None) \<Rightarrow> (t2\<lparr>ub_stream := (ub_stream t2)\<lparr>st_base := ds_base s\<rparr>\<rparr>, None)
                     | (s, Some r) \<Rightarrow>
                         (UDPBidirectional_Stop (t2\<lparr>ub_stream := (ub_stream t2)\<lparr>st_base := ds_base s\<rparr>\<rparr>), Some r)))))"

definition UDPBidirectional_Options :: "float_lib \<Rightarrow> udp_bidi \<Rightarrow> options" where
  "UDPBidirectional_Options fl t =
     (let opts = AddRateLimitOptions fl (tb_MaxConns (ub_base t)) (tb_RateLimit (ub_base t))
                   (BuildCommonOptions fl (tb_Config (ub_base t))) in
      case st_target (ub_stream t) of None \<Rightarrow> opts | Some a \<Rightarrow> gm_set ''target'' a opts)"

definition UDPBidirectional_SetOptions ::
  "float_lib \<Rightarrow> tcp_resolver \<Rightarrow> (string \<Rightarrow> go_error + string) \<Rightarrow> options \<Rightarrow> udp_bidi \<Rightarrow> udp_bidi \<times> go_error option" where
  "UDPBidirectional_SetOptions fl resolve resolveUDP opts t =
     (case stream_SetOptions fl (NetworkAddress (tcp_port resolve)) (udp_target resolveUDP) opts (ub_stream t) of
        (s, err) \<Rightarrow> (t\<lparr>ub_stream := s\<rparr>, err))"

definition UDPBidirectional_LoadConfig ::
  "(string \<Rightarrow> go_error + tunnel_config) \<Rightarrow> (string \<Rightarrow> go_error + string) \<Rightarrow> string \<Rightarrow> udp_bidi \<Rightarrow> udp_bidi \<times> go_error option" where
  "UDPBidirectional_LoadConfig parse resolveUDP path t =
     (case stream_LoadConfig parse ''udpbidirectional'' resolveUDP path (ub_stream t) of
        (s, err) \<Rightarrow> (t\<lparr>ub_stream := s\<rparr>, err))"

section \<open>Lemmas\<close>

lemma udp_Stop_simps [simp, status_simps]:
  "st_once (udp_Stop t)" "\<not> st_once t \<Longrightarrow> tb_Status (st_base (udp_Stop t)) = StatusStopped"
  "st_once t \<Longrightarrow> udp_Stop t = t" "st_listener (udp_Stop t) = st_listener t"
  "\<not> st_once t \<Longrightarrow> st_done (udp_Stop t)" "\<not> st_once t \<Longrightarrow> \<forall>g. st_garlic (udp_Stop t) = Some g \<longrightarrow> \<not> g_open g"
  by (auto simp: udp_Stop_def)

lemma udp_Stop_stream: "st_listener t = None \<Longrightarrow> udp_Stop t = stream_Stop t"
  by (simp add: udp_Stop_def stream_Stop_def)

definition udp_released :: "stream_tunnel \<Rightarrow> bool" where
  "udp_released t \<longleftrightarrow> st_done t \<and> (case st_garlic t of None \<Rightarrow> True | Some g \<Rightarrow> \<not> g_open g)"

lemma udp_Stop_released: "\<not> st_once t \<Longrightarrow> udp_released (udp_Stop t)"
  by (auto simp: udp_Stop_def udp_released_def split: option.splits)

interpretation udp_stopping: stoppable udp_Stop "\<lambda>t. tb_Status (st_base t)" st_once udp_released
  by unfold_locales (simp_all add: udp_Stop_released)

interpretation udp_bidi_stopping: stoppable UDPBidirectional_Stop "\<lambda>t. tb_Status (ub_base t)" "\<lambda>t. st_once (ub_stream t)"
    "\<lambda>t. udp_released (ub_stream t) \<and> ub_socks t \<noteq> Some False"
  by unfold_locales (auto simp: UDPBidirectional_Stop_def udp_Stop_released)

lemma count_packets_simps [simp]:
  "tb_Status (count_packets io b) = tb_Status b" "tb_Errors (count_packets io b) = tb_Errors b"
  "tb_Config (count_packets io b) = tb_Config b"
  by (simp_all add: count_packets_def)

abbreviation fwd_failed :: "client_turn \<Rightarrow> bool" where "fwd_failed t \<equiv> ct_forward t \<noteq> None"
abbreviation fwd_worked :: "client_turn \<Rightarrow> bool" where "fwd_worked t \<equiv> ct_forward t = None"
abbreviation dial_failed :: "dial_turn \<Rightarrow> bool" where "dial_failed t \<equiv> dt_dial t \<noteq> None"
abbreviation dial_worked :: "dial_turn \<Rightarrow> bool" where "dial_worked t \<equiv> dt_dial t = None"

fun cycle_failed :: "bidi_turn \<Rightarrow> bool" where
  "cycle_failed (Cycle t) \<longleftrightarrow> dial_failed t"
| "cycle_failed _ \<longleftrightarrow> False"

fun cycle_worked :: "bidi_turn \<Rightarrow> bool" where
  "cycle_worked (Cycle t) \<longleftrightarrow> dial_worked t"
| "cycle_worked _ \<longleftrightarrow> False"

lemmas dial_step_defs = server_turn_step_def dialAndForward_def handleDialError_def Let_def maxConsecutiveDialErrors_def

interpretation client_loop: error_budget client_turn_step snd fwd_failed fwd_worked "\<lambda>_. False" maxConsecutiveForwardErrors
  by unfold_locales
    (auto simp: client_turn_step_def forwardOnce_def Let_def maxConsecutiveForwardErrors_def split: if_splits option.splits prod.splits)

lemma dialAndForward_budget:
  "dialAndForward t s = (s', True, x) \<Longrightarrow> ds_errors s' = (if dial_failed t then ds_errors s + 1 else 0) \<and>
     (dial_failed t \<longrightarrow> ds_errors s + 1 < maxConsecutiveDialErrors)"
  "dialAndForward t s = (s', False, Some e) \<Longrightarrow> dial_failed t \<and> ds_errors s' = ds_errors s + 1 \<and>
     maxConsecutiveDialErrors \<le> ds_errors s' \<and> tb_Status (ds_base s') = StatusFailed"
  by (auto simp: dial_step_defs split: if_splits option.splits)

interpretation server_loop: error_budget server_turn_step ds_errors dial_failed dial_worked "\<lambda>_. False" maxConsecutiveDialErrors
  by unfold_locales
    (auto simp: server_turn_step_def maxConsecutiveDialErrors_def
      dest: dialAndForward_budget [unfolded maxConsecutiveDialErrors_def] split: if_splits)

interpretation bidi_loop: error_budget bidi_turn_step ds_errors cycle_failed cycle_worked "\<lambda>_. False" maxConsecutiveDialErrors
proof unfold_locales
  fix t s s' x e
  show "bidi_turn_step t s = (s', True, x) \<Longrightarrow>
      ds_errors s' = (if cycle_failed t then ds_errors s + 1 else if cycle_worked t then 0 else ds_errors s)"
    by (cases t) (auto simp: runForwardCycle_def UDPBidirectional_handleSOCKSError_def Let_def
        dest: dialAndForward_budget split: option.splits)
  show "bidi_turn_step t s = (s', False, Some e) \<Longrightarrow>
      False \<or> cycle_failed t \<and> ds_errors s' = ds_errors s + 1 \<and> maxConsecutiveDialErrors \<le> ds_errors s'"
    by (cases t) (auto simp: runForwardCycle_def UDPBidirectional_handleSOCKSError_def Let_def dest: dialAndForward_budget)
  show "bidi_turn_step t s = (s', True, x) \<Longrightarrow> cycle_failed t \<Longrightarrow> ds_errors s + 1 < maxConsecutiveDialErrors"
    by (cases t) (auto simp: runForwardCycle_def dest: dialAndForward_budget)
qed (simp add: maxConsecutiveDialErrors_def)

lemma dial_start_zero [simp]: "ds_errors (dial_start b) = 0" "ds_backoff (dial_start b) = MinBackoff" "ds_slept (dial_start b) = []"
  "ds_base (dial_start b) = b"
  by (simp_all add: dial_start_def)

text \<open>A run of failures from a fresh loop: the counter, the delay and the sleeps.\<close>

lemma failing_run:
  assumes "list_all (\<lambda>t. \<not> dt_done t \<and> dial_failed t \<and> \<not> dt_done_dial t) ts"
    and "ds_errors s + int (length ts) < maxConsecutiveDialErrors"
  shows "\<exists>s'. run_loop server_turn_step ts s = (s', None) \<and> ds_errors s' = ds_errors s + int (length ts) \<and>
    ds_backoff s' = backoff_run (ds_backoff s) (map dt_rnd ts) \<and>
    ds_slept s' = ds_slept s @ map (\<lambda>k. backoff_run (ds_backoff s) (take k (map dt_rnd ts))) [0..<length ts]"
  using assms
proof (induction ts arbitrary: s)
  case (Cons t ts)
  then obtain err where t: "\<not> dt_done t" "dt_dial t = Some err" "\<not> dt_done_dial t" by auto
  obtain s1 where s1: "server_turn_step t s = (s1, True, None)" "ds_errors s1 = ds_errors s + 1"
    "ds_backoff s1 = NextBackoff (dt_rnd t) (ds_backoff s)" "ds_slept s1 = ds_slept s @ [ds_backoff s]"
    using t Cons.prems(2) by (simp_all add: dial_step_defs)
  have split: "[0..<Suc (length ts)] = 0 # map Suc [0..<length ts]" by (simp only: map_Suc_upt upt_conv_Cons zero_less_Suc)
  have "ds_errors s1 + int (length ts) < maxConsecutiveDialErrors" using Cons.prems(2) s1(2) by simp
  with Cons.IH [of s1] Cons.prems(1) obtain s' where
    "run_loop server_turn_step ts s1 = (s', None)" "ds_errors s' = ds_errors s1 + int (length ts)"
    "ds_backoff s' = backoff_run (ds_backoff s1) (map dt_rnd ts)"
    "ds_slept s' = ds_slept s1 @ map (\<lambda>k. backoff_run (ds_backoff s1) (take k (map dt_rnd ts))) [0..<length ts]" by auto
  with s1 show ?case
    by (intro exI [of _ s']) (simp add: split comp_def del: upt_Suc)
qed simp

text \<open>What the dialing loop does next depends only on these fields.\<close>

definition same_dial :: "dial_state \<Rightarrow> dial_state \<Rightarrow> bool" where
  "same_dial s u \<longleftrightarrow> ds_errors s = ds_errors u \<and> ds_backoff s = ds_backoff u \<and> ds_slept s = ds_slept u \<and>
     tb_Status (ds_base s) = tb_Status (ds_base u)"

definition sim_result :: "dial_state \<times> 'r \<Rightarrow> dial_state \<times> 'r \<Rightarrow> bool" where
  "sim_result p q \<longleftrightarrow> same_dial (fst p) (fst q) \<and> snd p = snd q"

lemma dialAndForward_sim: "same_dial s u \<Longrightarrow> sim_result (dialAndForward t s) (dialAndForward t u)"
  by (auto simp: sim_result_def same_dial_def dial_step_defs split: option.splits)

definition done_turn :: dial_turn where
  "done_turn = \<lparr>dt_done = True, dt_dial = None, dt_done_dial = True, dt_rnd = 0, dt_io = [], dt_done_after = True\<rparr>"

text \<open>The turns of the bidirectional tunnel as the UDP server would see them, without a proxy.\<close>

fun server_view :: "bidi_turn \<Rightarrow> dial_turn list" where
  "server_view SawDone = [done_turn]"
| "server_view (SocksExit err is_done) = (if is_done then [done_turn] else [])"
| "server_view (Cycle t) = [t\<lparr>dt_done := False\<rparr>]"

lemma bidi_sim:
  "same_dial s u \<Longrightarrow> sim_result (run_loop bidi_turn_step ts s) (run_loop server_turn_step (concat (map server_view ts)) u)"
proof (induction ts arbitrary: s u)
  case (Cons t ts)
  show ?case
  proof (cases t)
    case SawDone
    with Cons.prems show ?thesis by (simp add: server_turn_step_def done_turn_def sim_result_def)
  next
    case (SocksExit err d)
    obtain s1 where h: "UDPBidirectional_handleSOCKSError err d s = (s1, \<not> d, None)"
      by (simp add: UDPBidirectional_handleSOCKSError_def Let_def)
    then have "same_dial s1 u"
      using Cons.prems by (auto simp: UDPBidirectional_handleSOCKSError_def UDPBidirectional_recordError_def same_dial_def Let_def
          split: option.splits)
    with Cons.IH [of s1 u] SocksExit h show ?thesis
      by (cases d) (simp_all add: server_turn_step_def done_turn_def sim_result_def)
  next
    case (Cycle d)
    obtain s1 c f where s1: "dialAndForward d s = (s1, c, f)" by (metis prod_cases3)
    have same: "dialAndForward (d\<lparr>dt_done := False\<rparr>) u = dialAndForward d u"
      by (simp add: dial_step_defs split: option.splits)
    from dialAndForward_sim [OF Cons.prems, of d] s1 obtain u1 where
      u1: "dialAndForward d u = (u1, c, f)" "same_dial s1 u1"
      by (cases "dialAndForward d u") (auto simp: sim_result_def)
    with Cons.IH [OF u1(2)] Cycle s1 same show ?thesis
      by (auto simp: runForwardCycle_def server_turn_step_def sim_result_def)
  qed
qed (simp add: sim_result_def)

lemma UDPBidirectional_Stop_simps [simp]:
  "ub_stream (UDPBidirectional_Stop t) = udp_Stop (ub_stream t)"
  by (simp add: UDPBidirectional_Stop_def)

lemma udp_begin_simps [simp]:
  "\<not> st_once (udp_begin t)" "tb_Status (st_base (udp_begin t)) = StatusStarting" "st_listener (udp_begin t) = st_listener t"
  "\<not> st_once (udp_running now (udp_begin t))"
  by (simp_all add: udp_begin_def udp_running_def)

lemma UDPBidirectional_loop_status:
  "UDPBidirectional_runForwardLoop ts b = (s, Some (Some e)) \<Longrightarrow> tb_Status (ds_base s) = StatusFailed"
proof -
  have "run_loop bidi_turn_step ts u = (s, Some (Some e)) \<Longrightarrow> tb_Status (ds_base s) = StatusFailed" for u
  proof (induction ts arbitrary: u)
    case (Cons t ts)
    obtain u1 c f where st: "bidi_turn_step t u = (u1, c, f)" by (metis prod_cases3)
    with Cons show ?case
      by (cases c; cases t) (auto simp: runForwardCycle_def UDPBidirectional_handleSOCKSError_def Let_def dest: dialAndForward_budget)
  qed simp
  then show "UDPBidirectional_runForwardLoop ts b = (s, Some (Some e)) \<Longrightarrow> tb_Status (ds_base s) = StatusFailed"
    by (simp add: UDPBidirectional_runForwardLoop_def)
qed

text \<open>How a \<open>Start\<close> that has returned leaves the tunnel.\<close>

definition udp_ended :: "go_error option \<Rightarrow> stream_tunnel \<Rightarrow> go_error option \<Rightarrow> bool" where
  "udp_ended session t r \<longleftrightarrow>
     (if session = None then tb_Status (st_base t) = StatusStopped \<and> st_once t \<and> udp_released t
      else r \<noteq> None \<and> tb_Status (st_base t) = StatusStarting)"

lemma begun_simps:
  "st_once (udp_running now (udp_begin t)) = False" "st_once (udp_begin t) = False"
  "st_once (t\<lparr>st_base := b\<rparr>) = st_once t"
  by (simp_all add: udp_begin_def udp_running_def)

section \<open>Properties\<close>

text \<open>
  The three forwarding loops give up only after at least ten consecutive failures: in
  the turns up to the fatal one at least ten forward (dial) errors came in with no success
  in between; exits of the SOCKS5 proxy of the bidirectional tunnel count neither way.
\<close>
theorem udp_fatal_only_after_errors:
  "(UDPClient_runForwardLoop cs b = (c, Some (Some e)) \<longrightarrow>
      (\<exists>pre t post. cs = pre @ t # post \<and> fwd_failed t \<and> 10 \<le> errors_since fwd_failed fwd_worked (pre @ [t]))) \<and>
   (UDPServer_runForwardLoop ds b = (d, Some (Some e)) \<longrightarrow>
      (\<exists>pre t post. ds = pre @ t # post \<and> dial_failed t \<and> 10 \<le> errors_since dial_failed dial_worked (pre @ [t]))) \<and>
   (UDPBidirectional_runForwardLoop us b = (u, Some (Some e)) \<longrightarrow>
      tb_Status (ds_base u) = StatusFailed \<and>
      (\<exists>pre t post. us = pre @ t # post \<and> cycle_failed t \<and> 10 \<le> errors_since cycle_failed cycle_worked (pre @ [t])))"
proof (intro conjI impI)
  assume "UDPClient_runForwardLoop cs b = (c, Some (Some e))"
  then show "\<exists>pre t post. cs = pre @ t # post \<and> fwd_failed t \<and> 10 \<le> errors_since fwd_failed fwd_worked (pre @ [t])"
    using client_loop.fatal_only_after_errors [of cs "(b, 0)" c e]
    by (simp add: UDPClient_runForwardLoop_def maxConsecutiveForwardErrors_def)
next
  assume "UDPServer_runForwardLoop ds b = (d, Some (Some e))"
  then show "\<exists>pre t post. ds = pre @ t # post \<and> dial_failed t \<and> 10 \<le> errors_since dial_failed dial_worked (pre @ [t])"
    using server_loop.fatal_only_after_errors [of ds "dial_start b" d e]
    by (simp add: UDPServer_runForwardLoop_def maxConsecutiveDialErrors_def)
next
  assume u: "UDPBidirectional_runForwardLoop us b = (u, Some (Some e))"
  then show "\<exists>pre t post. us = pre @ t # post \<and> cycle_failed t \<and> 10 \<le> errors_since cycle_failed cycle_worked (pre @ [t])"
    using bidi_loop.fatal_only_after_errors [of us "dial_start b" u e]
    by (simp add: UDPBidirectional_runForwardLoop_def maxConsecutiveDialErrors_def)
  from u show "tb_Status (ds_base u) = StatusFailed" by (rule UDPBidirectional_loop_status)
qed

definition failing_turn :: "int \<Rightarrow> dial_turn" where
  "failing_turn rnd = \<lparr>dt_done = False, dt_dial = Some (External ''refused''), dt_done_dial = False, dt_rnd = rnd, dt_io = [], dt_done_after = False\<rparr>"

text \<open>
  C11: a UDP server whose target cannot be dialed gives up after exactly ten attempts: it
  sleeps nine times, first \<open>MinBackoff\<close>, and each time at least \<open>MinBackoff\<close> and less than
  6.25 s, so the tunnel reports the failure after less than 56.25 s of sleeping, whatever
  the jitter.
\<close>
theorem unreachable_target_fails:
  assumes "list_all (\<lambda>t. \<not> dt_done t \<and> dial_failed t \<and> \<not> dt_done_dial t) ts" and "length ts = 10"
    and "valid_run MinBackoff (map dt_rnd ts)"
  shows "\<exists>s e. UDPServer_runForwardLoop (ts @ rest) b = (s, Some (Some e)) \<and> tb_Status (ds_base s) = StatusFailed \<and>
    length (ds_slept s) = 9 \<and> hd (ds_slept s) = MinBackoff \<and>
    list_all (\<lambda>d. MinBackoff \<le> d \<and> d < 6250000000) (ds_slept s) \<and> sum_list (ds_slept s) < 56250000000"
proof -
  define us t where "us = butlast ts" and "t = last ts"
  have ne: "ts \<noteq> []" using assms(2) by auto
  then have ts: "ts = us @ [t]" and len: "length us = 9" using assms(2) by (simp_all add: us_def t_def)
  from ts assms(1) have us: "list_all (\<lambda>t. \<not> dt_done t \<and> dial_failed t \<and> \<not> dt_done_dial t) us"
    and t: "\<not> dt_done t" "dial_failed t" "\<not> dt_done_dial t" by simp_all
  let ?r = "map dt_rnd us"
  from failing_run [OF us, of "dial_start b"] len obtain s where s: "run_loop server_turn_step us (dial_start b) = (s, None)"
    "ds_errors s = 9" "ds_slept s = map (\<lambda>k. backoff_run MinBackoff (take k ?r)) [0..<9]"
    by (auto simp: maxConsecutiveDialErrors_def)
  obtain s' e where s': "server_turn_step t s = (s', False, Some e)" "ds_slept s' = ds_slept s" "tb_Status (ds_base s') = StatusFailed"
    using t s(2) by (auto simp: dial_step_defs)
  have run: "UDPServer_runForwardLoop (ts @ rest) b = (s', Some (Some e))"
    by (simp add: UDPServer_runForwardLoop_def ts run_loop_append s(1) s'(1))
  have valid: "valid_run c (xs @ ys) \<Longrightarrow> valid_run c xs" for c xs ys
    by (induction xs arbitrary: c) auto
  have "valid_run MinBackoff (take k ?r)" for k
    using assms(3) valid [of MinBackoff "take k ?r" "drop k ?r @ [dt_rnd t]"] by (simp add: ts flip: append_assoc)
  then have all: "MinBackoff \<le> backoff_run MinBackoff (take k ?r) \<and> backoff_run MinBackoff (take k ?r) < 6250000000" for k
    using backoff_run_grows [of MinBackoff "take k ?r"] by (simp add: MinBackoff_def)
  have sum: "list_all (\<lambda>d. d < 6250000000) xs \<Longrightarrow> sum_list xs \<le> int (length xs) * 6249999999" for xs :: "int list"
    by (induction xs) (auto simp: algebra_simps)
  have "sum_list (ds_slept s) \<le> int (length (ds_slept s)) * 6249999999"
    using all by (intro sum) (simp add: s(3) list_all_iff)
  then have "sum_list (ds_slept s) < 56250000000" by (simp add: s(3))
  moreover have "hd (ds_slept s) = MinBackoff" by (simp add: s(3) upt_rec)
  ultimately show ?thesis
    using all run s'(2,3) by (intro exI [of _ s'] exI [of _ e]) (simp add: s(3) list_all_iff)
qed

lemma unreachable_target_fails_witness:
  "\<exists>s e. UDPServer_runForwardLoop (map failing_turn (replicate 10 1000000) @ []) example_base = (s, Some (Some e)) \<and>
     tb_Status (ds_base s) = StatusFailed \<and> length (ds_slept s) = 9"
proof -
  have "list_all (\<lambda>t. \<not> dt_done t \<and> dial_failed t \<and> \<not> dt_done_dial t) (map failing_turn (replicate 10 1000000))"
    by (simp add: failing_turn_def list_all_iff)
  moreover have "valid_run MinBackoff (map dt_rnd (map failing_turn (replicate 10 1000000)))"
    by (simp add: failing_turn_def comp_def) code_simp
  ultimately show ?thesis
    using unreachable_target_fails [of "map failing_turn (replicate 10 1000000)" "[]" example_base] by auto
qed

text \<open>
  C9: the proxy of the bidirectional UDP tunnel does not disturb its server side: on every
  run, status, error counter, delay, sleeps and result are those of a plain UDP server
  that sees the same dial turns, however often the SOCKS5 server exits and is restarted.
\<close>
theorem bidi_refines_udp_server:
  "sim_result (UDPBidirectional_runForwardLoop ts b) (UDPServer_runForwardLoop (concat (map server_view ts)) b)"
  unfolding UDPBidirectional_runForwardLoop_def UDPServer_runForwardLoop_def
  by (rule bidi_sim) (simp add: same_dial_def)

text \<open>
  \<open>Start\<close> of the three UDP tunnels: when it returns after the I2P session was opened,
  whatever went wrong, the tunnel is stopped and its channel and session are closed (and
  the proxy is shut down); when the session cannot be opened the error is returned but
  the tunnel stays reported as starting.
\<close>
theorem udp_Start_returned:
  "(UDPClient_Start session resolve listen now cs t = (t1, Some r1) \<longrightarrow> udp_ended session t1 r1) \<and>
   (UDPServer_Start session resolve now ds t = (t2, Some r2) \<longrightarrow> udp_ended session t2 r2) \<and>
   (UDPBidirectional_Start session newSocks resolve now us q = (q3, Some r3) \<longrightarrow>
      udp_ended session (ub_stream q3) r3 \<and> (session = None \<longrightarrow> ub_socks q3 \<noteq> Some False))"
proof (intro conjI impI)
  assume "UDPClient_Start session resolve listen now cs t = (t1, Some r1)"
  then show "udp_ended session t1 r1"
    by (auto simp: UDPClient_Start_def udp_ended_def Let_def udp_Stop_released begun_simps split: option.splits prod.splits)
next
  assume "UDPServer_Start session resolve now ds t = (t2, Some r2)"
  then show "udp_ended session t2 r2"
    by (auto simp: UDPServer_Start_def udp_ended_def Let_def udp_Stop_released begun_simps split: option.splits sum.splits prod.splits)
next
  assume q: "UDPBidirectional_Start session newSocks resolve now us q = (q3, Some r3)"
  then show "udp_ended session (ub_stream q3) r3"
    by (auto simp: UDPBidirectional_Start_def udp_ended_def Let_def udp_Stop_released begun_simps split: option.splits sum.splits prod.splits)
  assume "session = None"
  with q show "ub_socks q3 \<noteq> Some False"
    by (auto simp: UDPBidirectional_Start_def UDPBidirectional_Stop_def Let_def begun_simps split: option.splits sum.splits prod.splits)
qed

lemma udp_Start_returned_witness:
  "\<exists>t1 r1. UDPClient_Start None (\<lambda>a. Inr a) (\<lambda>a. Some (External ''in use'')) 0 [] example_stream = (t1, Some r1) \<and>
     tb_Status (st_base t1) = StatusStopped"
proof -
  obtain t1 r1 where run: "UDPClient_Start None (\<lambda>a. Inr a) (\<lambda>a. Some (External ''in use'')) 0 [] example_stream = (t1, Some r1)"
    by (simp add: UDPClient_Start_def listenLocalUDP_def Let_def)
  have "udp_ended None t1 r1"
    by (rule mp [OF conjunct1 [OF udp_Start_returned] run])
  with run show ?thesis by (simp add: udp_ended_def)
qed

lemma udp_fatal_only_after_errors_witness:
  "\<exists>s e. UDPServer_runForwardLoop (map failing_turn (replicate 10 7)) example_base = (s, Some (Some e)) \<and>
     (\<exists>pre t post. map failing_turn (replicate 10 7) = pre @ t # post \<and> 10 \<le> errors_since dial_failed dial_worked (pre @ [t]))"
proof -
  have "\<exists>s e. UDPServer_runForwardLoop (map failing_turn (replicate 10 7)) example_base = (s, Some (Some e))"
    by (simp add: UDPServer_runForwardLoop_def dial_step_defs failing_turn_def dial_start_def eval_nat_numeral)
  then obtain s e where run: "UDPServer_runForwardLoop (map failing_turn (replicate 10 7)) example_base = (s, Some (Some e))" by blast
  have "\<exists>pre t post. map failing_turn (replicate 10 7) = pre @ t # post \<and> dial_failed t \<and>
      10 \<le> errors_since dial_failed dial_worked (pre @ [t])"
    by (rule mp [OF conjunct1 [OF conjunct2 [OF udp_fatal_only_after_errors]] run])
  with run show ?thesis by blast
qed

section \<open>The helpers that UDPBidirectional repeats\<close>

definition maxConsecutiveErrors_udp :: int where "maxConsecutiveErrors_udp = 10"

definition UDPBidirectional_startSOCKS5Proxy :: "(string \<Rightarrow> go_error option) \<Rightarrow> udp_bidi \<Rightarrow> udp_bidi \<times> go_error option" where
  "UDPBidirectional_startSOCKS5Proxy newSocks t =
     (let cfg = tb_Config (ub_base t);
          socksAddr = JoinHostPort (tc_Interface cfg) (Itoa (tc_Port cfg))
      in case newSocks socksAddr of
           Some err \<Rightarrow> (t, Some (Wrapf ''failed to create SOCKS5 server'' err))
         | None \<Rightarrow> (t\<lparr>ub_socks := Some False\<rparr>, None))"

definition UDPBidirectional_handleDialError :: "go_error \<Rightarrow> dial_turn \<Rightarrow> dial_state \<Rightarrow> dial_state \<times> bool \<times> go_error option" where
  "UDPBidirectional_handleDialError err turn s =
     (if dt_done_dial turn then (s, False, None)
      else
        let n = ds_errors s + 1;
            s1 = s\<lparr>ds_errors := n,
                   ds_base := UDPBidirectional_recordError (Wrapf (''dial error ('' @ Itoa n @ '' consecutive)'') err) (ds_base s)\<rparr>
        in if n \<ge> maxConsecutiveErrors_udp then
             (s1\<lparr>ds_base := UDPBidirectional_setStatus StatusFailed (ds_base s1)\<rparr>, False,
              Some (Errorf (''tunnel failed after '' @ Itoa n @ '' consecutive dial errors'')))
           else
             (s1\<lparr>ds_slept := ds_slept s1 @ [ds_backoff s1], ds_backoff := NextBackoff (dt_rnd turn) (ds_backoff s1)\<rparr>, True, None))"

text \<open>They agree with the definitions that the loop and \<open>Start\<close> are built from.\<close>

lemma UDPBidirectional_handleDialError_shared: "UDPBidirectional_handleDialError err turn s = handleDialError err turn s"
  by (simp add: UDPBidirectional_handleDialError_def handleDialError_def UDPBidirectional_recordError_def
      UDPBidirectional_setStatus_def maxConsecutiveErrors_udp_def maxConsecutiveDialErrors_def Let_def)

lemma UDPBidirectional_Start_socks_error:
  assumes "UDPBidirectional_startSOCKS5Proxy newSocks (t\<lparr>ub_stream := udp_begin (ub_stream t)\<rparr>) = (t', Some err)"
  shows "UDPBidirectional_Start None newSocks resolveUDP now ts t = (UDPBidirectional_Stop t', Some (Some err))"
  using assms
  by (auto simp: UDPBidirectional_startSOCKS5Proxy_def UDPBidirectional_Start_def stream_LocalAddress_def Let_def split: option.splits)

section \<open>The delays of every run\<close>

text \<open>The jitter of every turn is one that the random source can give for the delay it meets.\<close>

fun valid_jitter ::
  "('t \<Rightarrow> dial_state \<Rightarrow> dial_state \<times> bool \<times> go_error option) \<Rightarrow> ('t \<Rightarrow> int option) \<Rightarrow> 't list \<Rightarrow> dial_state \<Rightarrow> bool" where
  "valid_jitter step rnd [] s \<longleftrightarrow> True"
| "valid_jitter step rnd (t # ts) s \<longleftrightarrow>
     (case rnd t of None \<Rightarrow> True | Some x \<Rightarrow> valid_rnd (ds_backoff s) x) \<and>
     (case step t s of (s', cont, fatal) \<Rightarrow> cont \<longrightarrow> valid_jitter step rnd ts s')"

fun cycle_rnd :: "bidi_turn \<Rightarrow> int option" where
  "cycle_rnd (Cycle t) = Some (dt_rnd t)"
| "cycle_rnd _ = None"

definition delay_ok :: "int \<Rightarrow> bool" where
  "delay_ok d \<longleftrightarrow> 37500000 \<le> d \<and> d < 6250000000"

definition delays_ok :: "dial_state \<Rightarrow> bool" where
  "delays_ok s \<longleftrightarrow> delay_ok (ds_backoff s) \<and> list_all delay_ok (ds_slept s)"

lemma delays_ok_start: "delays_ok (dial_start b)"
  by (simp add: delays_ok_def delay_ok_def dial_start_def MinBackoff_def)

lemma delays_ok_dial: "delays_ok s \<Longrightarrow> valid_rnd (ds_backoff s) (dt_rnd t) \<Longrightarrow> delays_ok (fst (dialAndForward t s))"
  using NextBackoff_bounds [of "ds_backoff s" "dt_rnd t"]
  by (auto simp: dialAndForward_def handleDialError_def delays_ok_def delay_ok_def MinBackoff_def Let_def split: option.split)

lemma delays_ok_run:
  assumes step: "\<And>t s. delays_ok s \<Longrightarrow> (\<And>x. rnd t = Some x \<Longrightarrow> valid_rnd (ds_backoff s) x) \<Longrightarrow> delays_ok (fst (step t s))"
  shows "delays_ok s \<Longrightarrow> valid_jitter step rnd ts s \<Longrightarrow> delays_ok (fst (run_loop step ts s))"
proof (induction ts arbitrary: s)
  case (Cons t ts)
  have "delays_ok (fst (step t s))" by (rule step [OF Cons.prems(1)]) (use Cons.prems(2) in simp)
  with Cons.IH [of "fst (step t s)"] Cons.prems(2) show ?case by (auto split: prod.splits)
qed simp

text \<open>
  C12: every delay that the loops of the UDP server and of the UDP bidirectional tunnel
  sleep, in every run and whatever happens in it, lies in [37.5 ms, 6.25 s), for all
  jitter that the random source can give: the loops neither spin nor stall, and no
  computation of a delay overflows.
\<close>
theorem udp_delays_bounded:
  shows "(UDPServer_runForwardLoop ts b = (s, r) \<and> valid_jitter server_turn_step (\<lambda>t. Some (dt_rnd t)) ts (dial_start b) \<longrightarrow>
      list_all (\<lambda>d. 37500000 \<le> d \<and> d < 6250000000) (ds_slept s)) \<and>
    (UDPBidirectional_runForwardLoop us b = (u, q) \<and> valid_jitter bidi_turn_step cycle_rnd us (dial_start b) \<longrightarrow>
      list_all (\<lambda>d. 37500000 \<le> d \<and> d < 6250000000) (ds_slept u))"
proof -
  have server: "delays_ok (fst (server_turn_step t s))" if "delays_ok s" "valid_rnd (ds_backoff s) (dt_rnd t)" for t s
    using that delays_ok_dial [of s t] by (simp add: server_turn_step_def)
  have bidi: "delays_ok (fst (bidi_turn_step t s))" if "delays_ok s" "\<And>x. cycle_rnd t = Some x \<Longrightarrow> valid_rnd (ds_backoff s) x" for t s
    using that delays_ok_dial [of s]
    by (cases t) (auto simp: runForwardCycle_def UDPBidirectional_handleSOCKSError_def delays_ok_def Let_def split: option.split)
  have all: "list_all (\<lambda>d. 37500000 \<le> d \<and> d < 6250000000) (ds_slept s)" if "delays_ok s" for s
    using that by (simp add: delays_ok_def delay_ok_def [abs_def])
  have "delays_ok s" if "UDPServer_runForwardLoop ts b = (s, r)" "valid_jitter server_turn_step (\<lambda>t. Some (dt_rnd t)) ts (dial_start b)"
    using delays_ok_run [of "\<lambda>t. Some (dt_rnd t)" server_turn_step, OF _ delays_ok_start that(2)] server that(1)
    by (simp add: UDPServer_runForwardLoop_def)
  moreover have "delays_ok u" if "UDPBidirectional_runForwardLoop us b = (u, q)" "valid_jitter bidi_turn_step cycle_rnd us (dial_start b)"
    using delays_ok_run [of cycle_rnd bidi_turn_step, OF _ delays_ok_start that(2)] bidi that(1)
    by (simp add: UDPBidirectional_runForwardLoop_def)
  ultimately show ?thesis using all by blast
qed

lemma small_jitter: "0 \<le> x \<Longrightarrow> x < 25000000 \<Longrightarrow> valid_rnd c x"
  using next_delay_bounds [of c] by (auto simp: valid_rnd_def MinBackoff_def)

lemma udp_delays_bounded_witness:
  "\<exists>s. UDPServer_runForwardLoop [failing_turn 7, failing_turn 12345] example_base = (s, None) \<and> length (ds_slept s) = 2 \<and>
     list_all (\<lambda>d. 37500000 \<le> d \<and> d < 6250000000) (ds_slept s)"
proof -
  let ?ts = "[failing_turn 7, failing_turn 12345]"
  have "valid_jitter server_turn_step (\<lambda>t. Some (dt_rnd t)) ?ts (dial_start example_base)"
    by (simp add: server_turn_step_def dialAndForward_def handleDialError_def failing_turn_def Let_def small_jitter)
  moreover obtain s where "UDPServer_runForwardLoop ?ts example_base = (s, None)" "length (ds_slept s) = 2"
    by (simp add: UDPServer_runForwardLoop_def server_turn_step_def dialAndForward_def handleDialError_def failing_turn_def
        dial_start_def Let_def maxConsecutiveDialErrors_def)
  ultimately show ?thesis using udp_delays_bounded [of ?ts example_base s None "[]"] by blast
qed

end
