(* ===== verification/Tunnels.thy ===== *)
theory Tunnels
  imports StreamTunnels Socks Udp Bidirectional
begin

text \<open>
  The interface \<open>I2PTunnel\<close> (\<open>lib/core/types.go\<close>): a value of it is one of the twelve
  tunnel types, and a call of a method goes to the type's own. The accessors that the types
  with several sides, the SOCKS5 tunnel and the bidirectional UDP tunnel declare themselves
  are here too.
\<close>

section \<open>Accessors of the types\<close>

definition TCPBidirectional_Address :: "bidi \<Rightarrow> string" where
  "TCPBidirectional_Address t = stream_Address (bd_stream t)"

definition TCPBidirectional_LocalAddress :: "bidi \<Rightarrow> string" where
  "TCPBidirectional_LocalAddress t = stream_LocalAddress (bd_stream t)"

text \<open>\<open>None\<close>: the nil dereference of a tunnel without address, here and below.\<close>

definition TCPBidirectional_Target :: "bidi \<Rightarrow> string option" where
  "TCPBidirectional_Target t = st_target (bd_stream t)"

definition HTTPBidirectional_Address :: "'cl http_bidi \<Rightarrow> string" where
  "HTTPBidirectional_Address t = stream_Address (bd_stream (hb_bidi t))"

definition HTTPBidirectional_LocalAddress :: "'cl http_bidi \<Rightarrow> string" where
  "HTTPBidirectional_LocalAddress t = stream_LocalAddress (bd_stream (hb_bidi t))"

definition HTTPBidirectional_Target :: "'cl http_bidi \<Rightarrow> string option" where
  "HTTPBidirectional_Target t = st_target (bd_stream (hb_bidi t))"

definition UDPBidirectional_SetTunnelMetrics :: "tunnel_metrics option \<Rightarrow> udp_bidi \<Rightarrow> udp_bidi" where
  "UDPBidirectional_SetTunnelMetrics m t =
     t\<lparr>ub_stream := (ub_stream t)\<lparr>st_base := (st_base (ub_stream t))\<lparr>tb_Metrics := m\<rparr>\<rparr>\<rparr>"

definition UDPBidirectional_Address :: "udp_bidi \<Rightarrow> string" where
  "UDPBidirectional_Address t = stream_Address (ub_stream t)"

definition UDPBidirectional_Error :: "udp_bidi \<Rightarrow> go_error option" where
  "UDPBidirectional_Error t = Last (tb_Errors (st_base (ub_stream t)))"

definition UDPBidirectional_LocalAddress :: "udp_bidi \<Rightarrow> string" where
  "UDPBidirectional_LocalAddress t = stream_LocalAddress (ub_stream t)"

definition UDPBidirectional_Name :: "udp_bidi \<Rightarrow> string" where
  "UDPBidirectional_Name t = tc_Name (tb_Config (st_base (ub_stream t)))"

definition UDPBidirectional_Status :: "udp_bidi \<Rightarrow> tunnel_status" where
  "UDPBidirectional_Status t = tb_Status (st_base (ub_stream t))"

definition UDPBidirectional_Target :: "udp_bidi \<Rightarrow> string option" where
  "UDPBidirectional_Target t = st_target (ub_stream t)"

definition UDPBidirectional_Type :: "udp_bidi \<Rightarrow> string" where
  "UDPBidirectional_Type t = tc_Type (tb_Config (st_base (ub_stream t)))"

definition UDPBidirectional_ID :: "udp_bidi \<Rightarrow> string" where
  "UDPBidirectional_ID t = Clean (UDPBidirectional_Name t)"

definition SOCKS_SetTunnelMetrics :: "tunnel_metrics option \<Rightarrow> 'l socks \<Rightarrow> 'l socks" where
  "SOCKS_SetTunnelMetrics m s = s\<lparr>sk_base := (sk_base s)\<lparr>tb_Metrics := m\<rparr>\<rparr>"

definition SOCKS_Error :: "'l socks \<Rightarrow> go_error option" where
  "SOCKS_Error s = Last (tb_Errors (sk_base s))"

definition SOCKS_Name :: "'l socks \<Rightarrow> string" where
  "SOCKS_Name s = tc_Name (tb_Config (sk_base s))"

definition SOCKS_Status :: "'l socks \<Rightarrow> tunnel_status" where
  "SOCKS_Status s = tb_Status (sk_base s)"

definition SOCKS_Target :: "'l socks \<Rightarrow> string" where
  "SOCKS_Target s = ''''"

definition SOCKS_Type :: "'l socks \<Rightarrow> string" where
  "SOCKS_Type s = tc_Type (tb_Config (sk_base s))"

definition SOCKS_ID :: "'l socks \<Rightarrow> string" where
  "SOCKS_ID s = Clean (SOCKS_Name s)"

section \<open>The environment\<close>

text \<open>
  What the tunnel types take from outside the repository: the number formats, the
  configuration parser (\<open>e_detect\<close>, \<open>e_parseInput\<close>), the SAM session for a bridge address
  and a configuration, the resolvers, the rate limiter, the HTTP clients, the lower casing
  of non-ASCII text and the durations. Files are read by a function of the path, given
  separately, because some components write files.
\<close>

record ('f, 'l, 'cl) env =
  e_fl :: float_lib
  e_detect :: "string \<Rightarrow> go_error + 'f"
  e_parseInput :: "string \<Rightarrow> 'f \<Rightarrow> go_error + tunnel_config"
  e_newGarlic :: "string \<Rightarrow> tunnel_config \<Rightarrow> go_error + garlic"
  e_resolveTCP :: tcp_resolver
  e_resolveUDP :: "string \<Rightarrow> go_error + string"
  e_lookup :: i2p_lookup
  e_newLimiter :: "float64 \<Rightarrow> int \<Rightarrow> 'l"
  e_defaultClient :: 'cl
  e_jumpClient :: 'cl
  e_lower :: "string \<Rightarrow> string"
  e_parseDuration :: "string \<Rightarrow> int option"
  e_durString :: "int \<Rightarrow> string"

type_synonym file_reader = "string \<Rightarrow> go_error + string"

abbreviation e_parse :: "('f, 'l, 'cl) env \<Rightarrow> file_reader \<Rightarrow> string \<Rightarrow> go_error + tunnel_config" where
  "e_parse E rd \<equiv> ParseConfigFile (e_detect E) rd (e_parseInput E)"

section \<open>The interface\<close>

datatype ('l, 'cl) i2p_tunnel =
    ATCPClient tcp_client
  | ATCPServer stream_tunnel
  | AUDPClient stream_tunnel
  | AUDPServer stream_tunnel
  | ASOCKS "'l socks"
  | AHTTPClient "'cl http_client"
  | AHTTPServer stream_tunnel
  | AIRCClient stream_tunnel
  | AIRCServer stream_tunnel
  | ATCPBidirectional bidi
  | AUDPBidirectional udp_bidi
  | AHTTPBidirectional "'cl http_bidi"

text \<open>The \<open>TunnelBase\<close> of a tunnel, or the fields of the same names, and the stream part of the types that have one.\<close>

fun i2p_base :: "('l, 'cl) i2p_tunnel \<Rightarrow> tunnel_base" where
  "i2p_base (ATCPClient t) = cl_base t"
| "i2p_base (ATCPServer t) = st_base t"
| "i2p_base (AUDPClient t) = st_base t"
| "i2p_base (AUDPServer t) = st_base t"
| "i2p_base (ASOCKS s) = sk_base s"
| "i2p_base (AHTTPClient h) = hc_base h"
| "i2p_base (AHTTPServer t) = st_base t"
| "i2p_base (AIRCClient t) = st_base t"
| "i2p_base (AIRCServer t) = st_base t"
| "i2p_base (ATCPBidirectional t) = st_base (bd_stream t)"
| "i2p_base (AUDPBidirectional t) = st_base (ub_stream t)"
| "i2p_base (AHTTPBidirectional t) = st_base (bd_stream (hb_bidi t))"

fun i2p_Name :: "('l, 'cl) i2p_tunnel \<Rightarrow> string" where
  "i2p_Name (AUDPServer t) = UDPServer_Name t"
| "i2p_Name (AUDPBidirectional t) = UDPBidirectional_Name t"
| "i2p_Name (ASOCKS s) = SOCKS_Name s"
| "i2p_Name t = base_Name (i2p_base t)"

fun i2p_ID :: "('l, 'cl) i2p_tunnel \<Rightarrow> string" where
  "i2p_ID (AUDPBidirectional t) = UDPBidirectional_ID t"
| "i2p_ID (ASOCKS s) = SOCKS_ID s"
| "i2p_ID t = base_ID (i2p_base t)"

fun i2p_Type :: "('l, 'cl) i2p_tunnel \<Rightarrow> string" where
  "i2p_Type (AUDPBidirectional t) = UDPBidirectional_Type t"
| "i2p_Type (ASOCKS s) = SOCKS_Type s"
| "i2p_Type t = base_Type (i2p_base t)"

fun i2p_Status :: "('l, 'cl) i2p_tunnel \<Rightarrow> tunnel_status" where
  "i2p_Status (AUDPBidirectional t) = UDPBidirectional_Status t"
| "i2p_Status (ASOCKS s) = SOCKS_Status s"
| "i2p_Status t = Status (i2p_base t)"

fun i2p_Error :: "('l, 'cl) i2p_tunnel \<Rightarrow> go_error option" where
  "i2p_Error (AUDPBidirectional t) = UDPBidirectional_Error t"
| "i2p_Error (ASOCKS s) = SOCKS_Error s"
| "i2p_Error t = base_Error (i2p_base t)"

fun i2p_Address :: "('l, 'cl) i2p_tunnel \<Rightarrow> string" where
  "i2p_Address (ATCPClient t) = TCPClient_Address t"
| "i2p_Address (ATCPServer t) = TCPServer_Address t"
| "i2p_Address (AUDPClient t) = UDPClient_Address t"
| "i2p_Address (AUDPServer t) = UDPServer_Address t"
| "i2p_Address (ASOCKS s) = SOCKS_Address s"
| "i2p_Address (AHTTPClient h) = HTTPClient_Address h"
| "i2p_Address (AHTTPServer t) = HTTPServer_Address t"
| "i2p_Address (AIRCClient t) = IRCClient_Address t"
| "i2p_Address (AIRCServer t) = IRCServer_Address t"
| "i2p_Address (ATCPBidirectional t) = TCPBidirectional_Address t"
| "i2p_Address (AUDPBidirectional t) = UDPBidirectional_Address t"
| "i2p_Address (AHTTPBidirectional t) = HTTPBidirectional_Address t"

text \<open>No type's \<open>LocalAddress\<close> can fail: its error result is always nil.\<close>

fun i2p_LocalAddress :: "('l, 'cl) i2p_tunnel \<Rightarrow> string" where
  "i2p_LocalAddress (ATCPClient t) = TCPClient_LocalAddress t"
| "i2p_LocalAddress (ATCPServer t) = TCPServer_LocalAddress t"
| "i2p_LocalAddress (AUDPClient t) = UDPClient_LocalAddress t"
| "i2p_LocalAddress (AUDPServer t) = UDPServer_LocalAddress t"
| "i2p_LocalAddress (ASOCKS s) = SOCKS_LocalAddress s"
| "i2p_LocalAddress (AHTTPClient h) = HTTPClient_LocalAddress h"
| "i2p_LocalAddress (AHTTPServer t) = HTTPServer_LocalAddress t"
| "i2p_LocalAddress (AIRCClient t) = IRCClient_LocalAddress t"
| "i2p_LocalAddress (AIRCServer t) = IRCServer_LocalAddress t"
| "i2p_LocalAddress (ATCPBidirectional t) = TCPBidirectional_LocalAddress t"
| "i2p_LocalAddress (AUDPBidirectional t) = UDPBidirectional_LocalAddress t"
| "i2p_LocalAddress (AHTTPBidirectional t) = HTTPBidirectional_LocalAddress t"

fun i2p_Target :: "('l, 'cl) i2p_tunnel \<Rightarrow> string option" where
  "i2p_Target (ATCPClient t) = Some (TCPClient_Target t)"
| "i2p_Target (ATCPServer t) = TCPServer_Target t"
| "i2p_Target (AUDPClient t) = UDPClient_Target t"
| "i2p_Target (AUDPServer t) = UDPServer_Target t"
| "i2p_Target (ASOCKS s) = Some (SOCKS_Target s)"
| "i2p_Target (AHTTPClient h) = Some (HTTPClient_Target h)"
| "i2p_Target (AHTTPServer t) = HTTPServer_Target t"
| "i2p_Target (AIRCClient t) = IRCClient_Target t"
| "i2p_Target (AIRCServer t) = IRCServer_Target t"
| "i2p_Target (ATCPBidirectional t) = TCPBidirectional_Target t"
| "i2p_Target (AUDPBidirectional t) = UDPBidirectional_Target t"
| "i2p_Target (AHTTPBidirectional t) = HTTPBidirectional_Target t"

fun i2p_Options :: "('f, 'l, 'cl) env \<Rightarrow> ('l, 'cl) i2p_tunnel \<Rightarrow> options" where
  "i2p_Options E (ATCPClient t) = TCPClient_Options (e_fl E) (e_durString E) t"
| "i2p_Options E (ATCPServer t) = TCPServer_Options (e_fl E) t"
| "i2p_Options E (AUDPClient t) = UDPClient_Options (e_fl E) t"
| "i2p_Options E (AUDPServer t) = UDPServer_Options (e_fl E) t"
| "i2p_Options E (ASOCKS s) = SOCKS_Options (e_fl E) s"
| "i2p_Options E (AHTTPClient h) = HTTPClient_Options (e_fl E) h"
| "i2p_Options E (AHTTPServer t) = HTTPServer_Options (e_fl E) t"
| "i2p_Options E (AIRCClient t) = IRCClient_Options (e_fl E) t"
| "i2p_Options E (AIRCServer t) = IRCServer_Options (e_fl E) t"
| "i2p_Options E (ATCPBidirectional t) = TCPBidirectional_Options (e_fl E) t"
| "i2p_Options E (AUDPBidirectional t) = UDPBidirectional_Options (e_fl E) t"
| "i2p_Options E (AHTTPBidirectional t) = HTTPBidirectional_Options (e_fl E) t"

abbreviation lift_result :: "('t \<Rightarrow> ('l, 'cl) i2p_tunnel) \<Rightarrow> 't \<times> go_error option \<Rightarrow> ('l, 'cl) i2p_tunnel \<times> go_error option" where
  "lift_result c r \<equiv> (c (fst r), snd r)"

fun i2p_SetOptions ::
  "('f, 'l, 'cl) env \<Rightarrow> options \<Rightarrow> ('l, 'cl) i2p_tunnel \<Rightarrow> ('l, 'cl) i2p_tunnel \<times> go_error option" where
  "i2p_SetOptions E opts (ATCPClient t) =
     lift_result ATCPClient (TCPClient_SetOptions (e_lookup E) (e_parseDuration E) opts t)"
| "i2p_SetOptions E opts (ATCPServer t) = lift_result ATCPServer (TCPServer_SetOptions (e_fl E) (e_resolveTCP E) opts t)"
| "i2p_SetOptions E opts (AUDPClient t) = lift_result AUDPClient (UDPClient_SetOptions (e_fl E) (e_lookup E) opts t)"
| "i2p_SetOptions E opts (AUDPServer t) =
     lift_result AUDPServer (UDPServer_SetOptions (e_fl E) (e_resolveTCP E) (e_resolveUDP E) opts t)"
| "i2p_SetOptions E opts (ASOCKS s) = lift_result ASOCKS (SOCKS_SetOptions (e_fl E) (e_newLimiter E) opts s)"
| "i2p_SetOptions E opts (AHTTPClient h) =
     lift_result AHTTPClient (HTTPClient_SetOptions (e_lower E) (e_defaultClient E) opts h)"
| "i2p_SetOptions E opts (AHTTPServer t) = lift_result AHTTPServer (HTTPServer_SetOptions (e_fl E) (e_resolveTCP E) opts t)"
| "i2p_SetOptions E opts (AIRCClient t) = lift_result AIRCClient (IRCClient_SetOptions (e_fl E) (e_lookup E) opts t)"
| "i2p_SetOptions E opts (AIRCServer t) = lift_result AIRCServer (IRCServer_SetOptions (e_fl E) (e_resolveTCP E) opts t)"
| "i2p_SetOptions E opts (ATCPBidirectional t) =
     lift_result ATCPBidirectional (TCPBidirectional_SetOptions (e_fl E) (e_resolveTCP E) opts t)"
| "i2p_SetOptions E opts (AUDPBidirectional t) =
     lift_result AUDPBidirectional (UDPBidirectional_SetOptions (e_fl E) (e_resolveTCP E) (e_resolveUDP E) opts t)"
| "i2p_SetOptions E opts (AHTTPBidirectional t) =
     lift_result AHTTPBidirectional (HTTPBidirectional_SetOptions (e_fl E) (e_resolveTCP E) opts t)"

text \<open>\<open>LoadConfig\<close> with nobody else changing the status of the tunnel meanwhile.\<close>

fun i2p_LoadConfig ::
  "('f, 'l, 'cl) env \<Rightarrow> file_reader \<Rightarrow> string \<Rightarrow> ('l, 'cl) i2p_tunnel \<Rightarrow> ('l, 'cl) i2p_tunnel \<times> go_error option" where
  "i2p_LoadConfig E rd path (ATCPClient t) =
     lift_result ATCPClient (TCPClient_LoadConfig (e_parse E rd) (e_lookup E) path (tb_Status (cl_base t)) t)"
| "i2p_LoadConfig E rd path (ATCPServer t) =
     lift_result ATCPServer (TCPServer_LoadConfig (e_parse E rd) (e_resolveTCP E) path t)"
| "i2p_LoadConfig E rd path (AUDPClient t) = lift_result AUDPClient (UDPClient_LoadConfig (e_parse E rd) (e_lookup E) path t)"
| "i2p_LoadConfig E rd path (AUDPServer t) =
     lift_result AUDPServer (UDPServer_LoadConfig (e_parse E rd) (e_resolveUDP E) path t)"
| "i2p_LoadConfig E rd path (ASOCKS s) = lift_result ASOCKS (SOCKS_LoadConfig (e_parse E rd) path s)"
| "i2p_LoadConfig E rd path (AHTTPClient h) = lift_result AHTTPClient (HTTPClient_LoadConfig (e_parse E rd) path h)"
| "i2p_LoadConfig E rd path (AHTTPServer t) =
     lift_result AHTTPServer (HTTPServer_LoadConfig (e_parse E rd) (e_resolveTCP E) path t)"
| "i2p_LoadConfig E rd path (AIRCClient t) = lift_result AIRCClient (IRCClient_LoadConfig (e_parse E rd) (e_lookup E) path t)"
| "i2p_LoadConfig E rd path (AIRCServer t) =
     lift_result AIRCServer (IRCServer_LoadConfig (e_parse E rd) (e_resolveTCP E) path t)"
| "i2p_LoadConfig E rd path (ATCPBidirectional t) =
     lift_result ATCPBidirectional (TCPBidirectional_LoadConfig (e_parse E rd) (e_resolveTCP E) path t)"
| "i2p_LoadConfig E rd path (AUDPBidirectional t) =
     lift_result AUDPBidirectional (UDPBidirectional_LoadConfig (e_parse E rd) (e_resolveUDP E) path t)"
| "i2p_LoadConfig E rd path (AHTTPBidirectional t) =
     lift_result AHTTPBidirectional (HTTPBidirectional_LoadConfig (e_parse E rd) (e_resolveTCP E) path t)"

text \<open>
  \<open>shutdown\<close> is the error of shutting down the proxy server of the types that report it; a
  call that needs the lock a serving \<open>Start\<close> holds is one that has got it.
\<close>

fun i2p_Stop :: "go_error option \<Rightarrow> ('l, 'cl) i2p_tunnel \<Rightarrow> ('l, 'cl) i2p_tunnel \<times> go_error option" where
  "i2p_Stop shutdown (ATCPClient t) = (ATCPClient (TCPClient_Stop t), None)"
| "i2p_Stop shutdown (ATCPServer t) = (ATCPServer (TCPServer_Stop t), None)"
| "i2p_Stop shutdown (AUDPClient t) = (AUDPClient (UDPClient_Stop t), None)"
| "i2p_Stop shutdown (AUDPServer t) = (AUDPServer (UDPServer_Stop t), None)"
| "i2p_Stop shutdown (ASOCKS s) = lift_result ASOCKS (SOCKS_Stop shutdown s)"
| "i2p_Stop shutdown (AHTTPClient h) = lift_result AHTTPClient (HTTPClient_Stop shutdown h)"
| "i2p_Stop shutdown (AHTTPServer t) = (AHTTPServer (HTTPServer_Stop t), None)"
| "i2p_Stop shutdown (AIRCClient t) = (AIRCClient (IRCClient_Stop t), None)"
| "i2p_Stop shutdown (AIRCServer t) = (AIRCServer (IRCServer_Stop t), None)"
| "i2p_Stop shutdown (ATCPBidirectional t) = (ATCPBidirectional (TCPBidirectional_Stop t), None)"
| "i2p_Stop shutdown (AUDPBidirectional t) = (AUDPBidirectional (UDPBidirectional_Stop t), None)"
| "i2p_Stop shutdown (AHTTPBidirectional t) = (AHTTPBidirectional (HTTPBidirectional_Stop t), None)"

abbreviation set_st_metrics :: "tunnel_metrics option \<Rightarrow> stream_tunnel \<Rightarrow> stream_tunnel" where
  "set_st_metrics m t \<equiv> t\<lparr>st_base := SetTunnelMetrics m (st_base t)\<rparr>"

fun i2p_SetTunnelMetrics :: "tunnel_metrics option \<Rightarrow> ('l, 'cl) i2p_tunnel \<Rightarrow> ('l, 'cl) i2p_tunnel" where
  "i2p_SetTunnelMetrics m (ATCPClient t) = ATCPClient (upd_base (SetTunnelMetrics m) t)"
| "i2p_SetTunnelMetrics m (ATCPServer t) = ATCPServer (set_st_metrics m t)"
| "i2p_SetTunnelMetrics m (AUDPClient t) = AUDPClient (set_st_metrics m t)"
| "i2p_SetTunnelMetrics m (AUDPServer t) = AUDPServer (set_st_metrics m t)"
| "i2p_SetTunnelMetrics m (ASOCKS s) = ASOCKS (SOCKS_SetTunnelMetrics m s)"
| "i2p_SetTunnelMetrics m (AHTTPClient h) = AHTTPClient (h\<lparr>hc_base := SetTunnelMetrics m (hc_base h)\<rparr>)"
| "i2p_SetTunnelMetrics m (AHTTPServer t) = AHTTPServer (set_st_metrics m t)"
| "i2p_SetTunnelMetrics m (AIRCClient t) = AIRCClient (set_st_metrics m t)"
| "i2p_SetTunnelMetrics m (AIRCServer t) = AIRCServer (set_st_metrics m t)"
| "i2p_SetTunnelMetrics m (ATCPBidirectional t) = ATCPBidirectional (t\<lparr>bd_stream := set_st_metrics m (bd_stream t)\<rparr>)"
| "i2p_SetTunnelMetrics m (AUDPBidirectional t) = AUDPBidirectional (UDPBidirectional_SetTunnelMetrics m t)"
| "i2p_SetTunnelMetrics m (AHTTPBidirectional t) =
     AHTTPBidirectional (t\<lparr>hb_bidi := (hb_bidi t)\<lparr>bd_stream := set_st_metrics m (bd_stream (hb_bidi t))\<rparr>\<rparr>)"

text \<open>The SAM session that a tunnel holds.\<close>

fun i2p_garlic :: "('l, 'cl) i2p_tunnel \<Rightarrow> garlic option" where
  "i2p_garlic (ATCPClient t) = st_garlic (cl_stream t)"
| "i2p_garlic (ATCPServer t) = st_garlic t"
| "i2p_garlic (AUDPClient t) = st_garlic t"
| "i2p_garlic (AUDPServer t) = st_garlic t"
| "i2p_garlic (ASOCKS s) = sk_garlic s"
| "i2p_garlic (AHTTPClient h) = hc_garlic h"
| "i2p_garlic (AHTTPServer t) = st_garlic t"
| "i2p_garlic (AIRCClient t) = st_garlic t"
| "i2p_garlic (AIRCServer t) = st_garlic t"
| "i2p_garlic (ATCPBidirectional t) = st_garlic (bd_stream t)"
| "i2p_garlic (AUDPBidirectional t) = st_garlic (ub_stream t)"
| "i2p_garlic (AHTTPBidirectional t) = st_garlic (bd_stream (hb_bidi t))"

section \<open>Lemmas\<close>

text \<open>The types agree on the accessors.\<close>

lemma i2p_accessors [simp]:
  "i2p_Name t = tc_Name (tb_Config (i2p_base t))"
  "i2p_ID t = Clean (tc_Name (tb_Config (i2p_base t)))"
  "i2p_Type t = tc_Type (tb_Config (i2p_base t))"
  "i2p_Status t = tb_Status (i2p_base t)"
  "i2p_Error t = Last (tb_Errors (i2p_base t))"
  by (cases t; simp add: UDPServer_Name_def UDPBidirectional_Name_def SOCKS_Name_def base_Name_def UDPBidirectional_ID_def
      SOCKS_ID_def base_ID_def UDPBidirectional_Type_def SOCKS_Type_def base_Type_def UDPBidirectional_Status_def
      SOCKS_Status_def Status_def UDPBidirectional_Error_def SOCKS_Error_def base_Error_def)+

lemma i2p_SetTunnelMetrics_base [simp]: "i2p_base (i2p_SetTunnelMetrics m t) = (i2p_base t)\<lparr>tb_Metrics := m\<rparr>"
  by (cases t) (simp_all add: SetTunnelMetrics_def SOCKS_SetTunnelMetrics_def UDPBidirectional_SetTunnelMetrics_def)

lemma i2p_SetTunnelMetrics_garlic [simp]: "i2p_garlic (i2p_SetTunnelMetrics m t) = i2p_garlic t"
  by (cases t) (simp_all add: SOCKS_SetTunnelMetrics_def UDPBidirectional_SetTunnelMetrics_def upd_base_def)

end
