(* ===== verification/Loader.thy ===== *)
theory Loader
  imports Tunnels
begin

text \<open>
  Loading a tunnel from a configuration file (\<open>lib/loader/loader.go\<close>): the SAM address, the
  parse of the file and the constructor that the type of the configuration selects; with
  the contracts of \<open>Stop\<close> and \<open>LoadConfig\<close> for all twelve types at once.
\<close>

section \<open>Operations\<close>

definition DefaultSAMAddress :: string where "DefaultSAMAddress = ''localhost:7656''"

definition validateHost :: "string list \<Rightarrow> string" where
  "validateHost samAddr =
     (case samAddr of
        [] \<Rightarrow> DefaultSAMAddress
      | [a] \<Rightarrow>
          (case SplitHostPort a of
             None \<Rightarrow> DefaultSAMAddress
           | Some (host, port) \<Rightarrow> JoinHostPort host port)
      | [host, p] \<Rightarrow>
          (case Atoi p of
             None \<Rightarrow> DefaultSAMAddress
           | Some port \<Rightarrow> JoinHostPort host (Itoa port))
      | _ \<Rightarrow> DefaultSAMAddress)"

abbreviation as_tunnel :: "('t \<Rightarrow> ('l, 'cl) i2p_tunnel) \<Rightarrow> go_error + 't \<Rightarrow> go_error + ('l, 'cl) i2p_tunnel" where
  "as_tunnel c r \<equiv> rbind r (\<lambda>t. Inr (c t))"

definition newTunnel :: "('f, 'l, 'cl) env \<Rightarrow> tunnel_config \<Rightarrow> string \<Rightarrow> go_error + ('l, 'cl) i2p_tunnel" where
  "newTunnel E tunnel samhost =
     (let ty = tc_Type tunnel; fl = e_fl E; garlic = e_newGarlic E samhost;
          tcp = e_resolveTCP E; udp = e_resolveUDP E; lookup = e_lookup E
      in if ty = ''tcpclient'' then as_tunnel ATCPClient (NewTCPClient garlic lookup tunnel)
         else if ty = ''tcpserver'' then as_tunnel ATCPServer (NewTCPServer fl garlic tcp tunnel)
         else if ty = ''udpclient'' then as_tunnel AUDPClient (NewUDPClient fl garlic lookup tunnel)
         else if ty = ''udpserver'' then as_tunnel AUDPServer (NewUDPServer fl garlic udp tunnel)
         else if ty = ''socks'' \<or> ty = ''socksclient'' then as_tunnel ASOCKS (NewSocksClient fl (e_newLimiter E) garlic tunnel)
         else if ty = ''httpclient'' then
           as_tunnel AHTTPClient (NewHTTPClient garlic (e_defaultClient E) (e_jumpClient E) tunnel)
         else if ty = ''httpserver'' then as_tunnel AHTTPServer (NewHTTPServer fl garlic tcp tunnel)
         else if ty = ''ircclient'' then as_tunnel AIRCClient (NewIRCClient fl garlic lookup tunnel)
         else if ty = ''ircserver'' then as_tunnel AIRCServer (NewIRCServer fl garlic tcp tunnel)
         else if ty = ''tcpbidirectional'' then as_tunnel ATCPBidirectional (NewTCPBidirectional fl garlic tcp tunnel)
         else if ty = ''udpbidirectional'' then as_tunnel AUDPBidirectional (NewUDPBidirectional fl garlic udp tunnel)
         else if ty = ''httpbidirectional'' then
           as_tunnel AHTTPBidirectional (NewHTTPBidirectional fl garlic tcp (e_defaultClient E) (e_jumpClient E) tunnel)
         else Inl (Errorf (''unknown tunnel type: '' @ ty)))"

text \<open>\<open>Load\<close> returns the errors of the three steps as they are; \<open>ParseConfigFile\<close> wraps them.\<close>

definition Load ::
  "('f, 'l, 'cl) env \<Rightarrow> file_reader \<Rightarrow> string \<Rightarrow> string list \<Rightarrow> go_error + ('l, 'cl) i2p_tunnel" where
  "Load E rd path samAddr =
     (let samhost = validateHost samAddr in
      rbind (e_detect E path) (\<lambda>fmt.
        rbind (rd path) (\<lambda>bytes.
          rbind (e_parseInput E bytes fmt) (\<lambda>tunnel. newTunnel E tunnel samhost))))"

section \<open>Contracts of the twelve types\<close>

fun i2p_stopped :: "('l, 'cl) i2p_tunnel \<Rightarrow> bool" where
  "i2p_stopped (ATCPClient t) = st_once (cl_stream t)"
| "i2p_stopped (ATCPServer t) = st_once t"
| "i2p_stopped (AUDPClient t) = st_once t"
| "i2p_stopped (AUDPServer t) = st_once t"
| "i2p_stopped (ASOCKS s) = (\<not> sk_server s)"
| "i2p_stopped (AHTTPClient h) = (\<not> hc_server h)"
| "i2p_stopped (AHTTPServer t) = st_once t"
| "i2p_stopped (AIRCClient t) = st_once t"
| "i2p_stopped (AIRCServer t) = st_once t"
| "i2p_stopped (ATCPBidirectional t) = st_once (bd_stream t)"
| "i2p_stopped (AUDPBidirectional t) = st_once (ub_stream t)"
| "i2p_stopped (AHTTPBidirectional t) = st_once (bd_stream (hb_bidi t))"

definition i2p_closed :: "('l, 'cl) i2p_tunnel \<Rightarrow> bool" where
  "i2p_closed t \<longleftrightarrow> (case i2p_garlic t of None \<Rightarrow> True | Some g \<Rightarrow> \<not> g_open g)"

lemmas i2p_Stop_defs =
  TCPClient_Stop_def TCPServer_Stop_def HTTPServer_Stop_def IRCServer_Stop_def IRCClient_Stop_def UDPClient_Stop_def
  UDPServer_Stop_def UDPBidirectional_Stop_def TCPBidirectional_Stop_def HTTPBidirectional_Stop_def bidi_Stop_def
  stream_Stop_def udp_Stop_def SOCKS_Stop_def HTTPClient_Stop_def SOCKS_setStatus_def SOCKS_recordError_def Let_def

text \<open>A shutdown that succeeds stops a tunnel of any type and closes its session.\<close>

interpretation any_stopping: stoppable "\<lambda>t. fst (i2p_Stop None t)" "\<lambda>t. tb_Status (i2p_base t)" i2p_stopped i2p_closed
proof unfold_locales
  show "i2p_stopped (fst (i2p_Stop None t))" for t :: "('l, 'cl) i2p_tunnel"
    by (cases t) (auto simp: i2p_Stop_defs)
  show "i2p_stopped t \<Longrightarrow> fst (i2p_Stop None t) = t" for t :: "('l, 'cl) i2p_tunnel"
    by (cases t) (auto simp: i2p_Stop_defs)
  show "\<not> i2p_stopped t \<Longrightarrow> tb_Status (i2p_base (fst (i2p_Stop None t))) = StatusStopped" for t :: "('l, 'cl) i2p_tunnel"
    by (cases t) (auto simp: i2p_Stop_defs)
  show "\<not> i2p_stopped t \<Longrightarrow> i2p_closed (fst (i2p_Stop None t))" for t :: "('l, 'cl) i2p_tunnel"
    by (cases t) (auto simp: i2p_Stop_defs i2p_closed_def split: option.splits)
qed

lemma i2p_Stop_config:
  "tb_Config (i2p_base (fst (i2p_Stop sd t))) = tb_Config (i2p_base t)"
  by (cases t; cases sd) (auto simp: i2p_Stop_defs)

lemma i2p_Stop_None: "snd (i2p_Stop None t) = None"
  by (cases t) (auto simp: i2p_Stop_defs)

lemmas i2p_LoadConfig_defs =
  TCPServer_LoadConfig_def HTTPServer_LoadConfig_def IRCServer_LoadConfig_def IRCClient_LoadConfig_def UDPClient_LoadConfig_def
  UDPServer_LoadConfig_def UDPBidirectional_LoadConfig_def TCPBidirectional_LoadConfig_def HTTPBidirectional_LoadConfig_def
  TCPClient_LoadConfig_def loadTCPClientConfig_def SOCKS_LoadConfig_def HTTPClient_LoadConfig_def stream_LoadConfig_def Status_def Let_def

interpretation any_loading: reloadable "\<lambda>(E, rd, path). i2p_LoadConfig E rd path" "\<lambda>t. tb_Status (i2p_base t)" i2p_garlic
proof unfold_locales
  fix x :: "('f, 'l, 'cl) env \<times> file_reader \<times> string" and t t' :: "('l, 'cl) i2p_tunnel" and e
  obtain E rd path where x: "x = (E, rd, path)" by (cases x)
  show "CheckTunnelStopped (tb_Status (i2p_base t)) = Some e \<Longrightarrow> (case x of (E, rd, path) \<Rightarrow> i2p_LoadConfig E rd path) t = (t, Some e)"
    unfolding x by (cases t) (auto simp: i2p_LoadConfig_defs)
  show "(case x of (E, rd, path) \<Rightarrow> i2p_LoadConfig E rd path) t = (t', Some e) \<Longrightarrow> t' = t"
    unfolding x by (cases t) (auto simp: i2p_LoadConfig_defs split: option.splits sum.splits prod.splits if_splits)
  show "i2p_garlic (fst ((case x of (E, rd, path) \<Rightarrow> i2p_LoadConfig E rd path) t)) = i2p_garlic t"
    unfolding x by (cases t) (auto simp: i2p_LoadConfig_defs split: option.splits sum.splits prod.splits if_splits)
  show "tb_Status (i2p_base (fst ((case x of (E, rd, path) \<Rightarrow> i2p_LoadConfig E rd path) t))) = tb_Status (i2p_base t)"
    unfolding x by (cases t) (auto simp: i2p_LoadConfig_defs split: option.splits sum.splits prod.splits if_splits)
qed

section \<open>Loading and reloading\<close>

fun i2p_kind :: "('l, 'cl) i2p_tunnel \<Rightarrow> string" where
  "i2p_kind (ATCPClient t) = ''tcpclient''"
| "i2p_kind (ATCPServer t) = ''tcpserver''"
| "i2p_kind (AUDPClient t) = ''udpclient''"
| "i2p_kind (AUDPServer t) = ''udpserver''"
| "i2p_kind (ASOCKS s) = ''socks''"
| "i2p_kind (AHTTPClient h) = ''httpclient''"
| "i2p_kind (AHTTPServer t) = ''httpserver''"
| "i2p_kind (AIRCClient t) = ''ircclient''"
| "i2p_kind (AIRCServer t) = ''ircserver''"
| "i2p_kind (ATCPBidirectional t) = ''tcpbidirectional''"
| "i2p_kind (AUDPBidirectional t) = ''udpbidirectional''"
| "i2p_kind (AHTTPBidirectional t) = ''httpbidirectional''"

text \<open>The two names of the SOCKS5 tunnel are one type.\<close>

definition kind_of_type :: "string \<Rightarrow> string" where
  "kind_of_type ty = (if ty = ''socksclient'' then ''socks'' else ty)"

lemmas i2p_New_defs =
  NewTCPClient_def NewTCPServer_def NewHTTPServer_def NewIRCServer_def NewIRCClient_def NewUDPClient_def NewUDPServer_def
  NewUDPBidirectional_def NewTCPBidirectional_def NewHTTPBidirectional_def NewHTTPClient_def NewSocksClient_def stream_new_def

lemma newTunnel_kind:
  assumes "newTunnel E cfg host = Inr u"
  shows "i2p_kind u = kind_of_type (tc_Type cfg)"
  using assms
  by (auto simp: newTunnel_def Let_def kind_of_type_def rbind_Inr_iff split: if_splits)

lemma newTunnel_elim:
  assumes "newTunnel E cfg host = Inr u"
  shows "case u of
      ATCPClient t \<Rightarrow> NewTCPClient (e_newGarlic E host) (e_lookup E) cfg = Inr t
    | ATCPServer t \<Rightarrow> NewTCPServer (e_fl E) (e_newGarlic E host) (e_resolveTCP E) cfg = Inr t
    | AUDPClient t \<Rightarrow> NewUDPClient (e_fl E) (e_newGarlic E host) (e_lookup E) cfg = Inr t
    | AUDPServer t \<Rightarrow> NewUDPServer (e_fl E) (e_newGarlic E host) (e_resolveUDP E) cfg = Inr t
    | ASOCKS s \<Rightarrow> NewSocksClient (e_fl E) (e_newLimiter E) (e_newGarlic E host) cfg = Inr s
    | AHTTPClient h \<Rightarrow> NewHTTPClient (e_newGarlic E host) (e_defaultClient E) (e_jumpClient E) cfg = Inr h
    | AHTTPServer t \<Rightarrow> NewHTTPServer (e_fl E) (e_newGarlic E host) (e_resolveTCP E) cfg = Inr t
    | AIRCClient t \<Rightarrow> NewIRCClient (e_fl E) (e_newGarlic E host) (e_lookup E) cfg = Inr t
    | AIRCServer t \<Rightarrow> NewIRCServer (e_fl E) (e_newGarlic E host) (e_resolveTCP E) cfg = Inr t
    | ATCPBidirectional t \<Rightarrow> NewTCPBidirectional (e_fl E) (e_newGarlic E host) (e_resolveTCP E) cfg = Inr t
    | AUDPBidirectional t \<Rightarrow> NewUDPBidirectional (e_fl E) (e_newGarlic E host) (e_resolveUDP E) cfg = Inr t
    | AHTTPBidirectional t \<Rightarrow>
        NewHTTPBidirectional (e_fl E) (e_newGarlic E host) (e_resolveTCP E) (e_defaultClient E) (e_jumpClient E) cfg = Inr t"
  using assms
  by (auto simp: newTunnel_def Let_def rbind_Inr_iff split: if_splits)

lemma stream_new_base:
  "stream_new fl newGarlic resolve wrap cfg = Inr t \<Longrightarrow>
     tb_Config (st_base t) = cfg \<and> tb_Status (st_base t) = StatusStopped \<and> tb_Errors (st_base t) = [] \<and>
     tb_Metrics (st_base t) = None \<and> (\<exists>g. newGarlic cfg = Inr g \<and> st_garlic t = Some g) \<and>
     (\<exists>a. resolve (tc_Target cfg) = Inr a \<and> st_target t = Some a)"
  by (cases "resolve (tc_Target cfg)") (auto simp: stream_new_def rbind_Inr_iff)

lemmas i2p_New_wrappers =
  NewTCPServer_def NewHTTPServer_def NewIRCServer_def NewIRCClient_def NewUDPClient_def NewUDPServer_def

lemma newTunnel_base:
  assumes "newTunnel E cfg host = Inr u"
  shows "tb_Config (i2p_base u) = cfg \<and> tb_Status (i2p_base u) = StatusStopped \<and> tb_Errors (i2p_base u) = [] \<and>
    tb_Metrics (i2p_base u) = None \<and> (\<exists>g. e_newGarlic E host cfg = Inr g \<and> i2p_garlic u = Some g)"
  using newTunnel_elim [OF assms]
  by (cases u)
    (auto simp: i2p_New_wrappers NewUDPBidirectional_def NewTCPBidirectional_def NewHTTPBidirectional_def NewTCPClient_def
      NewHTTPClient_def NewSocksClient_def rbind_Inr_iff Let_def dest!: stream_new_base)

lemma Load_parse:
  assumes "Load E rd path sam = Inr u"
  obtains cfg where "e_parse E rd path = Inr cfg" and "newTunnel E cfg (validateHost sam) = Inr u"
proof -
  from assms obtain fmt b cfg where "e_detect E path = Inr fmt" "rd path = Inr b" "e_parseInput E b fmt = Inr cfg"
    and new: "newTunnel E cfg (validateHost sam) = Inr u"
    by (auto simp: Load_def rbind_Inr_iff)
  then have "e_parse E rd path = Inr cfg" by (simp add: ParseConfigFile_def)
  with new show ?thesis by (rule that [rotated])
qed

lemma Load_parse_error: "e_parse E rd path = Inl err \<Longrightarrow> \<exists>err2. Load E rd path sam = Inl err2"
  by (auto simp: Load_def ParseConfigFile_def rbind_Inl_iff split: sum.splits)

text \<open>What the reload of a stopped tunnel takes over from the file.\<close>

definition reloaded_as :: "('l, 'cl) i2p_tunnel \<Rightarrow> ('l, 'cl) i2p_tunnel \<Rightarrow> bool" where
  "reloaded_as t' u \<longleftrightarrow> i2p_Name t' = i2p_Name u \<and> i2p_ID t' = i2p_ID u \<and> i2p_Type t' = i2p_Type u \<and>
     i2p_Target t' = i2p_Target u \<and> i2p_LocalAddress t' = i2p_LocalAddress u"

lemmas i2p_get_defs =
  TCPClient_Target_def TCPServer_Target_def UDPClient_Target_def UDPServer_Target_def SOCKS_Target_def HTTPClient_Target_def
  HTTPServer_Target_def IRCClient_Target_def IRCServer_Target_def TCPBidirectional_Target_def UDPBidirectional_Target_def
  HTTPBidirectional_Target_def TCPClient_LocalAddress_def TCPServer_LocalAddress_def UDPClient_LocalAddress_def
  UDPServer_LocalAddress_def SOCKS_LocalAddress_def HTTPClient_LocalAddress_def HTTPServer_LocalAddress_def
  IRCClient_LocalAddress_def IRCServer_LocalAddress_def TCPBidirectional_LocalAddress_def UDPBidirectional_LocalAddress_def
  HTTPBidirectional_LocalAddress_def stream_LocalAddress_def

lemma LoadConfig_other_kind:
  assumes "e_parse E rd path = Inr cfg" and "kind_of_type (tc_Type cfg) \<noteq> i2p_kind t"
  shows "\<exists>e. i2p_LoadConfig E rd path t = (t, Some e)"
  using assms
  by (cases t) (auto simp: i2p_LoadConfig_defs kind_of_type_def rbind_Inr_iff split: option.splits if_splits)

lemma LoadConfig_parse_error:
  assumes "e_parse E rd path = Inl err"
  shows "\<exists>e. i2p_LoadConfig E rd path t = (t, Some e)"
  using assms
  by (cases t) (auto simp: i2p_LoadConfig_defs split: option.splits)

lemma LoadConfig_same_kind:
  assumes "e_parse E rd path = Inr cfg" and "newTunnel E cfg host = Inr u" and "i2p_kind t = i2p_kind u"
    and "CheckTunnelStopped (tb_Status (i2p_base t)) = None"
  shows "\<exists>t'. i2p_LoadConfig E rd path t = (t', None) \<and> reloaded_as t' u"
proof -
  have k: "kind_of_type (tc_Type cfg) = i2p_kind u" using newTunnel_kind [OF assms(2)] by simp
  from assms(3) show ?thesis
    using assms(1,4) k newTunnel_elim [OF assms(2)]
    by (cases u; cases t; simp)
      (auto simp: i2p_LoadConfig_defs kind_of_type_def rbind_Inr_iff i2p_New_wrappers NewUDPBidirectional_def
        NewTCPBidirectional_def NewHTTPBidirectional_def NewTCPClient_def NewHTTPClient_def NewSocksClient_def reloaded_as_def
        i2p_get_defs dest!: stream_new_base split: if_splits)
qed

section \<open>Properties\<close>


definition example_env :: "(unit, unit, unit) env" where
  "example_env =
     \<lparr>e_fl = no_floats, e_detect = (\<lambda>p. Inr ()),
      e_parseInput = (\<lambda>b f. if b = ''broken'' then Inl (Errorf ''yaml'') else Inr (example_config\<lparr>tc_Type := b\<rparr>)),
      e_newGarlic = (\<lambda>h c. Inr \<lparr>g_open = True, g_service = None\<rparr>), e_resolveTCP = (\<lambda>a. Inr (a, 80)),
      e_resolveUDP = (\<lambda>a. Inr a), e_lookup = (\<lambda>a. Inr a), e_newLimiter = (\<lambda>r b. ()), e_defaultClient = (),
      e_jumpClient = (), e_lower = (\<lambda>s. s), e_parseDuration = (\<lambda>s. None), e_durString = (\<lambda>d. [])\<rparr>"

definition example_tunnel :: "(unit, unit) i2p_tunnel" where
  "example_tunnel = projr (Load example_env (\<lambda>p. Inr ''ircserver'') ''a.yaml'' [])"

lemma example_tunnel_load: "Load example_env (\<lambda>p. Inr ''ircserver'') ''a.yaml'' [] = Inr example_tunnel"
  by (simp add: example_tunnel_def Load_def example_env_def newTunnel_def Let_def i2p_New_defs tcp_addr_def)

lemma example_tunnel_facts: "i2p_Status example_tunnel = StatusStopped" "i2p_kind example_tunnel = ''ircserver''"
  by (simp_all add: example_tunnel_def Load_def example_env_def newTunnel_def Let_def i2p_New_defs tcp_addr_def)


end
