(* ===== verification/Prometheus.thy ===== *)
theory Prometheus
  imports Metrics
begin

text \<open>
  Package \<open>metrics\<close>, \<open>lib/metrics/handler.go\<close>: the health and status reports and the
  Prometheus text exposition. An \<open>io.Writer\<close> is a function \<open>wr\<close> that takes the state of
  the sink and the bytes of one \<open>Fprintf\<close> and returns the new state and the error.
  The verb \<open>%.3f\<close> of the uptime is the parameter \<open>fmt3\<close>. JSON encoding and HTTP headers
  are left out: the handlers return the value they encode.
\<close>

section \<open>Health and status\<close>

record live_status =
  ts_Name :: string
  ts_ID :: string
  ts_Type :: string
  ts_Status :: string
  ts_Address :: string
  ts_Target :: string
  ts_LocalAddress :: string
  ts_Error :: string

record health_response =
  hr_Status :: string
  hr_TunnelsTotal :: int
  hr_TunnelsRunning :: int

definition HandleHealth :: "live_status list \<Rightarrow> health_response" where
  "HandleHealth ts =
     \<lparr>hr_Status = ''ok'', hr_TunnelsTotal = int (length ts),
      hr_TunnelsRunning = fold (\<lambda>t running. if ts_Status t = ''running'' then running + 1 else running) ts 0\<rparr>"

definition HandleStatus :: "64 word \<Rightarrow> registry \<Rightarrow> live_status list \<Rightarrow> (live_status \<times> metric_snapshot option) list" where
  "HandleStatus now r ts =
     map (\<lambda>t. (t, case Get (ts_ID t) r of None \<Rightarrow> None | Some p \<Rightarrow> Some (Snapshot now (cells r p)))) ts"

lemma HandleHealth_running:
  "hr_TunnelsRunning (HandleHealth ts) = int (length (filter (\<lambda>t. ts_Status t = ''running'') ts))"
proof -
  have "fold (\<lambda>t running. if ts_Status t = ''running'' then running + 1 else running) ts n =
      n + int (length (filter (\<lambda>t. ts_Status t = ''running'') ts))" for n
    by (induction ts arbitrary: n) auto
  then show ?thesis by (simp add: HandleHealth_def)
qed

lemma HandleStatus_metrics:
  "HandleStatus now r ts = map (\<lambda>t. (t, map_option (Snapshot now) (metrics_of (ts_ID t) r))) ts"
  by (auto simp: HandleStatus_def metrics_of_def split: option.splits)

section \<open>Labels\<close>

definition escapeLabelValue :: "string \<Rightarrow> string" where
  "escapeLabelValue s =
     (let s1 = ReplaceAll s backslash_char [backslash_char, backslash_char];
          s2 = ReplaceAll s1 quote_char [backslash_char, quote_char]
      in ReplaceAll s2 newline_char [backslash_char, CHR ''n''])"

definition formatLabels :: "string \<Rightarrow> string \<Rightarrow> string \<Rightarrow> string" where
  "formatLabels name ident tunnelType =
     ''name='' @ [quote_char] @ escapeLabelValue name @ [quote_char] @
     '',id='' @ [quote_char] @ escapeLabelValue ident @ [quote_char] @
     '',type='' @ [quote_char] @ escapeLabelValue tunnelType @ [quote_char]"

text \<open>
  What a scraper does with a label value: read up to the closing quote, undoing the
  three escapes of the exposition format. The reader also returns what follows the
  quote, so that it reads a whole label set.
\<close>

fun read_value :: "string \<Rightarrow> (string \<times> string) option" where
  "read_value [] = None"
| "read_value (c # s) =
     (if c = quote_char then Some ([], s)
      else if c = newline_char then None
      else if c = backslash_char then
        (case s of
           [] \<Rightarrow> None
         | d # t \<Rightarrow>
             (if d = backslash_char \<or> d = quote_char then map_option (apfst (\<lambda>v. d # v)) (read_value t)
              else if d = CHR ''n'' then map_option (apfst (\<lambda>v. newline_char # v)) (read_value t)
              else None))
      else map_option (apfst (\<lambda>v. c # v)) (read_value s))"

definition read_key :: "string \<Rightarrow> string \<Rightarrow> (string \<times> string) option" where
  "read_key key s = (if prefix (key @ [quote_char]) s then read_value (drop (length key + 1) s) else None)"

definition read_labels :: "string \<Rightarrow> (string \<times> string \<times> string) option" where
  "read_labels s =
     (case read_key ''name='' s of
        None \<Rightarrow> None
      | Some (name, s1) \<Rightarrow>
          (case read_key '',id='' s1 of
             None \<Rightarrow> None
           | Some (ident, s2) \<Rightarrow>
               (case read_key '',type='' s2 of
                  None \<Rightarrow> None
                | Some (ty, s3) \<Rightarrow> if s3 = [] then Some (name, ident, ty) else None)))"

definition escape_byte :: "char \<Rightarrow> string" where
  "escape_byte c =
     (if c = backslash_char then [backslash_char, backslash_char]
      else if c = quote_char then [backslash_char, quote_char]
      else if c = newline_char then [backslash_char, CHR ''n'']
      else [c])"

lemma escapeLabelValue_one_pass: "escapeLabelValue s = concat (map escape_byte s)"
  by (induction s) (simp_all add: escapeLabelValue_def escape_byte_def)

lemma read_value_escape: "read_value (escapeLabelValue s @ quote_char # t) = Some (s, t)"
  unfolding escapeLabelValue_one_pass
  by (induction s) (simp_all add: escape_byte_def)

lemma escapeLabelValue_no_newline: "newline_char \<notin> set (escapeLabelValue s)"
  unfolding escapeLabelValue_one_pass
  by (induction s) (simp_all add: escape_byte_def)

lemma read_key_value: "read_key key (key @ quote_char # escapeLabelValue s @ quote_char # t) = Some (s, t)"
  by (simp add: read_key_def read_value_escape)

lemma read_labels_format: "read_labels (formatLabels name ident ty) = Some (name, ident, ty)"
  using read_key_value [of "''name=''" name "'',id='' @ quote_char # escapeLabelValue ident @ quote_char #
      '',type='' @ quote_char # escapeLabelValue ty @ [quote_char]"]
    read_key_value [of "'',id=''" ident "'',type='' @ quote_char # escapeLabelValue ty @ [quote_char]"]
    read_key_value [of "'',type=''" ty "[]"]
  by (simp add: read_labels_def formatLabels_def)

interpretation labels: codec "\<lambda>(name, ident, ty). formatLabels name ident ty" read_labels "\<lambda>_. True"
  by unfold_locales (auto simp: read_labels_format)

lemma formatLabels_no_newline: "newline_char \<notin> set (formatLabels name ident ty)"
  by (simp add: formatLabels_def escapeLabelValue_no_newline)

section \<open>The exposition\<close>

record prometheus_metric =
  pm_name :: string
  pm_help :: string
  pm_typ :: string
  pm_val :: "metric_snapshot \<Rightarrow> int"

definition pmetric :: "string \<Rightarrow> string \<Rightarrow> string \<Rightarrow> (metric_snapshot \<Rightarrow> int) \<Rightarrow> prometheus_metric" where
  "pmetric n h t v = \<lparr>pm_name = n, pm_help = h, pm_typ = t, pm_val = v\<rparr>"

definition counterMetrics :: "prometheus_metric list" where
  "counterMetrics =
     [pmetric ''i2ptunnel_connections_accepted_total'' ''Total accepted connections'' ''counter'' sConnectionsAccepted,
      pmetric ''i2ptunnel_connections_failed_total'' ''Total failed connection attempts'' ''counter'' sConnectionsFailed,
      pmetric ''i2ptunnel_bytes_received_total'' ''Total bytes received'' ''counter'' sBytesIn,
      pmetric ''i2ptunnel_bytes_sent_total'' ''Total bytes sent'' ''counter'' sBytesOut,
      pmetric ''i2ptunnel_errors_total'' ''Total errors encountered'' ''counter'' sErrorCount,
      pmetric ''i2ptunnel_rate_limit_hits_total'' ''Total rate limit rejections'' ''counter'' sRateLimitHits,
      pmetric ''i2ptunnel_filter_blocks_total'' ''Total filter blocks'' ''counter'' sFilterBlocks]"

definition gaugeMetrics :: "prometheus_metric list" where
  "gaugeMetrics =
     [pmetric ''i2ptunnel_active_connections'' ''Currently active connections'' ''gauge'' sActiveConnections]"

type_synonym 'w writer = "'w \<Rightarrow> string \<Rightarrow> 'w \<times> go_error option"

text \<open>A sequence of \<open>Fprintf\<close> calls, each followed by \<open>if err != nil { return err }\<close>.\<close>

fun write_each :: "'w writer \<Rightarrow> string list \<Rightarrow> 'w \<Rightarrow> 'w \<times> go_error option" where
  "write_each wr [] w = (w, None)"
| "write_each wr (l # ls) w =
     (case wr w l of
        (w', Some err) \<Rightarrow> (w', Some err)
      | (w', None) \<Rightarrow> write_each wr ls w')"

definition writeMetricFamily :: "'w writer \<Rightarrow> prometheus_metric \<Rightarrow> metric_snapshot list \<Rightarrow> 'w \<Rightarrow> 'w \<times> go_error option" where
  "writeMetricFamily wr m snapshots w =
     write_each wr
       ([''# HELP '' @ pm_name m @ '' '' @ pm_help m @ [newline_char],
         ''# TYPE '' @ pm_name m @ '' '' @ pm_typ m @ [newline_char]] @
        map (\<lambda>s. pm_name m @ ''{'' @ formatLabels (sName s) (sID s) (sType s) @ ''} '' @
                 Itoa (pm_val m s) @ [newline_char]) snapshots) w"

definition writeUptimeMetric :: "'w writer \<Rightarrow> (int \<Rightarrow> string) \<Rightarrow> metric_snapshot list \<Rightarrow> 'w \<Rightarrow> 'w \<times> go_error option" where
  "writeUptimeMetric wr fmt3 snapshots w =
     write_each wr
       ([''# HELP i2ptunnel_uptime_seconds Tunnel uptime in seconds'' @ [newline_char],
         ''# TYPE i2ptunnel_uptime_seconds gauge'' @ [newline_char]] @
        map (\<lambda>s. ''i2ptunnel_uptime_seconds{'' @ formatLabels (sName s) (sID s) (sType s) @ ''} '' @
                 fmt3 (sUptime s) @ [newline_char]) snapshots) w"

fun write_families :: "'w writer \<Rightarrow> prometheus_metric list \<Rightarrow> metric_snapshot list \<Rightarrow> 'w \<Rightarrow> 'w \<times> go_error option" where
  "write_families wr [] snapshots w = (w, None)"
| "write_families wr (m # ms) snapshots w =
     (case writeMetricFamily wr m snapshots w of
        (w', Some err) \<Rightarrow> (w', Some err)
      | (w', None) \<Rightarrow> write_families wr ms snapshots w')"

definition writePrometheusMetrics :: "'w writer \<Rightarrow> (int \<Rightarrow> string) \<Rightarrow> metric_snapshot list \<Rightarrow> 'w \<Rightarrow> 'w \<times> go_error option" where
  "writePrometheusMetrics wr fmt3 snapshots w =
     (case write_families wr (counterMetrics @ gaugeMetrics) snapshots w of
        (w', Some err) \<Rightarrow> (w', Some err)
      | (w', None) \<Rightarrow> writeUptimeMetric wr fmt3 snapshots w')"

definition WritePrometheus :: "'w writer \<Rightarrow> (int \<Rightarrow> string) \<Rightarrow> 64 word \<Rightarrow> registry \<Rightarrow> 'w \<Rightarrow> 'w \<times> go_error option" where
  "WritePrometheus wr fmt3 now r w = writePrometheusMetrics wr fmt3 (Snapshots now r) w"

section \<open>The text as a whole\<close>

text \<open>The lines of the exposition, without any writer.\<close>

definition family_lines :: "string \<Rightarrow> string \<Rightarrow> string \<Rightarrow> (metric_snapshot \<Rightarrow> string) \<Rightarrow> metric_snapshot list \<Rightarrow> string list" where
  "family_lines n h t v snapshots =
     [''# HELP '' @ n @ '' '' @ h, ''# TYPE '' @ n @ '' '' @ t] @
     map (\<lambda>s. n @ ''{'' @ formatLabels (sName s) (sID s) (sType s) @ ''} '' @ v s) snapshots"

definition exposition_lines :: "(int \<Rightarrow> string) \<Rightarrow> metric_snapshot list \<Rightarrow> string list" where
  "exposition_lines fmt3 snapshots =
     concat (map (\<lambda>m. family_lines (pm_name m) (pm_help m) (pm_typ m) (\<lambda>s. Itoa (pm_val m s)) snapshots)
       (counterMetrics @ gaugeMetrics)) @
     family_lines ''i2ptunnel_uptime_seconds'' ''Tunnel uptime in seconds'' ''gauge'' (\<lambda>s. fmt3 (sUptime s)) snapshots"

abbreviation end_line :: "string \<Rightarrow> string" where "end_line l \<equiv> l @ [newline_char]"

lemma write_each_append:
  "write_each wr (xs @ ys) w =
     (case write_each wr xs w of (w', Some err) \<Rightarrow> (w', Some err) | (w', None) \<Rightarrow> write_each wr ys w')"
  by (induction xs arbitrary: w) (auto split: prod.splits option.splits)

lemma writeMetricFamily_lines:
  "writeMetricFamily wr m ss =
     write_each wr (map end_line (family_lines (pm_name m) (pm_help m) (pm_typ m) (\<lambda>s. Itoa (pm_val m s)) ss))"
  by (rule ext) (simp add: writeMetricFamily_def family_lines_def comp_def)

lemma writeUptimeMetric_lines:
  "writeUptimeMetric wr fmt3 ss =
     write_each wr (map end_line (family_lines ''i2ptunnel_uptime_seconds'' ''Tunnel uptime in seconds'' ''gauge''
       (\<lambda>s. fmt3 (sUptime s)) ss))"
  by (rule ext) (simp add: writeUptimeMetric_def family_lines_def comp_def)

lemma write_families_lines:
  "write_families wr ms ss =
     write_each wr (map end_line (concat (map (\<lambda>m. family_lines (pm_name m) (pm_help m) (pm_typ m)
       (\<lambda>s. Itoa (pm_val m s)) ss) ms)))"
  by (rule ext, induction ms) (auto simp: writeMetricFamily_lines write_each_append fun_eq_iff split: prod.splits option.splits)

lemma writePrometheusMetrics_lines:
  "writePrometheusMetrics wr fmt3 ss = write_each wr (map end_line (exposition_lines fmt3 ss))"
proof
  fix w
  let ?f = "map end_line (concat (map (\<lambda>m. family_lines (pm_name m) (pm_help m) (pm_typ m)
      (\<lambda>s. Itoa (pm_val m s)) ss) (counterMetrics @ gaugeMetrics)))"
  show "writePrometheusMetrics wr fmt3 ss w = write_each wr (map end_line (exposition_lines fmt3 ss)) w"
    unfolding writePrometheusMetrics_def write_families_lines writeUptimeMetric_lines exposition_lines_def
      map_append [of end_line] write_each_append [of wr ?f, unfolded map_append] write_each_append
    by (rule refl)
qed

text \<open>A writer that reports success has taken all the bytes it was given.\<close>

lemma write_each_out:
  assumes wr: "\<And>w s. snd (wr w s) = None \<Longrightarrow> out (fst (wr w s)) = out w @ s"
  shows "snd (write_each wr ls w) = None \<Longrightarrow> out (fst (write_each wr ls w)) = out w @ concat ls"
proof (induction ls arbitrary: w)
  case (Cons l ls)
  then show ?case using wr [of w l]
    by (auto split: prod.splits option.splits)
qed simp

lemma family_lines_no_newline:
  assumes "newline_char \<notin> set n" "newline_char \<notin> set h" "newline_char \<notin> set t"
    and "\<And>s. newline_char \<notin> set (v s)"
  shows "l \<in> set (family_lines n h t v ss) \<Longrightarrow> newline_char \<notin> set l"
  using assms formatLabels_no_newline by (fastforce simp: family_lines_def)

lemma Itoa_no_newline: "newline_char \<notin> set (Itoa n)"
proof -
  have "0 \<le> k \<Longrightarrow> newline_char \<notin> set (int_digits k)" for k
    using int_digits_all_digits [of k newline_char] by (auto simp: digit_val_def)
  then show ?thesis by (simp add: Itoa_def)
qed

lemma metrics_text_no_newline:
  "m \<in> set (counterMetrics @ gaugeMetrics) \<Longrightarrow>
     newline_char \<notin> set (pm_name m) \<and> newline_char \<notin> set (pm_help m) \<and> newline_char \<notin> set (pm_typ m)"
  by (auto simp: counterMetrics_def gaugeMetrics_def pmetric_def)

lemma exposition_no_newline:
  assumes fmt3: "\<And>d. newline_char \<notin> set (fmt3 d)" and l: "l \<in> set (exposition_lines fmt3 ss)"
  shows "newline_char \<notin> set l"
proof -
  consider m where "m \<in> set (counterMetrics @ gaugeMetrics)"
      "l \<in> set (family_lines (pm_name m) (pm_help m) (pm_typ m) (\<lambda>s. Itoa (pm_val m s)) ss)"
    | "l \<in> set (family_lines ''i2ptunnel_uptime_seconds'' ''Tunnel uptime in seconds'' ''gauge''
         (\<lambda>s. fmt3 (sUptime s)) ss)"
    using l unfolding exposition_lines_def set_append set_concat set_map by blast
  then show ?thesis
  proof cases
    case 1
    show ?thesis
      by (rule family_lines_no_newline [OF _ _ _ _ 1(2)])
        (use metrics_text_no_newline [OF 1(1)] in \<open>simp_all add: Itoa_no_newline\<close>)
  next
    case 2
    show ?thesis by (rule family_lines_no_newline [OF _ _ _ _ 2]) (simp_all add: fmt3)
  qed
qed

lemma length_family_lines: "length (family_lines n h t v ss) = length ss + 2"
  by (simp add: family_lines_def)

lemma length_exposition: "length (exposition_lines fmt3 ss) = 9 * (length ss + 2)"
  by (simp add: exposition_lines_def length_family_lines counterMetrics_def gaugeMetrics_def)

text \<open>A buffer in memory, a writer that never fails.\<close>

definition buffer_write :: "string writer" where
  "buffer_write w s = (w @ s, None)"

lemma buffer_write_each: "snd (write_each buffer_write ls w) = None"
  by (induction ls arbitrary: w) (simp_all add: buffer_write_def)

section \<open>Properties\<close>

text \<open>
  Whatever names, IDs and types the tunnels have, a successful scrape appends
  complete lines to the sink: two header lines and one sample per tunnel for each of the
  nine metric families, none with a newline of its own, so no tunnel name can inject a
  line into the exposition.
\<close>
theorem WritePrometheus_lines:
  assumes wr: "\<And>w s. snd (wr w s) = None \<Longrightarrow> out (fst (wr w s)) = out w @ s"
    and fmt3: "\<And>d. newline_char \<notin> set (fmt3 d)"
    and ok: "snd (WritePrometheus wr fmt3 now r w) = None"
  shows "\<exists>ls. out (fst (WritePrometheus wr fmt3 now r w)) = out w @ concat (map end_line ls) \<and>
    length ls = 9 * (Len r + 2) \<and> list_all (\<lambda>l. newline_char \<notin> set l) ls"
proof (intro exI conjI)
  let ?ls = "exposition_lines fmt3 (Snapshots now r)"
  show "out (fst (WritePrometheus wr fmt3 now r w)) = out w @ concat (map end_line ?ls)"
    using write_each_out [of wr out, OF wr] ok
    unfolding WritePrometheus_def writePrometheusMetrics_lines by blast
  show "length ?ls = 9 * (Len r + 2)"
    by (simp add: length_exposition Len_def Snapshots_def)
  show "list_all (\<lambda>l. newline_char \<notin> set l) ?ls"
    using exposition_no_newline [OF fmt3] by (simp add: list_all_iff)
qed

lemma WritePrometheus_lines_witness:
  "\<exists>ls. fst (WritePrometheus buffer_write (\<lambda>d. ''0.000'') 5
       (fst (Register [newline_char, quote_char] ''a'' ''tcpclient'' NewRegistry)) []) =
     concat (map end_line ls) \<and> length ls = 27 \<and> list_all (\<lambda>l. newline_char \<notin> set l) ls"
proof -
  let ?r = "fst (Register [newline_char, quote_char] ''a'' ''tcpclient'' NewRegistry)"
  have "snd (WritePrometheus buffer_write (\<lambda>d. ''0.000'') 5 ?r []) = None"
    unfolding WritePrometheus_def writePrometheusMetrics_lines by (rule buffer_write_each)
  moreover have "Len ?r = 1"
    by (simp add: Register_def NewRegistry_def Len_def Let_def)
  ultimately show ?thesis
    using WritePrometheus_lines [of buffer_write "\<lambda>w. w" "\<lambda>d. ''0.000''" 5 ?r "[]"]
    by (simp add: buffer_write_def)
qed

text \<open>
  C37: a scraper that undoes the escapes of the exposition format reads back exactly the
  name, ID and type of the tunnel from the label set the code prints, for every byte
  string: the escaping of backslash, quote and newline is exact and no value can close
  its own quotes early.
\<close>
theorem formatLabels_roundtrip:
  "read_labels (formatLabels name ident tunnelType) = Some (name, ident, tunnelType)"
  using labels.dec_enc [of "(name, ident, tunnelType)"] by simp

end
