(* ===== verification/Embedding.thy ===== *)
theory Embedding
  imports Loader Prometheus
begin

text \<open>
  The embedding API (\<open>lib/embedding/embedding.go\<close>, \<open>options.go\<close>): construction of a
  managed tunnel, \<open>Reload\<close>, and \<open>Run\<close> as a loop over the signals and results it receives.

  Tunnels are objects in a store, because the status function of the metrics server keeps
  the pointer it captured while \<open>Reload\<close> may install a new tunnel. Serving the endpoints is
  left out; what they report is here.
\<close>

section \<open>Construction\<close>

record embed_config =
  ec_samAddr :: string
  ec_metricsAddr :: string
  ec_leaseSetKey :: string

type_synonym embed_option = "embed_config \<Rightarrow> embed_config"

definition defaults :: embed_config where
  "defaults = \<lparr>ec_samAddr = ''127.0.0.1:7656'', ec_metricsAddr = '''', ec_leaseSetKey = ''''\<rparr>"

definition WithSAMAddr :: "string \<Rightarrow> embed_option" where
  "WithSAMAddr addr c = c\<lparr>ec_samAddr := addr\<rparr>"

definition WithMetricsAddr :: "string \<Rightarrow> embed_option" where
  "WithMetricsAddr addr c = c\<lparr>ec_metricsAddr := addr\<rparr>"

definition WithLeaseSetKey :: "string \<Rightarrow> embed_option" where
  "WithLeaseSetKey key c = c\<lparr>ec_leaseSetKey := key\<rparr>"

text \<open>
  \<open>em_tunnel\<close> points to the tunnel; \<open>em_reported\<close> is the pointer that the status function
  captured, \<open>None\<close> without metrics server.
\<close>

record ('l, 'cl) embedded =
  em_objects :: "('l, 'cl) i2p_tunnel list"
  em_tunnel :: nat
  em_configPath :: string
  em_samAddr :: string
  em_registry :: registry
  em_reported :: "nat option"

abbreviation em_current :: "('l, 'cl) embedded \<Rightarrow> ('l, 'cl) i2p_tunnel" where
  "em_current e \<equiv> em_objects e ! em_tunnel e"

abbreviation em_write :: "('l, 'cl) i2p_tunnel \<Rightarrow> ('l, 'cl) embedded \<Rightarrow> ('l, 'cl) embedded" where
  "em_write t e \<equiv> e\<lparr>em_objects := (em_objects e)[em_tunnel e := t]\<rparr>"

definition build ::
  "('f, 'l, 'cl) env \<Rightarrow> ('l, 'cl) i2p_tunnel \<Rightarrow> string \<Rightarrow> embed_config \<Rightarrow> go_error + ('l, 'cl) embedded" where
  "build E tunnel configPath cfg =
     rbind
       (if ec_leaseSetKey cfg \<noteq> '''' then
          (case i2p_SetOptions E [(''i2cp.leaseSetPrivKey'', ec_leaseSetKey cfg)] tunnel of
             (t1, Some err) \<Rightarrow> Inl (Wrapf ''embedding: failed to set leaseSetPrivKey'' err)
           | (t1, None) \<Rightarrow> Inr t1)
        else Inr tunnel)
       (\<lambda>t1.
         case Register (i2p_Name t1) (i2p_ID t1) (i2p_Type t1) NewRegistry of
           (r, m) \<Rightarrow>
             Inr \<lparr>em_objects = [i2p_SetTunnelMetrics (Some (cells r m)) t1], em_tunnel = 0,
                  em_configPath = configPath, em_samAddr = ec_samAddr cfg, em_registry = r,
                  em_reported = (if ec_metricsAddr cfg \<noteq> '''' then Some 0 else None)\<rparr>)"

definition FromConfigFile ::
  "('f, 'l, 'cl) env \<Rightarrow> file_reader \<Rightarrow> string \<Rightarrow> embed_option list \<Rightarrow> go_error + ('l, 'cl) embedded" where
  "FromConfigFile E rd path opts =
     (let cfg = fold (\<lambda>f c. f c) opts defaults in
      case Load E rd path [ec_samAddr cfg] of
        Inl err \<Rightarrow> Inl (Wrapf (''embedding: failed to load tunnel from '' @ Quote path) err)
      | Inr tunnel \<Rightarrow> build E tunnel path cfg)"

definition Wrap ::
  "('f, 'l, 'cl) env \<Rightarrow> ('l, 'cl) i2p_tunnel \<Rightarrow> embed_option list \<Rightarrow> go_error + ('l, 'cl) embedded" where
  "Wrap E tunnel opts = (let cfg = fold (\<lambda>f c. f c) opts defaults in build E tunnel '''' cfg)"

section \<open>Accessors\<close>

definition Tunnel :: "('l, 'cl) embedded \<Rightarrow> ('l, 'cl) i2p_tunnel" where
  "Tunnel e = em_current e"

definition em_Name :: "('l, 'cl) embedded \<Rightarrow> string" where
  "em_Name e = i2p_Name (em_current e)"

definition em_LocalAddress :: "('l, 'cl) embedded \<Rightarrow> string" where
  "em_LocalAddress e = i2p_LocalAddress (em_current e)"

definition IsRunning :: "('l, 'cl) embedded \<Rightarrow> bool" where
  "IsRunning e \<longleftrightarrow> i2p_Status (em_current e) = StatusRunning"

text \<open>What the status function reports of a tunnel; \<open>None\<close> is the nil dereference in \<open>Target\<close>.\<close>

definition tunnel_live_status :: "('l, 'cl) i2p_tunnel \<Rightarrow> live_status option" where
  "tunnel_live_status t =
     map_option (\<lambda>target.
       \<lparr>ts_Name = i2p_Name t, ts_ID = i2p_ID t, ts_Type = i2p_Type t, ts_Status = status_text (i2p_Status t),
        ts_Address = i2p_Address t, ts_Target = target, ts_LocalAddress = i2p_LocalAddress t,
        ts_Error = (case i2p_Error t of None \<Rightarrow> '''' | Some err \<Rightarrow> Error_text err)\<rparr>) (i2p_Target t)"

definition statusFunc :: "('l, 'cl) embedded \<Rightarrow> live_status option option" where
  "statusFunc e = map_option (\<lambda>p. tunnel_live_status (em_objects e ! p)) (em_reported e)"

section \<open>Reload\<close>

text \<open>\<open>rd\<close> has the files and \<open>shutdown\<close> the result of the shutdown at the time of the call.\<close>

definition Reload ::
  "('f, 'l, 'cl) env \<Rightarrow> file_reader \<Rightarrow> go_error option \<Rightarrow> ('l, 'cl) embedded \<Rightarrow> ('l, 'cl) embedded \<times> go_error option" where
  "Reload E rd shutdown e =
     (case i2p_Stop shutdown (em_current e) of
        (t1, Some err) \<Rightarrow> (em_write t1 e, Some (Wrapf ''embedding: reload stop failed'' err))
      | (t1, None) \<Rightarrow>
          let e1 = em_write t1 e in
          if em_configPath e1 = '''' then (e1, None)
          else
            (case i2p_LoadConfig E rd (em_configPath e1) (em_current e1) of
               (t2, None) \<Rightarrow> (em_write t2 e1, None)
             | (t2, Some err) \<Rightarrow>
                 let e2 = em_write t2 e1 in
                 (case Load E rd (em_configPath e2) [em_samAddr e2] of
                    Inl loadErr \<Rightarrow> (e2, Some (Wrapf ''embedding: reload failed to load fresh config'' loadErr))
                  | Inr fresh \<Rightarrow>
                      (e2\<lparr>em_objects := em_objects e2 @ [fresh], em_tunnel := length (em_objects e2)\<rparr>, None))))"

section \<open>Run\<close>

text \<open>
  What \<open>Run\<close> meets: a signal, the result of a call of \<open>Start\<close> that it launched, and the
  work that such a call does on its tunnel meanwhile. \<open>rn_starts\<close> has the tunnels \<open>Start\<close>
  was launched on.
\<close>

datatype ('l, 'cl) run_event =
    SigHup file_reader "go_error option"
  | SigTerm "go_error option"
  | StartReturned "go_error option"
  | TunnelWorks nat "('l, 'cl) i2p_tunnel \<Rightarrow> ('l, 'cl) i2p_tunnel"

record ('l, 'cl) run_state =
  rn_em :: "('l, 'cl) embedded"
  rn_starts :: "nat list"
  rn_reloading :: bool

fun run_turn ::
  "('f, 'l, 'cl) env \<Rightarrow> ('l, 'cl) run_event \<Rightarrow> ('l, 'cl) run_state \<Rightarrow> ('l, 'cl) run_state \<times> go_error option option" where
  "run_turn E (SigHup rd shutdown) s =
     (if rn_reloading s then (s, None)
      else
        let s1 = s\<lparr>rn_reloading := True\<rparr> in
        (case Reload E rd shutdown (rn_em s1) of
           (e, Some err) \<Rightarrow> (s1\<lparr>rn_em := e, rn_reloading := False\<rparr>, None)
         | (e, None) \<Rightarrow> (s1\<lparr>rn_em := e, rn_reloading := False, rn_starts := rn_starts s1 @ [em_tunnel e]\<rparr>, None)))"
| "run_turn E (SigTerm shutdown) s =
     (case i2p_Stop shutdown (em_current (rn_em s)) of
        (t, r) \<Rightarrow> (s\<lparr>rn_em := em_write t (rn_em s)\<rparr>, Some r))"
| "run_turn E (StartReturned r) s =
     (case r of
        Some err \<Rightarrow> (s, Some (Some (Wrapf ''embedding: tunnel error'' err)))
      | None \<Rightarrow> (s, None))"
| "run_turn E (TunnelWorks p f) s =
     (s\<lparr>rn_em := (rn_em s)\<lparr>em_objects := (em_objects (rn_em s))[p := f (em_objects (rn_em s) ! p)]\<rparr>\<rparr>, None)"

fun run_turns ::
  "('f, 'l, 'cl) env \<Rightarrow> ('l, 'cl) run_event list \<Rightarrow> ('l, 'cl) run_state \<Rightarrow> ('l, 'cl) run_state \<times> go_error option option" where
  "run_turns E [] s = (s, None)"
| "run_turns E (ev # evs) s =
     (case run_turn E ev s of
        (s', Some r) \<Rightarrow> (s', Some r)
      | (s', None) \<Rightarrow> run_turns E evs s')"

text \<open>The result is \<open>None\<close> while \<open>Run\<close> waits.\<close>

definition em_Run ::
  "('f, 'l, 'cl) env \<Rightarrow> ('l, 'cl) run_event list \<Rightarrow> ('l, 'cl) embedded \<Rightarrow> ('l, 'cl) run_state \<times> go_error option option" where
  "em_Run E evs e = run_turns E evs \<lparr>rn_em = e, rn_starts = [em_tunnel e], rn_reloading = False\<rparr>"

text \<open>
  \<open>Start\<close> blocks in the call on the present tunnel, which is recorded; \<open>Stop\<close> stops the
  present tunnel. \<open>Run\<close> makes the same two calls.
\<close>

definition em_Start :: "('l, 'cl) run_state \<Rightarrow> ('l, 'cl) run_state" where
  "em_Start s = s\<lparr>rn_starts := rn_starts s @ [em_tunnel (rn_em s)]\<rparr>"

definition em_Stop :: "go_error option \<Rightarrow> ('l, 'cl) embedded \<Rightarrow> ('l, 'cl) embedded \<times> go_error option" where
  "em_Stop shutdown e = (case i2p_Stop shutdown (em_current e) of (t, r) \<Rightarrow> (em_write t e, r))"

section \<open>Lemmas\<close>

lemma em_Run_Start: "em_Run E evs e = run_turns E evs (em_Start \<lparr>rn_em = e, rn_starts = [], rn_reloading = False\<rparr>)"
  by (simp add: em_Run_def em_Start_def)

lemma run_turn_Stop:
  "run_turn E (SigTerm sd) s = (case em_Stop sd (rn_em s) of (e, r) \<Rightarrow> (s\<lparr>rn_em := e\<rparr>, Some r))"
  by (simp add: em_Stop_def split: prod.split)

lemma ApplyCommon_key:
  "ApplyCommonOptions [(''i2cp.leaseSetPrivKey'', k)] cfg = (mergeI2CPOptionsInto [(''i2cp.leaseSetPrivKey'', k)] cfg, None)"
  by (simp add: ApplyCommonOptions_def then_step_def applyNameOption_def applyInterfaceOption_def applyPortOption_def)

lemma base_SetOptions_key:
  "base_SetOptions fl [(''i2cp.leaseSetPrivKey'', k)] b =
     (b\<lparr>tb_Config := mergeI2CPOptionsInto [(''i2cp.leaseSetPrivKey'', k)] (tb_Config b)\<rparr>, None)"
  by (simp add: base_SetOptions_def ApplyCommon_key ApplyRateLimitOptions_def then_step_def applyMaxConnsOption_def
      applyRateLimitOption_def)

lemma mergeI2CPOpts_extract: "mergeI2CPOpts (ExtractI2CPOptions opts) cfg = mergeI2CPOptionsInto opts cfg"
  by (simp add: mergeI2CPOpts_def mergeI2CPOptionsInto_def split: option.splits)

lemma TCPClient_SetOptions_key:
  "TCPClient_SetOptions lookup pd [(''i2cp.leaseSetPrivKey'', k)] t =
     (upd_base (\<lambda>b. b\<lparr>tb_Config := mergeI2CPOptionsInto [(''i2cp.leaseSetPrivKey'', k)] (tb_Config (cl_base t))\<rparr>) t, None)"
  by (simp add: TCPClient_SetOptions_def validateTCPClientOptions_def validateCommonFields_def validateNameIFacePort_def
      validateName_def validateIface_def validatePortOpt_def validateTCPSpecificFields_def validateMaxConns_def
      validateDialTimeout_def no_client_opts_def applyTCPClientOpts_def applyTCPConnOpts_def applyTCPConfigFields_def set_opt_def
      mergeI2CPOpts_extract Let_def)

lemmas i2p_SetOptions_defs =
  TCPServer_SetOptions_def UDPClient_SetOptions_def UDPServer_SetOptions_def SOCKS_SetOptions_def SOCKS_rebuild_def
  HTTPServer_SetOptions_def IRCClient_SetOptions_def IRCServer_SetOptions_def TCPBidirectional_SetOptions_def
  UDPBidirectional_SetOptions_def HTTPBidirectional_SetOptions_def stream_SetOptions_def Let_def

text \<open>The lease-set key reaches the configuration of a tunnel of any type, and nothing else.\<close>

lemma i2p_SetOptions_key:
  "\<exists>t'. i2p_SetOptions E [(''i2cp.leaseSetPrivKey'', k)] t = (t', None) \<and> i2p_garlic t' = i2p_garlic t \<and>
     i2p_kind t' = i2p_kind t \<and> i2p_Target t' = i2p_Target t \<and>
     i2p_base t' = (i2p_base t)\<lparr>tb_Config := mergeI2CPOptionsInto [(''i2cp.leaseSetPrivKey'', k)] (tb_Config (i2p_base t))\<rparr>"
  by (cases t)
    (simp_all add: TCPClient_SetOptions_key upd_base_def i2p_SetOptions_defs base_SetOptions_key i2p_get_defs HTTPClient_SetOptions_def
      ApplyCommon_key validateHTTPClientOpts_def applyHTTPClientOpts_def opt_apply_def)

lemma get_merged_key:
  assumes "k \<noteq> ''''"
  shows "i2cp_get (mergeI2CPOptionsInto [(''i2cp.leaseSetPrivKey'', k)] cfg) ''leaseSetPrivKey'' = Some (IStr k)"
  using assms by (simp add: mergeI2CPOptionsInto_def ExtractI2CPOptions_def HasPrefix_def TrimPrefix_def gm_copy_into_def i2cp_get_def)

lemma build_ok:
  obtains t1 e where "build E t path cfg = Inr e" and "em_objects e = [i2p_SetTunnelMetrics (Some (fresh_metrics (i2p_Name t1) (i2p_ID t1) (i2p_Type t1))) t1]"
    and "em_tunnel e = 0" and "em_configPath e = path" and "em_samAddr e = ec_samAddr cfg"
    and "i2p_garlic t1 = i2p_garlic t"
    and "ec_leaseSetKey cfg = '''' \<Longrightarrow> t1 = t"
    and "ec_leaseSetKey cfg \<noteq> '''' \<Longrightarrow> i2cp_get (tb_Config (i2p_base t1)) ''leaseSetPrivKey'' = Some (IStr (ec_leaseSetKey cfg))"
    and "em_reported e = (if ec_metricsAddr cfg \<noteq> '''' then Some 0 else None)"
proof (cases "ec_leaseSetKey cfg = ''''")
  case True
  then show ?thesis
    by (intro that [of _ t]) (auto simp: build_def Register_def NewRegistry_def Let_def simp del: i2p_accessors)
next
  case False
  obtain t1 where t1: "i2p_SetOptions E [(''i2cp.leaseSetPrivKey'', ec_leaseSetKey cfg)] t = (t1, None)" "i2p_garlic t1 = i2p_garlic t"
    "i2p_base t1 = (i2p_base t)\<lparr>tb_Config := mergeI2CPOptionsInto [(''i2cp.leaseSetPrivKey'', ec_leaseSetKey cfg)] (tb_Config (i2p_base t))\<rparr>"
    using i2p_SetOptions_key by blast
  show ?thesis
    by (rule that [of _ t1])
      (use False t1 get_merged_key [OF False] in \<open>auto simp: build_def Register_def NewRegistry_def Let_def simp del: i2p_accessors\<close>)
qed

lemma FromConfigFile_elim:
  assumes "FromConfigFile E rd path opts = Inr e"
  obtains t where "Load E rd path [ec_samAddr (fold (\<lambda>f c. f c) opts defaults)] = Inr t"
    and "build E t path (fold (\<lambda>f c. f c) opts defaults) = Inr e"
  using assms by (auto simp: FromConfigFile_def Let_def split: sum.splits)

section \<open>Properties\<close>

text \<open>
  A lease-set key given to the embedding API is stored in the configuration of the
  tunnel, for all twelve types, but the SAM session, which the constructor has already
  opened from the configuration in the file, is the same with every key and without one.
\<close>
theorem lease_set_key_misses_session:
  assumes "FromConfigFile E rd path opts = Inr e0" and "key \<noteq> ''''"
  shows "\<exists>e cfg host g. FromConfigFile E rd path (opts @ [WithLeaseSetKey key]) = Inr e \<and>
    i2cp_get (tb_Config (i2p_base (Tunnel e))) ''leaseSetPrivKey'' = Some (IStr key) \<and>
    e_parse E rd path = Inr cfg \<and> e_newGarlic E host cfg = Inr g \<and>
    i2p_garlic (Tunnel e) = Some g \<and> i2p_garlic (Tunnel e0) = Some g"
proof -
  let ?cfg = "fold (\<lambda>f c. f c) opts defaults"
  obtain t where t: "Load E rd path [ec_samAddr ?cfg] = Inr t" "build E t path ?cfg = Inr e0"
    using assms(1) by (rule FromConfigFile_elim)
  obtain cfg where cfg: "e_parse E rd path = Inr cfg" "newTunnel E cfg (validateHost [ec_samAddr ?cfg]) = Inr t"
    using t(1) by (rule Load_parse)
  obtain g where g: "e_newGarlic E (validateHost [ec_samAddr ?cfg]) cfg = Inr g" "i2p_garlic t = Some g"
    using newTunnel_base [OF cfg(2)] by blast
  have e0: "i2p_garlic (Tunnel e0) = i2p_garlic t"
    by (rule build_ok [of E t path ?cfg]) (use t(2) in \<open>auto simp: Tunnel_def\<close>)
  obtain e t1 where e: "build E t path (?cfg\<lparr>ec_leaseSetKey := key\<rparr>) = Inr e" "i2p_garlic t1 = i2p_garlic t"
    "Tunnel e = i2p_SetTunnelMetrics (Some (fresh_metrics (i2p_Name t1) (i2p_ID t1) (i2p_Type t1))) t1"
    "i2cp_get (tb_Config (i2p_base t1)) ''leaseSetPrivKey'' = Some (IStr key)"
    by (rule build_ok [of E t path "?cfg\<lparr>ec_leaseSetKey := key\<rparr>"]) (use assms(2) in \<open>auto simp: Tunnel_def simp del: i2p_accessors\<close>)
  have "FromConfigFile E rd path (opts @ [WithLeaseSetKey key]) = Inr e"
    using t(1) e(1) by (simp add: FromConfigFile_def WithLeaseSetKey_def)
  moreover have "i2cp_get (tb_Config (i2p_base (Tunnel e))) ''leaseSetPrivKey'' = Some (IStr key)"
    using e(3,4) by simp
  moreover have "i2p_garlic (Tunnel e) = i2p_garlic t" using e(2,3) by simp
  ultimately show ?thesis using e0 g cfg(1) by auto
qed

lemma example_embedded:
  "\<exists>e0. FromConfigFile example_env (\<lambda>p. Inr ''ircserver'') ''a.yaml'' [] = Inr e0"
proof -
  obtain t where "Load example_env (\<lambda>p. Inr ''ircserver'') ''a.yaml'' [''127.0.0.1:7656''] = Inr t"
    by (simp add: Load_def example_env_def newTunnel_def Let_def i2p_New_defs tcp_addr_def)
  moreover obtain e where "build example_env t ''a.yaml'' defaults = Inr e"
    by (rule build_ok)
  ultimately show ?thesis by (simp add: FromConfigFile_def defaults_def)
qed

lemma lease_set_key_misses_session_witness:
  "\<exists>e0 e. FromConfigFile example_env (\<lambda>p. Inr ''ircserver'') ''a.yaml'' [] = Inr e0 \<and>
     FromConfigFile example_env (\<lambda>p. Inr ''ircserver'') ''a.yaml'' [WithLeaseSetKey ''c2VjcmV0''] = Inr e \<and>
     i2p_garlic (Tunnel e) = i2p_garlic (Tunnel e0)"
proof -
  obtain e0 where e0: "FromConfigFile example_env (\<lambda>p. Inr ''ircserver'') ''a.yaml'' [] = Inr e0"
    using example_embedded by blast
  from lease_set_key_misses_session [OF e0, of "''c2VjcmV0''"] e0 show ?thesis by auto
qed

text \<open>The pointer to the tunnel, and the captured one, stay within the store.\<close>

definition em_ok :: "('l, 'cl) embedded \<Rightarrow> bool" where
  "em_ok e \<longleftrightarrow> em_tunnel e < length (em_objects e) \<and> (\<forall>p. em_reported e = Some p \<longrightarrow> p < length (em_objects e))"

lemma Reload_ok: "em_ok e \<Longrightarrow> em_ok (fst (Reload E rd sd e))"
  by (auto simp: Reload_def em_ok_def Let_def split: prod.splits option.splits sum.splits)

lemma i2p_LoadConfig_error: "i2p_LoadConfig E rd path t = (t', Some e) \<Longrightarrow> t' = t"
  using any_loading.load_error [of "(E, rd, path)" t t' e] by simp

text \<open>
  When \<open>Reload\<close> has to replace the tunnel (the file cannot be loaded in place, but it
  can be loaded), it reports success, but the new tunnel is cut off: it has no metrics, so
  nothing it does is counted; the status endpoint keeps reporting the old, stopped tunnel;
  and a lease-set key given at construction is gone, as its configuration is the file's.
\<close>
theorem fresh_reload_is_detached:
  assumes "em_ok e" and "em_configPath e \<noteq> ''''" and "em_reported e = Some (em_tunnel e)"
    and "i2p_Stop None (em_current e) = (t1, None)" and "i2p_LoadConfig E rd (em_configPath e) t1 = (t2, Some err)"
    and "Load E rd (em_configPath e) [em_samAddr e] = Inr fresh"
  shows "\<exists>e'. Reload E rd None e = (e', None) \<and> Tunnel e' = fresh \<and> tb_Metrics (i2p_base (Tunnel e')) = None \<and>
    statusFunc e' = Some (tunnel_live_status t1) \<and> em_registry e' = em_registry e \<and>
    e_parse E rd (em_configPath e) = Inr (tb_Config (i2p_base (Tunnel e')))"
proof -
  have t2: "t2 = t1" using assms(5) by (rule i2p_LoadConfig_error)
  obtain cfg where cfg: "e_parse E rd (em_configPath e) = Inr cfg" "newTunnel E cfg (validateHost [em_samAddr e]) = Inr fresh"
    using assms(6) by (rule Load_parse)
  have "Reload E rd None e =
      (e\<lparr>em_objects := (em_objects e)[em_tunnel e := t1] @ [fresh], em_tunnel := length (em_objects e)\<rparr>, None)"
    using assms t2 by (simp add: Reload_def em_ok_def Let_def)
  with assms(1,3) newTunnel_base [OF cfg(2)] cfg(1) show ?thesis
    by (simp add: Tunnel_def statusFunc_def em_ok_def nth_append)
qed

definition example_managed :: "(unit, unit) embedded" where
  "example_managed =
     \<lparr>em_objects = [example_tunnel], em_tunnel = 0, em_configPath = ''a.yaml'', em_samAddr = ''localhost:7656'',
      em_registry = NewRegistry, em_reported = Some 0\<rparr>"

lemma example_stop: "\<exists>t1. i2p_Stop None example_tunnel = (t1, None) \<and> i2p_Status t1 = StatusStopped \<and> i2p_kind t1 = ''ircserver''"
  by (simp add: example_tunnel_def Load_def example_env_def newTunnel_def Let_def i2p_New_defs tcp_addr_def i2p_Stop_defs)

lemma fresh_reload_is_detached_witness:
  "\<exists>e'. Reload example_env (\<lambda>p. Inr ''tcpserver'') None example_managed = (e', None) \<and>
     tb_Metrics (i2p_base (Tunnel e')) = None"
proof -
  obtain t1 where t1: "i2p_Stop None example_tunnel = (t1, None)" "i2p_kind t1 = ''ircserver''"
    using example_stop by blast
  obtain fresh where fresh: "Load example_env (\<lambda>p. Inr ''tcpserver'') ''a.yaml'' [''localhost:7656''] = Inr fresh"
    by (simp add: Load_def example_env_def newTunnel_def Let_def i2p_New_defs tcp_addr_def)
  obtain cfg where cfg: "e_parse example_env (\<lambda>p. Inr ''tcpserver'') ''a.yaml'' = Inr cfg" "tc_Type cfg = ''tcpserver''"
    by (simp add: ParseConfigFile_def example_env_def)
  then obtain err where err: "i2p_LoadConfig example_env (\<lambda>p. Inr ''tcpserver'') ''a.yaml'' t1 = (t1, Some err)"
    using LoadConfig_other_kind [OF cfg(1), of t1] t1(2) by (auto simp: kind_of_type_def)
  show ?thesis
    using fresh_reload_is_detached [of example_managed t1 example_env "\<lambda>p. Inr ''tcpserver''" t1 err fresh] t1(1) err fresh
    by (auto simp: example_managed_def em_ok_def)
qed

section \<open>Run\<close>

lemma run_turns_append:
  "run_turns E (xs @ ys) s = (case run_turns E xs s of (s', Some r) \<Rightarrow> (s', Some r) | (s', None) \<Rightarrow> run_turns E ys s')"
  by (induction xs arbitrary: s) (auto split: prod.splits option.splits)

lemma run_turns_returned:
  assumes "run_turns E evs s = (s', Some r)"
  shows "\<exists>pre ev post s0. evs = pre @ ev # post \<and> run_turns E pre s = (s0, None) \<and> run_turn E ev s0 = (s', Some r)"
  using assms
proof (induction evs arbitrary: s)
  case (Cons ev evs)
  obtain s1 q where q: "run_turn E ev s = (s1, q)" by fastforce
  show ?case
  proof (cases q)
    case None
    with q Cons obtain pre ev' post s0 where "evs = pre @ ev' # post" "run_turns E pre s1 = (s0, None)" "run_turn E ev' s0 = (s', Some r)"
      by fastforce
    with q None show ?thesis by (intro exI [of _ "ev # pre"]) auto
  next
    case (Some r')
    with q Cons.prems show ?thesis by (intro exI [of _ "[]"]) auto
  qed
qed simp

fun is_reload :: "('l, 'cl) run_event \<Rightarrow> bool" where
  "is_reload (SigHup rd sd) \<longleftrightarrow> True"
| "is_reload _ \<longleftrightarrow> False"

definition reloads :: "('l, 'cl) run_event list \<Rightarrow> nat" where
  "reloads evs = length (filter is_reload evs)"

lemma run_turn_reloading: "\<not> rn_reloading s \<Longrightarrow> \<not> rn_reloading (fst (run_turn E ev s))"
  by (cases ev) (auto simp: Let_def split: prod.splits option.splits)

lemma run_turn_starts:
  "\<not> rn_reloading s \<Longrightarrow> length (rn_starts (fst (run_turn E ev s))) \<le> length (rn_starts s) + reloads [ev]"
  by (cases ev) (auto simp: Let_def reloads_def split: prod.splits option.splits)

lemma run_turns_inv:
  assumes "run_turns E evs s = (s', q)" and "\<not> rn_reloading s"
  shows "\<not> rn_reloading s' \<and> length (rn_starts s') \<le> length (rn_starts s) + reloads evs"
  using assms
proof (induction evs arbitrary: s)
  case (Cons ev evs)
  obtain s1 q1 where q1: "run_turn E ev s = (s1, q1)" by fastforce
  with run_turn_reloading [of s E ev] run_turn_starts [of s E ev] Cons.prems(2)
  have s1: "\<not> rn_reloading s1" "length (rn_starts s1) \<le> length (rn_starts s) + reloads [ev]" by simp_all
  show ?case
  proof (cases q1)
    case None
    with q1 Cons.prems(1) Cons.IH [OF _ s1(1)] s1(2) show ?thesis by (fastforce simp: reloads_def)
  next
    case (Some r)
    with q1 Cons.prems(1) s1 show ?thesis by (auto simp: reloads_def split: if_splits)
  qed
qed (simp add: reloads_def)

text \<open>
  C23: \<open>Run\<close> returns only for a reason: its last event is SIGINT or SIGTERM, and the result
  is that of stopping the current tunnel, or a \<open>Start\<close> that it launched returned an
  error, and the result wraps it. It launches \<open>Start\<close> once and at most once more for each
  SIGHUP, and no SIGHUP is ever ignored as a reload in progress.
\<close>
theorem Run_returns_for_a_reason:
  assumes "em_Run E evs e = (s', Some r)"
  shows "\<exists>pre ev post s0. evs = pre @ ev # post \<and> em_Run E pre e = (s0, None) \<and> \<not> rn_reloading s0 \<and>
    length (rn_starts s') \<le> 1 + reloads pre \<and>
    ((\<exists>sd. ev = SigTerm sd \<and> r = snd (i2p_Stop sd (Tunnel (rn_em s0)))) \<or>
     (\<exists>err. ev = StartReturned (Some err) \<and> r = Some (Wrapf ''embedding: tunnel error'' err) \<and> s' = s0))"
proof -
  let ?s = "\<lparr>rn_em = e, rn_starts = [em_tunnel e], rn_reloading = False\<rparr>"
  obtain pre ev post s0 where split: "evs = pre @ ev # post" "run_turns E pre ?s = (s0, None)" "run_turn E ev s0 = (s', Some r)"
    using run_turns_returned assms unfolding em_Run_def by blast
  have inv: "\<not> rn_reloading s0" "length (rn_starts s0) \<le> 1 + reloads pre"
    using run_turns_inv [OF split(2)] by simp_all
  have "rn_starts s' = rn_starts s0 \<and>
      ((\<exists>sd. ev = SigTerm sd \<and> r = snd (i2p_Stop sd (Tunnel (rn_em s0)))) \<or>
       (\<exists>err. ev = StartReturned (Some err) \<and> r = Some (Wrapf ''embedding: tunnel error'' err) \<and> s' = s0))"
    using split(3) by (cases ev) (auto simp: Tunnel_def Let_def split: prod.splits option.splits if_splits)
  with split inv show ?thesis unfolding em_Run_def by (metis (no_types, lifting))
qed

lemma Run_returns_for_a_reason_witness:
  "\<exists>s0. em_Run example_env [StartReturned None] example_managed = (s0, None) \<and> length (rn_starts s0) \<le> 1"
proof -
  obtain t1 where t1: "i2p_Stop None example_tunnel = (t1, None)" using example_stop by blast
  have run: "em_Run example_env [StartReturned None, SigTerm None] example_managed =
      (\<lparr>rn_em = example_managed\<lparr>em_objects := [t1]\<rparr>, rn_starts = [0], rn_reloading = False\<rparr>, Some None)"
    using t1 by (simp add: em_Run_def example_managed_def)
  from Run_returns_for_a_reason [OF run] show ?thesis by (simp add: em_Run_def example_managed_def)
qed

text \<open>
  A SIGHUP whose reload fails because the file is broken takes the tunnel down for
  good: the tunnel has been stopped and its session closed, \<open>Run\<close> goes on without starting
  it again, and stays so however often an earlier \<open>Start\<close> reports its clean end. (The log
  message says that the current configuration is kept.)
\<close>
theorem failed_reload_stays_down:
  assumes "em_ok e" and "em_configPath e \<noteq> ''''" and "\<not> i2p_stopped (em_current e)"
    and "e_parse E rd (em_configPath e) = Inl err"
  shows "\<exists>s. em_Run E (SigHup rd None # replicate n (StartReturned None)) e = (s, None) \<and>
    i2p_Status (Tunnel (rn_em s)) = StatusStopped \<and> i2p_closed (Tunnel (rn_em s)) \<and>
    em_tunnel (rn_em s) = em_tunnel e \<and> rn_starts s = [em_tunnel e]"
proof -
  define t1 where "t1 = fst (i2p_Stop None (em_current e))"
  then have stop: "i2p_Stop None (em_current e) = (t1, None)" using i2p_Stop_None [of "em_current e"] by (simp add: prod_eq_iff)
  have t1: "tb_Status (i2p_base t1) = StatusStopped" "i2p_closed t1"
    unfolding t1_def using assms(3) any_stopping.stop_stat any_stopping.stop_releases by blast+
  obtain err' where load: "i2p_LoadConfig E rd (em_configPath e) t1 = (t1, Some err')"
    using LoadConfig_parse_error [OF assms(4)] t1(1) by blast
  obtain err2 where "Load E rd (em_configPath e) [em_samAddr e] = Inl err2"
    using Load_parse_error [OF assms(4)] by blast
  define e1 where "e1 = em_write t1 e"
  have "Reload E rd None e = (e1, Some (Wrapf ''embedding: reload failed to load fresh config'' err2))"
    using assms(1,2) \<open>Load _ _ _ _ = _\<close> stop load by (simp add: Reload_def em_ok_def e1_def Let_def)
  then have turn: "run_turn E (SigHup rd None) \<lparr>rn_em = e, rn_starts = [em_tunnel e], rn_reloading = False\<rparr> =
      (\<lparr>rn_em = e1, rn_starts = [em_tunnel e], rn_reloading = False\<rparr>, None)" (is "_ = (?s1, None)")
    by simp
  have "run_turns E (replicate n (StartReturned None)) ?s1 = (?s1, None)" by (induction n) simp_all
  with turn have "em_Run E (SigHup rd None # replicate n (StartReturned None)) e = (?s1, None)" by (simp add: em_Run_def)
  with t1 assms(1) show ?thesis by (simp add: Tunnel_def e1_def em_ok_def)
qed

lemma failed_reload_stays_down_witness:
  "\<exists>s. em_Run example_env (SigHup (\<lambda>p. Inr ''broken'') None # replicate 2 (StartReturned None)) example_managed = (s, None) \<and>
     i2p_Status (Tunnel (rn_em s)) = StatusStopped"
proof -
  have "\<not> i2p_stopped (em_current example_managed)"
    by (simp add: example_managed_def example_tunnel_def Load_def example_env_def newTunnel_def Let_def i2p_New_defs tcp_addr_def)
  moreover obtain err where "e_parse example_env (\<lambda>p. Inr ''broken'') (em_configPath example_managed) = Inl err"
    by (simp add: ParseConfigFile_def example_env_def)
  ultimately show ?thesis
    using failed_reload_stays_down [of example_managed example_env "\<lambda>p. Inr ''broken''" err 2]
    by (auto simp: example_managed_def em_ok_def simp del: i2p_accessors replicate.simps)
qed

end
