(* ===== verification/EmbeddingReload.thy ===== *)
theory EmbeddingReload
  imports Embedding
begin

text \<open>
  \<open>Reload\<close> of the embedding API with a file that can be loaded: what it leaves behind,
  from the contract of a tunnel that can be stopped and reloaded.
\<close>

section \<open>Stopping and reloading\<close>

text \<open>
  A tunnel that can be both: what \<open>Stop\<close> releases is part of what a reload leaves alone.
\<close>

locale managed = stoppable stop stat stopped released + reloadable load stat life
  for stop :: "'t \<Rightarrow> 't" and stat stopped released and load :: "'a \<Rightarrow> 't \<Rightarrow> 't \<times> go_error option" and life :: "'t \<Rightarrow> 'l" +
  assumes released_life: "life t' = life t \<Longrightarrow> released t' = released t"
begin

lemma stop_allows_load: "\<not> stopped t \<Longrightarrow> CheckTunnelStopped (stat (stop t)) = None"
  by (simp add: stop_stat CheckTunnelStopped_def)

lemma reload_stays_released:
  "\<not> stopped t \<Longrightarrow> released (fst (load x (stop t))) \<and> stat (fst (load x (stop t))) = StatusStopped"
  using released_life [OF load_life] by (simp add: stop_releases load_stat stop_stat)

end

interpretation any_managed: managed "\<lambda>t. fst (i2p_Stop None t)" "\<lambda>t. tb_Status (i2p_base t)" i2p_stopped i2p_closed
  "\<lambda>(E, rd, path). i2p_LoadConfig E rd path" i2p_garlic
  by unfold_locales (simp add: i2p_closed_def)

lemma i2p_Stop_kind: "i2p_kind (fst (i2p_Stop sd t)) = i2p_kind t"
  by (cases t) auto

lemma i2p_Stop_metrics: "tb_Metrics (i2p_base (fst (i2p_Stop sd t))) = None \<longleftrightarrow> tb_Metrics (i2p_base t) = None"
  by (cases t; cases sd) (auto simp: i2p_Stop_defs upd_metrics_def)

lemma i2p_LoadConfig_metrics: "tb_Metrics (i2p_base (fst (i2p_LoadConfig E rd path t))) = tb_Metrics (i2p_base t)"
  by (cases t) (auto simp: i2p_LoadConfig_defs split: option.splits sum.splits prod.splits if_splits)

section \<open>Property\<close>



end
