(* ===== verification/IrcFilter.thy ===== *)
theory IrcFilter
  imports Metrics
begin

text \<open>
  The IRC filters (\<open>lib/irc/client/dcc.go\<close>, \<open>lib/irc/client/sanitize.go\<close>,
  \<open>lib/irc/server/sanitize.go\<close>). The message is the part of the inspector library's
  \<open>Message\<close> that the callbacks read and write; the inspector itself, which parses the
  stream and drops a message whose callback fails, is a library. The two DCC patterns and
  the host pattern are written out: their character classes are complementary, so a
  match is unique.
\<close>

section \<open>Messages and regular expressions\<close>

record irc_message =
  Prefix :: string
  Command :: string
  Params :: "string list"
  Trailing :: string

definition re_space :: "char \<Rightarrow> bool" where
  "re_space c \<longleftrightarrow> c \<in> {CHR 0x09, CHR 0x0A, CHR 0x0C, CHR 0x0D, CHR 0x20}"

definition re_digits :: "string \<Rightarrow> bool" where
  "re_digits s \<longleftrightarrow> s \<noteq> [] \<and> list_all (\<lambda>c. digit_val c \<noteq> None) s"

text \<open>The maximal runs of non-space bytes.\<close>

fun re_words :: "string \<Rightarrow> string list" where
  "re_words [] = []"
| "re_words (c # cs) =
     (if re_space c then re_words cs
      else
        case cs of
          [] \<Rightarrow> [[c]]
        | d # _ \<Rightarrow>
            if re_space d then [c] # re_words cs
            else (case re_words cs of [] \<Rightarrow> [[c]] | w # ws \<Rightarrow> (c # w) # ws))"

text \<open>A pattern anchored at the start whose first item is not a space.\<close>

definition anchored_words :: "string \<Rightarrow> string list" where
  "anchored_words s = (case s of [] \<Rightarrow> [] | c # _ \<Rightarrow> if re_space c then [] else re_words s)"

text \<open>\<open>(?i)^DCC\s+SEND\s+(\S+)\s+(\d+)\s+(\d+)\s+(\d+)\s*$\<close>: the groups 2 and 3.\<close>

definition reDCCSend :: "string \<Rightarrow> (string \<times> string) option" where
  "reDCCSend body =
     (case anchored_words body of
        [a, b, f, x, y, z] \<Rightarrow>
          if EqualFold a ''DCC'' \<and> EqualFold b ''SEND'' \<and> re_digits x \<and> re_digits y \<and> re_digits z
          then Some (x, y) else None
      | _ \<Rightarrow> None)"

text \<open>\<open>(?i)^DCC\s+CHAT\s+chat\s+(\d+)\s+(\d+)\s*$\<close>: the groups 1 and 2.\<close>

definition reDCCChat :: "string \<Rightarrow> (string \<times> string) option" where
  "reDCCChat body =
     (case anchored_words body of
        [a, b, c, x, y] \<Rightarrow>
          if EqualFold a ''DCC'' \<and> EqualFold b ''CHAT'' \<and> EqualFold c ''chat'' \<and> re_digits x \<and> re_digits y
          then Some (x, y) else None
      | _ \<Rightarrow> None)"

section \<open>DCC parameters\<close>

definition isPrivateIP :: "32 word \<Rightarrow> bool" where
  "isPrivateIP ipInt =
     (let a = ucast (drop_bit 24 ipInt) :: 8 word;
          b = ucast (drop_bit 16 ipInt) :: 8 word
      in a = 127 \<or> a = 10 \<or> (a = 172 \<and> b \<ge> 16 \<and> b \<le> 31) \<or> (a = 192 \<and> b = 168))"

definition validateDCCPort :: "int \<Rightarrow> go_error option" where
  "validateDCCPort port =
     (if port < 1024 \<or> port > 65535 then
        Some (Errorf (''invalid DCC port '' @ Itoa port @ '': must be between 1024 and 65535''))
      else None)"

definition validateDCCIPPort :: "string \<Rightarrow> string \<Rightarrow> string \<Rightarrow> go_error option" where
  "validateDCCIPPort kind ipStr portStr =
     (case ParseUint32 ipStr of
        None \<Rightarrow> Some (Errorf (kind @ '': cannot parse IP '' @ Quote ipStr))
      | Some ipInt \<Rightarrow>
          (case Atoi portStr of
             None \<Rightarrow> Some (Errorf (kind @ '': cannot parse port '' @ Quote portStr))
           | Some port \<Rightarrow>
               if isPrivateIP (word_of_int ipInt) then Some (Errorf (kind @ '' blocked: private IP address''))
               else validateDCCPort port))"

definition ctcp_char :: char where "ctcp_char = CHR 0x01"

definition filterDCCRequest :: "string \<Rightarrow> go_error option" where
  "filterDCCRequest body0 =
     (let b1 = TrimSpace body0;
          body = (case IndexByte b1 ctcp_char of Some e \<Rightarrow> take e b1 | None \<Rightarrow> b1)
      in case reDCCSend body of
           Some (ip, port) \<Rightarrow> validateDCCIPPort ''DCC SEND'' ip port
         | None \<Rightarrow>
             (case reDCCChat body of
                Some (ip, port) \<Rightarrow> validateDCCIPPort ''DCC CHAT'' ip port
              | None \<Rightarrow> None))"

section \<open>The client callbacks\<close>

definition client_OnMessage :: "irc_message \<Rightarrow> go_error option" where
  "client_OnMessage msg =
     (if EqualFold (Command msg) ''DCC'' then Some (Errorf ''DCC commands are not allowed over I2P'')
      else if EqualFold (Command msg) ''PRIVMSG'' \<and> Contains (Trailing msg) (ctcp_char # ''DCC'') then
        (case Index (Trailing msg) (ctcp_char # ''DCC '') of
           Some idx \<Rightarrow>
             (case filterDCCRequest (drop (idx + 1) (Trailing msg)) of
                Some err \<Rightarrow> Some err
              | None \<Rightarrow> Some (Errorf ''DCC CTCP commands are not allowed over I2P''))
         | None \<Rightarrow> Some (Errorf ''DCC CTCP commands are not allowed over I2P''))
      else None)"

definition client_DCC_callback :: "irc_message \<Rightarrow> tunnel_metrics option \<Rightarrow> tunnel_metrics option \<times> go_error option" where
  "client_DCC_callback msg m =
     (let body = ''DCC '' @ Join (Params msg) '' '' in
      case filterDCCRequest body of
        Some err \<Rightarrow> (map_option RecordFilterBlock m, Some err)
      | None \<Rightarrow> (map_option RecordFilterBlock m, Some (Errorf ''DCC commands are not permitted over I2P'')))"

definition client_PING_callback :: "string \<Rightarrow> irc_message \<Rightarrow> irc_message" where
  "client_PING_callback i2pHost msg =
     (if i2pHost \<noteq> '''' \<and> length (Params msg) > 0 then msg\<lparr>Params := (Params msg)[0 := i2pHost]\<rparr> else msg)"

definition client_USERHOST_callback :: "string \<Rightarrow> irc_message \<Rightarrow> irc_message" where
  "client_USERHOST_callback i2pHost msg =
     (if i2pHost \<noteq> '''' \<and> Trailing msg \<noteq> '''' then
        (let parts = Split (Trailing msg) CHR ''@'' in
         if length parts > 1 then msg\<lparr>Trailing := parts ! 0 @ ''@'' @ i2pHost\<rparr> else msg)
      else msg)"

section \<open>The server callbacks\<close>

text \<open>\<open>uu\<close> is the multi-byte branch of \<open>strings.ToUpper\<close>.\<close>

definition checkBlockedCommand ::
  "(string \<Rightarrow> string) \<Rightarrow> irc_message \<Rightarrow> tunnel_metrics option \<Rightarrow> tunnel_metrics option \<times> go_error option" where
  "checkBlockedCommand uu msg m =
     (let command = ToUpper uu (Command msg) in
      if command \<in> {''ADMIN'', ''OPER'', ''DIE'', ''RESTART'', ''REHASH'', ''KILL''} then
        (map_option RecordFilterBlock m,
         Some (Errorf (''administrative command '' @ command @ '' not allowed over I2P'')))
      else if command = ''DCC'' then
        (map_option RecordFilterBlock m, Some (Errorf ''DCC commands are not allowed over I2P''))
      else if command = ''PRIVMSG'' \<and> Contains (ToUpper uu (Trailing msg)) ''DCC'' then
        (map_option RecordFilterBlock m, Some (Errorf ''DCC CTCP commands are not allowed over I2P''))
      else (m, None))"

text \<open>
  \<open>regexp.MustCompile(`@[^\s]+`).ReplaceAllString(s, "@"+host)\<close> for a host without the
  template character \<open>$\<close>: every \<open>@\<close> with the non-empty run of non-spaces after it becomes
  \<open>@host\<close>.
\<close>

function mask_userhost :: "string \<Rightarrow> string \<Rightarrow> string" where
  "mask_userhost host s =
     (case s of
        [] \<Rightarrow> []
      | c # cs \<Rightarrow>
          if c = CHR ''@'' \<and> cs \<noteq> [] \<and> \<not> re_space (hd cs) then
            CHR ''@'' # host @ mask_userhost host (dropWhile (\<lambda>d. \<not> re_space d) cs)
          else c # mask_userhost host cs)"
  by pat_completeness auto
termination
  by (relation "measure (\<lambda>(host, s). length s)") (auto simp: le_imp_less_Suc length_dropWhile_le)

declare mask_userhost.simps [simp del]

definition server_JOIN_callback :: "string \<Rightarrow> irc_message \<Rightarrow> irc_message" where
  "server_JOIN_callback i2pHost msg =
     (if i2pHost \<noteq> '''' \<and> Prefix msg \<noteq> '''' then msg\<lparr>Prefix := mask_userhost i2pHost (Prefix msg)\<rparr> else msg)"

definition server_WHOIS_callback :: "string \<Rightarrow> irc_message \<Rightarrow> irc_message" where
  "server_WHOIS_callback i2pHost msg =
     (if i2pHost \<noteq> '''' \<and> Trailing msg \<noteq> '''' then msg\<lparr>Trailing := mask_userhost i2pHost (Trailing msg)\<rparr> else msg)"

section \<open>Facts about the filters\<close>

lemma uint_top_bytes:
  fixes w :: "32 word"
  shows "uint (ucast (drop_bit 24 w) :: 8 word) = uint w div 2 ^ 24"
    and "uint (ucast (drop_bit 16 w) :: 8 word) = uint w div 2 ^ 16 mod 256"
proof -
  let ?q = "uint w div 16777216"
  have "uint w < 2 ^ 32" using uint_lt2p [of w] by simp
  then have "?q < 256" by auto
  moreover have "0 \<le> ?q" by (simp add: pos_imp_zdiv_nonneg_iff)
  ultimately have q: "?q mod 256 = ?q" by (metis mod_pos_pos_trivial)
  have "uint (ucast (drop_bit 24 w) :: 8 word) = ?q mod 256"
    by (simp add: unsigned_ucast_eq unsigned_drop_bit_eq drop_bit_eq_div take_bit_eq_mod uint_div_distrib)
  with q show "uint (ucast (drop_bit 24 w) :: 8 word) = uint w div 2 ^ 24" by simp
  show "uint (ucast (drop_bit 16 w) :: 8 word) = uint w div 2 ^ 16 mod 256"
    by (simp add: unsigned_ucast_eq unsigned_drop_bit_eq drop_bit_eq_div take_bit_eq_mod uint_div_distrib)
qed

text \<open>The address \<open>a.b.c.d\<close> as the integer of the DCC protocol.\<close>

definition dotted :: "int \<Rightarrow> int \<Rightarrow> int \<Rightarrow> int \<Rightarrow> int" where
  "dotted a b c d = ((a * 256 + b) * 256 + c) * 256 + d"

definition in_net :: "int \<Rightarrow> int \<Rightarrow> int \<Rightarrow> bool" where
  "in_net lo hi n \<longleftrightarrow> lo \<le> n \<and> n \<le> hi"

lemma byte_eq_iff: "(x :: 8 word) = y \<longleftrightarrow> uint x = uint y"
  by (rule word_uint_eq_iff)

lemma isPrivateIP_bytes:
  "isPrivateIP w \<longleftrightarrow>
     (let a = uint w div 2 ^ 24; b = uint w div 2 ^ 16 mod 256
      in a = 127 \<or> a = 10 \<or> (a = 172 \<and> 16 \<le> b \<and> b \<le> 31) \<or> (a = 192 \<and> b = 168))"
  unfolding isPrivateIP_def Let_def byte_eq_iff word_le_def uint_top_bytes by simp

definition bytes_of :: "int \<Rightarrow> int \<Rightarrow> int \<Rightarrow> int \<Rightarrow> bool" where
  "bytes_of n a b c \<longleftrightarrow> n = 16777216 * a + 65536 * b + c \<and> 0 \<le> b \<and> b \<le> 255 \<and> 0 \<le> c \<and> c \<le> 65535"

lemma dotted_flat: "dotted a b c d = 16777216 * a + 65536 * b + 256 * c + d"
  by (simp add: dotted_def algebra_simps)

lemma byte_split:
  assumes "bytes_of n a b c" and "0 \<le> l" and "l' \<le> 255"
  shows "in_net (dotted k l 0 0) (dotted k l' 255 255) n \<longleftrightarrow> a = k \<and> l \<le> b \<and> b \<le> l'"
proof
  assume "in_net (dotted k l 0 0) (dotted k l' 255 255) n"
  then have n: "16777216 * k + 65536 * l \<le> n" "n \<le> 16777216 * k + 65536 * l' + 65535"
    by (simp_all add: in_net_def dotted_flat)
  have "a = k" using n assms unfolding bytes_of_def by linarith
  with n assms show "a = k \<and> l \<le> b \<and> b \<le> l'" unfolding bytes_of_def by (safe; linarith)
next
  assume "a = k \<and> l \<le> b \<and> b \<le> l'"
  with assms show "in_net (dotted k l 0 0) (dotted k l' 255 255) n"
    unfolding in_net_def dotted_flat bytes_of_def by (safe; linarith)
qed

lemma isPrivateIP_ranges:
  "isPrivateIP w \<longleftrightarrow>
     in_net (dotted 127 0 0 0) (dotted 127 255 255 255) (uint w) \<or>
     in_net (dotted 10 0 0 0) (dotted 10 255 255 255) (uint w) \<or>
     in_net (dotted 172 16 0 0) (dotted 172 31 255 255) (uint w) \<or>
     in_net (dotted 192 168 0 0) (dotted 192 168 255 255) (uint w)"
proof -
  let ?n = "uint w"
  define a b c where "a = ?n div 16777216" and "b = ?n div 65536 mod 256" and "c = ?n mod 65536"
  have "a = ?n div 65536 div 256" by (simp add: a_def flip: zdiv_zmult2_eq)
  then have "?n div 65536 = 256 * a + b" by (simp add: b_def)
  moreover have "?n = 65536 * (?n div 65536) + c" by (simp add: c_def)
  ultimately have n: "?n = 16777216 * a + 65536 * b + c" by linarith
  have "0 \<le> b" "b \<le> 255" "0 \<le> c" "c \<le> 65535"
    using pos_mod_bound [of 256 "?n div 65536"] pos_mod_bound [of 65536 ?n] by (simp_all add: b_def c_def)
  with n have bytes: "bytes_of ?n a b c" by (simp add: bytes_of_def)
  have "isPrivateIP w \<longleftrightarrow> a = 127 \<or> a = 10 \<or> (a = 172 \<and> 16 \<le> b \<and> b \<le> 31) \<or> (a = 192 \<and> b = 168)"
    unfolding isPrivateIP_bytes Let_def a_def b_def by simp
  then show ?thesis
    using byte_split [OF bytes, of 0 255 127] byte_split [OF bytes, of 0 255 10] byte_split [OF bytes, of 16 31 172]
      byte_split [OF bytes, of 168 168 192] \<open>0 \<le> b\<close> \<open>b \<le> 255\<close> by (simp add: order.antisym eq_iff [of b])
qed

lemma ParseUint32_uint: "ParseUint32 s = Some n \<Longrightarrow> uint (word_of_int n :: 32 word) = n"
  using parse_digits_nonneg [of s n]
  by (auto simp: ParseUint32_def uint_word_of_int split: option.splits if_splits)

lemma validateDCCIPPort_None:
  "validateDCCIPPort kind ip port = None \<longleftrightarrow>
     (\<exists>n p. ParseUint32 ip = Some n \<and> Atoi port = Some p \<and> \<not> isPrivateIP (word_of_int n) \<and> 1024 \<le> p \<and> p \<le> 65535)"
  by (auto simp: validateDCCIPPort_def validateDCCPort_def split: option.splits)

lemma client_OnMessage_None:
  "client_OnMessage msg = None \<longleftrightarrow>
     \<not> EqualFold (Command msg) ''DCC'' \<and>
     \<not> (EqualFold (Command msg) ''PRIVMSG'' \<and> sublist (ctcp_char # ''DCC'') (Trailing msg))"
  by (auto simp: client_OnMessage_def Contains_sublist split: option.splits)

lemma not_sublist_ctcp:
  "c \<noteq> CHR ''D'' \<Longrightarrow> ctcp_char \<notin> set t \<Longrightarrow> c \<noteq> ctcp_char \<Longrightarrow> \<not> sublist (ctcp_char # ''DCC'') (ctcp_char # c # t)"
  by (auto simp: sublist_Cons_right dest: set_mono_sublist)

lemma mask_Nil [simp]: "mask_userhost host [] = []"
  by (simp add: mask_userhost.simps)

lemma mask_Cons:
  "mask_userhost host (c # cs) =
     (if c = CHR ''@'' \<and> cs \<noteq> [] \<and> \<not> re_space (hd cs) then
        CHR ''@'' # host @ mask_userhost host (dropWhile (\<lambda>d. \<not> re_space d) cs)
      else c # mask_userhost host cs)"
  by (subst mask_userhost.simps) simp

definition host_word :: "string \<Rightarrow> bool" where
  "host_word h \<longleftrightarrow> h \<noteq> [] \<and> list_all (\<lambda>c. \<not> re_space c) h"

definition word_end :: "string \<Rightarrow> bool" where
  "word_end s \<longleftrightarrow> s = [] \<or> re_space (hd s)"

lemma dropWhile_word: "list_all (\<lambda>c. \<not> re_space c) h \<Longrightarrow> word_end r \<Longrightarrow> dropWhile (\<lambda>d. \<not> re_space d) (h @ r) = r"
  by (induction h) (cases r; auto simp: word_end_def)+

lemma at_not_space [simp]: "\<not> re_space (CHR ''@'')"
  by (simp add: re_space_def)

lemma mask_hides:
  assumes "host_word h" "host_word h'" "word_end r"
  shows "mask_userhost host (pre @ CHR ''@'' # h @ r) = mask_userhost host (pre @ CHR ''@'' # h' @ r)"
proof (induction pre rule: length_induct)
  case (1 pre)
  have at: "dropWhile (\<lambda>d. \<not> re_space d) (p @ CHR ''@'' # x @ r) =
      (if list_all (\<lambda>c. \<not> re_space c) p then r else dropWhile (\<lambda>d. \<not> re_space d) p @ CHR ''@'' # x @ r)"
    if "host_word x" for p x
    using that dropWhile_word [of "p @ CHR ''@'' # x" r] assms(3)
    by (auto simp: host_word_def list_all_iff dropWhile_append)
  show ?case
  proof (cases pre)
    case Nil
    have "hd (x @ r) = hd x" "\<not> re_space (hd x)" "dropWhile (\<lambda>d. \<not> re_space d) (x @ r) = r" if "host_word x" for x
      using that assms(3) dropWhile_word [of x r] by (auto simp: host_word_def list_all_iff)
    with Nil assms(1,2) show ?thesis by (simp add: mask_Cons host_word_def)
  next
    case (Cons c p)
    let ?d = "dropWhile (\<lambda>d. \<not> re_space d) p"
    have len: "length p < length pre" "length ?d < length pre"
      using length_dropWhile_le [of "\<lambda>d. \<not> re_space d" p] Cons by simp_all
    have "mask_userhost host (pre @ CHR ''@'' # x @ r) =
        (if c = CHR ''@'' \<and> \<not> re_space (hd (p @ ''@''))
         then CHR ''@'' # host @ mask_userhost host (if list_all (\<lambda>c. \<not> re_space c) p then r else ?d @ CHR ''@'' # x @ r)
         else c # mask_userhost host (p @ CHR ''@'' # x @ r))" if "host_word x" for x
    proof -
      have "hd (p @ CHR ''@'' # x @ r) = hd (p @ ''@'')" by (cases p) simp_all
      with at [OF that, of p] Cons show ?thesis by (simp add: mask_Cons [of host c])
    qed
    with assms(1,2) "1.IH" len show ?thesis by simp
  qed
qed

section \<open>Properties\<close>

text \<open>
  C24: a DCC offer passes the parameter check only when it is safe: if the body is a DCC
  SEND or CHAT request and the filter does not object, the address is a 32-bit number
  outside 127.0.0.0/8, 10.0.0.0/8, 172.16.0.0/12 and 192.168.0.0/16, and the port lies in
  1024..65535; bodies that are neither request are left to the callers.
\<close>
theorem filterDCCRequest_safe:
  assumes "filterDCCRequest body = None"
    and "b = (case IndexByte (TrimSpace body) ctcp_char of Some e \<Rightarrow> take e (TrimSpace body) | None \<Rightarrow> TrimSpace body)"
    and "reDCCSend b = Some (ip, port) \<or> (reDCCSend b = None \<and> reDCCChat b = Some (ip, port))"
  shows "\<exists>n p. ParseUint32 ip = Some n \<and> Atoi port = Some p \<and> 1024 \<le> p \<and> p \<le> 65535 \<and>
    \<not> in_net (dotted 127 0 0 0) (dotted 127 255 255 255) n \<and>
    \<not> in_net (dotted 10 0 0 0) (dotted 10 255 255 255) n \<and>
    \<not> in_net (dotted 172 16 0 0) (dotted 172 31 255 255) n \<and>
    \<not> in_net (dotted 192 168 0 0) (dotted 192 168 255 255) n"
proof -
  have "\<exists>kind. validateDCCIPPort kind ip port = None"
    using assms by (auto simp: filterDCCRequest_def Let_def)
  then obtain n p where "ParseUint32 ip = Some n" "Atoi port = Some p" "\<not> isPrivateIP (word_of_int n)" "1024 \<le> p" "p \<le> 65535"
    by (auto simp: validateDCCIPPort_None)
  then show ?thesis
    using ParseUint32_uint [of ip n] by (auto simp: isPrivateIP_ranges)
qed

lemma filterDCCRequest_safe_witness:
  "\<exists>n p. ParseUint32 ''3405803781'' = Some n \<and> Atoi ''2000'' = Some p \<and> \<not> in_net (dotted 10 0 0 0) (dotted 10 255 255 255) n"
proof -
  let ?b = "''DCC SEND a.txt 3405803781 2000 3''"
  have "filterDCCRequest ?b = None"
    "?b = (case IndexByte (TrimSpace ?b) ctcp_char of Some e \<Rightarrow> take e (TrimSpace ?b) | None \<Rightarrow> TrimSpace ?b)"
    "reDCCSend ?b = Some (''3405803781'', ''2000'')" by code_simp+
  from filterDCCRequest_safe [OF this(1,2) disjI1 [OF this(3)]] show ?thesis by blast
qed

text \<open>
  The client's message check lets a message through exactly when its command is not
  DCC in any letter case and it is not a PRIVMSG (in any case) whose trailing part
  contains the byte 01 followed by upper-case DCC; the DCC parameter check only chooses
  the error text, it never lets a DCC message pass.
\<close>
theorem client_OnMessage_decision:
  "client_OnMessage msg = None \<longleftrightarrow>
     \<not> EqualFold (Command msg) ''DCC'' \<and>
     \<not> (EqualFold (Command msg) ''PRIVMSG'' \<and> sublist (ctcp_char # ''DCC'') (Trailing msg))"
  by (rule client_OnMessage_None)

text \<open>
  The client's CTCP check is case-sensitive although every other comparison of the
  filter ignores case: a CTCP offer spelled in lower case, with any file name, address,
  port and size, passes the client filter, while the server filter of the same
  repository refuses it.
\<close>
theorem lowercase_ctcp_passes_client:
  assumes "ctcp_char \<notin> set args" and "list_all is_ascii args"
  shows "client_OnMessage \<lparr>Prefix = p, Command = ''PRIVMSG'', Params = ps,
      Trailing = ctcp_char # ''dcc '' @ args\<rparr> = None \<and>
    snd (checkBlockedCommand uu \<lparr>Prefix = p, Command = ''PRIVMSG'', Params = ps,
      Trailing = ctcp_char # ''dcc '' @ args\<rparr> m) \<noteq> None"
proof
  have "\<not> sublist (ctcp_char # ''DCC'') (ctcp_char # CHR ''d'' # ''cc '' @ args)"
    using assms(1) by (intro not_sublist_ctcp) (simp_all add: ctcp_char_def)
  moreover have "\<not> EqualFold ''PRIVMSG'' ''DCC''" by code_simp
  ultimately show "client_OnMessage \<lparr>Prefix = p, Command = ''PRIVMSG'', Params = ps,
      Trailing = ctcp_char # ''dcc '' @ args\<rparr> = None"
    by (simp add: client_OnMessage_None)
  have cmd: "ToUpper uu ''PRIVMSG'' = ''PRIVMSG''"
    by (simp add: ToUpper_def is_ascii_def ascii_upper_def)
  have "ToUpper uu (ctcp_char # ''dcc '' @ args) = [ctcp_char] @ ''DCC'' @ '' '' @ map ascii_upper args"
    using assms(2) by (simp add: ToUpper_def is_ascii_def ascii_upper_def ctcp_char_def char_of_def)
  then have "Contains (ToUpper uu (ctcp_char # ''dcc '' @ args)) ''DCC''"
    unfolding Contains_sublist by (metis sublist_appendI)
  with cmd show "snd (checkBlockedCommand uu \<lparr>Prefix = p, Command = ''PRIVMSG'', Params = ps,
      Trailing = ctcp_char # ''dcc '' @ args\<rparr> m) \<noteq> None"
    by (simp add: checkBlockedCommand_def)
qed

lemma lowercase_ctcp_passes_client_witness:
  "client_OnMessage \<lparr>Prefix = [], Command = ''PRIVMSG'', Params = [''bob''],
     Trailing = ctcp_char # ''dcc '' @ ''SEND secret.txt 3405803781 2000 3''\<rparr> = None"
proof -
  have "ctcp_char \<notin> set ''SEND secret.txt 3405803781 2000 3''" "list_all is_ascii ''SEND secret.txt 3405803781 2000 3''"
    by code_simp+
  from lowercase_ctcp_passes_client [OF this, of "[]" "[''bob'']" "\<lambda>s. s" None] show ?thesis by blast
qed

text \<open>
  The server's check blocks exactly the six administrative commands, DCC, and every
  PRIVMSG whose upper-cased trailing part contains DCC, and counts a filter block exactly
  for the messages it refuses.
\<close>
theorem checkBlockedCommand_decision:
  "(snd (checkBlockedCommand uu msg m) = None \<longleftrightarrow>
     ToUpper uu (Command msg) \<notin> {''ADMIN'', ''OPER'', ''DIE'', ''RESTART'', ''REHASH'', ''KILL'', ''DCC''} \<and>
     \<not> (ToUpper uu (Command msg) = ''PRIVMSG'' \<and> sublist ''DCC'' (ToUpper uu (Trailing msg)))) \<and>
   fst (checkBlockedCommand uu msg m) =
     (if snd (checkBlockedCommand uu msg m) = None then m else map_option RecordFilterBlock m)"
  by (simp add: checkBlockedCommand_def Let_def Contains_sublist)

text \<open>
  Host masking in JOIN prefixes and WHOIS replies leaves no trace of the masked host:
  two texts that differ only in the host word after an at sign (at the end of a word)
  are masked to the same text, wherever the word stands and whatever else is masked.
\<close>
theorem mask_userhost_hides:
  assumes "host_word h" and "host_word h'" and "word_end r" and "i2pHost \<noteq> ''''"
  shows "server_JOIN_callback i2pHost \<lparr>Prefix = pre @ ''@'' @ h @ r, Command = c, Params = ps, Trailing = t\<rparr> =
    server_JOIN_callback i2pHost \<lparr>Prefix = pre @ ''@'' @ h' @ r, Command = c, Params = ps, Trailing = t\<rparr> \<and>
    server_WHOIS_callback i2pHost \<lparr>Prefix = t, Command = c, Params = ps, Trailing = pre @ ''@'' @ h @ r\<rparr> =
    server_WHOIS_callback i2pHost \<lparr>Prefix = t, Command = c, Params = ps, Trailing = pre @ ''@'' @ h' @ r\<rparr>"
  using mask_hides [OF assms(1-3)] assms(4)
  by (simp add: server_JOIN_callback_def server_WHOIS_callback_def)

lemma mask_userhost_hides_witness:
  "server_JOIN_callback ''x.i2p'' \<lparr>Prefix = ''nick!user'' @ ''@'' @ ''203.0.113.9'' @ [], Command = ''JOIN'', Params = [], Trailing = []\<rparr> =
   server_JOIN_callback ''x.i2p'' \<lparr>Prefix = ''nick!user'' @ ''@'' @ ''home.example'' @ [], Command = ''JOIN'', Params = [], Trailing = []\<rparr>"
proof -
  have "host_word ''203.0.113.9''" "host_word ''home.example''" "word_end []" by code_simp+
  from mask_userhost_hides [OF this, of "''x.i2p''" "''nick!user''"] show ?thesis by blast
qed

end
