(* ===== verification/HttpSanitize.thy ===== *)
theory HttpSanitize
  imports CoreTypes
begin

text \<open>
  The header filters of the HTTP tunnels (\<open>lib/http/client/sanitize.go\<close>,
  \<open>lib/http/server/sanitize.go\<close>). An \<open>http.Header\<close> maps canonical names to value lists;
  \<open>Get\<close>, \<open>Set\<close> and \<open>Del\<close> canonicalise the name they are given. \<open>url.Parse\<close> is the
  parameter \<open>parse\<close>, giving scheme and host. The inspector that calls the filters is
  a library.
\<close>

section \<open>Headers\<close>

type_synonym headers = "(string, string list) gomap"

text \<open>The bytes of a header name token.\<close>

definition token_byte :: "char \<Rightarrow> bool" where
  "token_byte c =
     (let n = of_char c :: int in
      (48 \<le> n \<and> n \<le> 57) \<or> (65 \<le> n \<and> n \<le> 90) \<or> (97 \<le> n \<and> n \<le> 122) \<or>
      n \<in> {33, 35, 36, 37, 38, 39, 42, 43, 45, 46, 94, 95, 96, 124, 126})"

fun canon_run :: "bool \<Rightarrow> string \<Rightarrow> string" where
  "canon_run upper [] = []"
| "canon_run upper (c # cs) =
     (let d = (if upper then ascii_upper c else ascii_lower c) in d # canon_run (d = CHR ''-'') cs)"

text \<open>\<open>textproto.CanonicalMIMEHeaderKey\<close>: a name with an invalid byte is left alone.\<close>

definition CanonicalHeaderKey :: "string \<Rightarrow> string" where
  "CanonicalHeaderKey s = (if list_all token_byte s then canon_run True s else s)"

definition Header_Del :: "string \<Rightarrow> headers \<Rightarrow> headers" where
  "Header_Del k h = gm_del (CanonicalHeaderKey k) h"

definition Header_Set :: "string \<Rightarrow> string \<Rightarrow> headers \<Rightarrow> headers" where
  "Header_Set k v h = gm_set (CanonicalHeaderKey k) [v] h"

definition Header_Get :: "string \<Rightarrow> headers \<Rightarrow> string" where
  "Header_Get k h = (case gm_get h (CanonicalHeaderKey k) of Some (v # vs) \<Rightarrow> v | _ \<Rightarrow> '''')"

section \<open>The client filter\<close>

definition client_headersToRemove :: "string list" where
  "client_headersToRemove =
     [''X-Forwarded-For'', ''X-Real-IP'', ''Via'', ''X-Forwarded-Host'', ''X-Forwarded-Proto'', ''Forwarded'',
      ''Client-IP'', ''True-Client-IP'', ''X-Client-IP'', ''X-Host'', ''X-ProxyUser-Ip'']"

definition default_user_agent :: string where
  "default_user_agent = ''Mozilla/5.0 (Windows NT 10.0; rv:102.0) Gecko/20100101 Firefox/102.0''"

definition defaultHTTPClientRequestFilter :: "headers \<Rightarrow> headers" where
  "defaultHTTPClientRequestFilter h0 =
     (let h = fold Header_Del client_headersToRemove h0
      in if Header_Get ''User-Agent'' h = '''' then Header_Set ''User-Agent'' default_user_agent h else h)"

section \<open>The server filters\<close>

definition isSameOrigin :: "(string \<Rightarrow> (string \<times> string) option) \<Rightarrow> string \<Rightarrow> string \<Rightarrow> bool" where
  "isSameOrigin parse raw1 raw2 =
     (case (parse raw1, parse raw2) of
        (Some (s1, h1), Some (s2, h2)) \<Rightarrow> s1 = s2 \<and> h1 = h2
      | _ \<Rightarrow> False)"

definition server_headersToRemove :: "string list" where
  "server_headersToRemove =
     [''X-Forwarded-For'', ''X-Real-IP'', ''Via'', ''X-Forwarded-Host'', ''X-Forwarded-Proto'', ''Forwarded'',
      ''Client-IP'', ''True-Client-IP'', ''X-Client-IP'', ''CF-Connecting-IP'', ''CF-IPCountry'']"

text \<open>\<open>url\<close> is \<open>req.URL.String()\<close>, \<open>None\<close> when \<open>req.URL\<close> is nil.\<close>

definition defaultHTTPServerRequestFilter ::
  "(string \<Rightarrow> (string \<times> string) option) \<Rightarrow> string option \<Rightarrow> headers \<Rightarrow> headers" where
  "defaultHTTPServerRequestFilter parse url h0 =
     (let h = fold Header_Del server_headersToRemove h0;
          referer = Header_Get ''Referer'' h
      in if referer \<noteq> '''' then
           (case url of
              None \<Rightarrow> h
            | Some u \<Rightarrow> if \<not> isSameOrigin parse referer u then Header_Del ''Referer'' h else h)
         else h)"

definition response_headersToRemove :: "string list" where
  "response_headersToRemove =
     [''Server'', ''X-Powered-By'', ''X-AspNet-Version'', ''X-AspNetMvc-Version'', ''X-Runtime'']"

definition defaultHTTPServerResponseFilter :: "headers \<Rightarrow> headers" where
  "defaultHTTPServerResponseFilter h0 =
     (let h1 = fold Header_Del response_headersToRemove h0;
          h2 = (if Header_Get ''X-Frame-Options'' h1 = '''' then Header_Set ''X-Frame-Options'' ''SAMEORIGIN'' h1 else h1)
      in if Header_Get ''X-Content-Type-Options'' h2 = '''' then Header_Set ''X-Content-Type-Options'' ''nosniff'' h2 else h2)"

section \<open>The contract of a header filter\<close>

text \<open>
  \<open>stripped\<close> are the canonical names a filter removes, \<open>owned\<close> those it may set or
  remove by a rule; every other header passes through untouched.
\<close>

locale header_filter =
  fixes filt :: "headers \<Rightarrow> headers" and stripped :: "string list" and owned :: "string list"
  assumes strips: "k \<in> set stripped \<Longrightarrow> gm_get (filt h) k = None"
    and passes: "k \<notin> set stripped \<Longrightarrow> k \<notin> set owned \<Longrightarrow> gm_get (filt h) k = gm_get h k"
    and wf_filt: "gm_wf h \<Longrightarrow> gm_wf (filt h)"
begin

lemma strips_any_spelling:
  "CanonicalHeaderKey k \<in> set stripped \<Longrightarrow> Header_Get k (filt h) = ''''"
  by (simp add: Header_Get_def strips)

lemma passes_any_spelling:
  "CanonicalHeaderKey k \<notin> set stripped \<Longrightarrow> CanonicalHeaderKey k \<notin> set owned \<Longrightarrow>
     Header_Get k (filt h) = Header_Get k h"
  by (simp add: Header_Get_def passes)

text \<open>What is stripped does not influence what is passed on.\<close>

lemma stripped_irrelevant:
  assumes "\<And>k. k \<notin> set stripped \<Longrightarrow> gm_get h k = gm_get h' k" and "k \<notin> set owned"
  shows "gm_get (filt h) k = gm_get (filt h') k"
  using assms by (cases "k \<in> set stripped") (simp_all add: strips passes)

end

lemma fold_Del_get:
  "gm_get (fold Header_Del ks h) k = (if k \<in> CanonicalHeaderKey ` set ks then None else gm_get h k)"
  by (induction ks arbitrary: h) (simp_all add: Header_Del_def)

lemma fold_Del_wf: "gm_wf h \<Longrightarrow> gm_wf (fold Header_Del ks h)"
  by (induction ks arbitrary: h) (simp_all add: Header_Del_def)

lemma Header_wf [simp]:
  "gm_wf h \<Longrightarrow> gm_wf (Header_Del k h)" "gm_wf h \<Longrightarrow> gm_wf (Header_Set k v h)"
  by (simp_all add: Header_Del_def Header_Set_def)

definition client_stripped :: "string list" where
  "client_stripped = map CanonicalHeaderKey client_headersToRemove"

definition server_stripped :: "string list" where
  "server_stripped = map CanonicalHeaderKey server_headersToRemove"

definition response_stripped :: "string list" where
  "response_stripped = map CanonicalHeaderKey response_headersToRemove"

lemma canonical_constants [simp]:
  "CanonicalHeaderKey ''User-Agent'' = ''User-Agent''" "CanonicalHeaderKey ''Referer'' = ''Referer''"
  "CanonicalHeaderKey ''X-Frame-Options'' = ''X-Frame-Options''"
  "CanonicalHeaderKey ''X-Content-Type-Options'' = ''X-Content-Type-Options''"
  by code_simp+

lemma fold_Del_stripped [simp]:
  "gm_get (fold Header_Del client_headersToRemove h) k = (if k \<in> set client_stripped then None else gm_get h k)"
  "gm_get (fold Header_Del server_headersToRemove h) k = (if k \<in> set server_stripped then None else gm_get h k)"
  "gm_get (fold Header_Del response_headersToRemove h) k = (if k \<in> set response_stripped then None else gm_get h k)"
  by (simp_all add: fold_Del_get client_stripped_def server_stripped_def response_stripped_def)

lemma stripped_not_owned [simp]:
  "''User-Agent'' \<notin> set client_stripped" "''Referer'' \<notin> set server_stripped"
  "''X-Frame-Options'' \<notin> set response_stripped" "''X-Content-Type-Options'' \<notin> set response_stripped"
  by code_simp+

text \<open>A header that is set if it is missing.\<close>

lemma get_default:
  "gm_get (if Header_Get n h = '''' then Header_Set n v h else h) k =
     (if k = CanonicalHeaderKey n \<and> Header_Get n h = '''' then Some [v] else gm_get h k)"
  by (simp add: Header_Set_def)

interpretation client_filter: header_filter defaultHTTPClientRequestFilter client_stripped "[''User-Agent'']"
proof unfold_locales
  show "k \<in> set client_stripped \<Longrightarrow> gm_get (defaultHTTPClientRequestFilter h) k = None" for k h
    by (auto simp: defaultHTTPClientRequestFilter_def Let_def Header_Set_def)
qed (auto simp: defaultHTTPClientRequestFilter_def Let_def Header_Set_def fold_Del_wf)

interpretation server_filter: header_filter "defaultHTTPServerRequestFilter parse url" server_stripped "[''Referer'']"
  for parse url
  by unfold_locales
    (auto simp: defaultHTTPServerRequestFilter_def Let_def Header_Del_def fold_Del_wf
      split: option.splits)

interpretation response_filter: header_filter defaultHTTPServerResponseFilter response_stripped
  "[''X-Frame-Options'', ''X-Content-Type-Options'']"
proof unfold_locales
  have get: "gm_get (defaultHTTPServerResponseFilter h) k = gm_get (fold Header_Del response_headersToRemove h) k"
    if "k \<noteq> ''X-Frame-Options''" "k \<noteq> ''X-Content-Type-Options''" for h k
    unfolding defaultHTTPServerResponseFilter_def Let_def get_default canonical_constants by (simp only: that simp_thms if_False)
  show "gm_get (defaultHTTPServerResponseFilter h) k = None" if "k \<in> set response_stripped" for k h
  proof -
    have "k \<noteq> ''X-Frame-Options''" "k \<noteq> ''X-Content-Type-Options''" using that stripped_not_owned(3,4) by blast+
    from get [OF this, of h] that show ?thesis by simp
  qed
  show "gm_get (defaultHTTPServerResponseFilter h) k = gm_get h k"
    if "k \<notin> set response_stripped" "k \<notin> set [''X-Frame-Options'', ''X-Content-Type-Options'']" for k h
    using that get [of k h] by simp
  show "gm_wf (defaultHTTPServerResponseFilter h)" if "gm_wf h" for h
    using fold_Del_wf [OF that] unfolding defaultHTTPServerResponseFilter_def Let_def by simp
qed

section \<open>Properties\<close>





end
