(* ===== verification/ListenerStacks.thy ===== *)
theory ListenerStacks
  imports IrcFilter HttpSanitize Bidirectional TcpClient
begin

text \<open>
  The listeners that the tunnels put around a socket before their accept loops run
  (\<open>runAcceptLoop\<close> of every stream tunnel, \<open>wrapListener\<close>, the \<open>Default...Config\<close>,
  \<open>Apply...Filters\<close> and \<open>Apply...FilterRules\<close> functions).

  The limiting and the inspecting listeners are libraries. A \<open>listener\<close> is the term of the
  library calls that the code makes, with the configurations and the callbacks it passes;
  what such a listener accepts (\<open>sem\<close>) and what an inspector does with a message are
  parameters, with the documented behaviour as named laws.
\<close>

section \<open>Listeners\<close>

text \<open>A callback may change the message and the metrics it has captured, and may fail.\<close>

type_synonym irc_callback =
  "irc_message \<Rightarrow> tunnel_metrics option \<Rightarrow> irc_message \<times> tunnel_metrics option \<times> go_error option"

record irc_filter =
  if_Command :: string
  if_Callback :: irc_callback

record irc_config =
  ic_OnMessage :: "irc_message \<Rightarrow> tunnel_metrics option \<Rightarrow> tunnel_metrics option \<times> go_error option"

record http_config =
  hc_OnRequest :: "string option \<Rightarrow> headers \<Rightarrow> headers"
  hc_OnResponse :: "headers \<Rightarrow> headers"

datatype 'l listener =
    Socket 'l
  | Limited int float64 "'l listener"
  | HttpInspect http_config "'l listener"
  | IrcInspect irc_config "irc_filter list" "'l listener"

text \<open>\<open>AddFilter\<close> registers one more callback with an IRC inspector.\<close>

fun AddFilter :: "irc_filter \<Rightarrow> 'l listener \<Rightarrow> 'l listener" where
  "AddFilter f (IrcInspect cfg fs l) = IrcInspect cfg (fs @ [f]) l"
| "AddFilter f l = l"

section \<open>IRC\<close>

definition pure_callback :: "(irc_message \<Rightarrow> irc_message) \<Rightarrow> irc_callback" where
  "pure_callback f msg m = (f msg, m, None)"

definition DefaultIRCClientConfig :: irc_config where
  "DefaultIRCClientConfig = \<lparr>ic_OnMessage = (\<lambda>msg m. (m, client_OnMessage msg))\<rparr>"

definition addDCCFilter :: "'l listener \<Rightarrow> 'l listener" where
  "addDCCFilter = AddFilter \<lparr>if_Command = ''DCC'', if_Callback = (\<lambda>msg m. (msg, client_DCC_callback msg m))\<rparr>"

definition addPingFilter :: "string \<Rightarrow> 'l listener \<Rightarrow> 'l listener" where
  "addPingFilter i2pHost = AddFilter \<lparr>if_Command = ''PING'', if_Callback = pure_callback (client_PING_callback i2pHost)\<rparr>"

definition addUserhostFilter :: "string \<Rightarrow> 'l listener \<Rightarrow> 'l listener" where
  "addUserhostFilter i2pHost =
     AddFilter \<lparr>if_Command = ''USERHOST'', if_Callback = pure_callback (client_USERHOST_callback i2pHost)\<rparr>"

definition ApplyIRCClientFilterRules :: "string \<Rightarrow> 'l listener \<Rightarrow> 'l listener" where
  "ApplyIRCClientFilterRules i2pHost l = addUserhostFilter i2pHost (addPingFilter i2pHost (addDCCFilter l))"

definition ApplyIRCClientFilters :: "string \<Rightarrow> 'l listener \<Rightarrow> 'l listener" where
  "ApplyIRCClientFilters i2pHost l = ApplyIRCClientFilterRules i2pHost (IrcInspect DefaultIRCClientConfig [] l)"

definition DefaultIRCServerConfigWithMetrics :: "(string \<Rightarrow> string) \<Rightarrow> irc_config" where
  "DefaultIRCServerConfigWithMetrics uu = \<lparr>ic_OnMessage = checkBlockedCommand uu\<rparr>"

text \<open>The metrics of this configuration are nil: nothing is counted.\<close>

definition DefaultIRCServerConfig :: "(string \<Rightarrow> string) \<Rightarrow> irc_config" where
  "DefaultIRCServerConfig uu = \<lparr>ic_OnMessage = (\<lambda>msg m. (m, snd (checkBlockedCommand uu msg None)))\<rparr>"

definition ApplyIRCServerFilterRules :: "string \<Rightarrow> 'l listener \<Rightarrow> 'l listener" where
  "ApplyIRCServerFilterRules i2pHost l =
     AddFilter \<lparr>if_Command = ''WHOIS'', if_Callback = pure_callback (server_WHOIS_callback i2pHost)\<rparr>
       (AddFilter \<lparr>if_Command = ''JOIN'', if_Callback = pure_callback (server_JOIN_callback i2pHost)\<rparr> l)"

definition ApplyIRCServerFilters :: "(string \<Rightarrow> string) \<Rightarrow> string \<Rightarrow> 'l listener \<Rightarrow> 'l listener" where
  "ApplyIRCServerFilters uu i2pHost l = ApplyIRCServerFilterRules i2pHost (IrcInspect (DefaultIRCServerConfig uu) [] l)"

section \<open>HTTP\<close>

definition DefaultHTTPClientConfig :: http_config where
  "DefaultHTTPClientConfig = \<lparr>hc_OnRequest = (\<lambda>url. defaultHTTPClientRequestFilter), hc_OnResponse = (\<lambda>h. h)\<rparr>"

definition ApplyHTTPClientFilters :: "'l listener \<Rightarrow> 'l listener" where
  "ApplyHTTPClientFilters l = HttpInspect DefaultHTTPClientConfig l"

definition DefaultHTTPServerConfig :: "(string \<Rightarrow> (string \<times> string) option) \<Rightarrow> http_config" where
  "DefaultHTTPServerConfig parse =
     \<lparr>hc_OnRequest = defaultHTTPServerRequestFilter parse, hc_OnResponse = defaultHTTPServerResponseFilter\<rparr>"

definition ApplyHTTPServerFilters :: "(string \<Rightarrow> (string \<times> string) option) \<Rightarrow> 'l listener \<Rightarrow> 'l listener" where
  "ApplyHTTPServerFilters parse l = HttpInspect (DefaultHTTPServerConfig parse) l"

section \<open>The accept loops\<close>

definition limit_listener :: "tunnel_base \<Rightarrow> 'l listener \<Rightarrow> 'l listener" where
  "limit_listener b l = Limited (tb_MaxConns b) (tb_RateLimit b) l"

text \<open>
  The structs of these three tunnels have the fields of \<open>stream_tunnel\<close> and the inspector
  configuration, which is an argument here: the constructors set it to the default. The IRC
  server does not use its own, it makes a new one with its metrics. \<open>sem\<close> gives the turns of
  the loop over a listener. Closing the listeners is part of \<open>Start\<close> and \<open>Stop\<close>.
\<close>

type_synonym http_server_tunnel = stream_tunnel
type_synonym irc_server_tunnel = stream_tunnel
type_synonym irc_client_tunnel = stream_tunnel

definition HTTPServer_runAcceptLoop ::
  "('l listener \<Rightarrow> 'c turn list) \<Rightarrow> http_config \<Rightarrow> 'l \<Rightarrow> http_server_tunnel \<Rightarrow> tunnel_base \<times> int \<times> 'c list \<times> go_error option option" where
  "HTTPServer_runAcceptLoop sem cfg l t =
     RunAcceptDispatch (sem (HttpInspect cfg (limit_listener (st_base t) (Socket l)))) maxConsecutiveErrors (st_base t)"

definition IRCServer_runAcceptLoop ::
  "(string \<Rightarrow> string) \<Rightarrow> ('l listener \<Rightarrow> 'c turn list) \<Rightarrow> 'l \<Rightarrow> irc_server_tunnel \<Rightarrow>
   tunnel_base \<times> int \<times> 'c list \<times> go_error option option" where
  "IRCServer_runAcceptLoop uu sem l t =
     (let insp = IrcInspect (DefaultIRCServerConfigWithMetrics uu) [] (limit_listener (st_base t) (Socket l));
          insp = ApplyIRCServerFilterRules (IRCServer_Address t) insp
      in RunAcceptDispatch (sem insp) maxConsecutiveErrors (st_base t))"

definition IRCClient_runAcceptLoop ::
  "('l listener \<Rightarrow> 'c turn list) \<Rightarrow> irc_config \<Rightarrow> 'l \<Rightarrow> irc_client_tunnel \<Rightarrow> tunnel_base \<times> int \<times> 'c list \<times> go_error option option" where
  "IRCClient_runAcceptLoop sem cfg l t =
     (let insp = ApplyIRCClientFilterRules (IRCClient_Address t) (IrcInspect cfg [] (limit_listener (st_base t) (Socket l)))
      in RunAcceptDispatch (sem insp) maxConsecutiveErrors (st_base t))"

definition TCPClient_runAcceptLoop ::
  "('l listener \<Rightarrow> 'c turn list) \<Rightarrow> 'l \<Rightarrow> tcp_client \<Rightarrow> tunnel_base \<times> int \<times> 'c list \<times> go_error option option" where
  "TCPClient_runAcceptLoop sem l t = RunAcceptDispatch (sem (Socket l)) maxConsecutiveAcceptErrors (cl_base t)"

text \<open>The turns of the bidirectional loops also have the exits of the proxy.\<close>

definition TCPBidirectional_runAcceptLoop ::
  "('l listener \<Rightarrow> 'c accept_turn list) \<Rightarrow> 'l \<Rightarrow> bidi \<Rightarrow> 'c bidi_state \<times> go_error option option" where
  "TCPBidirectional_runAcceptLoop sem l t =
     runBidirectionalAcceptLoop handleSocksError (sem (limit_listener (bd_base t) (Socket l))) (bd_base t)"

definition TCPBidirectional_handleAcceptError ::
  "go_error \<Rightarrow> int \<Rightarrow> bool \<Rightarrow> tunnel_base \<Rightarrow> tunnel_base \<times> int \<times> bool \<times> go_error option" where
  "TCPBidirectional_handleAcceptError err consecutive is_done b = HandleAcceptError err consecutive maxConsecutiveErrors is_done b"

definition wrapListener :: "http_config \<Rightarrow> tunnel_base \<Rightarrow> 'l listener \<Rightarrow> 'l listener" where
  "wrapListener serverConfig b l = limit_listener b (HttpInspect serverConfig l)"

definition HTTPBidirectional_runAcceptLoop ::
  "('l listener \<Rightarrow> 'c accept_turn list) \<Rightarrow> http_config \<Rightarrow> 'l \<Rightarrow> bidi \<Rightarrow> 'c bidi_state \<times> go_error option option" where
  "HTTPBidirectional_runAcceptLoop sem serverConfig l t =
     runBidirectionalAcceptLoop handleProxyError (sem (wrapListener serverConfig (bd_base t) (Socket l))) (bd_base t)"

definition HTTPBidirectional_handleAcceptError ::
  "go_error \<Rightarrow> int \<Rightarrow> bool \<Rightarrow> tunnel_base \<Rightarrow> tunnel_base \<times> int \<times> bool \<times> go_error option" where
  "HTTPBidirectional_handleAcceptError err consecutive is_done b = HandleAcceptError err consecutive maxConsecutiveErrors is_done b"

definition HTTPBidirectional_acceptOne ::
  "go_error + 'c \<Rightarrow> bool \<Rightarrow> 'c bidi_state \<Rightarrow> 'c bidi_state \<times> bool \<times> go_error option" where
  "HTTPBidirectional_acceptOne acc is_done s =
     (case s of (b, n, cs) \<Rightarrow>
        (case acc of
           Inl err \<Rightarrow>
             (case HTTPBidirectional_handleAcceptError err n is_done b of
                (b', n', cont, fatal) \<Rightarrow> ((b', n', cs), cont, fatal))
         | Inr con \<Rightarrow> ((b, 0, cs @ [con]), True, None)))"

lemma HTTPBidirectional_acceptOne_shared: "HTTPBidirectional_acceptOne = acceptOne"
  by (intro ext) (simp add: HTTPBidirectional_acceptOne_def HTTPBidirectional_handleAcceptError_def acceptOne_def split: prod.split sum.split)

section \<open>What passes an inspector\<close>

text \<open>The callbacks in the order of their registration, up to the first error.\<close>

fun run_callbacks :: "irc_filter list \<Rightarrow> irc_callback" where
  "run_callbacks [] msg m = (msg, m, None)"
| "run_callbacks (f # fs) msg m =
     (case if_Callback f msg m of
        (msg1, m1, Some err) \<Rightarrow> (msg1, m1, Some err)
      | (msg1, m1, None) \<Rightarrow> run_callbacks fs msg1 m1)"

type_synonym irc_inspect =
  "irc_config \<Rightarrow> irc_filter list \<Rightarrow> irc_message \<Rightarrow> tunnel_metrics option \<Rightarrow> irc_message option \<times> tunnel_metrics option"

text \<open>
  The documented behaviour of the inspector: a message whose \<open>OnMessage\<close> callback fails is
  dropped and nothing else is called for it; a message that gets through has been through
  the callbacks of its command, none of which failed. \<open>mt\<close> is how commands are compared.
\<close>

definition irc_inspector_law :: "(string \<Rightarrow> string \<Rightarrow> bool) \<Rightarrow> irc_inspect \<Rightarrow> bool" where
  "irc_inspector_law mt I \<longleftrightarrow>
     (\<forall>c. mt c c) \<and>
     (\<forall>cfg fs msg m m1 err. ic_OnMessage cfg msg m = (m1, Some err) \<longrightarrow> I cfg fs msg m = (None, m1)) \<and>
     (\<forall>cfg fs msg m msg' m'. I cfg fs msg m = (Some msg', m') \<longrightarrow>
        (\<exists>m1. run_callbacks (filter (\<lambda>f. mt (if_Command f) (Command msg)) fs) msg m1 = (msg', m', None)))"

text \<open>A connection accepted from an inspector is inspected with its configuration and its callbacks.\<close>

definition accepts_inspected ::
  "irc_inspect \<Rightarrow> ('l listener \<Rightarrow> 'c turn list) \<Rightarrow> ('c \<Rightarrow> irc_message \<Rightarrow> tunnel_metrics option \<Rightarrow> irc_message option \<times> tunnel_metrics option) \<Rightarrow> bool" where
  "accepts_inspected I sem deliver \<longleftrightarrow>
     (\<forall>cfg fs l. list_all (\<lambda>c. deliver c = I cfg fs) (accepts (sem (IrcInspect cfg fs l))))"

lemma dispatched_accepted:
  "accept_loop maxErrors ts n b = (b', n', cs, r) \<Longrightarrow> set cs \<subseteq> set (accepts ts)"
proof (induction ts arbitrary: n b b' n' cs r)
  case (Cons t ts)
  show ?case
  proof (cases "at_head t")
    case False
    obtain b1 n1 cs1 cont fatal where d: "acceptAndDispatch t n maxErrors b = (b1, n1, cs1, cont, fatal)" by (metis prod_cases5)
    then have cs1: "set cs1 \<subseteq> set (accepts [t])"
      by (auto simp: acceptAndDispatch_def accepts_def split: sum.splits prod.splits)
    show ?thesis
    proof (cases cont)
      case True
      obtain b2 n2 cs2 r2 where l: "accept_loop maxErrors ts n1 b1 = (b2, n2, cs2, r2)" by (metis prod_cases4)
      with Cons.prems False d True have "cs = cs1 @ cs2" by simp
      with cs1 Cons.IH [OF l] show ?thesis by (auto simp: accepts_def)
    next
      case False
      with Cons.prems \<open>\<not> at_head t\<close> d have "cs = cs1" by simp
      with cs1 show ?thesis by (auto simp: accepts_def)
    qed
  qed (use Cons.prems in simp)
qed simp

lemma dispatched_inspected:
  assumes "accepts_inspected I sem deliver" and "RunAcceptDispatch (sem (IrcInspect cfg fs l)) maxErrors b = (b', n, cs, r)"
    and "c \<in> set cs"
  shows "deliver c = I cfg fs"
  using assms dispatched_accepted [of maxErrors "sem (IrcInspect cfg fs l)" 0 b b' n cs r]
  by (auto simp: accepts_inspected_def RunAcceptDispatch_def list_all_iff)

lemma inspector_delivers:
  assumes "irc_inspector_law mt I" and "I cfg fs msg m = (Some msg', m')"
  obtains m1 where "snd (ic_OnMessage cfg msg m) = None"
    "run_callbacks (filter (\<lambda>f. mt (if_Command f) (Command msg)) fs) msg m1 = (msg', m', None)"
proof -
  have "snd (ic_OnMessage cfg msg m) = None"
    using assms unfolding irc_inspector_law_def by (cases "ic_OnMessage cfg msg m"; cases "snd (ic_OnMessage cfg msg m)") auto
  with assms that show ?thesis unfolding irc_inspector_law_def by blast
qed

text \<open>The callbacks that the two tunnels register.\<close>

definition server_rules :: "string \<Rightarrow> irc_filter list" where
  "server_rules A =
      [\<lparr>if_Command = ''JOIN'', if_Callback = pure_callback (server_JOIN_callback A)\<rparr>,
       \<lparr>if_Command = ''WHOIS'', if_Callback = pure_callback (server_WHOIS_callback A)\<rparr>]"

definition client_rules :: "string \<Rightarrow> irc_filter list" where
  "client_rules A =
      [\<lparr>if_Command = ''DCC'', if_Callback = (\<lambda>msg m. (msg, client_DCC_callback msg m))\<rparr>,
       \<lparr>if_Command = ''PING'', if_Callback = pure_callback (client_PING_callback A)\<rparr>,
       \<lparr>if_Command = ''USERHOST'', if_Callback = pure_callback (client_USERHOST_callback A)\<rparr>]"

lemma ApplyIRCServerFilterRules_rules: "ApplyIRCServerFilterRules A (IrcInspect cfg [] l) = IrcInspect cfg (server_rules A) l"
  by (simp add: ApplyIRCServerFilterRules_def server_rules_def)

lemma ApplyIRCClientFilterRules_rules: "ApplyIRCClientFilterRules A (IrcInspect cfg [] l) = IrcInspect cfg (client_rules A) l"
  by (simp add: ApplyIRCClientFilterRules_def addDCCFilter_def addPingFilter_def addUserhostFilter_def client_rules_def)

lemma server_callbacks:
  assumes "run_callbacks (filter (\<lambda>f. mt (if_Command f) (Command msg))
      (server_rules A)) msg m = (msg', m', None)"
    and "\<And>c. mt c c" and "A \<noteq> ''''"
  shows "Command msg' = Command msg \<and> Params msg' = Params msg \<and>
    (Command msg = ''JOIN'' \<longrightarrow> Prefix msg' = mask_userhost A (Prefix msg)) \<and>
    (Command msg = ''WHOIS'' \<longrightarrow> Trailing msg' = mask_userhost A (Trailing msg))"
proof -
  have nil: "mask_userhost A [] = []" by (simp add: mask_userhost.simps)
  show ?thesis using assms
    by (auto simp: server_rules_def pure_callback_def server_JOIN_callback_def server_WHOIS_callback_def nil split: if_splits)
qed

lemma Split_hd: "hd (Split s c) = takeWhile (\<lambda>d. d \<noteq> c) s"
  by (induction s) (auto split: list.split simp: neq_Nil_conv)

lemma Split_more: "1 < length (Split s c) \<longleftrightarrow> c \<in> set s"
proof (induction s)
  case (Cons x s)
  then show ?case by (cases "Split s c") auto
qed simp

lemma USERHOST_masks:
  assumes "A \<noteq> ''''" and "CHR ''@'' \<in> set (Trailing msg)"
  shows "client_USERHOST_callback A msg = msg\<lparr>Trailing := takeWhile (\<lambda>d. d \<noteq> CHR ''@'') (Trailing msg) @ ''@'' @ A\<rparr>"
  using assms Split_more [of "Trailing msg" "CHR ''@''"]
  by (auto simp: client_USERHOST_callback_def Let_def Split_hd hd_conv_nth [symmetric])

lemma client_callbacks:
  assumes "run_callbacks (filter (\<lambda>f. mt (if_Command f) (Command msg))
      (client_rules A)) msg m = (msg', m', None)"
    and "\<And>c. mt c c" and "A \<noteq> ''''"
  shows "Command msg' = Command msg \<and> Prefix msg' = Prefix msg \<and>
    (Command msg = ''PING'' \<and> Params msg \<noteq> [] \<longrightarrow> Params msg' = A # tl (Params msg)) \<and>
    (Command msg = ''USERHOST'' \<and> CHR ''@'' \<in> set (Trailing msg) \<longrightarrow>
       Trailing msg' = takeWhile (\<lambda>d. d \<noteq> CHR ''@'') (Trailing msg) @ ''@'' @ A)"
proof -
  let ?ping = "mt ''PING'' (Command msg)" and ?uh = "mt ''USERHOST'' (Command msg)"
  let ?p = "if ?ping then client_PING_callback A msg else msg"
  have "snd (client_DCC_callback msg m) \<noteq> None" by (simp add: client_DCC_callback_def split: option.split)
  then have msg': "msg' = (if ?uh then client_USERHOST_callback A ?p else ?p)"
    using assms(1) by (auto simp: client_rules_def pure_callback_def split: if_splits prod.splits option.splits)
  have ping: "Command ?p = Command msg" "Prefix ?p = Prefix msg" "Trailing ?p = Trailing msg"
    "Command msg = ''PING'' \<Longrightarrow> Params msg \<noteq> [] \<Longrightarrow> Params ?p = A # tl (Params msg)"
    using assms(2) [of "''PING''"] assms(3) by (auto simp: client_PING_callback_def neq_Nil_conv)
  have uh: "Command (client_USERHOST_callback A q) = Command q" "Prefix (client_USERHOST_callback A q) = Prefix q"
    "Params (client_USERHOST_callback A q) = Params q" for q
    by (simp_all add: client_USERHOST_callback_def Let_def)
  have "Command msg = ''USERHOST'' \<Longrightarrow> CHR ''@'' \<in> set (Trailing msg) \<Longrightarrow>
      Trailing msg' = takeWhile (\<lambda>d. d \<noteq> CHR ''@'') (Trailing msg) @ ''@'' @ A"
    using msg' USERHOST_masks [OF assms(3), of ?p] ping(3) assms(2) [of "''USERHOST''"] by simp
  with ping uh msg' show ?thesis by (cases ?uh) auto
qed

lemma server_passes:
  assumes law: "irc_inspector_law mt I" and "I (DefaultIRCServerConfigWithMetrics uu) (server_rules A) msg m = (Some msg', m')"
    and "A \<noteq> ''''"
  shows "ToUpper uu (Command msg) \<notin> {''ADMIN'', ''OPER'', ''DIE'', ''RESTART'', ''REHASH'', ''KILL'', ''DCC''} \<and>
      \<not> (ToUpper uu (Command msg) = ''PRIVMSG'' \<and> sublist ''DCC'' (ToUpper uu (Trailing msg))) \<and>
      Command msg' = Command msg \<and> Params msg' = Params msg \<and>
      (Command msg = ''JOIN'' \<longrightarrow> Prefix msg' = mask_userhost (A) (Prefix msg)) \<and>
      (Command msg = ''WHOIS'' \<longrightarrow> Trailing msg' = mask_userhost (A) (Trailing msg))"
proof -
  from law assms(2) obtain m1 where m1: "snd (ic_OnMessage (DefaultIRCServerConfigWithMetrics uu) msg m) = None"
    "run_callbacks (filter (\<lambda>f. mt (if_Command f) (Command msg)) (server_rules A)) msg m1 = (msg', m', None)"
    by (rule inspector_delivers)
  have mt: "mt x x" for x using law by (simp add: irc_inspector_law_def)
  have "snd (checkBlockedCommand uu msg m) = None" using m1(1) by (simp add: DefaultIRCServerConfigWithMetrics_def)
  then have "ToUpper uu (Command msg) \<notin> {''ADMIN'', ''OPER'', ''DIE'', ''RESTART'', ''REHASH'', ''KILL'', ''DCC''}"
    "\<not> (ToUpper uu (Command msg) = ''PRIVMSG'' \<and> sublist ''DCC'' (ToUpper uu (Trailing msg)))"
    by (auto simp: checkBlockedCommand_def Contains_sublist Let_def split: if_splits)
  with server_callbacks [OF m1(2) mt assms(3)] show ?thesis by simp
qed

lemma client_passes:
  assumes law: "irc_inspector_law mt I" and "I DefaultIRCClientConfig (client_rules A) msg m = (Some msg', m')"
    and "A \<noteq> ''''"
  shows "\<not> EqualFold (Command msg) ''DCC'' \<and>
      \<not> (EqualFold (Command msg) ''PRIVMSG'' \<and> sublist (ctcp_char # ''DCC'') (Trailing msg)) \<and>
      Command msg' = Command msg \<and> Prefix msg' = Prefix msg \<and>
      (Command msg = ''PING'' \<and> Params msg \<noteq> [] \<longrightarrow> Params msg' = A # tl (Params msg)) \<and>
      (Command msg = ''USERHOST'' \<and> CHR ''@'' \<in> set (Trailing msg) \<longrightarrow>
         Trailing msg' = takeWhile (\<lambda>d. d \<noteq> CHR ''@'') (Trailing msg) @ ''@'' @ A)"
proof -
  from law assms(2) obtain m1 where m1: "snd (ic_OnMessage DefaultIRCClientConfig msg m) = None"
    "run_callbacks (filter (\<lambda>f. mt (if_Command f) (Command msg)) (client_rules A)) msg m1 = (msg', m', None)"
    by (rule inspector_delivers)
  have mt: "mt x x" for x using law by (simp add: irc_inspector_law_def)
  have "\<not> EqualFold (Command msg) ''DCC''" "\<not> (EqualFold (Command msg) ''PRIVMSG'' \<and> sublist (ctcp_char # ''DCC'') (Trailing msg))"
    using m1(1) by (simp_all add: DefaultIRCClientConfig_def client_OnMessage_None)
  with client_callbacks [OF m1(2) mt assms(3)] show ?thesis by simp
qed

text \<open>
  C25: the IRC tunnels filter everything they forward. Whatever a listener accepts, if the
  inspector behaves as documented, a message that gets through a connection dispatched by
  the accept loop of an IRC server tunnel is none of the blocked commands and carries no
  DCC offer, and JOIN and WHOIS have every user host replaced by the I2P address of the
  tunnel; a message that gets through an IRC client tunnel is no DCC command and carries no
  CTCP DCC offer in upper case, PING carries the I2P address, and USERHOST the I2P address
  after the first at sign. (The tunnel has its keys, so that its address is not empty.)
\<close>
theorem irc_tunnels_filter:
  assumes law: "irc_inspector_law mt I" and acc: "accepts_inspected I sem deliver"
    and addr: "stream_Address t \<noteq> ''''" and msg: "deliver c msg m = (Some msg', m')"
  shows "(IRCServer_runAcceptLoop uu sem l t = (b, n, cs, r) \<and> c \<in> set cs \<longrightarrow>
      ToUpper uu (Command msg) \<notin> {''ADMIN'', ''OPER'', ''DIE'', ''RESTART'', ''REHASH'', ''KILL'', ''DCC''} \<and>
      \<not> (ToUpper uu (Command msg) = ''PRIVMSG'' \<and> sublist ''DCC'' (ToUpper uu (Trailing msg))) \<and>
      Command msg' = Command msg \<and> Params msg' = Params msg \<and>
      (Command msg = ''JOIN'' \<longrightarrow> Prefix msg' = mask_userhost (stream_Address t) (Prefix msg)) \<and>
      (Command msg = ''WHOIS'' \<longrightarrow> Trailing msg' = mask_userhost (stream_Address t) (Trailing msg))) \<and>
    (IRCClient_runAcceptLoop sem DefaultIRCClientConfig l t = (b, n, cs, r) \<and> c \<in> set cs \<longrightarrow>
      \<not> EqualFold (Command msg) ''DCC'' \<and>
      \<not> (EqualFold (Command msg) ''PRIVMSG'' \<and> sublist (ctcp_char # ''DCC'') (Trailing msg)) \<and>
      Command msg' = Command msg \<and> Prefix msg' = Prefix msg \<and>
      (Command msg = ''PING'' \<and> Params msg \<noteq> [] \<longrightarrow> Params msg' = stream_Address t # tl (Params msg)) \<and>
      (Command msg = ''USERHOST'' \<and> CHR ''@'' \<in> set (Trailing msg) \<longrightarrow>
         Trailing msg' = takeWhile (\<lambda>d. d \<noteq> CHR ''@'') (Trailing msg) @ ''@'' @ stream_Address t))"
proof (intro conjI [of "_ \<longrightarrow> _" "_ \<longrightarrow> _"] impI; elim conjE)
  assume run: "IRCServer_runAcceptLoop uu sem l t = (b, n, cs, r)" and c: "c \<in> set cs"
  have "deliver c = I (DefaultIRCServerConfigWithMetrics uu) (server_rules (stream_Address t))"
    by (rule dispatched_inspected [OF acc _ c])
      (use run in \<open>simp add: IRCServer_runAcceptLoop_def ApplyIRCServerFilterRules_rules IRCServer_Address_def Let_def\<close>)
  with msg have "I (DefaultIRCServerConfigWithMetrics uu) (server_rules (stream_Address t)) msg m = (Some msg', m')" by simp
  from server_passes [OF law this addr] show "ToUpper uu (Command msg) \<notin> {''ADMIN'', ''OPER'', ''DIE'', ''RESTART'', ''REHASH'', ''KILL'', ''DCC''} \<and>
      \<not> (ToUpper uu (Command msg) = ''PRIVMSG'' \<and> sublist ''DCC'' (ToUpper uu (Trailing msg))) \<and>
      Command msg' = Command msg \<and> Params msg' = Params msg \<and>
      (Command msg = ''JOIN'' \<longrightarrow> Prefix msg' = mask_userhost (stream_Address t) (Prefix msg)) \<and>
      (Command msg = ''WHOIS'' \<longrightarrow> Trailing msg' = mask_userhost (stream_Address t) (Trailing msg))" .
next
  assume run: "IRCClient_runAcceptLoop sem DefaultIRCClientConfig l t = (b, n, cs, r)" and c: "c \<in> set cs"
  have "deliver c = I DefaultIRCClientConfig (client_rules (stream_Address t))"
    by (rule dispatched_inspected [OF acc _ c])
      (use run in \<open>simp add: IRCClient_runAcceptLoop_def ApplyIRCClientFilterRules_rules IRCClient_Address_def Let_def\<close>)
  with msg have "I DefaultIRCClientConfig (client_rules (stream_Address t)) msg m = (Some msg', m')" by simp
  from client_passes [OF law this addr] show "\<not> EqualFold (Command msg) ''DCC'' \<and>
      \<not> (EqualFold (Command msg) ''PRIVMSG'' \<and> sublist (ctcp_char # ''DCC'') (Trailing msg)) \<and>
      Command msg' = Command msg \<and> Prefix msg' = Prefix msg \<and>
      (Command msg = ''PING'' \<and> Params msg \<noteq> [] \<longrightarrow> Params msg' = stream_Address t # tl (Params msg)) \<and>
      (Command msg = ''USERHOST'' \<and> CHR ''@'' \<in> set (Trailing msg) \<longrightarrow>
         Trailing msg' = takeWhile (\<lambda>d. d \<noteq> CHR ''@'') (Trailing msg) @ ''@'' @ stream_Address t)" .
qed

text \<open>An inspector that compares commands exactly, and a socket that accepts one connection, described by its listener.\<close>

definition exact_inspect :: irc_inspect where
  "exact_inspect cfg fs msg m =
     (case ic_OnMessage cfg msg m of
        (m1, Some err) \<Rightarrow> (None, m1)
      | (m1, None) \<Rightarrow>
          (case run_callbacks (filter (\<lambda>f. if_Command f = Command msg) fs) msg m1 of
             (msg1, m2, Some err) \<Rightarrow> (None, m2)
           | (msg1, m2, None) \<Rightarrow> (Some msg1, m2)))"

lemma exact_inspect_law: "irc_inspector_law (=) exact_inspect"
  by (auto simp: irc_inspector_law_def exact_inspect_def split: prod.splits option.splits)

definition one_accept :: "unit listener \<Rightarrow> unit listener turn list" where
  "one_accept l = [\<lparr>at_head = False, accepted = Inr l, at_error = False\<rparr>]"

fun deliver_through :: "unit listener \<Rightarrow> irc_message \<Rightarrow> tunnel_metrics option \<Rightarrow> irc_message option \<times> tunnel_metrics option" where
  "deliver_through (IrcInspect cfg fs l) msg m = exact_inspect cfg fs msg m"
| "deliver_through l msg m = (Some msg, m)"

lemma one_accept_inspected: "accepts_inspected exact_inspect one_accept deliver_through"
  by (simp add: accepts_inspected_def one_accept_def accepts_def fun_eq_iff)

definition ping_message :: irc_message where
  "ping_message = \<lparr>Prefix = [], Command = ''PING'', Params = [''home.example''], Trailing = []\<rparr>"

lemma irc_tunnels_filter_witness:
  "\<exists>b n c r msg'. IRCClient_runAcceptLoop one_accept DefaultIRCClientConfig () example_stream = (b, n, [c], r) \<and>
     deliver_through c ping_message None = (Some msg', None) \<and> Params msg' = [stream_Address example_stream]"
proof -
  let ?A = "stream_Address example_stream"
  define c where "c = IrcInspect DefaultIRCClientConfig (client_rules ?A) (limit_listener (st_base example_stream) (Socket ()))"
  have addr: "?A \<noteq> ''''" by (simp add: example_stream_def stream_Address_def)
  obtain b n r where run: "IRCClient_runAcceptLoop one_accept DefaultIRCClientConfig () example_stream = (b, n, [c], r)"
    by (simp add: IRCClient_runAcceptLoop_def ApplyIRCClientFilterRules_rules IRCClient_Address_def c_def one_accept_def
        RunAcceptDispatch_def acceptAndDispatch_def Let_def)
  have "\<not> EqualFold ''PING'' ''DCC''" "\<not> EqualFold ''PING'' ''PRIVMSG''" by code_simp+
  then have "client_OnMessage ping_message = None" by (simp add: client_OnMessage_None ping_message_def)
  then obtain msg' where msg: "deliver_through c ping_message None = (Some msg', None)"
    by (simp add: c_def exact_inspect_def DefaultIRCClientConfig_def client_rules_def ping_message_def pure_callback_def)
  from irc_tunnels_filter [OF exact_inspect_law one_accept_inspected addr msg, of "\<lambda>s. s" "()" b n "[c]" r] run msg
  show ?thesis by (auto simp: ping_message_def)
qed

text \<open>
  The client tunnel never counts a blocked message: its \<open>OnMessage\<close> has no metrics, and it
  refuses every message that the counting callback for DCC is registered for.
\<close>

lemma client_block_uncounted:
  assumes "irc_inspector_law mt I" and "client_OnMessage msg \<noteq> None"
  shows "I DefaultIRCClientConfig fs msg m = (None, m)"
proof -
  obtain err where "client_OnMessage msg = Some err" using assms(2) by blast
  then have "ic_OnMessage DefaultIRCClientConfig msg m = (m, Some err)" by (simp add: DefaultIRCClientConfig_def)
  with assms(1) show ?thesis unfolding irc_inspector_law_def by blast
qed

lemma client_refuses_DCC: "EqualFold (Command msg) ''DCC'' \<Longrightarrow> client_OnMessage msg \<noteq> None"
  by (simp add: client_OnMessage_def)

section \<open>What passes an HTTP inspector\<close>

text \<open>
  A connection accepted from an HTTP inspector hands on requests and responses as the two
  callbacks leave them; a limiter hands on connections of the listener below it.
\<close>

record 'c http_delivery =
  hd_request :: "'c \<Rightarrow> string option \<Rightarrow> headers \<Rightarrow> headers"
  hd_response :: "'c \<Rightarrow> headers \<Rightarrow> headers"

definition filtered_by :: "'c http_delivery \<Rightarrow> http_config \<Rightarrow> 'c \<Rightarrow> bool" where
  "filtered_by D cfg c \<longleftrightarrow> hd_request D c = hc_OnRequest cfg \<and> hd_response D c = hc_OnResponse cfg"

definition http_listeners_law :: "'c http_delivery \<Rightarrow> ('l listener \<Rightarrow> 'c list) \<Rightarrow> bool" where
  "http_listeners_law D conns \<longleftrightarrow>
     (\<forall>cfg l. list_all (filtered_by D cfg) (conns (HttpInspect cfg l))) \<and>
     (\<forall>n r l. set (conns (Limited n r l)) \<subseteq> set (conns l))"

definition bidi_accepts :: "'c accept_turn list \<Rightarrow> 'c list" where
  "bidi_accepts ts = concat (map (\<lambda>t. case t of BAccept (Inr c) d \<Rightarrow> [c] | _ \<Rightarrow> []) ts)"

lemma bidi_dispatched:
  "run_loop (accept_turn_step onExit) ts (b, n, cs) = ((b', n', cs'), r) \<Longrightarrow> set cs' \<subseteq> set cs \<union> set (bidi_accepts ts)"
proof (induction ts arbitrary: b n cs)
  case (Cons t ts)
  obtain b1 n1 cs1 cont fatal where st: "accept_turn_step onExit t (b, n, cs) = ((b1, n1, cs1), cont, fatal)" by (metis prod.exhaust)
  then have cs1: "set cs1 \<subseteq> set cs \<union> set (bidi_accepts [t])"
    by (cases t) (auto simp: accept_turn_step_def acceptOne_def bidi_accepts_def split: sum.splits prod.splits)
  show ?case
  proof (cases cont)
    case True
    with Cons.prems st have "run_loop (accept_turn_step onExit) ts (b1, n1, cs1) = ((b', n', cs'), r)" by simp
    from Cons.IH [OF this] cs1 show ?thesis by (auto simp: bidi_accepts_def)
  next
    case False
    with Cons.prems st have "cs' = cs1" by simp
    with cs1 show ?thesis by (auto simp: bidi_accepts_def)
  qed
qed (simp add: bidi_accepts_def)

text \<open>
  C26: the HTTP server tunnel and the inbound side of the HTTP bidirectional tunnel filter
  everything they forward, although the one limits below the inspector and the other above
  it. If the listeners behave as documented, a request that gets through a dispatched
  connection has none of the client-revealing headers, a Referer only of the same origin,
  and otherwise the headers it had; a response has none of the fingerprinting headers and
  carries the framing and content-type options.
\<close>
theorem http_tunnels_filter:
  assumes server: "http_listeners_law D (\<lambda>l. accepts (sem l))" and bidi: "http_listeners_law D (\<lambda>l. bidi_accepts (bsem l))"
    and run: "HTTPServer_runAcceptLoop sem (DefaultHTTPServerConfig parse) l t = (b, n, cs, r) \<or>
      HTTPBidirectional_runAcceptLoop bsem (DefaultHTTPServerConfig parse) l d = ((b, n, cs), r)"
    and c: "c \<in> set cs"
  shows "(CanonicalHeaderKey k \<in> set server_stripped \<longrightarrow> Header_Get k (hd_request D c url h) = '''') \<and>
    (Header_Get ''Referer'' (hd_request D c url h) \<noteq> '''' \<and> url \<noteq> None \<longrightarrow>
       isSameOrigin parse (Header_Get ''Referer'' (hd_request D c url h)) (the url)) \<and>
    (CanonicalHeaderKey k \<notin> set server_stripped \<and> CanonicalHeaderKey k \<noteq> ''Referer'' \<longrightarrow>
       Header_Get k (hd_request D c url h) = Header_Get k h) \<and>
    (CanonicalHeaderKey k \<in> set response_stripped \<longrightarrow> Header_Get k (hd_response D c h) = '''') \<and>
    Header_Get ''X-Frame-Options'' (hd_response D c h) \<noteq> '''' \<and> Header_Get ''X-Content-Type-Options'' (hd_response D c h) \<noteq> ''''"
proof -
  let ?cfg = "DefaultHTTPServerConfig parse"
  have "filtered_by D ?cfg c"
    using run
  proof
    assume "HTTPServer_runAcceptLoop sem ?cfg l t = (b, n, cs, r)"
    then have "c \<in> set (accepts (sem (HttpInspect ?cfg (limit_listener (st_base t) (Socket l)))))"
      using c dispatched_accepted [of maxConsecutiveErrors _ 0 "st_base t" b n cs r]
      by (auto simp: HTTPServer_runAcceptLoop_def RunAcceptDispatch_def)
    with server show ?thesis unfolding http_listeners_law_def list_all_iff by blast
  next
    assume "HTTPBidirectional_runAcceptLoop bsem ?cfg l d = ((b, n, cs), r)"
    then have "c \<in> set (bidi_accepts (bsem (limit_listener (bd_base d) (HttpInspect ?cfg (Socket l)))))"
      using c bidi_dispatched [of handleProxyError _ "bd_base d" 0 "[]" b n cs r]
      by (auto simp: HTTPBidirectional_runAcceptLoop_def runBidirectionalAcceptLoop_def wrapListener_def)
    with bidi have "c \<in> set (bidi_accepts (bsem (HttpInspect ?cfg (Socket l))))"
      unfolding http_listeners_law_def limit_listener_def by blast
    with bidi show ?thesis unfolding http_listeners_law_def list_all_iff by blast
  qed
  then have D: "hd_request D c = defaultHTTPServerRequestFilter parse" "hd_response D c = defaultHTTPServerResponseFilter"
    by (simp_all add: filtered_by_def DefaultHTTPServerConfig_def)
  have ref: "gm_get (fold Header_Del server_headersToRemove h) ''Referer'' = gm_get h ''Referer''" by simp
  then have referer: "Header_Get ''Referer'' (hd_request D c url h) \<noteq> '''' \<Longrightarrow> url \<noteq> None \<Longrightarrow>
      isSameOrigin parse (Header_Get ''Referer'' (hd_request D c url h)) (the url)"
    unfolding D by (auto simp: defaultHTTPServerRequestFilter_def Let_def Header_Get_def Header_Del_def split: option.splits if_splits)
  have "Header_Get ''X-Frame-Options'' (hd_response D c h) \<noteq> ''''" "Header_Get ''X-Content-Type-Options'' (hd_response D c h) \<noteq> ''''"
    unfolding D by (auto simp: defaultHTTPServerResponseFilter_def Let_def Header_Get_def Header_Set_def split: if_splits)
  with referer show ?thesis
    unfolding D using server_filter.strips_any_spelling server_filter.passes_any_spelling response_filter.strips_any_spelling
    by auto
qed

text \<open>A socket that accepts one connection, described by the listener below the limiters.\<close>

fun below_limits :: "unit listener \<Rightarrow> unit listener" where
  "below_limits (Limited n r l) = below_limits l"
| "below_limits l = l"

fun http_config_of :: "unit listener \<Rightarrow> http_config" where
  "http_config_of (HttpInspect cfg l) = cfg"
| "http_config_of l = \<lparr>hc_OnRequest = (\<lambda>url h. h), hc_OnResponse = (\<lambda>h. h)\<rparr>"

definition plain_delivery :: "unit listener http_delivery" where
  "plain_delivery = \<lparr>hd_request = (\<lambda>c. hc_OnRequest (http_config_of c)), hd_response = (\<lambda>c. hc_OnResponse (http_config_of c))\<rparr>"

lemma http_tunnels_filter_witness:
  "\<exists>b n c r. HTTPBidirectional_runAcceptLoop (\<lambda>l. [BAccept (Inr (below_limits l)) False]) (DefaultHTTPServerConfig (\<lambda>s. None)) ()
       \<lparr>bd_stream = example_stream, bd_proxy = None\<rparr> = ((b, n, [c]), r) \<and>
     Header_Get ''cf-ipcountry'' (hd_request plain_delivery c None [(''Cf-Ipcountry'', [''DE''])]) = ''''"
proof -
  let ?cfg = "DefaultHTTPServerConfig (\<lambda>s. None)" and ?bsem = "\<lambda>l. [BAccept (Inr (below_limits l)) False]"
  let ?sem = "\<lambda>l. one_accept (below_limits l)"
  let ?d = "\<lparr>bd_stream = example_stream, bd_proxy = None\<rparr>"
  have filt: "filtered_by plain_delivery cfg (HttpInspect cfg l)" for cfg l
    by (simp add: filtered_by_def plain_delivery_def)
  have server: "http_listeners_law plain_delivery (\<lambda>l. accepts (?sem l))"
    by (simp add: http_listeners_law_def filt one_accept_def accepts_def)
  have bidi: "http_listeners_law plain_delivery (\<lambda>l. bidi_accepts (?bsem l))"
    by (simp add: http_listeners_law_def filt bidi_accepts_def)
  obtain b n r where run: "HTTPBidirectional_runAcceptLoop ?bsem ?cfg () ?d = ((b, n, [HttpInspect ?cfg (Socket ())]), r)"
    by (simp add: HTTPBidirectional_runAcceptLoop_def runBidirectionalAcceptLoop_def wrapListener_def limit_listener_def
        accept_turn_step_def acceptOne_def)
  have "CanonicalHeaderKey ''cf-ipcountry'' \<in> set server_stripped" by code_simp
  with http_tunnels_filter [OF server bidi disjI2 [OF run], of "HttpInspect ?cfg (Socket ())" "''cf-ipcountry''" None] run
  show ?thesis by auto
qed

section \<open>The loops inside Start\<close>

text \<open>
  \<open>Start\<close> of the IRC tunnels, given the turns of the listener that its \<open>runAcceptLoop\<close>
  builds, dispatches what \<open>runAcceptLoop\<close> dispatches on the running tunnel.
\<close>

definition running_stream :: "64 word \<Rightarrow> stream_tunnel \<Rightarrow> stream_tunnel" where
  "running_stream now t =
     (let t1 = fst (stream_bind None t) in t1\<lparr>st_base := upd_metrics (RecordStart now) (SetStatus StatusRunning (st_base t1))\<rparr>)"

lemma running_stream_same:
  "stream_Address (running_stream now t) = stream_Address t"
  "limit_listener (st_base (running_stream now t)) = limit_listener (st_base t)"
  by (simp_all add: running_stream_def stream_bind_def stream_Address_def limit_listener_def Let_def fun_eq_iff)

lemma stream_Start_loop:
  assumes "RunAcceptDispatch ts maxErrors (st_base (running_stream now t)) = (b, n, cs, r)"
  shows "\<exists>t'. stream_Start None maxErrors now ts t = (t', cs, r)"
  using assms by (cases r) (auto simp: stream_Start_def stream_bind_def stream_serve_def running_stream_def Let_def)

lemma IRCServer_Start_loop:
  assumes "IRCServer_runAcceptLoop uu sem l (running_stream now t) = (b, n, cs, r)"
  shows "\<exists>t'. IRCServer_Start None now
    (sem (IrcInspect (DefaultIRCServerConfigWithMetrics uu) (server_rules (stream_Address t)) (limit_listener (st_base t) (Socket l)))) t = (t', cs, r)"
  using stream_Start_loop [of "sem (IrcInspect (DefaultIRCServerConfigWithMetrics uu) (server_rules (stream_Address t))
      (limit_listener (st_base t) (Socket l)))" maxConsecutiveErrors now t b n cs r] assms
  by (simp add: IRCServer_Start_def IRCServer_runAcceptLoop_def IRCServer_Address_def ApplyIRCServerFilterRules_rules
      running_stream_same Let_def)

lemma IRCClient_Start_loop:
  assumes "IRCClient_runAcceptLoop sem cfg l (running_stream now t) = (b, n, cs, r)" and "listen (stream_LocalAddress t) = None"
  shows "\<exists>t'. IRCClient_Start listen now
    (sem (IrcInspect cfg (client_rules (stream_Address t)) (limit_listener (st_base t) (Socket l)))) t = (t', cs, r)"
  using stream_Start_loop [of "sem (IrcInspect cfg (client_rules (stream_Address t))
      (limit_listener (st_base t) (Socket l)))" maxConsecutiveErrors now t b n cs r] assms
  by (simp add: IRCClient_Start_def IRCClient_runAcceptLoop_def IRCClient_Address_def ApplyIRCClientFilterRules_rules
      running_stream_same Let_def)

end
