(* ===== verification/OutboundProxy.thy ===== *)
theory OutboundProxy
  imports HttpClient ListenerStacks
begin

text \<open>
  The outbound HTTP proxies: how \<open>HTTPClient.Start\<close> and \<open>HTTPBidirectional.startHTTPProxy\<close>
  put together the listener, the dialers and the proxy library, and what a request can
  reveal on its way through. The proxy library (\<open>goproxy\<close>) is a parameter that serves one
  request on a connection of its listener; its law says which dialer it calls and what it
  forwards. A dialed connection that the library keeps for a later request to the same
  address counts as dialed again.
\<close>

section \<open>The proxies\<close>

text \<open>A dialer has the clock before and after the call and the state of its tunnel.\<close>

type_synonym ('s, 'c) dialer = "int \<Rightarrow> int \<Rightarrow> string \<Rightarrow> 's \<Rightarrow> 's \<times> (go_error + 'c)"

record ('l, 's, 'c) proxy_server =
  px_Listener :: "'l listener"
  px_DialContext :: "('s, 'c) dialer"
  px_ConnectDial :: "('s, 'c) dialer option"

definition HTTPClient_DialContext ::
  "(string \<Rightarrow> string) \<Rightarrow> (string \<Rightarrow> go_error option) \<Rightarrow> ('cl \<Rightarrow> string \<Rightarrow> go_error + jump_response) \<Rightarrow>
   (string \<Rightarrow> go_error + 'c) \<Rightarrow> ('cl http_client, 'c) dialer" where
  "HTTPClient_DialContext ul newRequest doRequest garlic now later addr h =
     (case DialContext ul newRequest doRequest garlic now later (hc_outproxy h) (hc_jump h) addr of
        (jump', r) \<Rightarrow> (h\<lparr>hc_jump := jump'\<rparr>, r))"

definition HTTPClient_proxy ::
  "(string \<Rightarrow> string) \<Rightarrow> (string \<Rightarrow> go_error option) \<Rightarrow> ('cl \<Rightarrow> string \<Rightarrow> go_error + jump_response) \<Rightarrow>
   (string \<Rightarrow> go_error + 'c) \<Rightarrow> http_config \<Rightarrow> 'l \<Rightarrow> ('l, 'cl http_client, 'c) proxy_server" where
  "HTTPClient_proxy ul newRequest doRequest garlic cfg l =
     \<lparr>px_Listener = HttpInspect cfg (Socket l),
      px_DialContext = HTTPClient_DialContext ul newRequest doRequest garlic,
      px_ConnectDial = Some (connectDial ul newRequest doRequest garlic)\<rparr>"

definition HTTPBidirectional_DialContext ::
  "(string \<Rightarrow> string) \<Rightarrow> (string \<Rightarrow> go_error option) \<Rightarrow> ('cl \<Rightarrow> string \<Rightarrow> go_error + jump_response) \<Rightarrow>
   (string \<Rightarrow> go_error + 'c) \<Rightarrow> ('cl http_bidi, 'c) dialer" where
  "HTTPBidirectional_DialContext ul newRequest doRequest garlic now later addr h =
     (case bidi_DialContext ul newRequest doRequest garlic now later (hb_outproxy h) (hb_jump h) addr of
        (jump', r) \<Rightarrow> (h\<lparr>hb_jump := jump'\<rparr>, r))"

text \<open>This proxy has no dialer of its own for CONNECT requests.\<close>

definition HTTPBidirectional_proxy ::
  "(string \<Rightarrow> string) \<Rightarrow> (string \<Rightarrow> go_error option) \<Rightarrow> ('cl \<Rightarrow> string \<Rightarrow> go_error + jump_response) \<Rightarrow>
   (string \<Rightarrow> go_error + 'c) \<Rightarrow> http_config \<Rightarrow> 'l \<Rightarrow> ('l, 'cl http_bidi, 'c) proxy_server" where
  "HTTPBidirectional_proxy ul newRequest doRequest garlic cfg l =
     \<lparr>px_Listener = HttpInspect cfg (Socket l),
      px_DialContext = HTTPBidirectional_DialContext ul newRequest doRequest garlic,
      px_ConnectDial = None\<rparr>"

section \<open>The library\<close>

text \<open>
  A plain request has a URL, headers and the address of its host; a CONNECT request only an
  address, and what follows is opaque.
\<close>

datatype proxied = Plain "string option" headers string | Connect string

datatype 'c proxy_outcome = Forwarded 'c headers | Tunnelled 'c | ProxyRefused go_error

type_synonym ('l, 's, 'c, 'k) proxy_lib =
  "('l, 's, 'c) proxy_server \<Rightarrow> int \<Rightarrow> int \<Rightarrow> 'k \<Rightarrow> proxied \<Rightarrow> 's \<Rightarrow> 's \<times> 'c proxy_outcome"

fun serve_proxied :: "'k http_delivery \<Rightarrow> ('l, 's, 'c, 'k) proxy_lib" where
  "serve_proxied D P now later k (Plain url h addr) s =
     (case px_DialContext P now later addr s of
        (s', Inl err) \<Rightarrow> (s', ProxyRefused err)
      | (s', Inr conn) \<Rightarrow> (s', Forwarded conn (hd_request D k url h)))"
| "serve_proxied D P now later k (Connect addr) s =
     (case (case px_ConnectDial P of Some d \<Rightarrow> d | None \<Rightarrow> px_DialContext P) now later addr s of
        (s', Inl err) \<Rightarrow> (s', ProxyRefused err)
      | (s', Inr conn) \<Rightarrow> (s', Tunnelled conn))"

text \<open>
  The law: the library calls the dialer it was given for the kind of request (for CONNECT
  that of the transport, if it has no other), and forwards plain requests with the headers
  that the connection delivers.
\<close>

definition proxy_law :: "'k http_delivery \<Rightarrow> ('l, 's, 'c, 'k) proxy_lib \<Rightarrow> bool" where
  "proxy_law D lib \<longleftrightarrow> (\<forall>P now later k q s. lib P now later k q s = serve_proxied D P now later k q s)"

fun target_addr :: "proxied \<Rightarrow> string" where
  "target_addr (Plain url h addr) = addr"
| "target_addr (Connect addr) = addr"

fun dialed :: "'c proxy_outcome \<Rightarrow> 'c option" where
  "dialed (Forwarded conn h) = Some conn"
| "dialed (Tunnelled conn) = Some conn"
| "dialed (ProxyRefused err) = None"

section \<open>What an outbound request reveals\<close>

text \<open>
  The connection for an address: an I2P name is dialed over I2P, under the address itself or
  the one the jump service knows; for any other host the dialed address is that of the
  active outproxy.
\<close>

definition anonymous_route ::
  "(string \<Rightarrow> string) \<Rightarrow> (string \<Rightarrow> go_error option) \<Rightarrow> ('cl \<Rightarrow> string \<Rightarrow> go_error + jump_response) \<Rightarrow> (string \<Rightarrow> go_error + 'c) \<Rightarrow>
   int \<Rightarrow> int \<Rightarrow> outproxy option \<Rightarrow> 'cl jump_service option \<Rightarrow> string \<Rightarrow> 'c \<Rightarrow> bool" where
  "anonymous_route ul nr dr garlic now later outproxy jump addr conn \<longleftrightarrow>
     (if IsI2PAddress ul (dial_host addr)
      then garlic (snd (resolveJumpSnapshot ul nr dr now later jump addr)) = Inr conn
      else \<exists>p. outproxy = Some p \<and> IsActive outproxy \<and> garlic (outproxy_addr p) = Inr conn)"

text \<open>The headers of a request after the filter, compared with those before.\<close>

definition anonymous_headers :: "headers \<Rightarrow> headers \<Rightarrow> bool" where
  "anonymous_headers h h' \<longleftrightarrow>
     (\<forall>k. (CanonicalHeaderKey k \<in> set client_stripped \<longrightarrow> Header_Get k h' = '''') \<and>
          (CanonicalHeaderKey k \<notin> set client_stripped \<and> CanonicalHeaderKey k \<noteq> ''User-Agent'' \<longrightarrow> Header_Get k h' = Header_Get k h)) \<and>
     Header_Get ''User-Agent'' h' \<noteq> ''''"

lemma client_filter_anonymous: "anonymous_headers h (defaultHTTPClientRequestFilter h)"
proof -
  have "gm_get (fold Header_Del client_headersToRemove h) ''User-Agent'' = gm_get h ''User-Agent''" by simp
  then have "Header_Get ''User-Agent'' (defaultHTTPClientRequestFilter h) \<noteq> ''''"
    by (auto simp: defaultHTTPClientRequestFilter_def Let_def Header_Get_def Header_Set_def default_user_agent_def)
  then show ?thesis
    unfolding anonymous_headers_def using client_filter.strips_any_spelling client_filter.passes_any_spelling by auto
qed

text \<open>What a request of one of the clients may come to: \<open>route\<close> judges the connection for an address.\<close>

definition anonymous_outcome :: "(string \<Rightarrow> 'c \<Rightarrow> bool) \<Rightarrow> proxied \<Rightarrow> 'c proxy_outcome \<Rightarrow> bool" where
  "anonymous_outcome route q outcome \<longleftrightarrow>
     (case outcome of
        ProxyRefused err \<Rightarrow> True
      | Tunnelled conn \<Rightarrow> (case q of Connect addr \<Rightarrow> route addr conn | Plain url h addr \<Rightarrow> False)
      | Forwarded conn h' \<Rightarrow> (case q of Plain url h addr \<Rightarrow> route addr conn \<and> anonymous_headers h h' | Connect addr \<Rightarrow> False))"

text \<open>
  The contract that a tunnel's proxy keeps towards the library: both of its dialers route
  anonymously, given the outproxy and the jump service that the tunnel has at that moment.
\<close>

locale anonymizing_proxy =
  fixes proxy :: "'l \<Rightarrow> ('l, 's, 'c) proxy_server"
    and route :: "int \<Rightarrow> int \<Rightarrow> 's \<Rightarrow> string \<Rightarrow> 'c \<Rightarrow> bool"
  assumes listens: "px_Listener (proxy l) = HttpInspect DefaultHTTPClientConfig (Socket l)"
    and dials: "px_DialContext (proxy l) now later addr s = (s', Inr conn) \<Longrightarrow> route now later s addr conn"
    and connects: "px_ConnectDial (proxy l) = Some d \<Longrightarrow> d now later addr s = (s', Inr conn) \<Longrightarrow> route now later s addr conn"
begin

lemma anonymous:
  assumes "http_listeners_law D conns" and "k \<in> set (conns (px_Listener (proxy l)))" and "proxy_law D lib"
  shows "anonymous_outcome (route now later s) q (snd (lib (proxy l) now later k q s))"
proof -
  have "filtered_by D DefaultHTTPClientConfig k"
    using assms(1,2) unfolding http_listeners_law_def listens list_all_iff by blast
  then have hd: "hd_request D k url h = defaultHTTPClientRequestFilter h" for url h
    by (simp add: filtered_by_def DefaultHTTPClientConfig_def)
  have lib: "lib (proxy l) now later k q s = serve_proxied D (proxy l) now later k q s" for q using assms(3) by (simp add: proxy_law_def)
  show ?thesis
  proof (cases q)
    case (Plain url h addr)
    obtain s' r where d: "px_DialContext (proxy l) now later addr s = (s', r)" by fastforce
    with dials [of l now later addr s s'] client_filter_anonymous [of h] show ?thesis
      by (cases r) (simp_all add: lib Plain anonymous_outcome_def hd)
  next
    case (Connect addr)
    obtain s' r where d: "(case px_ConnectDial (proxy l) of Some d \<Rightarrow> d | None \<Rightarrow> px_DialContext (proxy l)) now later addr s = (s', r)"
      by fastforce
    have "route now later s addr conn" if "r = Inr conn" for conn
      using d that dials [of l now later addr s s' conn] connects [of l _ now later addr s s' conn] by (auto split: option.splits)
    with d show ?thesis by (cases r) (simp_all add: lib Connect anonymous_outcome_def)
  qed
qed

end

section \<open>The two tunnels\<close>

lemma outproxy_route:
  "dialOutproxySnapshot garlic outproxy addr = Inr conn \<Longrightarrow> \<exists>p. outproxy = Some p \<and> IsActive outproxy \<and> garlic (outproxy_addr p) = Inr conn"
  by (auto simp: dialOutproxySnapshot_def split: option.splits if_splits sum.splits)

lemma bidi_outproxy_route:
  "bidi_dialOutproxy garlic outproxy addr = Inr conn \<Longrightarrow> \<exists>p. outproxy = Some p \<and> IsActive outproxy \<and> garlic (outproxy_addr p) = Inr conn"
  using bidi_dialOutproxy_active [of outproxy garlic addr] outproxy_route [of garlic outproxy addr conn]
  by (cases "IsActive outproxy") (auto simp: bidi_dialOutproxy_def split: option.splits)

lemma DialContext_route:
  "DialContext ul nr dr garlic now later outproxy jump addr = (jump', Inr conn) \<Longrightarrow>
     anonymous_route ul nr dr garlic now later outproxy jump addr conn"
  by (auto simp: DialContext_def anonymous_route_def dest: outproxy_route split: if_splits prod.splits)

lemma bidi_DialContext_route:
  "bidi_DialContext ul nr dr garlic now later outproxy jump addr = (jump', Inr conn) \<Longrightarrow>
     anonymous_route ul nr dr garlic now later outproxy jump addr conn"
  by (auto simp: bidi_DialContext_def bidi_resolveJump_eq anonymous_route_def dest: bidi_outproxy_route split: if_splits prod.splits)

lemma connectDial_route:
  "connectDial ul nr dr garlic now later addr h = (h', Inr conn) \<Longrightarrow>
     anonymous_route ul nr dr garlic now later (hc_outproxy h) (hc_jump h) addr conn"
  by (auto simp: connectDial_def Let_def anonymous_route_def dest: outproxy_route split: if_splits prod.splits sum.splits)

interpretation client_out: anonymizing_proxy "HTTPClient_proxy ul nr dr garlic DefaultHTTPClientConfig"
  "\<lambda>now later h. anonymous_route ul nr dr garlic now later (hc_outproxy h) (hc_jump h)" for ul nr dr garlic
  by unfold_locales
    (auto simp: HTTPClient_proxy_def HTTPClient_DialContext_def intro: DialContext_route connectDial_route split: prod.splits)

interpretation bidi_out: anonymizing_proxy "HTTPBidirectional_proxy ul nr dr garlic DefaultHTTPClientConfig"
  "\<lambda>now later h. anonymous_route ul nr dr garlic now later (hb_outproxy h) (hb_jump h)" for ul nr dr garlic
  by unfold_locales
    (auto simp: HTTPBidirectional_proxy_def HTTPBidirectional_DialContext_def intro: bidi_DialContext_route split: prod.splits)

section \<open>The life of an HTTP client\<close>

text \<open>Requests on connections of the listener and changes of the options, in any order.\<close>

datatype 'k client_event = Reconfigure options | Ask int int 'k proxied

fun client_event_step ::
  "(string \<Rightarrow> string) \<Rightarrow> 'cl \<Rightarrow> ('l, 'cl http_client, 'c, 'k) proxy_lib \<Rightarrow> ('l, 'cl http_client, 'c) proxy_server \<Rightarrow>
   'k client_event \<Rightarrow> 'cl http_client \<Rightarrow> 'cl http_client" where
  "client_event_step ul defaultClient lib P (Reconfigure opts) h = fst (HTTPClient_SetOptions ul defaultClient opts h)"
| "client_event_step ul defaultClient lib P (Ask now later k q) h = fst (lib P now later k q h)"

lemma serve_keeps_outproxy:
  assumes "proxy_law D lib" and "P = HTTPClient_proxy ul nr dr garlic cfg l"
  shows "hc_outproxy (fst (lib P now later k q h)) = hc_outproxy h"
proof -
  have "lib P now later k q h = serve_proxied D P now later k q h" using assms(1) by (simp add: proxy_law_def)
  then show ?thesis
    by (cases q)
      (auto simp: assms(2) HTTPClient_proxy_def HTTPClient_DialContext_def connectDial_def Let_def split: prod.split sum.split)
qed

lemma client_events_outproxy:
  assumes "proxy_law D lib" and "P = HTTPClient_proxy ul nr dr garlic cfg l"
  shows "outproxy_ok ul (hc_outproxy h) \<Longrightarrow> outproxy_ok ul (hc_outproxy (fold (client_event_step ul dc lib P) evs h))"
proof (induction evs arbitrary: h)
  case (Cons ev evs)
  have "outproxy_ok ul (hc_outproxy (client_event_step ul dc lib P ev h))"
    using Cons.prems SetOptions_outproxy_ok serve_keeps_outproxy [OF assms] by (cases ev) simp_all
  with Cons.IH show ?case by simp
qed simp

lemma New_outproxy_ok: "NewHTTPClient newGarlic dc jc config = Inr h \<Longrightarrow> outproxy_ok ul (hc_outproxy h)"
  by (auto simp: NewHTTPClient_def rbind_Inr_iff outproxy_ok_def)


definition one_conn :: "unit listener \<Rightarrow> unit listener list" where
  "one_conn l = [below_limits l]"

definition ask_plain :: proxied where
  "ask_plain = Plain None [(''X-Real-Ip'', [''10.0.0.1''])] ''example.com:80''"


end
