(* ===== verification/LifecycleRuns.thy ===== *)
theory LifecycleRuns
  imports TcpClient
begin

text \<open>
  The sequential operations of the stream tunnels and the TCP client, as the other theories
  have them, against the concurrent life cycle of \<open>Lifecycle\<close>: every sequence of calls is a
  run of that step relation, so what holds in all its reachable states holds here.
\<close>

section \<open>Calls\<close>

text \<open>
  One call on a tunnel, seen through the part that the five types share; connections are
  numbered. A \<open>Start\<close> may have returned or still be in its loop.
\<close>

inductive stream_call :: "stream_tunnel \<Rightarrow> stream_tunnel \<Rightarrow> bool" where
  tcp_server_start: "TCPServer_Start listen now (ts :: nat turn list) t = (t', cs, r) \<Longrightarrow> stream_call t t'"
| http_server_start: "HTTPServer_Start listen now (ts :: nat turn list) t = (t', cs, r) \<Longrightarrow> stream_call t t'"
| irc_server_start: "IRCServer_Start listen now (ts :: nat turn list) t = (t', cs, r) \<Longrightarrow> stream_call t t'"
| irc_client_start: "IRCClient_Start dial now (ts :: nat turn list) t = (t', cs, r) \<Longrightarrow> stream_call t t'"
| tcp_client_start: "TCPClient_Start dial now (ts :: nat turn list) c = (c', cs, r) \<Longrightarrow> stream_call (cl_stream c) (cl_stream c')"
| tcp_server_stop: "stream_call t (TCPServer_Stop t)"
| http_server_stop: "stream_call t (HTTPServer_Stop t)"
| irc_server_stop: "stream_call t (IRCServer_Stop t)"
| irc_client_stop: "stream_call t (IRCClient_Stop t)"
| tcp_client_stop: "stream_call (cl_stream c) (cl_stream (TCPClient_Stop c))"
| set_options: "stream_call t (fst (stream_SetOptions fl check resolve opts t))"
| tcp_client_set_options: "stream_call (cl_stream c) (cl_stream (fst (TCPClient_SetOptions lookup pd opts c)))"
| load_config: "stream_call t (fst (stream_LoadConfig parse ttype resolve path t))"
| tcp_client_load_config: "stream_call (cl_stream c) (cl_stream (fst (TCPClient_LoadConfig parse lookup path st c)))"

section \<open>The simulation\<close>

text \<open>The sequential state as the concurrent one shows it.\<close>

definition shows_life :: "stream_tunnel \<Rightarrow> life \<Rightarrow> bool" where
  "shows_life t s \<longleftrightarrow> st_once t = l_once s \<and> st_done t = (l_done s \<in> l_closed s) \<and> tb_Status (st_base t) = l_status s \<and>
     (st_listener t = Some True \<longleftrightarrow> (\<exists>l. l_listener s = Some l \<and> l \<in> l_open s)) \<and>
     (st_listener t = None \<longleftrightarrow> l_listener s = None)"

text \<open>
  A reachable state in which the calls from some number on have not begun; every call of
  \<open>Start\<close> takes the next number.
\<close>

definition simulated :: "stream_tunnel \<Rightarrow> bool" where
  "simulated t \<longleftrightarrow> (\<exists>s ps n. life_reachable (s, ps) \<and> shows_life t s \<and> (\<forall>i\<ge>n. ps i = Idle))"

lemma simulatedE:
  assumes "simulated t"
  obtains s ps n where "life_reachable (s, ps)" and "shows_life t s" and "\<forall>i\<ge>n. ps i = Idle"
  using assms unfolding simulated_def by blast

lemma simulated_cong: "simulated t \<Longrightarrow> stream_life t' = stream_life t \<Longrightarrow> simulated t'"
  unfolding simulated_def shows_life_def stream_life_def by auto

lemma idle_after: "\<forall>i\<ge>n. ps i = Idle \<Longrightarrow> \<forall>i\<ge>Suc n. (ps(n := p)) i = Idle"
  by auto

lemma simulated_Stop:
  assumes "simulated t"
  shows "simulated (stream_Stop t)"
proof -
  obtain s ps n where s: "life_reachable (s, ps)" "shows_life t s" "\<forall>i\<ge>n. ps i = Idle" using assms by (rule simulatedE)
  have "shows_life (stream_Stop t) (life_stop s)"
    using s(2) by (auto simp: shows_life_def stream_Stop_def life_stop_def split: option.splits)
  with life_reach_step [OF s(1) stop_call] s(3) show ?thesis unfolding simulated_def by blast
qed

text \<open>The steps of a call of \<open>Start\<close> with number \<open>n\<close>.\<close>

lemma reach_begin:
  assumes "life_reachable (s, ps)" and "\<forall>i\<ge>n. ps i = Idle"
  shows "life_reachable ((life_bind (life_begin s))\<lparr>l_status := StatusRunning\<rparr>, ps(n := Looping (l_next s) (Suc (l_next s))))"
proof -
  let ?p = "ps(n := Bound (l_next s) (Suc (l_next s)))"
  have "life_reachable (life_bind (life_begin s), ?p)"
    using assms(1) by (rule life_reach_step) (use assms(2) in \<open>simp add: begin_ok\<close>)
  moreover have "life_step (life_bind (life_begin s), ?p)
      ((life_bind (life_begin s))\<lparr>l_status := StatusRunning\<rparr>, ?p(n := Looping (l_next s) (Suc (l_next s))))"
    by (rule set_running) simp
  ultimately show ?thesis by (metis fun_upd_upd life_reach_step)
qed

definition life_ended :: "life \<Rightarrow> nat \<Rightarrow> life" where
  "life_ended s l = (life_stop s)\<lparr>l_open := l_open (life_stop s) - {l}\<rparr>"

lemma reach_clean_return:
  assumes "life_reachable (s, ps)" and "ps n = Looping d l" and "l_done s = d" and "\<not> l_once s"
  shows "life_reachable (life_ended s l, ps(n := Returned))"
proof -
  let ?s = "life_stop s"
  have "life_reachable (?s, ps)" using assms(1) stop_call by (rule life_reach_step)
  then have "life_reachable (?s, ps(n := Leaving l))"
    by (rule life_reach_step) (use leave_done [of ps n d l ?s] assms in \<open>simp add: life_stop_def\<close>)
  then have "life_reachable (?s, ps(n := Closing l))"
    by (rule life_reach_step) (use deferred_stop [of "ps(n := Leaving l)" n l ?s] in \<open>simp add: life_stopping.stop_idem\<close>)
  then show ?thesis
    unfolding life_ended_def
    by (rule life_reach_step) (use deferred_close [of "ps(n := Closing l)" n l ?s] in simp)
qed

lemma reach_fatal_return:
  assumes "life_reachable (s, ps)" and "ps n = Looping d l" and "\<not> l_once s"
  shows "life_reachable (life_ended s l, ps(n := Returned))"
proof -
  have stop: "life_stop (s\<lparr>l_status := StatusFailed\<rparr>) = life_stop s"
    using assms(3) by (cases "l_listener s") (simp_all add: life_stop_def)
  have "life_reachable (s\<lparr>l_status := StatusFailed\<rparr>, ps(n := Leaving l))"
    using assms(1) by (rule life_reach_step) (use leave_fatal [of ps n d l s] assms(2) in simp)
  then have "life_reachable (life_stop s, ps(n := Closing l))"
    by (rule life_reach_step) (use deferred_stop [of "ps(n := Leaving l)" n l "s\<lparr>l_status := StatusFailed\<rparr>"] stop in simp)
  then show ?thesis
    unfolding life_ended_def
    by (rule life_reach_step) (use deferred_close [of "ps(n := Closing l)" n l "life_stop s"] in simp)
qed

text \<open>The three ends of a call of \<open>Start\<close>.\<close>

lemma stream_Start_running:
  assumes "stream_Start None maxErrors now ts t = (t', cs, None)"
  shows "\<not> st_once t' \<and> \<not> st_done t' \<and> st_listener t' = Some True \<and> tb_Status (st_base t') = StatusRunning"
proof -
  let ?t = "t\<lparr>st_done := False, st_once := False, st_listener := Some True,
    st_base := upd_metrics (RecordStart now) (SetStatus StatusRunning (SetStatus StatusStarting (st_base t)))\<rparr>"
  obtain b n cs' r where run: "RunAcceptDispatch ts maxErrors (st_base ?t) = (b, n, cs', r)" by (metis prod_cases4)
  with assms have r: "r = None" "t' = ?t\<lparr>st_base := b\<rparr>"
    by (cases r; simp add: stream_Start_def stream_bind_def stream_serve_def Let_def)+
  with run have "tb_Status b = tb_Status (st_base ?t)" by (auto simp: RunAcceptDispatch_def dest: loop_running)
  with r(2) show ?thesis by simp
qed

lemma stream_Start_listener:
  "stream_Start None maxErrors now ts t = (t', cs, Some r) \<Longrightarrow> st_listener t' = Some False"
  by (auto simp: stream_Start_def stream_bind_def stream_serve_def stream_Stop_def Let_def split: prod.splits option.splits)

lemma simulated_Start:
  assumes "simulated t" and start: "stream_Start listen maxErrors now ts t = (t', cs, r)"
  shows "simulated t'"
proof -
  obtain s ps n where s: "life_reachable (s, ps)" "shows_life t s" "\<forall>i\<ge>n. ps i = Idle" using assms(1) by (rule simulatedE)
  show ?thesis
  proof (cases listen)
    case (Some err)
    have "life_reachable (life_begin s, ps(n := Returned))"
      using s(1) by (rule life_reach_step) (use s(3) in \<open>simp add: begin_fail\<close>)
    moreover have "l_next s \<notin> l_closed s"
      using life_inv_reachable [OF s(1)] by (auto simp: life_inv_def)
    then have "shows_life t' (life_begin s)"
      using start s(2) Some by (auto simp: stream_Start_def stream_bind_def Let_def shows_life_def life_begin_def)
    ultimately show ?thesis using idle_after [OF s(3)] unfolding simulated_def by blast
  next
    case None
    let ?s = "(life_bind (life_begin s))\<lparr>l_status := StatusRunning\<rparr>"
    let ?l = "Suc (l_next s)"
    let ?p = "ps(n := Looping (l_next s) ?l)"
    have running: "life_reachable (?s, ?p)" using s(1,3) by (rule reach_begin)
    have idle: "\<forall>i\<ge>Suc n. ?p i = Idle" using s(3) by (rule idle_after)
    have fresh: "l_next s \<notin> l_closed s" using life_inv_reachable [OF s(1)] by (auto simp: life_inv_def)
    show ?thesis
    proof (cases r)
      case r: None
      with stream_Start_running [of maxErrors now ts t t' cs] start None fresh have "shows_life t' ?s"
        by (simp add: shows_life_def life_bind_def life_begin_def)
      with running idle show ?thesis unfolding simulated_def by blast
    next
      case (Some result)
      have "life_reachable (life_ended ?s ?l, ?p(n := Returned))"
      proof (cases result)
        case None
        show ?thesis using running by (rule reach_clean_return [where d = "l_next s"]) (simp_all add: life_bind_def life_begin_def)
      next
        case (Some e)
        show ?thesis using running by (rule reach_fatal_return [where d = "l_next s"]) (simp_all add: life_bind_def life_begin_def)
      qed
      moreover have "shows_life t' (life_ended ?s ?l)"
        using stream_Start_returned [of maxErrors now ts t t' cs result] stream_Start_listener [of maxErrors now ts t t' cs result] start None Some
        by (simp add: shows_life_def life_ended_def life_stop_def life_bind_def life_begin_def stream_released_def)
      moreover have "\<forall>i\<ge>Suc n. (?p(n := Returned)) i = Idle" using idle by simp
      ultimately show ?thesis unfolding simulated_def by blast
    qed
  qed
qed

lemma simulated_call: "stream_call t t' \<Longrightarrow> simulated t \<Longrightarrow> simulated t'"
proof (induction rule: stream_call.induct)
  case (tcp_client_start dial now ts c c' cs r)
  then show ?case by (auto simp: TCPClient_Start_def intro: simulated_Start split: prod.splits)
next
  case (tcp_client_set_options c lookup pd opts)
  then show ?case
    by (cases rule: SetOptions_cases [of lookup pd opts c]) (auto intro: simulated_cong applied_life)
next
  case (tcp_client_load_config c parse lookup path st)
  then show ?case using TCPClient_LoadConfig_life [of parse lookup path st c] by (auto intro: simulated_cong)
qed (auto simp: stream_Start_defs stream_Stop_defs TCPClient_Stop_def intro: simulated_Start simulated_Stop simulated_cong
    stream_SetOptions_life stream_LoadConfig_life)

lemma simulated_new:
  assumes "stream_new fl newGarlic resolve wrap cfg = Inr t"
  shows "simulated t"
proof -
  have "shows_life t life_init"
    using assms by (cases "resolve (tc_Target cfg)") (auto simp: stream_new_def rbind_Inr_iff shows_life_def life_init_def)
  moreover have "life_reachable (life_init, \<lambda>_. Idle)" by (simp add: life_reachable_def life_start_def)
  ultimately show ?thesis unfolding simulated_def by blast
qed

section \<open>Property\<close>

text \<open>
  C10: the sequential operations refine the concurrent life cycle. After every sequence of
  calls on a new TCP, HTTP or IRC server, IRC client or TCP client (starts that returned
  for any reason or still run, stops, options, reloads, failures included) the tunnel
  shows a state that the interleaved model of \<open>Start\<close> and \<open>Stop\<close> can reach: the same
  status, the same \<open>stopOnce\<close>, the \<open>done\<close> channel closed alike, its listener open alike. So
  its invariant carries over: the \<open>done\<close> channel is closed exactly when \<open>stopOnce\<close> has fired.
\<close>
theorem stream_calls_refine_lifecycle:
  assumes "stream_new fl newGarlic resolve wrap cfg = Inr t0" and "stream_call\<^sup>*\<^sup>* t0 t"
  shows "(\<exists>s ps. life_reachable (s, ps) \<and> shows_life t s) \<and> (st_once t \<longleftrightarrow> st_done t)"
proof -
  from assms(2) have "simulated t"
    by (induction rule: rtranclp_induct) (auto intro: simulated_new [OF assms(1)] simulated_call)
  then obtain s ps n where s: "life_reachable (s, ps)" "shows_life t s" by (rule simulatedE)
  with life_inv_reachable [OF s(1)] show ?thesis by (auto simp: life_inv_def shows_life_def)
qed

lemma stream_calls_refine_lifecycle_witness:
  "\<exists>t0 t s ps. stream_new no_floats (\<lambda>c. Inr \<lparr>g_open = True, g_service = Some ''abc.b32.i2p''\<rparr>) (\<lambda>a. Inr a) (\<lambda>a e. e) example_config = Inr t0 \<and>
     t = TCPServer_Stop (fst (TCPServer_Start None 5 ([] :: nat turn list) t0)) \<and>
     life_reachable (s, ps) \<and> shows_life t s \<and> l_status s = StatusStopped \<and> st_once t \<and> st_done t"
proof -
  let ?g = "\<lparr>g_open = True, g_service = Some ''abc.b32.i2p''\<rparr>"
  obtain t0 where t0: "stream_new no_floats (\<lambda>c. Inr ?g) (\<lambda>a. Inr a) (\<lambda>a e. e) example_config = Inr t0"
    by (simp add: stream_new_def)
  obtain t1 cs r where t1: "TCPServer_Start None 5 ([] :: nat turn list) t0 = (t1, cs, r)" by (metis prod_cases3)
  then have "stream_call\<^sup>*\<^sup>* t0 (TCPServer_Stop t1)"
    using tcp_server_start [OF t1] tcp_server_stop [of t1] by auto
  from stream_calls_refine_lifecycle [OF t0 this] obtain s ps where
    s: "life_reachable (s, ps)" "shows_life (TCPServer_Stop t1) s" "st_once (TCPServer_Stop t1) = st_done (TCPServer_Stop t1)" by blast
  have "\<not> st_once t1" using t1 by (auto simp: stream_Start_defs stream_Start_def stream_bind_def stream_serve_def RunAcceptDispatch_def)
  then have "tb_Status (st_base (TCPServer_Stop t1)) = StatusStopped" by (simp add: TCPServer_Stop_def)
  with s t0 t1 show ?thesis by (intro exI [of _ t0] exI [of _ "TCPServer_Stop t1"] exI [of _ s] exI [of _ ps]) (auto simp: shows_life_def TCPServer_Stop_def)
qed

end
