(* ===== verification/WebRoutes.thy ===== *)
theory WebRoutes
  imports Tunnels
begin

text \<open>
  The URL routing of the web interface (\<open>webui/controller/from_home.go\<close>) and the file paths
  it builds: \<open>filepath.Clean\<close>, \<open>Join\<close> and \<open>Dir\<close> as on Unix.
\<close>

section \<open>Requests\<close>

text \<open>
  What the handlers read of a request: \<open>rq_form\<close> is \<open>r.Form\<close> after parsing, with the first
  value of each key, in the order in which a loop over it runs; \<open>rq_formErr\<close> is the error of
  \<open>ParseForm\<close>.
\<close>

record request =
  rq_method :: string
  rq_path :: string
  rq_form :: options
  rq_formErr :: "go_error option"

definition FormValue :: "request \<Rightarrow> string \<Rightarrow> string" where
  "FormValue r k = (case gm_get (rq_form r) k of None \<Rightarrow> '''' | Some v \<Rightarrow> v)"

section \<open>Routes\<close>

definition routeRootPath :: "string \<Rightarrow> string" where
  "routeRootPath file = (if file = ''home'' then ''group'' else if file = ''new'' then ''new'' else ''group'')"

definition routeSubPath :: "string \<Rightarrow> string" where
  "routeSubPath file = (if file = ''config'' then ''config'' else if file = ''control'' then ''control'' else ''group'')"

definition routeFromPath :: "string \<Rightarrow> string" where
  "routeFromPath urlPath =
     (case path_Split urlPath of (dir, file) \<Rightarrow> if dir = ''/'' then routeRootPath file else routeSubPath file)"

definition handler :: "request option \<Rightarrow> string" where
  "handler r = (case r of None \<Rightarrow> ''group'' | Some q \<Rightarrow> routeFromPath (rq_path q))"

definition tunnel :: "request option \<Rightarrow> string" where
  "tunnel r =
     (case r of
        None \<Rightarrow> ''''
      | Some q \<Rightarrow>
          (case path_Split (rq_path q) of
             (dir, file) \<Rightarrow> if file = ''config'' \<or> file = ''control'' then Clean (path_Base dir) else ''''))"

section \<open>Paths\<close>

definition clean_step :: "bool \<Rightarrow> string \<Rightarrow> string list \<Rightarrow> string list" where
  "clean_step rooted seg out =
     (if seg = '''' \<or> seg = ''.'' then out
      else if seg = ''..'' then
        (if out \<noteq> [] \<and> last out \<noteq> ''..'' then butlast out else if rooted then out else out @ [''..''])
      else out @ [seg])"

definition clean_segments :: "string \<Rightarrow> string list" where
  "clean_segments p = fold (clean_step (prefix ''/'' p)) (Split p CHR ''/'') []"

definition path_Clean :: "string \<Rightarrow> string" where
  "path_Clean p =
     (let q = (if prefix ''/'' p then ''/'' else '''') @ Join (clean_segments p) ''/''
      in if q = '''' then ''.'' else q)"

definition filepath_Join :: "string \<Rightarrow> string \<Rightarrow> string" where
  "filepath_Join dir file =
     (if dir \<noteq> '''' then path_Clean (dir @ ''/'' @ file) else if file \<noteq> '''' then path_Clean file else '''')"

definition filepath_Dir :: "string \<Rightarrow> string" where
  "filepath_Dir p = path_Clean (fst (path_Split p))"

section \<open>Lemmas on paths\<close>

lemma Split_append: "Split (s @ c # t) c = Split s c @ Split t c"
  by (induction s) (auto split: list.splits)

lemma Split_none: "c \<notin> set s \<Longrightarrow> Split s c = [s]"
  by (induction s) auto

lemma Split_Join:
  assumes "\<forall>p\<in>set ps. c \<notin> set p" and "ps \<noteq> []"
  shows "Split (Join ps [c]) c = ps"
  using assms
proof (induction ps)
  case (Cons p ps)
  then show ?case by (cases ps) (simp_all add: Split_none Split_append)
qed simp

definition normal_segment :: "string \<Rightarrow> bool" where
  "normal_segment s \<longleftrightarrow> s \<noteq> '''' \<and> s \<noteq> ''.'' \<and> s \<noteq> ''..'' \<and> CHR ''/'' \<notin> set s"

text \<open>A cleaned path: parent references only at the front, and only in a relative path.\<close>

definition clean_ok :: "bool \<Rightarrow> string list \<Rightarrow> bool" where
  "clean_ok rooted out \<longleftrightarrow>
     (\<exists>k rest. out = replicate k ''..'' @ rest \<and> list_all normal_segment rest \<and> (rooted \<longrightarrow> k = 0))"

lemma clean_ok_Nil [simp]: "clean_ok rooted []"
  by (auto simp: clean_ok_def)

lemma clean_ok_snoc: "clean_ok rooted out \<Longrightarrow> normal_segment s \<Longrightarrow> clean_ok rooted (out @ [s])"
  by (fastforce simp: clean_ok_def)

lemma clean_ok_up: "clean_ok rooted out \<Longrightarrow> clean_ok rooted (clean_step rooted ''..'' out)"
proof -
  assume "clean_ok rooted out"
  then obtain k rest where o: "out = replicate k ''..'' @ rest" "list_all normal_segment rest" "rooted \<longrightarrow> k = 0"
    by (auto simp: clean_ok_def)
  show ?thesis
  proof (cases rest rule: rev_cases)
    case Nil
    have "replicate k ''..'' @ [''..''] = replicate (Suc k) ''..''" by (simp add: replicate_append_same)
    moreover have "out = [] \<or> last out = ''..''" using o(1) Nil by (cases k) auto
    ultimately show ?thesis using o Nil by (auto simp: clean_step_def clean_ok_def intro: exI [of _ "Suc k"] exI [of _ k])
  next
    case (snoc rest' s)
    with o have "last out \<noteq> ''..''" "out \<noteq> []" "butlast out = replicate k ''..'' @ rest'"
      by (auto simp: normal_segment_def butlast_append)
    with o snoc show ?thesis by (auto simp: clean_step_def clean_ok_def)
  qed
qed

lemma clean_ok_step: "clean_ok rooted out \<Longrightarrow> CHR ''/'' \<notin> set s \<Longrightarrow> clean_ok rooted (clean_step rooted s out)"
  using clean_ok_up [of rooted out] clean_ok_snoc [of rooted out s]
  by (cases "s = ''..''") (auto simp: clean_step_def normal_segment_def)

lemma clean_ok_fold:
  "list_all (\<lambda>s. CHR ''/'' \<notin> set s) segs \<Longrightarrow> clean_ok rooted out \<Longrightarrow> clean_ok rooted (fold (clean_step rooted) segs out)"
  by (induction segs arbitrary: out) (auto simp: clean_ok_step)

lemma clean_ok_segments: "clean_ok (prefix ''/'' p) (clean_segments p)"
  unfolding clean_segments_def
  by (rule clean_ok_fold) (auto simp: list_all_iff dest: Split_parts)

lemma clean_step_Nil: "clean_step rooted [] out = out"
  by (simp add: clean_step_def)

lemma clean_step_normal: "normal_segment s \<Longrightarrow> clean_step rooted s out = out @ [s]"
  by (auto simp: clean_step_def normal_segment_def)

lemma fold_normal: "list_all normal_segment xs \<Longrightarrow> fold (clean_step rooted) xs out = out @ xs"
  by (induction xs arbitrary: out) (auto simp: clean_step_normal)

lemma fold_up: "fold (clean_step False) (replicate n ''..'') (replicate m ''..'') = replicate (m + n) ''..''"
proof (induction n arbitrary: m)
  case (Suc n)
  have "clean_step False ''..'' (replicate m ''..'') = replicate (Suc m) ''..''"
    by (cases m) (auto simp: clean_step_def replicate_append_same)
  with Suc.IH [of "Suc m"] show ?case by simp
qed simp

text \<open>Cleaning a cleaned path gives it back.\<close>

lemma fold_clean_ok: "clean_ok rooted out \<Longrightarrow> fold (clean_step rooted) out [] = out"
proof -
  assume "clean_ok rooted out"
  then obtain k rest where o: "out = replicate k ''..'' @ rest" "list_all normal_segment rest" "rooted \<longrightarrow> k = 0"
    by (auto simp: clean_ok_def)
  have "fold (clean_step rooted) (replicate k ''..'') [] = replicate k ''..''"
    using o(3) fold_up [of k 0] by (cases rooted) auto
  with o show ?thesis by (simp add: fold_normal)
qed

lemma clean_ok_parts: "clean_ok rooted out \<Longrightarrow> \<forall>p\<in>set out. CHR ''/'' \<notin> set p \<and> p \<noteq> []"
proof -
  assume "clean_ok rooted out"
  then obtain k rest where o: "out = replicate k ''..'' @ rest" "list_all normal_segment rest"
    by (auto simp: clean_ok_def)
  have n: "normal_segment p \<Longrightarrow> CHR ''/'' \<notin> set p \<and> p \<noteq> []" for p by (simp add: normal_segment_def)
  show ?thesis
  proof
    fix p assume "p \<in> set out"
    with o consider "p = ''..''" | "normal_segment p" by (auto simp: list_all_iff)
    then show "CHR ''/'' \<notin> set p \<and> p \<noteq> []" using n by cases auto
  qed
qed

lemma Join_nonempty: "clean_ok rooted out \<Longrightarrow> out \<noteq> [] \<Longrightarrow> Join out ''/'' \<noteq> []"
  using clean_ok_parts [of rooted out] by (cases out; cases "tl out") auto

lemma Join_first: "clean_ok False out \<Longrightarrow> \<not> prefix ''/'' (Join out ''/'')"
proof (cases out)
  case (Cons p ps)
  assume "clean_ok False out"
  with Cons clean_ok_parts [of False out] obtain c q where "p = c # q" "c \<noteq> CHR ''/''" by (cases p) auto
  with Cons show ?thesis by (cases ps) auto
qed simp

lemma clean_segments_child:
  assumes "normal_segment f" and "d \<noteq> ''''"
  shows "clean_segments (d @ ''/'' @ f) = clean_segments d @ [f]"
proof -
  have p: "prefix ''/'' (d @ ''/'' @ f) = prefix ''/'' d" using assms(2) by (cases d) auto
  have "Split (d @ ''/'' @ f) CHR ''/'' = Split d CHR ''/'' @ [f]"
    using assms(1) Split_append [of d "CHR ''/''" f] by (simp add: Split_none normal_segment_def)
  with p assms(1) show ?thesis by (simp add: clean_segments_def clean_step_normal)
qed

abbreviation root_of :: "string \<Rightarrow> string" where
  "root_of p \<equiv> (if prefix ''/'' p then ''/'' else '''')"

text \<open>The cleaned path followed by a slash has the same segments.\<close>

lemma clean_segments_dir:
  assumes "clean_ok rooted out" and "rooted = prefix ''/'' p"
  shows "clean_segments (root_of p @ Join out ''/'' @ (if out = [] then '''' else ''/'')) = out"
proof (cases "out = []")
  case True
  then show ?thesis by (simp add: clean_segments_def clean_step_def)
next
  case False
  let ?q = "root_of p @ Join out ''/'' @ ''/''"
  have parts: "\<forall>x\<in>set out. CHR ''/'' \<notin> set x" using clean_ok_parts [OF assms(1)] by blast
  have nonempty: "Join out ''/'' \<noteq> []"
    using Join_nonempty [OF assms(1)] False by simp
  have pre: "prefix ''/'' ?q = rooted"
  proof (cases rooted)
    case True
    with assms(2) show ?thesis by simp
  next
    case False
    with assms Join_first [of out] nonempty show ?thesis by (cases "Join out ''/''") auto
  qed
  have "Split (Join out ''/'' @ ''/'') CHR ''/'' = out @ [[]]"
    using Split_append [of "Join out ''/''" "CHR ''/''" "[]"] Split_Join [OF parts False] by simp
  then have split: "Split ?q CHR ''/'' = (if rooted then [[]] else []) @ out @ [[]]"
    using assms(2) by simp
  have "clean_segments ?q = fold (clean_step rooted) (Split ?q CHR ''/'') []"
    by (simp only: clean_segments_def pre)
  also have "\<dots> = out"
    unfolding split using fold_clean_ok [OF assms(1)] by (cases rooted) (simp_all add: clean_step_Nil)
  finally show ?thesis using False by simp
qed

text \<open>Joining a directory and a plain file name gives a direct child of the directory.\<close>

lemma Join_snoc: "out \<noteq> [] \<Longrightarrow> Join (out @ [f]) s = Join out s @ s @ f"
proof (induction out)
  case (Cons p ps)
  then show ?case by (cases "ps = []") (simp_all add: Join_Cons)
qed simp

lemma filepath_Join_child:
  assumes "normal_segment f"
  shows "snd (path_Split (filepath_Join d f)) = f \<and> filepath_Dir (filepath_Join d f) = path_Clean d"
proof (cases "d = ''''")
  case True
  have "Split f CHR ''/'' = [f]" "\<not> prefix ''/'' f" using assms by (auto simp: normal_segment_def Split_none prefix_def)
  then have "filepath_Join d f = f"
    using True assms by (simp add: filepath_Join_def path_Clean_def clean_segments_def clean_step_normal normal_segment_def Let_def)
  moreover have "LastIndexByte f CHR ''/'' = None" using assms by (simp add: LastIndexByte_None normal_segment_def)
  ultimately show ?thesis using True by (simp add: path_Split_def filepath_Dir_def)
next
  case False
  let ?out = "clean_segments d"
  let ?dir = "root_of d @ Join ?out ''/'' @ (if ?out = [] then '''' else ''/'')"
  have p: "prefix ''/'' (d @ ''/'' @ f) = prefix ''/'' d" using False by (cases d) auto
  have f: "f \<noteq> ''''" "CHR ''/'' \<notin> set f" using assms by (auto simp: normal_segment_def)
  have path: "filepath_Join d f = ?dir @ f"
    using False f p clean_segments_child [OF assms False]
    by (cases "?out = []") (simp_all add: filepath_Join_def path_Clean_def Join_snoc Let_def)
  have split: "path_Split (filepath_Join d f) = (?dir, f)"
  proof (cases "?dir = ''''")
    case True
    with path f(2) show ?thesis by (simp add: path_Split_def LastIndexByte_None [THEN iffD2])
  next
    case False
    then have "suffix ''/'' ?dir" by (cases "?out = []") (auto simp: suffix_def split: if_splits)
    then obtain e where e: "?dir = e @ ''/''" by (auto simp only: suffix_def)
    with path f(2) LastIndexByte_append [of "CHR ''/''" f e] show ?thesis by (simp add: path_Split_def)
  qed
  have segs: "clean_segments ?dir = ?out" by (rule clean_segments_dir [OF clean_ok_segments]) simp
  have pre: "prefix ''/'' ?dir = prefix ''/'' d"
  proof (cases "prefix ''/'' d")
    case True
    then show ?thesis by simp
  next
    case False
    then have ok: "clean_ok False ?out" using clean_ok_segments [of d] by simp
    with False Join_first [OF ok] Join_nonempty [OF ok] show ?thesis
      by (cases "?out = []"; cases "Join ?out ''/''") auto
  qed
  show ?thesis using split segs pre by (simp add: filepath_Dir_def path_Clean_def)
qed

section \<open>Routing\<close>

lemma path_Split_last: "CHR ''/'' \<notin> set f \<Longrightarrow> path_Split (d @ CHR ''/'' # f) = (d @ ''/'', f)"
  by (simp add: path_Split_def LastIndexByte_append)

lemma path_Base_dir:
  assumes "CHR ''/'' \<notin> set n"
  shows "Clean (path_Base (CHR ''/'' # n @ ''/'')) = Clean n"
proof (cases n rule: rev_cases)
  case Nil
  then show ?thesis by (simp add: path_Base_def path_Split_def) (simp add: Clean_def)
next
  case (snoc m c)
  with assms have "dropWhile (\<lambda>c. c = CHR ''/'') (rev (CHR ''/'' # n @ ''/'')) = rev (CHR ''/'' # n)" by auto
  then have "path_Base (CHR ''/'' # n @ ''/'') = (let b = snd (path_Split (CHR ''/'' # n)) in if b = [] then ''/'' else b)"
    by (simp add: path_Base_def Let_def del: rev.simps)
  with assms snoc path_Split_last [of n "[]"] show ?thesis by simp
qed

text \<open>
  The pages of a tunnel are found again: the paths that the interface builds from the ID
  of a tunnel, \<open>/ID/control\<close> and \<open>/ID/config\<close>, are routed to the control and the
  configuration of exactly the tunnels with this ID, whatever the name of the tunnel.
\<close>
theorem tunnel_pages_route_back:
  "let id = i2p_ID t; r = (\<lambda>page. Some \<lparr>rq_method = m, rq_path = ''/'' @ id @ ''/'' @ page, rq_form = f, rq_formErr = e\<rparr>)
   in handler (r ''control'') = ''control'' \<and> handler (r ''config'') = ''config'' \<and>
      tunnel (r ''control'') = id \<and> tunnel (r ''config'') = id \<and>
      (i2p_ID u = tunnel (r ''control'') \<longleftrightarrow> i2p_ID u = i2p_ID t)"
proof -
  let ?n = "i2p_ID t"
  have n: "CHR ''/'' \<notin> set ?n" "Clean ?n = ?n" by (simp_all add: Clean_forbidden Clean_Clean)
  have split: "path_Split (''/'' @ ?n @ ''/'' @ page) = (CHR ''/'' # ?n @ ''/'', page)" if "CHR ''/'' \<notin> set page" for page
    using that path_Split_last [of page "CHR ''/'' # ?n"] by simp
  have split_control: "path_Split (''/'' @ ?n @ ''/'' @ ''control'') = (CHR ''/'' # ?n @ ''/'', ''control'')"
    "path_Split (''/'' @ ?n @ ''/'' @ ''config'') = (CHR ''/'' # ?n @ ''/'', ''config'')"
    by (rule split; simp)+
  have "CHR ''/'' # ?n @ ''/'' \<noteq> ''/''" by simp
  with split_control path_Base_dir [OF n(1)] n(2) show ?thesis
    by (simp add: handler_def routeFromPath_def routeSubPath_def tunnel_def Let_def del: i2p_accessors append_Cons append_Nil)
qed

end
