(* ===== verification/WebConfig.thy ===== *)
theory WebConfig
  imports WebRoutes Loader
begin

text \<open>
  The configuration page of a tunnel (\<open>webui/controller/i2p_tunnel_config.go\<close>): the HTTP
  responses of the web interface, the options built from a form, and saving to disk.

  A template is represented by what executing it writes and returns; YAML encoding is a
  parameter; file operations act on a map from paths to contents and may fail.
\<close>

section \<open>Responses\<close>

text \<open>
  An \<open>http.ResponseWriter\<close>: the first write or \<open>WriteHeader\<close> sends the status and the
  headers set so far; later ones change nothing that the client sees.
\<close>

record response =
  rw_header :: "(string, string) gomap"
  rw_status :: "nat option"
  rw_sent :: "(string, string) gomap"
  rw_body :: string

definition new_response :: response where
  "new_response = \<lparr>rw_header = [], rw_status = None, rw_sent = [], rw_body = []\<rparr>"

definition WriteHeader :: "nat \<Rightarrow> response \<Rightarrow> response" where
  "WriteHeader code w =
     (case rw_status w of None \<Rightarrow> w\<lparr>rw_status := Some code, rw_sent := rw_header w\<rparr> | Some c \<Rightarrow> w)"

definition Write :: "string \<Rightarrow> response \<Rightarrow> response" where
  "Write s w = (let w1 = WriteHeader 200 w in w1\<lparr>rw_body := rw_body w1 @ s\<rparr>)"

definition set_header :: "string \<Rightarrow> string \<Rightarrow> response \<Rightarrow> response" where
  "set_header k v w = w\<lparr>rw_header := gm_set k v (rw_header w)\<rparr>"

definition http_Error :: "string \<Rightarrow> nat \<Rightarrow> response \<Rightarrow> response" where
  "http_Error msg code w =
     Write (msg @ [newline_char])
       (WriteHeader code
         (set_header ''X-Content-Type-Options'' ''nosniff'' (set_header ''Content-Type'' ''text/plain; charset=utf-8'' w)))"

text \<open>
  \<open>http.Redirect\<close> with the location as given (the library cleans its path); the short body
  is written for GET only, and only if no content type was set.
\<close>

definition http_Redirect :: "request \<Rightarrow> string \<Rightarrow> nat \<Rightarrow> response \<Rightarrow> response" where
  "http_Redirect r url code w =
     (let hadCT = (gm_get (rw_header w) ''Content-Type'' \<noteq> None);
          w1 = set_header ''Location'' url w;
          w2 = (if \<not> hadCT \<and> (rq_method r = ''GET'' \<or> rq_method r = ''HEAD'')
                then set_header ''Content-Type'' ''text/html; charset=utf-8'' w1 else w1);
          w3 = WriteHeader code w2
      in if \<not> hadCT \<and> rq_method r = ''GET'' then Write (''<a href='' @ Quote url @ ''>'' @ [newline_char]) w3 else w3)"

text \<open>What executing a template writes, and its error.\<close>

type_synonym rendering = "string \<times> go_error option"

definition Execute :: "rendering \<Rightarrow> response \<Rightarrow> response \<times> go_error option" where
  "Execute out w = (case out of (s, err) \<Rightarrow> ((if s = [] then w else Write s w), err))"

definition execute_or_500 :: "rendering \<Rightarrow> response \<Rightarrow> response" where
  "execute_or_500 out w =
     (case Execute out w of
        (w1, Some err) \<Rightarrow> http_Error (''Template error: '' @ Error_text err) 500 w1
      | (w1, None) \<Rightarrow> w1)"

record config_data =
  cd_Name :: string
  cd_ID :: string
  cd_Type :: string
  cd_Target :: string
  cd_Options :: options
  cd_Error :: string

record control_data =
  ct_Name :: string
  ct_ID :: string
  ct_Type :: string
  ct_Status :: string
  ct_LocalAddress :: string
  ct_Address :: string
  ct_Target :: string
  ct_Options :: options
  ct_Error :: string

record templates =
  t_header :: rendering
  t_footer :: rendering
  t_group :: rendering
  t_config :: "config_data \<Rightarrow> rendering"
  t_control :: "control_data \<Rightarrow> rendering"
  t_mini :: "control_data \<Rightarrow> rendering"

section \<open>Files\<close>

type_synonym files = "(string, string) gomap"

definition read_file :: "files \<Rightarrow> file_reader" where
  "read_file fs path =
     (case gm_get fs path of None \<Rightarrow> Inl (Errorf (''open '' @ path @ '': no such file or directory'')) | Some d \<Rightarrow> Inr d)"

text \<open>
  The failures of the file operations. A write that fails may leave the file with some
  other content.
\<close>

record faults =
  f_mkdir :: "string \<Rightarrow> go_error option"
  f_write :: "string \<Rightarrow> (go_error \<times> string option) option"
  f_rename :: "string \<Rightarrow> string \<Rightarrow> go_error option"

definition no_faults :: faults where
  "no_faults = \<lparr>f_mkdir = (\<lambda>p. None), f_write = (\<lambda>p. None), f_rename = (\<lambda>p q. None)\<rparr>"

definition WriteFile :: "faults \<Rightarrow> string \<Rightarrow> string \<Rightarrow> files \<Rightarrow> files \<times> go_error option" where
  "WriteFile F path data fs =
     (case f_write F path of
        None \<Rightarrow> (gm_set path data fs, None)
      | Some (err, left) \<Rightarrow> ((case left of None \<Rightarrow> fs | Some d \<Rightarrow> gm_set path d fs), Some err))"

definition Rename :: "faults \<Rightarrow> string \<Rightarrow> string \<Rightarrow> files \<Rightarrow> files \<times> go_error option" where
  "Rename F old new fs =
     (case f_rename F old new of
        Some err \<Rightarrow> (fs, Some err)
      | None \<Rightarrow>
          (case gm_get fs old of
             None \<Rightarrow> (fs, Some (Errorf (''rename '' @ old @ '' '' @ new @ '': no such file or directory'')))
           | Some d \<Rightarrow> (gm_set new d (gm_del old fs), None)))"

section \<open>The configuration page\<close>

text \<open>A \<open>Config\<close>: the tunnel, its file, and how many calls of \<open>Start\<close> were launched on it.\<close>

record ('l, 'cl) web_tunnel =
  wt_tunnel :: "('l, 'cl) i2p_tunnel"
  wt_path :: string
  wt_starts :: nat

text \<open>Values of a YAML document.\<close>

datatype yval = YVal ival | YMap "(string, yval) gomap"

type_synonym marshaller = "yval \<Rightarrow> go_error + string"

definition buildTunnelConfigFields :: "string \<Rightarrow> string \<Rightarrow> string \<Rightarrow> options \<Rightarrow> (string, yval) gomap" where
  "buildTunnelConfigFields name tunnelType target opts =
     (let c = gm_set ''type'' (YVal (IStr tunnelType)) (gm_set ''name'' (YVal (IStr name)) []);
          c = (if target \<noteq> '''' then gm_set ''target'' (YVal (IStr target)) c else c);
          c = (case gm_get opts ''port'' of
                 None \<Rightarrow> c
               | Some port \<Rightarrow> (case Atoi port of None \<Rightarrow> c | Some p \<Rightarrow> gm_set ''port'' (YVal (IInt p)) c));
          c = (case gm_get opts ''interface'' of None \<Rightarrow> c | Some iface \<Rightarrow> gm_set ''interface'' (YVal (IStr iface)) c)
      in case ExtractI2CPOptions opts of
           None \<Rightarrow> c
         | Some m \<Rightarrow> gm_set ''i2cp'' (YMap (map (\<lambda>(k, v). (k, YVal v)) m)) c)"

definition marshalTunnelConfig :: "marshaller \<Rightarrow> string \<Rightarrow> string \<Rightarrow> string \<Rightarrow> options \<Rightarrow> go_error + string" where
  "marshalTunnelConfig Y name tunnelType target opts =
     (case Y (YMap [(''tunnels'', YMap [(name, YMap (buildTunnelConfigFields name tunnelType target opts))])]) of
        Inl err \<Rightarrow> Inl (Wrapf ''failed to marshal config'' err)
      | Inr data \<Rightarrow> Inr data)"

text \<open>The target as text; a tunnel without one would be a nil dereference (none is loaded without).\<close>

definition target_text :: "('l, 'cl) i2p_tunnel \<Rightarrow> string" where
  "target_text t = (case i2p_Target t of None \<Rightarrow> '''' | Some a \<Rightarrow> a)"

definition saveConfig ::
  "('f, 'l, 'cl) env \<Rightarrow> marshaller \<Rightarrow> faults \<Rightarrow> ('l, 'cl) web_tunnel \<Rightarrow> files \<Rightarrow> files \<times> go_error option" where
  "saveConfig E Y F c fs =
     (let t = wt_tunnel c; path = wt_path c in
      case marshalTunnelConfig Y (i2p_Name t) (i2p_Type t) (target_text t) (i2p_Options E t) of
        Inl err \<Rightarrow> (fs, Some err)
      | Inr data \<Rightarrow>
          (case f_mkdir F (filepath_Dir path) of
             Some err \<Rightarrow> (fs, Some (Wrapf ''failed to create config directory'' err))
           | None \<Rightarrow>
               let tempPath = path @ ''.tmp'' in
               (case WriteFile F tempPath data fs of
                  (fs1, Some err) \<Rightarrow> (fs1, Some (Wrapf ''failed to write temp config'' err))
                | (fs1, None) \<Rightarrow>
                    (case Rename F tempPath path fs1 of
                       (fs2, Some err) \<Rightarrow> (gm_del tempPath fs2, Some (Wrapf ''failed to save config'' err))
                     | (fs2, None) \<Rightarrow> (fs2, None)))))"

definition config_data_of :: "('f, 'l, 'cl) env \<Rightarrow> ('l, 'cl) web_tunnel \<Rightarrow> string \<Rightarrow> config_data" where
  "config_data_of E c errMsg =
     (let t = wt_tunnel c in
      \<lparr>cd_Name = i2p_Name t, cd_ID = i2p_ID t, cd_Type = i2p_Type t, cd_Target = target_text t,
       cd_Options = i2p_Options E t, cd_Error = errMsg\<rparr>)"

definition handleGetConfig :: "('f, 'l, 'cl) env \<Rightarrow> templates \<Rightarrow> ('l, 'cl) web_tunnel \<Rightarrow> response \<Rightarrow> response" where
  "handleGetConfig E T c w = execute_or_500 (t_config T (config_data_of E c '''')) w"

definition renderConfigWithError :: "('f, 'l, 'cl) env \<Rightarrow> templates \<Rightarrow> ('l, 'cl) web_tunnel \<Rightarrow> string \<Rightarrow> response \<Rightarrow> response" where
  "renderConfigWithError E T c errMsg w = fst (Execute (t_config T (config_data_of E c errMsg)) (WriteHeader 400 w))"

definition collectFormFields :: "request \<Rightarrow> options" where
  "collectFormFields r =
     fold (\<lambda>(key, _) o'. if key \<in> {''name'', ''id'', ''type'', ''destination''} then o' else gm_set key (FormValue r key) o')
       (rq_form r) []"

definition validateAndSetPort :: "string \<Rightarrow> options \<Rightarrow> string + options" where
  "validateAndSetPort portStr newOptions =
     (case Atoi portStr of
        None \<Rightarrow> Inl ''Invalid port number''
      | Some port \<Rightarrow>
          if port < 1 \<or> port > 65535 then Inl ''Port must be between 1 and 65535''
          else Inr (gm_set ''port'' portStr newOptions))"

definition lease_set_message :: string where
  "lease_set_message = ''i2cp.leaseSetPrivKey is required when LeaseSet authentication type is DH (1) or PSK (2)''"

definition form_text :: "options \<Rightarrow> string \<Rightarrow> string" where
  "form_text opts k = (case gm_get opts k of None \<Rightarrow> '''' | Some v \<Rightarrow> v)"

definition validateLeaseSetAuth :: "options \<Rightarrow> string" where
  "validateLeaseSetAuth opts =
     (let authType = form_text opts ''i2cp.leaseSetAuthType'' in
      if (authType = ''1'' \<or> authType = ''2'') \<and> TrimSpace (form_text opts ''i2cp.leaseSetPrivKey'') = '''' then lease_set_message
      else '''')"

text \<open>\<open>Inl\<close> is the error message.\<close>

definition buildConfigOptions :: "request \<Rightarrow> string + options" where
  "buildConfigOptions r =
     rbind
       (let newOptions = collectFormFields r; portStr = FormValue r ''port'' in
        if portStr \<noteq> '''' then validateAndSetPort portStr newOptions else Inr newOptions)
       (\<lambda>newOptions.
         let errMsg = validateLeaseSetAuth newOptions; host = FormValue r ''host'' in
         if errMsg \<noteq> '''' then Inl errMsg
         else Inr (if host \<noteq> '''' then gm_set ''host'' host newOptions else newOptions))"

definition saveAndRedirect ::
  "('f, 'l, 'cl) env \<Rightarrow> marshaller \<Rightarrow> faults \<Rightarrow> templates \<Rightarrow> request \<Rightarrow> ('l, 'cl) web_tunnel \<Rightarrow> files \<Rightarrow> response \<Rightarrow>
   files \<times> response" where
  "saveAndRedirect E Y F T r c fs w =
     (let redirect = http_Redirect r (''/'' @ i2p_ID (wt_tunnel c) @ ''/control'') 303 in
      if wt_path c \<noteq> '''' then
        (case saveConfig E Y F c fs of
           (fs1, Some err) \<Rightarrow>
             (fs1, renderConfigWithError E T c (''Configuration applied but failed to save to disk: '' @ Error_text err) w)
         | (fs1, None) \<Rightarrow> (fs1, redirect w))
      else (fs, redirect w))"

definition handlePostConfig ::
  "('f, 'l, 'cl) env \<Rightarrow> marshaller \<Rightarrow> faults \<Rightarrow> templates \<Rightarrow> request \<Rightarrow> ('l, 'cl) web_tunnel \<Rightarrow> files \<Rightarrow> response \<Rightarrow>
   ('l, 'cl) web_tunnel \<times> files \<times> response" where
  "handlePostConfig E Y F T r c fs w =
     (case rq_formErr r of
        Some err \<Rightarrow> (c, fs, renderConfigWithError E T c (''Failed to parse form: '' @ Error_text err) w)
      | None \<Rightarrow>
          if i2p_Status (wt_tunnel c) = StatusRunning then
            (c, fs, renderConfigWithError E T c
               ''Cannot modify configuration while tunnel is running. Stop the tunnel first.'' w)
          else
            (case buildConfigOptions r of
               Inl errMsg \<Rightarrow> (c, fs, renderConfigWithError E T c errMsg w)
             | Inr newOptions \<Rightarrow>
                 (case i2p_SetOptions E newOptions (wt_tunnel c) of
                    (t, Some err) \<Rightarrow>
                      (let c1 = c\<lparr>wt_tunnel := t\<rparr> in
                       (c1, fs, renderConfigWithError E T c1 (''Failed to apply options: '' @ Error_text err) w))
                  | (t, None) \<Rightarrow>
                      (let c1 = c\<lparr>wt_tunnel := t\<rparr> in
                       case saveAndRedirect E Y F T r c1 fs w of (fs1, w1) \<Rightarrow> (c1, fs1, w1)))))"

definition Config_ServeHTTP ::
  "('f, 'l, 'cl) env \<Rightarrow> marshaller \<Rightarrow> faults \<Rightarrow> templates \<Rightarrow> request \<Rightarrow> ('l, 'cl) web_tunnel \<Rightarrow> files \<Rightarrow> response \<Rightarrow>
   ('l, 'cl) web_tunnel \<times> files \<times> response" where
  "Config_ServeHTTP E Y F T r c fs w =
     (if rq_method r = ''GET'' then (c, fs, handleGetConfig E T c w)
      else if rq_method r = ''POST'' then handlePostConfig E Y F T r c fs w
      else (c, fs, http_Error ''Method not allowed'' 405 w))"

definition NewConfig :: "('f, 'l, 'cl) env \<Rightarrow> files \<Rightarrow> string \<Rightarrow> go_error + ('l, 'cl) web_tunnel" where
  "NewConfig E fs yamlFile =
     rbind (Load E (read_file fs) yamlFile [''localhost:7656'']) (\<lambda>t.
       Inr \<lparr>wt_tunnel = t, wt_path = yamlFile, wt_starts = 0\<rparr>)"

section \<open>Lemmas\<close>

text \<open>What a request handler does to a response whose status has been sent.\<close>

definition sent_same :: "response \<Rightarrow> response \<Rightarrow> bool" where
  "sent_same w w' \<longleftrightarrow> (rw_status w \<noteq> None \<longrightarrow> rw_status w' = rw_status w \<and> rw_sent w' = rw_sent w)"

lemma sent_same_refl [intro, simp]: "sent_same w w"
  by (simp add: sent_same_def)

lemma sent_same_trans: "sent_same u v \<Longrightarrow> sent_same v w \<Longrightarrow> sent_same u w"
  by (auto simp: sent_same_def)

lemma sent_WriteHeader [intro]: "sent_same u w \<Longrightarrow> sent_same u (WriteHeader c w)"
  by (auto simp: sent_same_def WriteHeader_def split: option.splits)

lemma sent_Write [intro]: "sent_same u w \<Longrightarrow> sent_same u (Write s w)"
  by (auto simp: sent_same_def Write_def WriteHeader_def Let_def split: option.splits)

lemma sent_set_header [intro]: "sent_same u w \<Longrightarrow> sent_same u (set_header k v w)"
  by (simp add: sent_same_def set_header_def)

lemma sent_http_Error [intro]: "sent_same u w \<Longrightarrow> sent_same u (http_Error m c w)"
  unfolding http_Error_def by (intro sent_Write sent_WriteHeader sent_set_header)

lemma sent_http_Redirect [intro]: "sent_same u w \<Longrightarrow> sent_same u (http_Redirect r url c w)"
  unfolding http_Redirect_def Let_def by (auto intro!: sent_Write sent_WriteHeader sent_set_header)

lemma sent_Execute [intro]: "sent_same u w \<Longrightarrow> sent_same u (fst (Execute out w))"
  by (auto simp: Execute_def split: prod.splits)

lemma sent_execute_or_500 [intro]: "sent_same u w \<Longrightarrow> sent_same u (execute_or_500 out w)"
  using sent_Execute [of u w out] by (auto simp: execute_or_500_def split: prod.splits option.splits)

lemma sent_renderConfig [intro]: "sent_same u w \<Longrightarrow> sent_same u (renderConfigWithError E T c m w)"
  unfolding renderConfigWithError_def by blast

lemma sent_saveAndRedirect: "sent_same u w \<Longrightarrow> sent_same u (snd (saveAndRedirect E Y F T r c fs w))"
  by (auto simp: saveAndRedirect_def Let_def split: prod.splits option.splits)

lemma sent_handlePostConfig: "sent_same u w \<Longrightarrow> sent_same u (snd (snd (handlePostConfig E Y F T r c fs w)))"
proof -
  assume w: "sent_same u w"
  have s: "sent_same u (snd (saveAndRedirect E Y F T r c1 fs w))" for c1 by (rule sent_saveAndRedirect [OF w])
  show ?thesis
    using w s by (fastforce simp: handlePostConfig_def Let_def split: option.splits sum.splits prod.splits)
qed

lemma sent_Config_ServeHTTP: "sent_same u w \<Longrightarrow> sent_same u (snd (snd (Config_ServeHTTP E Y F T r c fs w)))"
  using sent_handlePostConfig [of u w E Y F T r c fs] by (auto simp: Config_ServeHTTP_def handleGetConfig_def)

section \<open>Properties\<close>

text \<open>Which names of the options a form sets.\<close>

lemma collect_fold_get:
  "gm_get (fold (\<lambda>(key, _) o'. if key \<in> S then o' else gm_set key (f key) o') form acc) k =
     (if k \<notin> S \<and> k \<in> fst ` set form then Some (f k) else gm_get acc k)"
  by (induction form arbitrary: acc) (auto split: if_splits)

lemma buildConfigOptions_reserved:
  assumes "buildConfigOptions r = Inr opts"
  shows "gm_get opts ''name'' = None"
proof -
  have "gm_get (collectFormFields r) ''name'' = None"
    unfolding collectFormFields_def by (subst collect_fold_get) simp
  with assms show ?thesis
    by (auto simp: buildConfigOptions_def rbind_Inr_iff validateAndSetPort_def Let_def split: if_splits option.splits)
qed

text \<open>The document that saving writes.\<close>

definition new_document :: "('f, 'l, 'cl) env \<Rightarrow> marshaller \<Rightarrow> ('l, 'cl) web_tunnel \<Rightarrow> string option \<Rightarrow> bool" where
  "new_document E Y d content \<longleftrightarrow>
     (\<exists>data. marshalTunnelConfig Y (i2p_Name (wt_tunnel d)) (i2p_Type (wt_tunnel d)) (target_text (wt_tunnel d))
        (i2p_Options E (wt_tunnel d)) = Inr data \<and> content = Some data)"

definition saved :: "('f, 'l, 'cl) env \<Rightarrow> marshaller \<Rightarrow> ('l, 'cl) web_tunnel \<Rightarrow> files \<Rightarrow> files \<Rightarrow> bool" where
  "saved E Y d fs fs' \<longleftrightarrow>
     (\<forall>p. p \<noteq> wt_path d \<and> p \<noteq> wt_path d @ ''.tmp'' \<longrightarrow> gm_get fs' p = gm_get fs p) \<and>
     (gm_get fs' (wt_path d) = gm_get fs (wt_path d) \<or> new_document E Y d (gm_get fs' (wt_path d)))"

lemma saved_refl [simp]: "saved E Y d fs fs"
  by (simp add: saved_def)

lemma saveConfig_files: "saved E Y d fs (fst (saveConfig E Y F d fs))"
proof (cases "marshalTunnelConfig Y (i2p_Name (wt_tunnel d)) (i2p_Type (wt_tunnel d)) (target_text (wt_tunnel d)) (i2p_Options E (wt_tunnel d))")
  case (Inl err)
  then show ?thesis by (simp add: saveConfig_def Let_def del: i2p_accessors)
next
  case (Inr data)
  let ?p = "wt_path d" and ?q = "wt_path d @ ''.tmp''"
  have doc: "new_document E Y d (Some data)" using Inr by (simp add: new_document_def del: i2p_accessors)
  obtain fs1 e where w: "WriteFile F ?q data fs = (fs1, e)" by fastforce
  then have fs1: "gm_get fs1 x = gm_get fs x" if "x \<noteq> ?q" for x
    using that by (auto simp: WriteFile_def split: option.splits)
  show ?thesis
  proof (cases "f_mkdir F (filepath_Dir ?p) = None \<and> e = None")
    case False
    with Inr w fs1 show ?thesis
      by (cases "f_mkdir F (filepath_Dir ?p)"; cases e) (simp_all add: saveConfig_def saved_def Let_def del: i2p_accessors)
  next
    case True
    with w have got: "gm_get fs1 ?q = Some data" by (auto simp: WriteFile_def split: option.splits)
    show ?thesis
      by (cases "f_rename F ?q ?p")
        (use Inr w True fs1 got doc in \<open>simp_all add: saveConfig_def saved_def Rename_def Let_def del: i2p_accessors\<close>)
  qed
qed

lemma saveAndRedirect_files: "saved E Y d fs (fst (saveAndRedirect E Y F T r d fs w))"
  using saveConfig_files [of E Y d fs F]
  by (auto simp: saveAndRedirect_def Let_def simp del: i2p_accessors split: prod.splits option.splits)

text \<open>
  C15: saving the configuration of a tunnel through the web interface is atomic: whatever
  fails, partial writes included, afterwards the tunnel's file has its old contents or the
  complete new document, and the latter only if the tunnel was not running, the form was
  valid and the tunnel had accepted all options; no other file changes except for the
  temporary one next to it, and a tunnel that is running is not touched.
\<close>
theorem config_save_atomic:
  assumes "handlePostConfig E Y F T r c fs w = (c', fs', w')"
  shows "(\<forall>p. p \<noteq> wt_path c \<and> p \<noteq> wt_path c @ ''.tmp'' \<longrightarrow> gm_get fs' p = gm_get fs p) \<and>
    (gm_get fs' (wt_path c) = gm_get fs (wt_path c) \<or>
     (\<exists>opts. i2p_Status (wt_tunnel c) \<noteq> StatusRunning \<and> buildConfigOptions r = Inr opts \<and>
        i2p_SetOptions E opts (wt_tunnel c) = (wt_tunnel c', None) \<and>
        new_document E Y c' (gm_get fs' (wt_path c)))) \<and>
    (i2p_Status (wt_tunnel c) = StatusRunning \<longrightarrow> c' = c \<and> fs' = fs)"
proof (cases "fs' = fs")
  case True
  with assms show ?thesis
    by (auto simp: handlePostConfig_def Let_def simp del: i2p_accessors split: option.splits)
next
  case False
  with assms obtain opts t where o: "i2p_Status (wt_tunnel c) \<noteq> StatusRunning" "buildConfigOptions r = Inr opts"
    "i2p_SetOptions E opts (wt_tunnel c) = (t, None)" "c' = c\<lparr>wt_tunnel := t\<rparr>" "fs' = fst (saveAndRedirect E Y F T r c' fs w)"
    by (auto simp: handlePostConfig_def Let_def simp del: i2p_accessors split: option.splits if_splits sum.splits prod.splits)
  with saveAndRedirect_files [of E Y c' fs F T r w] show ?thesis by (auto simp: saved_def simp del: i2p_accessors)
qed

lemma config_save_atomic_witness:
  "\<exists>c' fs' w'. handlePostConfig example_env (\<lambda>y. Inr ''doc'') no_faults
      \<lparr>t_header = ([], None), t_footer = ([], None), t_group = ([], None), t_config = (\<lambda>d. ([], None)),
       t_control = (\<lambda>d. ([], None)), t_mini = (\<lambda>d. ([], None))\<rparr>
      \<lparr>rq_method = ''POST'', rq_path = ''/irc/config'', rq_form = [], rq_formErr = None\<rparr>
      \<lparr>wt_tunnel = example_tunnel, wt_path = ''a.yaml'', wt_starts = 0\<rparr> [(''a.yaml'', ''old''), (''b.yaml'', ''other'')] new_response = (c', fs', w') \<and>
     gm_get fs' ''b.yaml'' = Some ''other'' \<and> (gm_get fs' ''a.yaml'' = Some ''old'' \<or> gm_get fs' ''a.yaml'' = Some ''doc'')"
  (is "\<exists>c' fs' w'. ?h = (c', fs', w') \<and> _")
proof -
  obtain c' fs' w' where h: "?h = (c', fs', w')" by (metis prod_cases3)
  from config_save_atomic [OF h] have "gm_get fs' ''b.yaml'' = Some ''other''"
    "gm_get fs' ''a.yaml'' = Some ''old'' \<or> gm_get fs' ''a.yaml'' = Some ''doc''"
    by (auto simp: new_document_def marshalTunnelConfig_def)
  with h show ?thesis by blast
qed

text \<open>
  What is saved depends on the options only through port, interface and the I2CP options:
  limits, timeout, outproxy and jump service, which \<open>SetOptions\<close> accepts, are not saved.
\<close>

lemma Extract_set_other:
  assumes "\<not> HasPrefix k ''i2cp.''"
  shows "ExtractI2CPOptions (gm_set k v opts) = ExtractI2CPOptions opts"
proof -
  have "fold (\<lambda>(k, v) i2cp. if HasPrefix k ''i2cp.'' \<and> v \<noteq> '''' then gm_set (TrimPrefix k ''i2cp.'') (IStr v) i2cp else i2cp) (gm_set k v opts) acc =
      fold (\<lambda>(k, v) i2cp. if HasPrefix k ''i2cp.'' \<and> v \<noteq> '''' then gm_set (TrimPrefix k ''i2cp.'') (IStr v) i2cp else i2cp) opts acc" for acc
    using assms by (induction opts arbitrary: acc) auto
  then show ?thesis by (simp add: ExtractI2CPOptions_def Let_def)
qed

lemma saved_file_loses_options:
  assumes "k \<in> {''maxconns'', ''ratelimit'', ''dialtimeout'', ''outproxy'', ''outproxy.enabled'', ''jumpservice''}"
  shows "marshalTunnelConfig Y name ty target (gm_set k v opts) = marshalTunnelConfig Y name ty target opts"
proof -
  have k: "\<not> HasPrefix k ''i2cp.''" "k \<noteq> ''port''" "k \<noteq> ''interface''" using assms by (auto simp: HasPrefix_def)
  then show ?thesis
    by (simp add: marshalTunnelConfig_def buildTunnelConfigFields_def Extract_set_other)
qed

end
