(* ===== verification/WebReload.thy ===== *)
theory WebReload
  imports WebConfig
begin

text \<open>
  The file that the configuration page writes, read again by the loader: what a tunnel has
  kept after it was saved and the program restarted.
\<close>

section \<open>Options and fields\<close>

text \<open>Options that agree with the common ones wherever the saved document looks.\<close>

definition common_options :: "float_lib \<Rightarrow> tunnel_config \<Rightarrow> options \<Rightarrow> bool" where
  "common_options fl cfg opts \<longleftrightarrow> gm_wf opts \<and>
     (\<forall>k. k \<in> {''interface'', ''port''} \<or> HasPrefix k ''i2cp.'' \<longrightarrow> gm_get opts k = gm_get (BuildCommonOptions fl cfg) k)"

lemma common_BuildCommon: "common_options fl cfg (BuildCommonOptions fl cfg)"
  by (simp add: common_options_def)

lemma common_set:
  "common_options fl cfg opts \<Longrightarrow> k \<notin> {''interface'', ''port''} \<Longrightarrow> \<not> HasPrefix k ''i2cp.'' \<Longrightarrow> common_options fl cfg (gm_set k v opts)"
  by (auto simp: common_options_def)

lemma common_AddRateLimit: "common_options fl cfg opts \<Longrightarrow> common_options fl cfg (AddRateLimitOptions fl mc rl opts)"
  unfolding AddRateLimitOptions_def by (intro common_set) (simp_all add: HasPrefix_def)

lemma common_target: "common_options fl cfg opts \<Longrightarrow> common_options fl cfg (case a of None \<Rightarrow> opts | Some x \<Rightarrow> gm_set ''target'' x opts)"
  by (cases a) (auto intro: common_set simp: HasPrefix_def)

lemma common_stream: "common_options fl (tb_Config (st_base t)) (stream_Options fl t)"
  unfolding stream_Options_def Let_def base_Options_def by (intro common_target common_AddRateLimit common_BuildCommon)

lemma common_HTTPClient: "common_options fl (tb_Config (hc_base h)) (HTTPClient_Options fl h)"
  using common_BuildCommon [of fl "tb_Config (hc_base h)"]
  by (auto simp: HTTPClient_Options_def Let_def HasPrefix_def intro!: common_set split: option.split)

lemma common_TCPClient: "common_options fl (tb_Config (cl_base c)) (TCPClient_Options fl ds c)"
  unfolding TCPClient_Options_def Let_def
  by (intro common_set common_target common_BuildCommon) (simp_all add: HasPrefix_def)

lemma common_HTTPBidirectional: "common_options fl (tb_Config (bd_base (hb_bidi b))) (HTTPBidirectional_Options fl b)"
  using common_stream [of fl "bd_stream (hb_bidi b)"]
  by (auto simp: HTTPBidirectional_Options_def Let_def HasPrefix_def intro!: common_set split: option.split)

lemma i2p_Options_common: "common_options (e_fl E) (tb_Config (i2p_base t)) (i2p_Options E t)"
  by (cases t)
    (simp_all add: common_stream common_HTTPClient common_TCPClient common_HTTPBidirectional TCPServer_Options_def
      HTTPServer_Options_def IRCServer_Options_def IRCClient_Options_def UDPClient_Options_def UDPServer_Options_def
      TCPBidirectional_Options_def UDPBidirectional_Options_def SOCKS_Options_def Let_def
      common_target common_AddRateLimit common_BuildCommon)

text \<open>The values of a document, and what the parser is expected to make of them.\<close>

definition field_text :: "(string, yval) gomap \<Rightarrow> string \<Rightarrow> string" where
  "field_text doc k = (case gm_get doc k of Some (YVal (IStr s)) \<Rightarrow> s | _ \<Rightarrow> '''')"

definition field_int :: "(string, yval) gomap \<Rightarrow> string \<Rightarrow> int" where
  "field_int doc k = (case gm_get doc k of Some (YVal (IInt n)) \<Rightarrow> n | _ \<Rightarrow> 0)"

definition field_i2cp :: "(string, yval) gomap \<Rightarrow> string \<Rightarrow> ival option" where
  "field_i2cp doc k =
     (case gm_get doc ''i2cp'' of
        Some (YMap m) \<Rightarrow> (case gm_get m k of Some (YVal v) \<Rightarrow> Some v | _ \<Rightarrow> None)
      | _ \<Rightarrow> None)"

definition yaml_keeps_fields :: "('f, 'l, 'cl) env \<Rightarrow> marshaller \<Rightarrow> bool" where
  "yaml_keeps_fields E Y \<longleftrightarrow>
     (\<forall>name doc data f. Y (YMap [(''tunnels'', YMap [(name, YMap doc)])]) = Inr data \<longrightarrow>
        (\<exists>cfg. e_parseInput E data f = Inr cfg \<and> tc_Name cfg = field_text doc ''name'' \<and> tc_Type cfg = field_text doc ''type'' \<and>
           tc_Target cfg = field_text doc ''target'' \<and> tc_Interface cfg = field_text doc ''interface'' \<and>
           tc_Port cfg = field_int doc ''port'' \<and> (\<forall>k. i2cp_get cfg k = field_i2cp doc k) \<and> tc_Tunnel cfg = None))"

lemma yaml_keeps_fieldsD:
  assumes "yaml_keeps_fields E Y" and "Y (YMap [(''tunnels'', YMap [(name, YMap doc)])]) = Inr data" and "e_parseInput E data f = Inr cfg"
  shows "tc_Name cfg = field_text doc ''name''" and "tc_Type cfg = field_text doc ''type''" and "tc_Target cfg = field_text doc ''target''"
    and "tc_Interface cfg = field_text doc ''interface''" and "tc_Port cfg = field_int doc ''port''"
    and "i2cp_get cfg k = field_i2cp doc k" and "tc_Tunnel cfg = None"
proof -
  obtain cfg' where "e_parseInput E data f = Inr cfg'" "tc_Name cfg' = field_text doc ''name''" "tc_Type cfg' = field_text doc ''type''"
    "tc_Target cfg' = field_text doc ''target''" "tc_Interface cfg' = field_text doc ''interface''" "tc_Port cfg' = field_int doc ''port''"
    "\<forall>k. i2cp_get cfg' k = field_i2cp doc k" "tc_Tunnel cfg' = None"
    using assms(1,2) unfolding yaml_keeps_fields_def by blast
  with assms(3) show "tc_Name cfg = field_text doc ''name''" "tc_Type cfg = field_text doc ''type''" "tc_Target cfg = field_text doc ''target''"
    "tc_Interface cfg = field_text doc ''interface''" "tc_Port cfg = field_int doc ''port''"
    "i2cp_get cfg k = field_i2cp doc k" "tc_Tunnel cfg = None" by simp_all
qed

lemma gm_get_map: "gm_get (map (\<lambda>(k, v). (k, f v)) m) k = map_option f (gm_get m k)"
  by (induction m) auto

lemma get_set_option:
  "gm_get (case x of None \<Rightarrow> c | Some y \<Rightarrow> gm_set k (f y) c) k' =
     (if k' = k then (case x of None \<Rightarrow> gm_get c k | Some y \<Rightarrow> Some (f y)) else gm_get c k')"
  "gm_get (case x of None \<Rightarrow> c | Some y \<Rightarrow> (case g y of None \<Rightarrow> c | Some z \<Rightarrow> gm_set k (h z) c)) k' =
     (if k' = k then (case x of None \<Rightarrow> gm_get c k | Some y \<Rightarrow> (case g y of None \<Rightarrow> gm_get c k | Some z \<Rightarrow> Some (h z))) else gm_get c k')"
  by (auto split: option.split)

lemma get_set_if:
  "gm_get (if b then gm_set k v c else c) k' = (if k' = k then (if b then Some v else gm_get c k) else gm_get c k')"
  by simp

lemma saved_fields:
  assumes "doc = buildTunnelConfigFields name ty target opts"
  shows "field_text doc ''name'' = name" and "field_text doc ''type'' = ty" and "field_text doc ''target'' = target"
    and "field_text doc ''interface'' = (case gm_get opts ''interface'' of None \<Rightarrow> '''' | Some i \<Rightarrow> i)"
    and "field_int doc ''port'' = (case gm_get opts ''port'' of None \<Rightarrow> 0 | Some p \<Rightarrow> (case Atoi p of None \<Rightarrow> 0 | Some n \<Rightarrow> n))"
    and "field_i2cp doc k = gm_get (extracted opts) k"
proof -
  note get = assms buildTunnelConfigFields_def Let_def get_set_option get_set_if
  show "field_text doc ''name'' = name" "field_text doc ''type'' = ty" "field_text doc ''target'' = target"
    by (simp_all add: field_text_def get)
  show "field_text doc ''interface'' = (case gm_get opts ''interface'' of None \<Rightarrow> '''' | Some i \<Rightarrow> i)"
    by (cases "gm_get opts ''interface''") (simp_all add: field_text_def get)
  show "field_int doc ''port'' = (case gm_get opts ''port'' of None \<Rightarrow> 0 | Some p \<Rightarrow> (case Atoi p of None \<Rightarrow> 0 | Some n \<Rightarrow> n))"
    by (cases "gm_get opts ''port''") (simp_all add: field_int_def get split: option.split)
  show "field_i2cp doc k = gm_get (extracted opts) k"
    by (cases "ExtractI2CPOptions opts") (simp_all add: field_i2cp_def extracted_def gm_get_map get split: option.split)
qed

section \<open>Saving and loading\<close>

lemma i2p_LocalAddress_config:
  "i2p_LocalAddress t = JoinHostPort (tc_Interface (tb_Config (i2p_base t))) (Itoa (tc_Port (tb_Config (i2p_base t))))"
  by (cases t) (simp_all add: i2p_get_defs)

lemma saveConfig_ok:
  assumes "saveConfig E Y F c fs = (fs', None)"
  obtains data where "gm_get fs' (wt_path c) = Some data"
    and "marshalTunnelConfig Y (i2p_Name (wt_tunnel c)) (i2p_Type (wt_tunnel c)) (target_text (wt_tunnel c)) (i2p_Options E (wt_tunnel c)) = Inr data"
  using assms
  by (auto simp: saveConfig_def WriteFile_def Rename_def Let_def simp del: i2p_accessors
      split: sum.splits option.splits prod.splits if_splits)

lemma Atoi_port: "config_ok cfg \<Longrightarrow> Atoi (Itoa (tc_Port cfg)) = Some (tc_Port cfg)"
  using decimal.dec_enc [of "tc_Port cfg"] by (simp add: config_ok_def valid_port_def in_int64_def int64_min_def int64_max_def)



definition saved_doc :: "(string, yval) gomap" where
  "saved_doc =
     buildTunnelConfigFields (i2p_Name example_tunnel) (i2p_Type example_tunnel) (target_text example_tunnel)
       (i2p_Options example_env example_tunnel)"

text \<open>A marshaller for this document only, and the configuration that it stands for.\<close>

definition doc_yaml :: marshaller where
  "doc_yaml y = (if y = YMap [(''tunnels'', YMap [(i2p_Name example_tunnel, YMap saved_doc)])] then Inr ''doc'' else Inl (Errorf ''yaml''))"

definition doc_config :: tunnel_config where
  "doc_config =
     \<lparr>tc_Name = field_text saved_doc ''name'', tc_Type = field_text saved_doc ''type'', tc_Interface = field_text saved_doc ''interface'',
      tc_Port = field_int saved_doc ''port'', tc_Target = field_text saved_doc ''target'',
      tc_I2CP = Some (extracted (i2p_Options example_env example_tunnel)), tc_Tunnel = None\<rparr>"

definition doc_env :: "(unit, unit, unit) env" where
  "doc_env = example_env\<lparr>e_parseInput := (\<lambda>b f. Inr doc_config)\<rparr>"

lemma doc_env_keeps: "yaml_keeps_fields doc_env doc_yaml"
proof -
  have "i2cp_get doc_config k = field_i2cp saved_doc k" for k
    using saved_fields(6) [OF saved_doc_def, of k] by (simp add: doc_config_def i2cp_get_def)
  then show ?thesis by (auto simp: yaml_keeps_fields_def doc_yaml_def doc_env_def doc_config_def split: if_splits)
qed


end
