(* ===== verification/WebControl.thy ===== *)
theory WebControl
  imports WebConfig Prometheus
begin

text \<open>
  The control page of a tunnel (\<open>webui/controller/i2p_tunnel_control.go\<close>) and the group of
  all tunnels with its routing, its form for new tunnels and its loading from a directory
  (\<open>i2p_tunnel_group.go\<close>). \<open>go c.Start()\<close> is counted in \<open>wt_starts\<close>; what a running
  \<open>Start\<close> does to the tunnel meanwhile is not part of a request.
\<close>

section \<open>The control page\<close>

definition handleStart :: "('l, 'cl) web_tunnel \<Rightarrow> ('l, 'cl) web_tunnel \<times> go_error option" where
  "handleStart c =
     (let status = i2p_Status (wt_tunnel c) in
      if status = StatusRunning \<or> status = StatusStarting then
        (c, Some (Errorf (''tunnel is already '' @ status_text status)))
      else (c\<lparr>wt_starts := Suc (wt_starts c)\<rparr>, None))"

definition handleStop :: "go_error option \<Rightarrow> ('l, 'cl) web_tunnel \<Rightarrow> ('l, 'cl) web_tunnel \<times> go_error option" where
  "handleStop shutdown c =
     (let status = i2p_Status (wt_tunnel c) in
      if status = StatusStopped \<or> status = StatusStopping then
        (c, Some (Errorf (''tunnel is already '' @ status_text status)))
      else
        (case i2p_Stop shutdown (wt_tunnel c) of
           (t, Some err) \<Rightarrow> (c\<lparr>wt_tunnel := t\<rparr>, Some (Wrapf ''failed to stop tunnel'' err))
         | (t, None) \<Rightarrow> (c\<lparr>wt_tunnel := t\<rparr>, None)))"

definition handleRestart :: "go_error option \<Rightarrow> ('l, 'cl) web_tunnel \<Rightarrow> ('l, 'cl) web_tunnel \<times> go_error option" where
  "handleRestart shutdown c =
     (case (if i2p_Status (wt_tunnel c) = StatusRunning then i2p_Stop shutdown (wt_tunnel c) else (wt_tunnel c, None)) of
        (t, Some err) \<Rightarrow> (c\<lparr>wt_tunnel := t\<rparr>, Some (Wrapf ''failed to stop tunnel during restart'' err))
      | (t, None) \<Rightarrow> (c\<lparr>wt_tunnel := t, wt_starts := Suc (wt_starts c)\<rparr>, None))"

definition buildControlData :: "('f, 'l, 'cl) env \<Rightarrow> ('l, 'cl) web_tunnel \<Rightarrow> control_data" where
  "buildControlData E c =
     (let t = wt_tunnel c in
      \<lparr>ct_Name = i2p_Name t, ct_ID = i2p_ID t, ct_Type = i2p_Type t, ct_Status = status_text (i2p_Status t),
       ct_LocalAddress = i2p_LocalAddress t, ct_Address = i2p_Address t, ct_Target = target_text t,
       ct_Options = i2p_Options E t, ct_Error = (case i2p_Error t of None \<Rightarrow> '''' | Some err \<Rightarrow> Error_text err)\<rparr>)"

definition renderControlWithError :: "('f, 'l, 'cl) env \<Rightarrow> templates \<Rightarrow> ('l, 'cl) web_tunnel \<Rightarrow> string \<Rightarrow> response \<Rightarrow> response" where
  "renderControlWithError E T c errMsg w =
     fst (Execute (t_control T ((buildControlData E c)\<lparr>ct_Error := errMsg\<rparr>)) (WriteHeader 400 w))"

definition MiniServeHTTP :: "('f, 'l, 'cl) env \<Rightarrow> templates \<Rightarrow> ('l, 'cl) web_tunnel \<Rightarrow> response \<Rightarrow> response" where
  "MiniServeHTTP E T c w = execute_or_500 (t_mini T (buildControlData E c)) w"

definition handleGetControl :: "('f, 'l, 'cl) env \<Rightarrow> templates \<Rightarrow> ('l, 'cl) web_tunnel \<Rightarrow> response \<Rightarrow> response" where
  "handleGetControl E T c w = execute_or_500 (t_control T (buildControlData E c)) w"

definition handlePostControl ::
  "('f, 'l, 'cl) env \<Rightarrow> templates \<Rightarrow> go_error option \<Rightarrow> request \<Rightarrow> ('l, 'cl) web_tunnel \<Rightarrow> response \<Rightarrow>
   ('l, 'cl) web_tunnel \<times> response" where
  "handlePostControl E T shutdown r c w =
     (case rq_formErr r of
        Some err \<Rightarrow> (c, renderControlWithError E T c (''Failed to parse form: '' @ Error_text err) w)
      | None \<Rightarrow>
          (let action = FormValue r ''action'';
               finish = (\<lambda>(c1, err).
                 case err of
                   Some e \<Rightarrow> (c1, renderControlWithError E T c1 (''Action '' @ [CHR 0x27] @ action @ [CHR 0x27] @ '' failed: '' @ Error_text e) w)
                 | None \<Rightarrow> (c1, http_Redirect r (rq_path r) 303 w))
           in if action = ''Start'' then finish (handleStart c)
              else if action = ''Stop'' then finish (handleStop shutdown c)
              else if action = ''Restart'' then finish (handleRestart shutdown c)
              else (c, renderControlWithError E T c (''Unknown action: '' @ action) w)))"

definition Controller_ServeHTTP ::
  "('f, 'l, 'cl) env \<Rightarrow> templates \<Rightarrow> go_error option \<Rightarrow> request \<Rightarrow> ('l, 'cl) web_tunnel \<Rightarrow> response \<Rightarrow>
   ('l, 'cl) web_tunnel \<times> response" where
  "Controller_ServeHTTP E T shutdown r c w =
     (if rq_method r = ''GET'' then (c, handleGetControl E T c w)
      else if rq_method r = ''POST'' then handlePostControl E T shutdown r c w
      else (c, http_Error ''Method not allowed'' 405 w))"

definition NewController :: "('f, 'l, 'cl) env \<Rightarrow> files \<Rightarrow> string \<Rightarrow> go_error + ('l, 'cl) web_tunnel" where
  "NewController E fs yamlFile = NewConfig E fs yamlFile"

section \<open>The group\<close>

text \<open>
  The slice of controllers (each a pointer to its configuration, so a change through one
  is seen by all), the directory, the metrics registry (\<open>None\<close>: no handler), whether the
  cross-origin protection is there, and the files.
\<close>

record ('l, 'cl) group =
  cg_tunnels :: "('l, 'cl) web_tunnel list"
  cg_configDir :: string
  cg_registry :: "registry option"
  cg_csrf :: bool
  cg_files :: files

text \<open>
  Everything a request meets besides the group: the environment of the tunnels, YAML, file
  faults, templates, the shutdown result of a stop, the check of the cross-origin
  protection, and what the metrics handlers write.
\<close>

record ('f, 'l, 'cl) web_env =
  we_env :: "('f, 'l, 'cl) env"
  we_yaml :: marshaller
  we_faults :: faults
  we_templates :: templates
  we_shutdown :: "go_error option"
  we_csrf :: "request \<Rightarrow> go_error option"
  we_metrics :: "string \<Rightarrow> response \<Rightarrow> response"

definition renderNewWithError :: "templates \<Rightarrow> string \<Rightarrow> response \<Rightarrow> response" where
  "renderNewWithError T errMsg w =
     fst (Execute (t_config T \<lparr>cd_Name = '''', cd_ID = '''', cd_Type = '''', cd_Target = '''',
            cd_Options = [(''interface'', ''127.0.0.1'')], cd_Error = errMsg\<rparr>) (WriteHeader 400 w))"

definition handleGetNew :: "templates \<Rightarrow> response \<Rightarrow> response" where
  "handleGetNew T w =
     execute_or_500 (t_config T \<lparr>cd_Name = '''', cd_ID = '''', cd_Type = '''', cd_Target = '''',
            cd_Options = [(''interface'', ''127.0.0.1'')], cd_Error = ''''\<rparr>) w"

text \<open>\<open>Inl\<close> is the error message.\<close>

definition validateNewTunnelForm :: "request \<Rightarrow> ('l, 'cl) web_tunnel list \<Rightarrow> string + string \<times> string" where
  "validateNewTunnelForm r cs =
     (let name = FormValue r ''name''; tunnelType = FormValue r ''type'' in
      if name = '''' then Inl ''Tunnel name is required''
      else if tunnelType = '''' then Inl ''Tunnel type is required''
      else if \<exists>c\<in>set cs. Clean (i2p_Name (wt_tunnel c)) = Clean name then
        Inl (''A tunnel named '' @ Quote name @ '' already exists'')
      else Inr (name, tunnelType))"

definition applyI2CPConfig :: "request \<Rightarrow> (string, yval) gomap \<Rightarrow> go_error + (string, yval) gomap" where
  "applyI2CPConfig r cfg =
     (let i2cpForm = fold (\<lambda>(key, _) m.
            if HasPrefix key ''i2cp.'' \<and> FormValue r key \<noteq> '''' then gm_set key (FormValue r key) m else m) (rq_form r) [];
          authType = form_text i2cpForm ''i2cp.leaseSetAuthType''
      in if (authType = ''1'' \<or> authType = ''2'') \<and> TrimSpace (form_text i2cpForm ''i2cp.leaseSetPrivKey'') = '''' then
           Inl (Errorf lease_set_message)
         else
           (case ExtractI2CPOptions i2cpForm of
              None \<Rightarrow> Inr cfg
            | Some m \<Rightarrow> Inr (gm_set ''i2cp'' (YMap (map (\<lambda>(k, v). (k, YVal v)) m)) cfg)))"

definition buildTunnelConfigMap :: "request \<Rightarrow> string \<Rightarrow> string \<Rightarrow> go_error + (string, yval) gomap" where
  "buildTunnelConfigMap r name tunnelType =
     (let c = gm_set ''type'' (YVal (IStr tunnelType)) (gm_set ''name'' (YVal (IStr name)) []);
          target = FormValue r ''destination'';
          c = (if target \<noteq> '''' then gm_set ''target'' (YVal (IStr target)) c else c);
          portStr = FormValue r ''port'';
          c = (if portStr \<noteq> '''' then
                 (case Atoi portStr of
                    None \<Rightarrow> c
                  | Some p \<Rightarrow> if p > 0 \<and> p \<le> 65535 then gm_set ''port'' (YVal (IInt p)) c else c)
               else c);
          iface = FormValue r ''interface'';
          c = (if iface \<noteq> '''' then gm_set ''interface'' (YVal (IStr iface)) c else c)
      in applyI2CPConfig r c)"

definition writeTunnelConfigYAML ::
  "marshaller \<Rightarrow> faults \<Rightarrow> request \<Rightarrow> string \<Rightarrow> string \<Rightarrow> string \<Rightarrow> files \<Rightarrow> files \<times> go_error option" where
  "writeTunnelConfigYAML Y F r name tunnelType configPath fs =
     (case buildTunnelConfigMap r name tunnelType of
        Inl err \<Rightarrow> (fs, Some err)
      | Inr tunnelConfig \<Rightarrow>
          (case Y (YMap [(''tunnels'', YMap [(name, YMap tunnelConfig)])]) of
             Inl err \<Rightarrow> (fs, Some (Wrapf ''Failed to generate config'' err))
           | Inr data \<Rightarrow>
               (case WriteFile F configPath data fs of
                  (fs1, Some err) \<Rightarrow> (fs1, Some (Wrapf ''Failed to save config'' err))
                | (fs1, None) \<Rightarrow> (fs1, None))))"

text \<open>Registering a tunnel for metrics: \<open>r.Register\<close> and \<open>SetTunnelMetrics\<close>.\<close>

definition register_metrics :: "registry \<Rightarrow> ('l, 'cl) web_tunnel \<Rightarrow> registry \<times> ('l, 'cl) web_tunnel" where
  "register_metrics reg c =
     (let t = wt_tunnel c in
      case Register (i2p_Name t) (i2p_ID t) (i2p_Type t) reg of
        (reg1, m) \<Rightarrow> (reg1, c\<lparr>wt_tunnel := i2p_SetTunnelMetrics (Some (cells reg1 m)) t\<rparr>))"

definition createAndRegisterController ::
  "('f, 'l, 'cl) env \<Rightarrow> string \<Rightarrow> ('l, 'cl) group \<Rightarrow> go_error + ('l, 'cl) group \<times> ('l, 'cl) web_tunnel" where
  "createAndRegisterController E configPath g =
     (case NewController E (cg_files g) configPath of
        Inl err \<Rightarrow> Inl (Wrapf ''Failed to create tunnel'' err)
      | Inr c \<Rightarrow>
          (case cg_registry g of
             None \<Rightarrow> Inr (g\<lparr>cg_tunnels := cg_tunnels g @ [c]\<rparr>, c)
           | Some reg \<Rightarrow>
               (case register_metrics reg c of
                  (reg1, c1) \<Rightarrow> Inr (g\<lparr>cg_tunnels := cg_tunnels g @ [c1], cg_registry := Some reg1\<rparr>, c1))))"

definition handlePostNew ::
  "('f, 'l, 'cl) web_env \<Rightarrow> request \<Rightarrow> ('l, 'cl) group \<Rightarrow> response \<Rightarrow> ('l, 'cl) group \<times> response" where
  "handlePostNew W r g w =
     (let T = we_templates W in
      case rq_formErr r of
        Some err \<Rightarrow> (g, http_Error (''Failed to parse form: '' @ Error_text err) 400 w)
      | None \<Rightarrow>
          (case validateNewTunnelForm r (cg_tunnels g) of
             Inl validErr \<Rightarrow> (g, renderNewWithError T validErr w)
           | Inr (name, tunnelType) \<Rightarrow>
               let cleanName = Clean name;
                   configPath = filepath_Join (cg_configDir g) (cleanName @ ''.yaml'') in
               (case writeTunnelConfigYAML (we_yaml W) (we_faults W) r name tunnelType configPath (cg_files g) of
                  (fs1, Some err) \<Rightarrow> (g\<lparr>cg_files := fs1\<rparr>, renderNewWithError T (Error_text err) w)
                | (fs1, None) \<Rightarrow>
                    let g1 = g\<lparr>cg_files := fs1\<rparr> in
                    (case createAndRegisterController (we_env W) configPath g1 of
                       Inl err \<Rightarrow>
                         (g1\<lparr>cg_files := gm_del configPath (cg_files g1)\<rparr>, renderNewWithError T (Error_text err) w)
                     | Inr (g2, c) \<Rightarrow>
                         (g2, http_Redirect r (''/'' @ i2p_ID (wt_tunnel c) @ ''/control'') 303 w)))))"

definition HandleNew ::
  "('f, 'l, 'cl) web_env \<Rightarrow> request \<Rightarrow> ('l, 'cl) group \<Rightarrow> response \<Rightarrow> ('l, 'cl) group \<times> response" where
  "HandleNew W r g w =
     (if rq_method r = ''GET'' then (g, handleGetNew (we_templates W) w)
      else if rq_method r = ''POST'' then handlePostNew W r g w
      else (g, http_Error ''Method not allowed'' 405 w))"

definition HandleGroup :: "('f, 'l, 'cl) web_env \<Rightarrow> ('l, 'cl) group \<Rightarrow> response \<Rightarrow> response" where
  "HandleGroup W g w =
     fst (Execute (t_group (we_templates W)) (fold (MiniServeHTTP (we_env W) (we_templates W)) (cg_tunnels g) w))"

definition HandleError :: "request \<Rightarrow> response \<Rightarrow> response" where
  "HandleError r w = http_Redirect r ''/home'' 302 w"

text \<open>The index of the first controller whose cleaned name is the one in the path.\<close>

fun find_tunnel :: "string \<Rightarrow> ('l, 'cl) web_tunnel list \<Rightarrow> nat option" where
  "find_tunnel n [] = None"
| "find_tunnel n (c # cs) = (if Clean (i2p_Name (wt_tunnel c)) = n then Some 0 else map_option Suc (find_tunnel n cs))"

definition routeTunnelControl ::
  "('f, 'l, 'cl) web_env \<Rightarrow> request \<Rightarrow> ('l, 'cl) group \<Rightarrow> response \<Rightarrow> ('l, 'cl) group \<times> response" where
  "routeTunnelControl W r g w =
     (case find_tunnel (tunnel (Some r)) (cg_tunnels g) of
        None \<Rightarrow> (g, HandleError r w)
      | Some i \<Rightarrow>
          (case Controller_ServeHTTP (we_env W) (we_templates W) (we_shutdown W) r (cg_tunnels g ! i) w of
             (c, w1) \<Rightarrow> (g\<lparr>cg_tunnels := (cg_tunnels g)[i := c]\<rparr>, w1)))"

definition routeTunnelConfig ::
  "('f, 'l, 'cl) web_env \<Rightarrow> request \<Rightarrow> ('l, 'cl) group \<Rightarrow> response \<Rightarrow> ('l, 'cl) group \<times> response" where
  "routeTunnelConfig W r g w =
     (case find_tunnel (tunnel (Some r)) (cg_tunnels g) of
        None \<Rightarrow> (g, HandleError r w)
      | Some i \<Rightarrow>
          (case Config_ServeHTTP (we_env W) (we_yaml W) (we_faults W) (we_templates W) r (cg_tunnels g ! i) (cg_files g) w of
             (c, fs, w1) \<Rightarrow> (g\<lparr>cg_tunnels := (cg_tunnels g)[i := c], cg_files := fs\<rparr>, w1)))"

definition routeRequest ::
  "('f, 'l, 'cl) web_env \<Rightarrow> request \<Rightarrow> ('l, 'cl) group \<Rightarrow> response \<Rightarrow> ('l, 'cl) group \<times> response" where
  "routeRequest W r g w =
     (let h = handler (Some r) in
      if h = ''group'' then (g, HandleGroup W g w)
      else if h = ''new'' then HandleNew W r g w
      else if h = ''control'' then routeTunnelControl W r g w
      else if h = ''config'' then routeTunnelConfig W r g w
      else (g, HandleGroup W g w))"

text \<open>The result is \<open>None\<close> if the request is not for the metrics handler.\<close>

definition handleMetricsRoute ::
  "('f, 'l, 'cl) web_env \<Rightarrow> request \<Rightarrow> ('l, 'cl) group \<Rightarrow> response \<Rightarrow> response option" where
  "handleMetricsRoute W r g w =
     (case cg_registry g of
        None \<Rightarrow> None
      | Some reg \<Rightarrow>
          if rq_path r \<in> {''/metrics'', ''/healthz'', ''/api/status''} then Some (we_metrics W (rq_path r) w) else None)"

definition HandleHTMLHeader :: "templates \<Rightarrow> response \<Rightarrow> response" where
  "HandleHTMLHeader T w = fst (Execute (t_header T) w)"

definition HandleHTMLFooter :: "templates \<Rightarrow> response \<Rightarrow> response" where
  "HandleHTMLFooter T w = fst (Execute (t_footer T) w)"

definition Group_ServeHTTP ::
  "('f, 'l, 'cl) web_env \<Rightarrow> request \<Rightarrow> ('l, 'cl) group \<Rightarrow> response \<Rightarrow> ('l, 'cl) group \<times> response" where
  "Group_ServeHTTP W r g w =
     (if cg_csrf g \<and> we_csrf W r \<noteq> None then (g, http_Error ''Forbidden'' 403 w)
      else
        (case handleMetricsRoute W r g w of
           Some w1 \<Rightarrow> (g, w1)
         | None \<Rightarrow>
             (case routeRequest W r g (HandleHTMLHeader (we_templates W) w) of
                (g1, w1) \<Rightarrow> (g1, HandleHTMLFooter (we_templates W) w1))))"

text \<open>Loading: the directory is a list of entries with a flag for directories; \<open>None\<close> if it cannot be read.\<close>

fun loadControllersFromFiles ::
  "('f, 'l, 'cl) env \<Rightarrow> (string \<times> bool) list \<Rightarrow> string \<Rightarrow> ('l, 'cl) group \<Rightarrow> registry \<Rightarrow>
   go_error + ('l, 'cl) group \<times> registry" where
  "loadControllersFromFiles E [] directory g reg = Inr (g, reg)"
| "loadControllersFromFiles E ((file, isDir) # entries) directory g reg =
     (if isDir then loadControllersFromFiles E entries directory g reg
      else
        (case NewController E (cg_files g) (filepath_Join directory file) of
           Inl err \<Rightarrow> Inl err
         | Inr c \<Rightarrow>
             (case register_metrics reg c of
                (reg1, c1) \<Rightarrow>
                  loadControllersFromFiles E entries directory (g\<lparr>cg_tunnels := cg_tunnels g @ [c1]\<rparr>) reg1)))"

definition NewControllerGroup ::
  "('f, 'l, 'cl) env \<Rightarrow> (string \<Rightarrow> go_error + (string \<times> bool) list) \<Rightarrow> files \<Rightarrow> string \<Rightarrow> go_error + ('l, 'cl) group" where
  "NewControllerGroup E readDir fs directory =
     rbind (readDir directory) (\<lambda>entries.
       rbind (loadControllersFromFiles E entries directory
               \<lparr>cg_tunnels = [], cg_configDir = directory, cg_registry = None, cg_csrf = True, cg_files = fs\<rparr> NewRegistry)
         (\<lambda>(g, reg). Inr (g\<lparr>cg_registry := Some reg\<rparr>)))"

definition tunnelStatus :: "('l, 'cl) group \<Rightarrow> live_status list" where
  "tunnelStatus g =
     map (\<lambda>c. let t = wt_tunnel c in
       \<lparr>ts_Name = i2p_Name t, ts_ID = i2p_ID t, ts_Type = i2p_Type t, ts_Status = status_text (i2p_Status t),
        ts_Address = i2p_Address t, ts_Target = target_text t, ts_LocalAddress = i2p_LocalAddress t,
        ts_Error = (case i2p_Error t of None \<Rightarrow> '''' | Some err \<Rightarrow> Error_text err)\<rparr>) (cg_tunnels g)"

end
