(* ===== verification/WebGroup.thy ===== *)
theory WebGroup
  imports WebControl
begin

text \<open>
  Properties of the web interface as a whole: what the client sees of a response, and
  which files the form for new tunnels touches.
\<close>

section \<open>Responses\<close>

lemma sent_renderControl [intro]: "sent_same u w \<Longrightarrow> sent_same u (renderControlWithError E T c m w)"
  unfolding renderControlWithError_def by blast

lemma sent_renderNew [intro]: "sent_same u w \<Longrightarrow> sent_same u (renderNewWithError T m w)"
  unfolding renderNewWithError_def by blast

lemma sent_handlePostControl: "sent_same u w \<Longrightarrow> sent_same u (snd (handlePostControl E T sd r c w))"
  by (auto simp: handlePostControl_def Let_def split: option.splits prod.splits)

lemma sent_Controller_ServeHTTP: "sent_same u w \<Longrightarrow> sent_same u (snd (Controller_ServeHTTP E T sd r c w))"
  using sent_handlePostControl [of u w E T sd r c] by (auto simp: Controller_ServeHTTP_def handleGetControl_def)

lemma sent_handlePostNew: "sent_same u w \<Longrightarrow> sent_same u (snd (handlePostNew W r g w))"
  by (auto simp: handlePostNew_def Let_def split: option.splits sum.splits prod.splits)

lemma sent_fold_mini: "sent_same u w \<Longrightarrow> sent_same u (fold (MiniServeHTTP E T) cs w)"
  by (induction cs arbitrary: w) (auto simp: MiniServeHTTP_def)

lemma sent_HandleGroup: "sent_same u w \<Longrightarrow> sent_same u (HandleGroup W g w)"
  unfolding HandleGroup_def by (intro sent_Execute sent_fold_mini)

lemma sent_HandleNew: "sent_same u w \<Longrightarrow> sent_same u (snd (HandleNew W r g w))"
  using sent_handlePostNew [of u w W r g] by (auto simp: HandleNew_def handleGetNew_def)

lemma sent_routeTunnelControl:
  assumes "sent_same u w"
  shows "sent_same u (snd (routeTunnelControl W r g w))"
proof (cases "find_tunnel (tunnel (Some r)) (cg_tunnels g)")
  case None
  with assms show ?thesis by (auto simp: routeTunnelControl_def HandleError_def)
next
  case (Some i)
  with sent_Controller_ServeHTTP [OF assms, of "we_env W" "we_templates W" "we_shutdown W" r "cg_tunnels g ! i"]
  show ?thesis by (simp add: routeTunnelControl_def case_prod_unfold)
qed

lemma sent_routeTunnelConfig:
  assumes "sent_same u w"
  shows "sent_same u (snd (routeTunnelConfig W r g w))"
proof (cases "find_tunnel (tunnel (Some r)) (cg_tunnels g)")
  case None
  with assms show ?thesis by (auto simp: routeTunnelConfig_def HandleError_def)
next
  case (Some i)
  with sent_Config_ServeHTTP [OF assms, of "we_env W" "we_yaml W" "we_faults W" "we_templates W" r "cg_tunnels g ! i" "cg_files g"]
  show ?thesis by (simp add: routeTunnelConfig_def case_prod_unfold)
qed

lemma sent_routeRequest: "sent_same u w \<Longrightarrow> sent_same u (snd (routeRequest W r g w))"
  using sent_HandleGroup [of u w W g] sent_HandleNew [of u w W r g] sent_routeTunnelControl [of u w W r g]
    sent_routeTunnelConfig [of u w W r g]
  by (simp add: routeRequest_def Let_def)

text \<open>
  C40: the web interface never redirects and never reports an error status: since the HTML
  header is written before the request is routed, every request that the cross-origin
  check lets through and that is not for the metrics handler is answered with status 200
  and without a \<open>Location\<close> header, whatever its handler does. The redirects after Start,
  Stop, saving and creating a tunnel, the redirect of unknown tunnels, and the statuses
  400, 405 and 500 do not reach the client. (The template of the header is not empty.)
\<close>
theorem redirects_are_lost:
  assumes "fst (t_header (we_templates W)) \<noteq> ''''" and "cg_csrf g \<longrightarrow> we_csrf W r = None"
    and "handleMetricsRoute W r g new_response = None"
  shows "rw_status (snd (Group_ServeHTTP W r g new_response)) = Some 200 \<and>
    gm_get (rw_sent (snd (Group_ServeHTTP W r g new_response))) ''Location'' = None"
proof -
  define w1 where "w1 = HandleHTMLHeader (we_templates W) new_response"
  have w1: "rw_status w1 = Some 200" "rw_sent w1 = []"
    using assms(1)
    by (cases "t_header (we_templates W)";
      simp add: w1_def HandleHTMLHeader_def Execute_def Write_def WriteHeader_def new_response_def Let_def)+
  obtain g2 w2 where route: "routeRequest W r g w1 = (g2, w2)" by fastforce
  have "sent_same w1 w2" using sent_routeRequest [of w1 w1 W r g] route by simp
  then have "sent_same w1 (HandleHTMLFooter (we_templates W) w2)" unfolding HandleHTMLFooter_def by blast
  moreover have "snd (Group_ServeHTTP W r g new_response) = HandleHTMLFooter (we_templates W) w2"
    using assms(2,3) route by (auto simp: Group_ServeHTTP_def w1_def)
  ultimately show ?thesis using w1 by (simp add: sent_same_def)
qed

definition plain_templates :: templates where
  "plain_templates =
     \<lparr>t_header = (''<html>'', None), t_footer = (''</html>'', None), t_group = ([], None), t_config = (\<lambda>d. ([], None)),
      t_control = (\<lambda>d. ([], None)), t_mini = (\<lambda>d. ([], None))\<rparr>"

text \<open>A marshaller and a parser for the names of tunnels only.\<close>

fun name_yaml :: "yval \<Rightarrow> go_error + string" where
  "name_yaml (YMap [(k, YMap [(n, v)])]) = Inr n"
| "name_yaml y = Inl (Errorf ''yaml'')"

definition name_env :: "(unit, unit, unit) web_env" where
  "name_env =
     \<lparr>we_env = example_env\<lparr>e_parseInput := (\<lambda>b f. Inr (example_config\<lparr>tc_Name := b, tc_Type := ''ircserver''\<rparr>))\<rparr>,
      we_yaml = name_yaml, we_faults = no_faults, we_templates = plain_templates, we_shutdown = None,
      we_csrf = (\<lambda>r. None), we_metrics = (\<lambda>p w. w)\<rparr>"

definition example_group :: "(unit, unit) group" where
  "example_group =
     \<lparr>cg_tunnels = [\<lparr>wt_tunnel = example_tunnel, wt_path = ''conf/web.yaml'', wt_starts = 0\<rparr>], cg_configDir = ''conf'',
      cg_registry = Some NewRegistry, cg_csrf = True, cg_files = [(''conf/web.yaml'', ''irc'')]\<rparr>"

definition post_new :: "string \<Rightarrow> string \<Rightarrow> request" where
  "post_new name ty = \<lparr>rq_method = ''POST'', rq_path = ''/new'', rq_form = [(''name'', name), (''type'', ty)], rq_formErr = None\<rparr>"

lemma redirects_are_lost_witness:
  "rw_status (snd (Group_ServeHTTP name_env (post_new ''my irc'' ''ircserver'') example_group new_response)) = Some 200"
  using redirects_are_lost [of name_env example_group "post_new ''my irc'' ''ircserver''"]
  by (simp add: name_env_def plain_templates_def handleMetricsRoute_def example_group_def post_new_def)

section \<open>Files\<close>

lemma yaml_segment: "normal_segment (Clean name @ ''.yaml'')"
  using Clean_forbidden(4) [of name] by (cases "Clean name") (auto simp: normal_segment_def)

lemma writeTunnelConfigYAML_other:
  "p \<noteq> path \<Longrightarrow> gm_get (fst (writeTunnelConfigYAML Y F r name ty path fs)) p = gm_get fs p"
  by (auto simp: writeTunnelConfigYAML_def WriteFile_def split: sum.splits option.splits prod.splits)

lemma create_files: "createAndRegisterController E path g = Inr (g', c) \<Longrightarrow> cg_files g' = cg_files g"
  by (auto simp: createAndRegisterController_def split: sum.splits option.splits prod.splits)

text \<open>
  C39: the form for new tunnels stays inside the configuration directory: whatever name is
  posted, the only file that can change is a direct child of the directory, named after
  the cleaned tunnel name, so a name cannot escape by slashes or parent references.
\<close>
theorem new_tunnel_confined:
  assumes "path = filepath_Join (cg_configDir g) (Clean (FormValue r ''name'') @ ''.yaml'')"
  shows "filepath_Dir path = path_Clean (cg_configDir g) \<and> snd (path_Split path) = Clean (FormValue r ''name'') @ ''.yaml'' \<and>
    CHR ''/'' \<notin> set (snd (path_Split path)) \<and>
    (\<forall>p. p \<noteq> path \<longrightarrow> gm_get (cg_files (fst (handlePostNew W r g w))) p = gm_get (cg_files g) p)"
proof -
  have child: "snd (path_Split path) = Clean (FormValue r ''name'') @ ''.yaml''" "filepath_Dir path = path_Clean (cg_configDir g)"
    using filepath_Join_child [OF yaml_segment, of "cg_configDir g" "FormValue r ''name''"] assms by simp_all
  have "gm_get (cg_files (fst (handlePostNew W r g w))) p = gm_get (cg_files g) p" if p: "p \<noteq> path" for p
  proof (cases "rq_formErr r = None \<and> (\<exists>ty. validateNewTunnelForm r (cg_tunnels g) = Inr (FormValue r ''name'', ty))")
    case False
    then have "fst (handlePostNew W r g w) = g"
      by (auto simp: handlePostNew_def validateNewTunnelForm_def Let_def split: option.splits if_splits)
    then show ?thesis by simp
  next
    case True
    then obtain ty where ty: "rq_formErr r = None" "validateNewTunnelForm r (cg_tunnels g) = Inr (FormValue r ''name'', ty)" by blast
    obtain fs1 e where wr: "writeTunnelConfigYAML (we_yaml W) (we_faults W) r (FormValue r ''name'') ty path (cg_files g) = (fs1, e)"
      by fastforce
    then have fs1: "gm_get fs1 p = gm_get (cg_files g) p" using writeTunnelConfigYAML_other [OF p] by (metis fst_conv)
    show ?thesis
      using ty wr fs1 p assms
      by (auto simp: handlePostNew_def Let_def dest: create_files split: option.split sum.split)
  qed
  with child Clean_forbidden(4) [of "FormValue r ''name''"] show ?thesis by simp
qed

lemma new_tunnel_confined_witness:
  "filepath_Dir (filepath_Join ''conf'' (Clean ''../../etc/passwd'' @ ''.yaml'')) = path_Clean ''conf''"
  using new_tunnel_confined [of "filepath_Join ''conf'' (Clean ''../../etc/passwd'' @ ''.yaml'')" example_group
      "post_new ''../../etc/passwd'' ''tcpserver''" name_env new_response]
  by (simp add: example_group_def post_new_def FormValue_def)

text \<open>
  A refused new tunnel can delete the configuration of another one. The form compares
  the new name with the names of the tunnels, not with their files; when the file that the
  new name stands for is the file of a tunnel with another name, it is overwritten, and if
  the new configuration cannot be loaded it is removed, although the request only reports
  an error. The tunnel itself stays in the group, without its file.
\<close>
theorem refused_new_tunnel_deletes_config:
  assumes "c \<in> set (cg_tunnels g)" and "wt_path c = filepath_Join (cg_configDir g) (Clean name @ ''.yaml'')"
    and "rq_formErr r = None" and "validateNewTunnelForm r (cg_tunnels g) = Inr (name, ty)"
    and "writeTunnelConfigYAML (we_yaml W) (we_faults W) r name ty (wt_path c) (cg_files g) = (fs1, None)"
    and "NewController (we_env W) fs1 (wt_path c) = Inl err"
  shows "Clean (i2p_Name (wt_tunnel c)) \<noteq> Clean name \<and> c \<in> set (cg_tunnels (fst (handlePostNew W r g w))) \<and>
    gm_get (cg_files (fst (handlePostNew W r g w))) (wt_path c) = None"
proof -
  have "createAndRegisterController (we_env W) (wt_path c) (g\<lparr>cg_files := fs1\<rparr>) = Inl (Wrapf ''Failed to create tunnel'' err)"
    using assms(6) by (simp add: createAndRegisterController_def)
  with assms have "fst (handlePostNew W r g w) = g\<lparr>cg_files := gm_del (wt_path c) fs1\<rparr>"
    by (simp add: handlePostNew_def Let_def)
  moreover have "Clean (i2p_Name (wt_tunnel c)) \<noteq> Clean name"
    using assms(1,4) by (auto simp: validateNewTunnelForm_def Let_def split: if_splits)
  ultimately show ?thesis using assms(1) by simp
qed

definition bad_type_env :: "(unit, unit, unit) web_env" where
  "bad_type_env = name_env\<lparr>we_env := example_env\<lparr>e_parseInput := (\<lambda>b f. Inl (Errorf ''no such type''))\<rparr>\<rparr>"

lemma refused_new_tunnel_deletes_config_witness:
  "gm_get (cg_files example_group) ''conf/web.yaml'' = Some ''irc'' \<and>
   gm_get (cg_files (fst (handlePostNew bad_type_env (post_new ''web'' ''nonsense'') example_group new_response))) ''conf/web.yaml'' = None"
proof -
  let ?c = "hd (cg_tunnels example_group)" and ?r = "post_new ''web'' ''nonsense''"
  have c: "?c \<in> set (cg_tunnels example_group)" "wt_path ?c = ''conf/web.yaml''" "cg_configDir example_group = ''conf''"
    by (simp_all add: example_group_def)
  have path: "filepath_Join ''conf'' (Clean ''web'' @ ''.yaml'') = ''conf/web.yaml''" by code_simp
  have name: "Clean (tc_Name (tb_Config (i2p_base example_tunnel))) \<noteq> Clean ''web''"
  proof -
    have "tb_Config (i2p_base example_tunnel) = example_config\<lparr>tc_Type := ''ircserver''\<rparr>"
      by (simp add: example_tunnel_def Load_def example_env_def newTunnel_def Let_def i2p_New_defs tcp_addr_def)
    then show ?thesis by (simp add: example_config_def) code_simp
  qed
  have form: "validateNewTunnelForm ?r (cg_tunnels example_group) = Inr (''web'', ''nonsense'')"
    using name by (simp add: validateNewTunnelForm_def example_group_def post_new_def FormValue_def)
  have yaml: "writeTunnelConfigYAML (we_yaml bad_type_env) (we_faults bad_type_env) ?r ''web'' ''nonsense'' ''conf/web.yaml''
      (cg_files example_group) = (gm_set ''conf/web.yaml'' ''web'' (cg_files example_group), None)"
    by (simp add: writeTunnelConfigYAML_def buildTunnelConfigMap_def post_new_def FormValue_def applyI2CPConfig_def form_text_def
        ExtractI2CPOptions_def HasPrefix_def bad_type_env_def name_env_def WriteFile_def no_faults_def Let_def)
  have load: "NewController (we_env bad_type_env) (gm_set ''conf/web.yaml'' ''web'' (cg_files example_group)) ''conf/web.yaml'' =
      Inl (Errorf ''no such type'')"
    by (simp add: NewController_def NewConfig_def Load_def bad_type_env_def example_env_def read_file_def)
  from refused_new_tunnel_deletes_config [OF c(1), of "''web''" ?r "''nonsense''" bad_type_env _ _ new_response] c path form yaml load
  show ?thesis by (auto simp: post_new_def) (simp add: example_group_def)
qed

end
