(* ===== verification/TunnelOptions.thy ===== *)
theory TunnelOptions
  imports Loader
begin

text \<open>
  What \<open>SetOptions\<close> of the I2PTunnel interface does, whatever the type of the tunnel: it
  changes the common configuration exactly as the shared \<open>ApplyCommonOptions\<close> of
  \<open>lib/core/options.go\<close>, or not at all, keeps it valid, and leaves the life cycle alone.
\<close>

section \<open>The parts that take options\<close>

lemma base_SetOptions_config: "tb_Config (fst (base_SetOptions fl opts b)) = fst (ApplyCommonOptions opts (tb_Config b))"
  by (auto simp: base_SetOptions_def split: prod.splits option.splits)

lemma base_SetOptions_done: "snd (base_SetOptions fl opts b) = None \<Longrightarrow> snd (ApplyCommonOptions opts (tb_Config b)) = None"
  by (auto simp: base_SetOptions_def split: prod.splits option.splits)

lemma base_SetOptions_life:
  "tb_Status (fst (base_SetOptions fl opts b)) = tb_Status b" "tb_Errors (fst (base_SetOptions fl opts b)) = tb_Errors b"
  "tb_Metrics (fst (base_SetOptions fl opts b)) = tb_Metrics b"
  by (auto simp: base_SetOptions_def split: prod.splits option.splits)

text \<open>What a call of \<open>SetOptions\<close> may do to a base: the new base, and whether the call succeeded.\<close>

definition takes_options :: "options \<Rightarrow> tunnel_base \<Rightarrow> tunnel_base \<Rightarrow> bool \<Rightarrow> bool" where
  "takes_options opts b b' done \<longleftrightarrow>
     (base_ok b \<longrightarrow> base_ok b') \<and> tb_Status b' = tb_Status b \<and> tb_Errors b' = tb_Errors b \<and> tb_Metrics b' = tb_Metrics b \<and>
     tb_Config b' \<in> {tb_Config b, fst (ApplyCommonOptions opts (tb_Config b))} \<and>
     (done \<longrightarrow> ApplyCommonOptions opts (tb_Config b) = (tb_Config b', None))"

lemma takes_refused [simp]: "takes_options opts b b False"
  by (simp add: takes_options_def)

lemma takes_base:
  "(done \<Longrightarrow> snd (base_SetOptions fl opts b) = None) \<Longrightarrow> takes_options opts b (fst (base_SetOptions fl opts b)) done"
  using base_SetOptions_done [of fl opts b]
  by (auto simp: takes_options_def base_SetOptions_ok base_SetOptions_life base_SetOptions_config prod_eq_iff)

lemma takes_config:
  assumes "ApplyCommonOptions opts (tb_Config b) = (cfg, err)" and "done \<Longrightarrow> err = None"
  shows "takes_options opts b (b\<lparr>tb_Config := cfg\<rparr>) done"
  using assms ApplyCommon_ok [of "tb_Config b" opts] by (auto simp: takes_options_def base_ok_def)

lemma stream_SetOptions_base:
  "st_base (fst (stream_SetOptions fl check resolve opts t)) = fst (base_SetOptions fl opts (st_base t))"
  "snd (stream_SetOptions fl check resolve opts t) = None \<Longrightarrow> snd (base_SetOptions fl opts (st_base t)) = None"
  "st_garlic (fst (stream_SetOptions fl check resolve opts t)) = st_garlic t"
  by (auto simp: stream_SetOptions_def Let_def split: prod.splits option.splits sum.splits)

lemma takes_stream:
  "(done \<Longrightarrow> snd (stream_SetOptions fl check resolve opts t) = None) \<Longrightarrow>
   takes_options opts (st_base t) (st_base (fst (stream_SetOptions fl check resolve opts t))) done"
  using stream_SetOptions_base(1,2) [of fl check resolve opts t] takes_base [of "done" fl opts "st_base t"] by auto

lemma takes_TCPClient:
  "takes_options opts (cl_base t) (cl_base (fst (TCPClient_SetOptions lookup pd opts t)))
     (snd (TCPClient_SetOptions lookup pd opts t) = None) \<and>
   st_garlic (cl_stream (fst (TCPClient_SetOptions lookup pd opts t))) = st_garlic (cl_stream t)"
proof (cases rule: SetOptions_cases [of lookup pd opts t])
  case (valid x)
  have "cl_base (applyTCPClientOpts x t) = (cl_base t)\<lparr>tb_Config := tb_Config (cl_base (applyTCPClientOpts x t))\<rparr> \<and>
      st_garlic (cl_stream (applyTCPClientOpts x t)) = st_garlic (cl_stream t)"
    by (simp add: applyTCPClientOpts_def applyTCPConnOpts_def applyTCPConfigFields_def set_opt_def upd_base_def Let_def split: option.splits)
  with takes_config [OF applied_config [OF valid(2)], of True t] valid(1) show ?thesis by simp
qed simp

lemma applyHTTPClientOpts_base [simp]:
  "hc_base (applyHTTPClientOpts cl opts h) = hc_base h" "hc_garlic (applyHTTPClientOpts cl opts h) = hc_garlic h"
  by (simp_all add: applyHTTPClientOpts_def)

lemma takes_HTTPClient:
  "takes_options opts (hc_base h) (hc_base (fst (HTTPClient_SetOptions ul cl opts h))) (snd (HTTPClient_SetOptions ul cl opts h) = None) \<and>
   hc_garlic (fst (HTTPClient_SetOptions ul cl opts h)) = hc_garlic h"
proof -
  obtain cfg err where "ApplyCommonOptions opts (tb_Config (hc_base h)) = (cfg, err)" by fastforce
  then show ?thesis
    using takes_config [of opts "hc_base h" cfg err] by (auto simp: HTTPClient_SetOptions_def Let_def split: option.splits)
qed

lemma takes_SOCKS:
  "takes_options opts (sk_base s) (sk_base (fst (SOCKS_SetOptions fl nl opts s))) (snd (SOCKS_SetOptions fl nl opts s) = None) \<and>
   sk_garlic (fst (SOCKS_SetOptions fl nl opts s)) = sk_garlic s"
proof -
  obtain b err where b: "base_SetOptions fl opts (sk_base s) = (b, err)" by fastforce
  then show ?thesis
    using takes_base [of "err = None" fl opts "sk_base s"]
    by (auto simp: SOCKS_SetOptions_def SOCKS_rebuild_def Let_def split: option.splits)
qed

lemmas stream_types_SetOptions_defs =
  TCPServer_SetOptions_def UDPClient_SetOptions_def UDPServer_SetOptions_def HTTPServer_SetOptions_def IRCClient_SetOptions_def
  IRCServer_SetOptions_def TCPBidirectional_SetOptions_def UDPBidirectional_SetOptions_def

section \<open>Every type of tunnel\<close>

lemma i2p_SetOptions_takes:
  "takes_options opts (i2p_base t) (i2p_base (fst (i2p_SetOptions E opts t))) (snd (i2p_SetOptions E opts t) = None) \<and>
   i2p_garlic (fst (i2p_SetOptions E opts t)) = i2p_garlic t \<and> i2p_kind (fst (i2p_SetOptions E opts t)) = i2p_kind t"
proof (cases t)
  case (ATCPClient c)
  then show ?thesis using takes_TCPClient [of opts c "e_lookup E" "e_parseDuration E"] by simp
next
  case (AHTTPClient h)
  then show ?thesis using takes_HTTPClient [of opts h "e_lower E" "e_defaultClient E"] by simp
next
  case (ASOCKS s)
  then show ?thesis using takes_SOCKS [of opts s "e_fl E" "e_newLimiter E"] by simp
next
  case (AHTTPBidirectional b)
  let ?r = "stream_SetOptions (e_fl E) (NetworkAddress (tcp_port (e_resolveTCP E))) (tcp_target (e_resolveTCP E)) opts (bd_stream (hb_bidi b))"
  obtain s err where r: "?r = (s, err)" by fastforce
  then have "takes_options opts (bd_base (hb_bidi b)) (st_base s) (err = None)" "st_garlic s = st_garlic (bd_stream (hb_bidi b))"
    using takes_stream [of "err = None" "e_fl E"] stream_SetOptions_base(3) by (metis fst_conv snd_conv)+
  with r AHTTPBidirectional show ?thesis by (cases err) (simp_all add: HTTPBidirectional_SetOptions_def)
qed (simp_all add: stream_types_SetOptions_defs stream_SetOptions_base(3) takes_stream case_prod_unfold)



section \<open>Names\<close>

lemma ApplyCommon_keeps_name:
  assumes "gm_get opts ''name'' = None"
  shows "tc_Name (fst (ApplyCommonOptions opts cfg)) = tc_Name cfg"
proof -
  let ?P = "\<lambda>c. tc_Name c = tc_Name cfg"
  have name: "?P c \<Longrightarrow> ?P (fst (applyNameOption opts c))" for c
    using assms by (simp add: applyNameOption_def)
  have iface: "?P c \<Longrightarrow> ?P (fst (applyInterfaceOption opts c))" for c
    by (simp add: applyInterfaceOption_def split: option.split)
  have port: "?P c \<Longrightarrow> ?P (fst (applyPortOption opts c))" for c
    by (simp add: applyPortOption_def split: option.split sum.split)
  have merge: "?P c \<Longrightarrow> ?P (fst (mergeI2CPOptionsInto opts c, None :: go_error option))" for c
    by (simp add: mergeI2CPOptionsInto_def split: option.split)
  have inner: "?P c \<Longrightarrow> ?P (fst (then_step (applyPortOption opts) (\<lambda>c. (mergeI2CPOptionsInto opts c, None)) c))" for c
    by (rule then_step_inv [where P = ?P, OF port merge])
  have middle: "?P c \<Longrightarrow> ?P (fst (then_step (applyInterfaceOption opts)
      (then_step (applyPortOption opts) (\<lambda>c. (mergeI2CPOptionsInto opts c, None))) c))" for c
    by (rule then_step_inv [where P = ?P, OF iface inner])
  show ?thesis unfolding ApplyCommonOptions_def by (rule then_step_inv [where P = ?P, OF name middle refl])
qed

lemma i2p_SetOptions_ID:
  assumes "gm_get opts ''name'' = None"
  shows "i2p_ID (fst (i2p_SetOptions E opts t)) = i2p_ID t"
proof -
  have "tb_Config (i2p_base (fst (i2p_SetOptions E opts t))) \<in>
      {tb_Config (i2p_base t), fst (ApplyCommonOptions opts (tb_Config (i2p_base t)))}"
    using i2p_SetOptions_takes [of opts t E] unfolding takes_options_def by blast
  then show ?thesis using ApplyCommon_keeps_name [OF assms, of "tb_Config (i2p_base t)"] by auto
qed

end
