(* ===== verification/WebPages.thy ===== *)
theory WebPages
  imports WebGroup TunnelOptions "HOL-Library.Sublist"
begin

text \<open>
  The group of tunnels through every sequence of requests: the web interface only appends
  tunnels, keeps their IDs apart, and serves the pages of each tunnel by that tunnel.
\<close>

section \<open>What requests do to the names\<close>

lemma Config_ServeHTTP_ID:
  assumes "Config_ServeHTTP E Y F T r c fs w = (c', fs', w')"
  shows "i2p_ID (wt_tunnel c') = i2p_ID (wt_tunnel c)"
proof -
  have "i2p_ID t = i2p_ID (wt_tunnel c)" if "buildConfigOptions r = Inr opts" "i2p_SetOptions E opts (wt_tunnel c) = (t, err)" for opts t err
    using i2p_SetOptions_ID [OF buildConfigOptions_reserved [OF that(1)], of E "wt_tunnel c"] that(2) by simp
  with assms show ?thesis
    by (auto simp: Config_ServeHTTP_def handlePostConfig_def Let_def simp del: i2p_accessors
        split: option.splits if_splits sum.splits prod.splits)
qed

lemma handleStop_ID: "i2p_ID (wt_tunnel (fst (handleStop sd c))) = i2p_ID (wt_tunnel c)"
  using i2p_Stop_config [of sd "wt_tunnel c"]
  by (auto simp: handleStop_def Let_def split: prod.splits option.splits)

lemma handleRestart_ID: "i2p_ID (wt_tunnel (fst (handleRestart sd c))) = i2p_ID (wt_tunnel c)"
  using i2p_Stop_config [of sd "wt_tunnel c"]
  by (auto simp: handleRestart_def Let_def split: prod.splits option.splits if_splits)

lemma Controller_ServeHTTP_ID:
  assumes "Controller_ServeHTTP E T sd r c w = (c', w')"
  shows "i2p_ID (wt_tunnel c') = i2p_ID (wt_tunnel c)"
  using assms handleStop_ID [of sd c] handleRestart_ID [of sd c]
  by (auto simp: Controller_ServeHTTP_def handlePostControl_def handleStart_def Let_def simp del: i2p_accessors
      split: option.splits if_splits prod.splits)

section \<open>New tunnels\<close>

text \<open>The parser reads back the name that the document it is given was made with.\<close>

definition yaml_keeps_name :: "('f, 'l, 'cl) web_env \<Rightarrow> bool" where
  "yaml_keeps_name W \<longleftrightarrow>
     (\<forall>name fields data f cfg.
        we_yaml W (YMap [(''tunnels'', YMap [(name, YMap fields)])]) = Inr data \<and>
        gm_get fields ''name'' = Some (YVal (IStr name)) \<and> e_parseInput (we_env W) data f = Inr cfg \<longrightarrow>
        tc_Name cfg = name)"

lemma applyI2CP_name:
  "applyI2CPConfig r cfg = Inr cfg' \<Longrightarrow> gm_get cfg' ''name'' = gm_get cfg ''name''"
  by (auto simp: applyI2CPConfig_def Let_def split: if_splits option.splits)

lemma buildTunnelConfigMap_name:
  "buildTunnelConfigMap r name ty = Inr m \<Longrightarrow> gm_get m ''name'' = Some (YVal (IStr name))"
  unfolding buildTunnelConfigMap_def Let_def
  by (drule applyI2CP_name) (simp split: if_splits option.splits)

text \<open>The data that the form writes for a name.\<close>

definition form_data :: "('f, 'l, 'cl) web_env \<Rightarrow> request \<Rightarrow> string \<Rightarrow> string \<Rightarrow> bool" where
  "form_data W r name data \<longleftrightarrow>
     (\<exists>ty m. buildTunnelConfigMap r name ty = Inr m \<and> we_yaml W (YMap [(''tunnels'', YMap [(name, YMap m)])]) = Inr data)"

lemma written_form_data:
  assumes "writeTunnelConfigYAML (we_yaml W) (we_faults W) r name ty path fs = (fs1, None)"
  shows "\<exists>data. form_data W r name data \<and> gm_get fs1 path = Some data"
proof -
  obtain m data where "buildTunnelConfigMap r name ty = Inr m" "we_yaml W (YMap [(''tunnels'', YMap [(name, YMap m)])]) = Inr data"
    "gm_get fs1 path = Some data"
    using assms by (auto simp: writeTunnelConfigYAML_def WriteFile_def split: sum.splits option.splits prod.splits if_splits)
  then show ?thesis unfolding form_data_def by blast
qed

lemma loaded_name:
  assumes law: "yaml_keeps_name W" and d: "form_data W r name data" and fs: "gm_get fs path = Some data"
    and new: "NewController (we_env W) fs path = Inr c"
  shows "i2p_ID (wt_tunnel c) = Clean name"
proof -
  obtain m ty where m: "buildTunnelConfigMap r name ty = Inr m"
    "we_yaml W (YMap [(''tunnels'', YMap [(name, YMap m)])]) = Inr data"
    using d unfolding form_data_def by blast
  obtain t where t: "Load (we_env W) (read_file fs) path [''localhost:7656''] = Inr t" "wt_tunnel c = t"
    using new by (auto simp: NewController_def NewConfig_def rbind_Inr_iff)
  obtain cfg where cfg: "e_parse (we_env W) (read_file fs) path = Inr cfg"
    "newTunnel (we_env W) cfg (validateHost [''localhost:7656'']) = Inr t"
    using t(1) by (rule Load_parse)
  obtain f where "e_parseInput (we_env W) data f = Inr cfg"
    using cfg(1) fs by (auto simp: ParseConfigFile_def read_file_def split: sum.splits)
  with law m buildTunnelConfigMap_name [OF m(1)] have "tc_Name cfg = name" unfolding yaml_keeps_name_def by blast
  with newTunnel_base [OF cfg(2)] t(2) show ?thesis by simp
qed

lemma created_name:
  assumes "yaml_keeps_name W" and "writeTunnelConfigYAML (we_yaml W) (we_faults W) r name ty path fs = (fs1, None)"
    and "NewController (we_env W) fs1 path = Inr c"
  shows "i2p_ID (wt_tunnel c) = Clean name"
  using loaded_name [OF assms(1) _ _ assms(3)] written_form_data [OF assms(2)] by metis

section \<open>The group\<close>

abbreviation tunnel_ids :: "('l, 'cl) group \<Rightarrow> string list" where
  "tunnel_ids g \<equiv> map (\<lambda>c. i2p_ID (wt_tunnel c)) (cg_tunnels g)"

lemma create_ids:
  assumes "createAndRegisterController E path g = Inr (g', c')"
  obtains c where "NewController E (cg_files g) path = Inr c" and "tunnel_ids g' = tunnel_ids g @ [i2p_ID (wt_tunnel c)]"
  using assms by (auto simp: createAndRegisterController_def register_metrics_def Let_def split: sum.splits option.splits prod.splits)

lemma handlePostNew_ids:
  assumes "yaml_keeps_name W"
  shows "tunnel_ids (fst (handlePostNew W r g w)) = tunnel_ids g \<or>
    (\<exists>x. x \<notin> set (tunnel_ids g) \<and> tunnel_ids (fst (handlePostNew W r g w)) = tunnel_ids g @ [x])"
proof (cases "rq_formErr r = None \<and> (\<exists>name ty. validateNewTunnelForm r (cg_tunnels g) = Inr (name, ty))")
  case False
  then have "fst (handlePostNew W r g w) = g"
    by (auto simp: handlePostNew_def Let_def split: option.splits sum.splits)
  then show ?thesis by simp
next
  case True
  then obtain name ty where v: "rq_formErr r = None" "validateNewTunnelForm r (cg_tunnels g) = Inr (name, ty)" by blast
  let ?path = "filepath_Join (cg_configDir g) (Clean name @ ''.yaml'')"
  obtain fs1 e where wr: "writeTunnelConfigYAML (we_yaml W) (we_faults W) r name ty ?path (cg_files g) = (fs1, e)" by fastforce
  show ?thesis
  proof (cases "e = None \<and> (\<exists>p. createAndRegisterController (we_env W) ?path (g\<lparr>cg_files := fs1\<rparr>) = Inr p)")
    case False
    with v wr show ?thesis by (auto simp: handlePostNew_def Let_def split: option.split sum.split)
  next
    case True
    then obtain g2 c2 where c2: "e = None" "createAndRegisterController (we_env W) ?path (g\<lparr>cg_files := fs1\<rparr>) = Inr (g2, c2)" by auto
    from c2(2) obtain c where c: "NewController (we_env W) fs1 ?path = Inr c"
      "tunnel_ids g2 = tunnel_ids g @ [i2p_ID (wt_tunnel c)]" by (rule create_ids) simp
    have "i2p_ID (wt_tunnel c) = Clean name" using created_name [OF assms _ c(1)] wr c2(1) by simp
    moreover have "Clean name \<notin> set (tunnel_ids g)"
      using v(2) by (auto simp: validateNewTunnelForm_def Let_def split: if_splits)
    moreover have "fst (handlePostNew W r g w) = g2" using v wr c2 by (simp add: handlePostNew_def Let_def)
    ultimately show ?thesis using c(2) by simp
  qed
qed

lemma find_tunnel_Some: "find_tunnel n cs = Some i \<Longrightarrow> i < length cs \<and> Clean (i2p_Name (wt_tunnel (cs ! i))) = n"
  by (induction cs arbitrary: i) (auto split: if_splits)

lemma map_same_at: "i < length xs \<Longrightarrow> f y = f (xs ! i) \<Longrightarrow> map f (xs[i := y]) = map f xs"
  by (metis list_update_id map_update)

lemma routeTunnelControl_ids: "tunnel_ids (fst (routeTunnelControl W r g w)) = tunnel_ids g"
  by (auto simp: routeTunnelControl_def simp del: i2p_accessors split: option.splits prod.splits
      dest!: find_tunnel_Some Controller_ServeHTTP_ID intro!: map_same_at)

lemma routeTunnelConfig_ids: "tunnel_ids (fst (routeTunnelConfig W r g w)) = tunnel_ids g"
  by (auto simp: routeTunnelConfig_def simp del: i2p_accessors split: option.splits prod.splits
      dest!: find_tunnel_Some Config_ServeHTTP_ID intro!: map_same_at)

lemma routeRequest_ids:
  assumes "yaml_keeps_name W"
  shows "tunnel_ids (fst (routeRequest W r g w)) = tunnel_ids g \<or>
    (\<exists>x. x \<notin> set (tunnel_ids g) \<and> tunnel_ids (fst (routeRequest W r g w)) = tunnel_ids g @ [x])"
  using routeTunnelControl_ids [of W r g w] routeTunnelConfig_ids [of W r g w] handlePostNew_ids [OF assms, of r g w]
  by (simp add: routeRequest_def HandleNew_def Let_def)

lemma Group_ServeHTTP_ids:
  assumes "yaml_keeps_name W"
  shows "tunnel_ids (fst (Group_ServeHTTP W r g w)) = tunnel_ids g \<or>
    (\<exists>x. x \<notin> set (tunnel_ids g) \<and> tunnel_ids (fst (Group_ServeHTTP W r g w)) = tunnel_ids g @ [x])"
  using routeRequest_ids [OF assms, of r g "HandleHTMLHeader (we_templates W) w"]
  by (auto simp: Group_ServeHTTP_def simp del: i2p_accessors split: option.split prod.splits)


text \<open>Requests one after the other, each in the environment it meets.\<close>

fun serve_all :: "(('f, 'l, 'cl) web_env \<times> request) list \<Rightarrow> ('l, 'cl) group \<Rightarrow> ('l, 'cl) group" where
  "serve_all [] g = g"
| "serve_all ((W, r) # qs) g = serve_all qs (fst (Group_ServeHTTP W r g new_response))"

lemma serve_all_ids:
  assumes "distinct (tunnel_ids g)" and "\<forall>(W, r)\<in>set qs. yaml_keeps_name W"
  shows "distinct (tunnel_ids (serve_all qs g)) \<and> prefix (tunnel_ids g) (tunnel_ids (serve_all qs g))"
  using assms
proof (induction qs arbitrary: g)
  case (Cons q qs)
  obtain W r where q: "q = (W, r)" by fastforce
  let ?g = "fst (Group_ServeHTTP W r g new_response)"
  have "distinct (tunnel_ids ?g) \<and> prefix (tunnel_ids g) (tunnel_ids ?g)"
    using Group_ServeHTTP_ids [of W r g new_response] Cons.prems q by auto
  with Cons.IH [of ?g] Cons.prems(2) q show ?case by (auto intro: prefix_order.trans)
qed simp

lemma find_tunnel_distinct:
  assumes "distinct (map (\<lambda>c. i2p_ID (wt_tunnel c)) cs)" and "i < length cs"
  shows "find_tunnel (i2p_ID (wt_tunnel (cs ! i))) cs = Some i"
  using assms
proof (induction cs arbitrary: i)
  case (Cons c cs)
  then show ?case by (cases i) (force simp: image_iff)+
qed simp

text \<open>
  C18: every tunnel keeps its ID and its pages. Through every sequence of requests (forms,
  starts, stops, restarts, changed configurations, new tunnels, failures included), as long
  as the YAML parser gives back the name that was written, a group whose IDs differ only
  grows at its end, its IDs stay the same and stay different, and requests for
  \<open>/ID/control\<close> and \<open>/ID/config\<close> are served by exactly the tunnel with that ID.
\<close>
theorem pages_served_by_own_tunnel:
  fixes g g' :: "('l, 'cl) group"
  assumes "distinct (tunnel_ids g)" and "\<forall>(W, r)\<in>set qs. yaml_keeps_name W" and "g' = serve_all qs g"
  shows "distinct (tunnel_ids g') \<and> prefix (tunnel_ids g) (tunnel_ids g') \<and>
    (\<forall>i<length (cg_tunnels g').
       let c = cg_tunnels g' ! i;
           r = (\<lambda>page. \<lparr>rq_method = m, rq_path = ''/'' @ i2p_ID (wt_tunnel c) @ ''/'' @ page, rq_form = f, rq_formErr = e\<rparr>)
       in routeRequest W (r ''control'') g' w =
            (case Controller_ServeHTTP (we_env W) (we_templates W) (we_shutdown W) (r ''control'') c w of
               (c', w') \<Rightarrow> (g'\<lparr>cg_tunnels := (cg_tunnels g')[i := c']\<rparr>, w')) \<and>
          routeRequest W (r ''config'') g' w =
            (case Config_ServeHTTP (we_env W) (we_yaml W) (we_faults W) (we_templates W) (r ''config'') c (cg_files g') w of
               (c', fs, w') \<Rightarrow> (g'\<lparr>cg_tunnels := (cg_tunnels g')[i := c'], cg_files := fs\<rparr>, w')))"
proof -
  have ids: "distinct (tunnel_ids g')" "prefix (tunnel_ids g) (tunnel_ids g')"
    using serve_all_ids [OF assms(1,2)] assms(3) by simp_all
  have find: "find_tunnel (i2p_ID (wt_tunnel (cg_tunnels g' ! i))) (cg_tunnels g') = Some i" if "i < length (cg_tunnels g')" for i
    using find_tunnel_distinct [OF ids(1) that] .
  let ?r = "\<lambda>t page. Some \<lparr>rq_method = m, rq_path = ''/'' @ i2p_ID t @ ''/'' @ page, rq_form = f, rq_formErr = e\<rparr>"
  have pages: "handler (?r t ''control'') = ''control''" "handler (?r t ''config'') = ''config''"
      "tunnel (?r t ''control'') = i2p_ID t" "tunnel (?r t ''config'') = i2p_ID t" for t :: "('l, 'cl) i2p_tunnel"
    using tunnel_pages_route_back [of t m f e t] by (simp_all add: Let_def del: i2p_accessors)
  show ?thesis
    using ids
    by (simp add: routeRequest_def routeTunnelControl_def routeTunnelConfig_def Let_def pages find del: i2p_accessors append_Cons)
qed

lemma name_env_keeps_name: "yaml_keeps_name name_env"
  by (auto simp: yaml_keeps_name_def name_env_def example_env_def elim!: name_yaml.elims)

lemma pages_served_by_own_tunnel_witness:
  "distinct (tunnel_ids (serve_all [(name_env, post_new ''my irc'' ''ircserver''), (name_env, post_new ''my irc'' ''ircserver'')]
     example_group))"
proof -
  have "distinct (tunnel_ids example_group)" by (simp add: example_group_def)
  moreover have "\<forall>(W, r)\<in>set [(name_env, post_new ''my irc'' ''ircserver''), (name_env, post_new ''my irc'' ''ircserver'')].
      yaml_keeps_name W"
    using name_env_keeps_name by simp
  ultimately show ?thesis using pages_served_by_own_tunnel by blast
qed


text \<open>
  Loading a directory does not look for equal names: of two tunnels whose IDs are the same
  only the first is ever found by its pages.
\<close>

lemma find_tunnel_first:
  assumes "i < length cs" and "Clean (i2p_Name (wt_tunnel (cs ! i))) = n"
  shows "\<exists>k\<le>i. find_tunnel n cs = Some k"
  using assms
proof (induction cs arbitrary: i)
  case (Cons c cs)
  show ?case
  proof (cases i)
    case (Suc i')
    with Cons.IH [of i'] Cons.prems obtain k where "k \<le> i'" "find_tunnel n cs = Some k" by (auto simp del: i2p_accessors)
    with Suc show ?thesis by (simp add: exI [of _ "Suc k"])
  qed (use Cons.prems in auto)
qed simp

lemma duplicate_ID_unreachable:
  assumes "i < j" and "j < length cs" and "i2p_ID (wt_tunnel (cs ! i)) = i2p_ID (wt_tunnel (cs ! j))"
  shows "find_tunnel n cs \<noteq> Some j"
proof
  assume j: "find_tunnel n cs = Some j"
  with assms(3) have "Clean (i2p_Name (wt_tunnel (cs ! i))) = n" using find_tunnel_Some [OF j] by simp
  with find_tunnel_first [of i cs n] j assms(1,2) show False by auto
qed

end
