(* ===== verification/WebRace.thy ===== *)
theory WebRace
  imports WebPages
begin

text \<open>
  Forms for new tunnels that are served at the same time: the server runs every request in
  its own goroutine and the group has no lock. A submission is a sequence of steps on the
  shared group (check, write, load, append, and the removal after a failed load), and the
  steps of different submissions interleave in any order.
\<close>

section \<open>The steps of a submission\<close>

text \<open>
  What the handler has done and holds in its variables: the name and type, the path, the
  loaded controller, or the error of the load; then the response it has written.
\<close>

datatype ('l, 'cl) post_phase =
    Posted
  | Checked string string
  | Written string
  | Loaded "('l, 'cl) web_tunnel"
  | Refused string go_error
  | Created response
  | Failed response

fun post_step ::
  "('f, 'l, 'cl) web_env \<Rightarrow> request \<Rightarrow> response \<Rightarrow> ('l, 'cl) post_phase \<Rightarrow> ('l, 'cl) group \<Rightarrow>
   ('l, 'cl) post_phase \<times> ('l, 'cl) group" where
  "post_step W r w Posted g =
     (case rq_formErr r of
        Some err \<Rightarrow> (Failed (http_Error (''Failed to parse form: '' @ Error_text err) 400 w), g)
      | None \<Rightarrow>
          (case validateNewTunnelForm r (cg_tunnels g) of
             Inl validErr \<Rightarrow> (Failed (renderNewWithError (we_templates W) validErr w), g)
           | Inr (name, tunnelType) \<Rightarrow> (Checked name tunnelType, g)))"
| "post_step W r w (Checked name tunnelType) g =
     (let configPath = filepath_Join (cg_configDir g) (Clean name @ ''.yaml'') in
      case writeTunnelConfigYAML (we_yaml W) (we_faults W) r name tunnelType configPath (cg_files g) of
        (fs1, Some err) \<Rightarrow> (Failed (renderNewWithError (we_templates W) (Error_text err) w), g\<lparr>cg_files := fs1\<rparr>)
      | (fs1, None) \<Rightarrow> (Written configPath, g\<lparr>cg_files := fs1\<rparr>))"
| "post_step W r w (Written configPath) g =
     (case NewController (we_env W) (cg_files g) configPath of
        Inl err \<Rightarrow> (Refused configPath (Wrapf ''Failed to create tunnel'' err), g)
      | Inr c \<Rightarrow> (Loaded c, g))"
| "post_step W r w (Loaded c) g =
     (let (g1, c1) =
        (case cg_registry g of
           None \<Rightarrow> (g\<lparr>cg_tunnels := cg_tunnels g @ [c]\<rparr>, c)
         | Some reg \<Rightarrow>
             (case register_metrics reg c of
                (reg1, c1) \<Rightarrow> (g\<lparr>cg_tunnels := cg_tunnels g @ [c1], cg_registry := Some reg1\<rparr>, c1)))
      in (Created (http_Redirect r (''/'' @ i2p_ID (wt_tunnel c1) @ ''/control'') 303 w), g1))"
| "post_step W r w (Refused configPath err) g =
     (Failed (renderNewWithError (we_templates W) (Error_text err) w), g\<lparr>cg_files := gm_del configPath (cg_files g)\<rparr>)"
| "post_step W r w (Created v) g = (Created v, g)"
| "post_step W r w (Failed v) g = (Failed v, g)"

section \<open>Interleavings\<close>

type_synonym ('f, 'l, 'cl) submission = "('f, 'l, 'cl) web_env \<times> request \<times> response"

fun post_turn ::
  "('f, 'l, 'cl) submission list \<Rightarrow> nat \<Rightarrow> ('l, 'cl) post_phase list \<times> ('l, 'cl) group \<Rightarrow>
   ('l, 'cl) post_phase list \<times> ('l, 'cl) group" where
  "post_turn ps i (phs, g) =
     (if i < length ps \<and> i < length phs then
        (case ps ! i of (W, r, w) \<Rightarrow>
           (case post_step W r w (phs ! i) g of (ph, g1) \<Rightarrow> (phs[i := ph], g1)))
      else (phs, g))"

definition posts_run ::
  "('f, 'l, 'cl) submission list \<Rightarrow> nat list \<Rightarrow> ('l, 'cl) group \<Rightarrow> ('l, 'cl) post_phase list \<times> ('l, 'cl) group" where
  "posts_run ps schedule g = fold (post_turn ps) schedule (replicate (length ps) Posted, g)"

fun post_response :: "('l, 'cl) post_phase \<Rightarrow> response option" where
  "post_response (Created v) = Some v"
| "post_response (Failed v) = Some v"
| "post_response _ = None"

text \<open>A submission that runs alone does what the handler does.\<close>

lemma post_alone:
  "\<exists>ph. posts_run [(W, r, w)] [0, 0, 0, 0] g = ([ph], fst (handlePostNew W r g w)) \<and>
     post_response ph = Some (snd (handlePostNew W r g w))"
proof (cases "\<exists>name ty. rq_formErr r = None \<and> validateNewTunnelForm r (cg_tunnels g) = Inr (name, ty)")
  case False
  then show ?thesis
    by (auto simp: posts_run_def handlePostNew_def Let_def split: option.split sum.split)
next
  case True
  then obtain name ty where v: "rq_formErr r = None" "validateNewTunnelForm r (cg_tunnels g) = Inr (name, ty)" by blast
  let ?path = "filepath_Join (cg_configDir g) (Clean name @ ''.yaml'')"
  obtain fs1 e where wr: "writeTunnelConfigYAML (we_yaml W) (we_faults W) r name ty ?path (cg_files g) = (fs1, e)" by fastforce
  show ?thesis
  proof (cases e)
    case (Some err)
    with v wr show ?thesis by (simp add: posts_run_def handlePostNew_def Let_def)
  next
    case None
    then show ?thesis
      using v wr
      by (cases "NewController (we_env W) fs1 ?path")
        (auto simp: posts_run_def handlePostNew_def createAndRegisterController_def Let_def split: option.split prod.split)
  qed
qed

section \<open>Submissions with different names\<close>

definition post_key :: "('f, 'l, 'cl) submission \<Rightarrow> string" where
  "post_key p = (case p of (W, r, w) \<Rightarrow> Clean (FormValue r ''name''))"

definition post_path :: "string \<Rightarrow> ('f, 'l, 'cl) submission \<Rightarrow> string" where
  "post_path dir p = filepath_Join dir (post_key p @ ''.yaml'')"

lemma post_path_inj:
  fixes p q :: "('f, 'l, 'cl) submission"
  assumes eq: "post_path dir p = post_path dir q"
  shows "post_key p = post_key q"
proof -
  have f: "snd (path_Split (post_path dir s)) = post_key s @ ''.yaml''" for s :: "('f, 'l, 'cl) submission"
    using filepath_Join_child [OF yaml_segment] by (cases s) (simp add: post_path_def post_key_def)
  show ?thesis using f [of p] f [of q] eq by simp
qed

text \<open>What a submission relies on: its name is free, its file is its own, its tunnel has its name.\<close>

fun phase_inv :: "('f, 'l, 'cl) submission \<Rightarrow> ('l, 'cl) post_phase \<Rightarrow> ('l, 'cl) group \<Rightarrow> bool" where
  "phase_inv (W, r, w) (Checked name ty) g \<longleftrightarrow> name = FormValue r ''name'' \<and> post_key (W, r, w) \<notin> set (tunnel_ids g)"
| "phase_inv (W, r, w) (Written path) g \<longleftrightarrow>
     path = post_path (cg_configDir g) (W, r, w) \<and> post_key (W, r, w) \<notin> set (tunnel_ids g) \<and>
     (\<exists>data. form_data W r (FormValue r ''name'') data \<and> gm_get (cg_files g) path = Some data)"
| "phase_inv (W, r, w) (Loaded c) g \<longleftrightarrow>
     i2p_ID (wt_tunnel c) = post_key (W, r, w) \<and> post_key (W, r, w) \<notin> set (tunnel_ids g)"
| "phase_inv (W, r, w) (Refused path err) g \<longleftrightarrow>
     path = post_path (cg_configDir g) (W, r, w) \<and> post_key (W, r, w) \<notin> set (tunnel_ids g)"
| "phase_inv (W, r, w) (Created v) g \<longleftrightarrow> post_key (W, r, w) \<in> set (tunnel_ids g)"
| "phase_inv p ph g \<longleftrightarrow> True"

text \<open>What a step of a submission can do to the group, as the other submissions see it.\<close>

definition post_effect :: "('f, 'l, 'cl) submission \<Rightarrow> ('l, 'cl) group \<Rightarrow> ('l, 'cl) group \<Rightarrow> bool" where
  "post_effect p g g' \<longleftrightarrow>
     cg_configDir g' = cg_configDir g \<and>
     (tunnel_ids g' = tunnel_ids g \<or> post_key p \<notin> set (tunnel_ids g) \<and> tunnel_ids g' = tunnel_ids g @ [post_key p]) \<and>
     (\<forall>f. f \<noteq> post_path (cg_configDir g) p \<longrightarrow> gm_get (cg_files g') f = gm_get (cg_files g) f)"

lemma post_effect_refl [simp]: "post_effect p g g" by (simp add: post_effect_def)

lemma post_step_Posted:
  assumes "post_step W r w Posted g = (ph, g')"
  shows "g' = g \<and> phase_inv (W, r, w) ph g"
proof -
  have "Clean name \<notin> set (tunnel_ids g) \<and> name = FormValue r ''name''"
    if "validateNewTunnelForm r (cg_tunnels g) = Inr (name, ty)" for name ty
    using that by (force simp: validateNewTunnelForm_def Let_def split: if_splits)
  with assms show ?thesis by (auto simp: post_key_def simp del: i2p_accessors list.set_map split: option.splits sum.splits)
qed

lemma post_step_Checked:
  assumes "post_step W r w (Checked name ty) g = (ph, g')" and "phase_inv (W, r, w) (Checked name ty) g"
  shows "post_effect (W, r, w) g g' \<and> phase_inv (W, r, w) ph g'"
proof -
  let ?path = "post_path (cg_configDir g) (W, r, w)"
  have path: "filepath_Join (cg_configDir g) (Clean name @ ''.yaml'') = ?path" and name: "name = FormValue r ''name''"
    using assms(2) by (simp_all add: post_path_def post_key_def)
  obtain fs1 e where wr: "writeTunnelConfigYAML (we_yaml W) (we_faults W) r name ty ?path (cg_files g) = (fs1, e)" by fastforce
  then have other: "gm_get fs1 f = gm_get (cg_files g) f" if "f \<noteq> ?path" for f
    using writeTunnelConfigYAML_other [OF that] by (metis fst_conv)
  show ?thesis
  proof (cases e)
    case (Some err)
    with assms(1) wr path other show ?thesis by (auto simp: post_effect_def Let_def)
  next
    case None
    obtain data where "form_data W r name data" "gm_get fs1 ?path = Some data"
      using written_form_data wr None by metis
    with assms wr path name other None show ?thesis by (auto simp: post_effect_def Let_def)
  qed
qed

lemma post_step_Written:
  assumes "yaml_keeps_name W" and "post_step W r w (Written path) g = (ph, g')" and "phase_inv (W, r, w) (Written path) g"
  shows "g' = g \<and> phase_inv (W, r, w) ph g"
proof (cases "NewController (we_env W) (cg_files g) path")
  case (Inl err)
  with assms show ?thesis by auto
next
  case (Inr c)
  obtain data where "form_data W r (FormValue r ''name'') data" "gm_get (cg_files g) path = Some data"
    using assms(3) by auto
  from loaded_name [OF assms(1) this Inr] assms(2,3) Inr show ?thesis by (auto simp: post_key_def simp del: i2p_accessors list.set_map)
qed

lemma post_step_Loaded:
  assumes "post_step W r w (Loaded c) g = (ph, g')" and "phase_inv (W, r, w) (Loaded c) g"
  shows "post_effect (W, r, w) g g' \<and> phase_inv (W, r, w) ph g'"
  using assms
  by (auto simp: post_effect_def register_metrics_def Let_def split: option.splits prod.splits)

lemma post_step_inv:
  assumes "yaml_keeps_name W" and "post_step W r w ph g = (ph', g')" and "phase_inv (W, r, w) ph g"
  shows "post_effect (W, r, w) g g' \<and> phase_inv (W, r, w) ph' g'"
proof (cases ph)
  case Posted
  with post_step_Posted assms show ?thesis by fastforce
next
  case (Checked name ty)
  with post_step_Checked assms show ?thesis by blast
next
  case (Written path)
  with post_step_Written [OF assms(1)] assms(2,3) show ?thesis by fastforce
next
  case (Loaded c)
  with post_step_Loaded assms show ?thesis by blast
next
  case (Refused path err)
  with assms show ?thesis by (auto simp: post_effect_def)
qed (use assms in auto)

lemma phase_inv_other:
  fixes p q :: "('f, 'l, 'cl) submission"
  assumes "phase_inv q ph g" and "post_effect p g g'" and "post_key p \<noteq> post_key q"
  shows "phase_inv q ph g'"
proof -
  obtain W r w where q: "q = (W, r, w)" by (metis prod_cases3)
  have "post_path (cg_configDir g) q \<noteq> post_path (cg_configDir g) p" using post_path_inj assms(3) by metis
  then have same: "cg_configDir g' = cg_configDir g" "gm_get (cg_files g') (post_path (cg_configDir g) q) = gm_get (cg_files g) (post_path (cg_configDir g) q)"
    using assms(2) unfolding post_effect_def by blast+
  moreover have "post_key q \<in> set (tunnel_ids g') \<longleftrightarrow> post_key q \<in> set (tunnel_ids g)"
  proof -
    consider "tunnel_ids g' = tunnel_ids g" | "tunnel_ids g' = tunnel_ids g @ [post_key p]"
      using assms(2) unfolding post_effect_def by blast
    then show ?thesis
    proof cases
      case 2
      show ?thesis unfolding 2 using assms(3) by simp
    qed (simp only:)
  qed
  ultimately show ?thesis using assms(1) unfolding q by (cases ph) (simp_all del: i2p_accessors)
qed

fun created :: "('l, 'cl) post_phase \<Rightarrow> bool" where
  "created (Created v) \<longleftrightarrow> True"
| "created _ \<longleftrightarrow> False"

lemma post_step_ids:
  assumes "post_step W r w ph g = (ph', g')" and "phase_inv (W, r, w) ph g"
  shows "if created ph then ph' = ph \<and> g' = g
    else tunnel_ids g' = tunnel_ids g @ (if created ph' then [post_key (W, r, w)] else [])"
  using assms
  by (cases ph)
    (auto simp: register_metrics_def Let_def split: option.splits sum.splits prod.splits)

text \<open>
  The state of all submissions: the tunnels that were added are those of the submissions
  that say so, and no other file changes than those of the submissions.
\<close>

definition posts_inv ::
  "('f, 'l, 'cl) submission list \<Rightarrow> ('l, 'cl) group \<Rightarrow> ('l, 'cl) post_phase list \<times> ('l, 'cl) group \<Rightarrow> bool" where
  "posts_inv ps g0 s \<longleftrightarrow>
     (case s of (phs, g) \<Rightarrow>
        length phs = length ps \<and> cg_configDir g = cg_configDir g0 \<and> distinct (tunnel_ids g) \<and>
        (\<forall>i<length ps. phase_inv (ps ! i) (phs ! i) g) \<and>
        (\<exists>new. tunnel_ids g = tunnel_ids g0 @ new \<and>
           (\<forall>x. x \<in> set new \<longleftrightarrow> (\<exists>i<length ps. created (phs ! i) \<and> x = post_key (ps ! i)))) \<and>
        (\<forall>f. f \<notin> post_path (cg_configDir g0) ` set ps \<longrightarrow> gm_get (cg_files g) f = gm_get (cg_files g0) f))"

lemma posts_inv_start: "distinct (tunnel_ids g) \<Longrightarrow> posts_inv ps g (replicate (length ps) Posted, g)"
proof -
  assume d: "distinct (tunnel_ids g)"
  have "phase_inv (ps ! i) Posted g" for i by (cases "ps ! i") simp
  moreover have "\<not> created (replicate (length ps) Posted ! i)" if "i < length ps" for i using that by simp
  ultimately show ?thesis using d by (auto simp: posts_inv_def simp del: i2p_accessors)
qed

lemma posts_inv_turn:
  assumes laws: "\<forall>(W, r, w)\<in>set ps. yaml_keeps_name W" and keys: "distinct (map post_key ps)"
    and inv: "posts_inv ps g0 (phs, g)" and turn: "post_turn ps i (phs, g) = (phs', g')"
  shows "posts_inv ps g0 (phs', g')"
proof (cases "i < length ps")
  case i: True
  obtain W r w where p: "ps ! i = (W, r, w)" by (metis prod_cases3)
  obtain ph where step: "post_step W r w (phs ! i) g = (ph, g')" and phs': "phs' = phs[i := ph]"
    using turn i inv p by (auto simp: posts_inv_def split: prod.splits)
  have len: "length phs = length ps" and dir: "cg_configDir g = cg_configDir g0" and dist: "distinct (tunnel_ids g)"
    and all: "\<And>k. k < length ps \<Longrightarrow> phase_inv (ps ! k) (phs ! k) g"
    and files: "\<And>f. f \<notin> post_path (cg_configDir g0) ` set ps \<Longrightarrow> gm_get (cg_files g) f = gm_get (cg_files g0) f"
    using inv unfolding posts_inv_def by simp_all
  obtain new where new: "tunnel_ids g = tunnel_ids g0 @ new"
      "\<And>x. x \<in> set new \<longleftrightarrow> (\<exists>k<length ps. created (phs ! k) \<and> x = post_key (ps ! k))"
    using inv unfolding posts_inv_def by auto
  have here: "phase_inv (W, r, w) (phs ! i) g" using all [OF i] p by simp
  have "yaml_keeps_name W" using laws nth_mem [OF i] p by auto
  from post_step_inv [OF this step here]
  have eff: "post_effect (ps ! i) g g'" and own: "phase_inv (ps ! i) ph g'" using p by simp_all
  have other: "phase_inv (ps ! k) (phs ! k) g'" if "k < length ps" "k \<noteq> i" for k
  proof (rule phase_inv_other [OF all [OF that(1)] eff])
    show "post_key (ps ! i) \<noteq> post_key (ps ! k)"
      using keys i that by (simp add: distinct_conv_nth)
  qed
  have ids: "if created (phs ! i) then ph = phs ! i \<and> g' = g
      else tunnel_ids g' = tunnel_ids g @ (if created ph then [post_key (ps ! i)] else [])"
    using post_step_ids [OF step here] unfolding p .
  define new' where "new' = new @ (if created ph \<and> \<not> created (phs ! i) then [post_key (ps ! i)] else [])"
  have "tunnel_ids g' = tunnel_ids g0 @ new'"
    using ids new(1) unfolding new'_def by (cases "created (phs ! i)"; cases "created ph") (simp_all del: i2p_accessors)
  moreover have "x \<in> set new' \<longleftrightarrow> (\<exists>k<length ps. created (phs' ! k) \<and> x = post_key (ps ! k))" for x
  proof (cases "created (phs ! i)")
    case True
    with ids phs' new(2) show ?thesis by (simp add: new'_def)
  next
    case False
    with i len new(2) [of x] show ?thesis
      by (auto simp: new'_def phs' nth_list_update)
  qed
  moreover have "distinct (tunnel_ids g')"
    using eff dist unfolding post_effect_def by (metis distinct_append distinct_singleton disjoint_insert(1) inf_bot_right list.simps(15) list.set(1))
  moreover have "phase_inv (ps ! k) (phs' ! k) g'" if "k < length ps" for k
    using own other [OF that] len that by (cases "k = i") (simp_all add: phs')
  moreover have "gm_get (cg_files g') f = gm_get (cg_files g0) f" if f: "f \<notin> post_path (cg_configDir g0) ` set ps" for f
  proof -
    have "f \<noteq> post_path (cg_configDir g) (ps ! i)" using f nth_mem [OF i] dir by auto
    with eff files [OF f] show ?thesis by (simp add: post_effect_def)
  qed
  moreover have "cg_configDir g' = cg_configDir g0" using eff dir by (simp add: post_effect_def)
  moreover have "length phs' = length ps" using len phs' by simp
  ultimately show ?thesis unfolding posts_inv_def by auto
qed (use inv turn in simp)

lemma posts_run_inv:
  assumes "\<forall>(W, r, w)\<in>set ps. yaml_keeps_name W" and "distinct (map post_key ps)" and "posts_inv ps g0 s"
  shows "posts_inv ps g0 (fold (post_turn ps) schedule s)"
  using assms(3)
proof (induction schedule arbitrary: s)
  case (Cons i schedule)
  obtain phs g phs' g' where s: "s = (phs, g)" "post_turn ps i s = (phs', g')" by fastforce
  with posts_inv_turn [OF assms(1,2)] Cons show ?case by (metis fold_Cons comp_apply)
qed simp

text \<open>How many more turns a submission takes at most.\<close>

fun turns_left :: "('l, 'cl) post_phase \<Rightarrow> nat" where
  "turns_left Posted = 4"
| "turns_left (Checked name ty) = 3"
| "turns_left (Written path) = 2"
| "turns_left (Loaded c) = 1"
| "turns_left (Refused path err) = 1"
| "turns_left (Created v) = 0"
| "turns_left (Failed v) = 0"

lemma post_step_left: "turns_left (fst (post_step W r w ph g)) \<le> turns_left ph - 1"
  by (cases ph) (auto simp: Let_def split: option.split sum.split prod.split)

lemma turns_left_0: "turns_left ph = 0 \<longleftrightarrow> post_response ph \<noteq> None"
  by (cases ph) simp_all

lemma post_turn_left:
  assumes "post_turn ps k (phs, g) = (phs', g')" and "i < length ps" and "length phs = length ps"
  shows "turns_left (phs' ! i) \<le> turns_left (phs ! i) - (if k = i then 1 else 0) \<and> length phs' = length ps"
proof (cases "k = i")
  case True
  obtain W r w where p: "ps ! i = (W, r, w)" by (metis prod_cases3)
  with assms True post_step_left [of W r w "phs ! i" g] show ?thesis by (auto split: prod.splits)
next
  case False
  with assms show ?thesis by (auto split: prod.splits if_splits)
qed

lemma posts_run_left:
  assumes "i < length ps" and "length (fst s) = length ps"
  shows "turns_left (fst (fold (post_turn ps) schedule s) ! i) \<le> turns_left (fst s ! i) - count_list schedule i"
  using assms(2)
proof (induction schedule arbitrary: s)
  case (Cons k schedule)
  obtain phs g phs' g' where s: "s = (phs, g)" "post_turn ps k (phs, g) = (phs', g')" by fastforce
  with post_turn_left [OF s(2) assms(1)] Cons.prems have t: "turns_left (phs' ! i) \<le> turns_left (phs ! i) - (if k = i then 1 else 0)"
    "length phs' = length ps" by simp_all
  from Cons.IH [of "(phs', g')"] t(2)
  have "turns_left (fst (fold (post_turn ps) schedule (phs', g')) ! i) \<le> turns_left (phs' ! i) - count_list schedule i" by simp
  with t(1) s show ?case by (auto split: if_splits)
qed simp


definition two_posts :: "(unit, unit, unit) submission list" where
  "two_posts = [(name_env, post_new ''my irc'' ''ircserver'', new_response), (name_env, post_new ''web'' ''ircserver'', new_response)]"

lemma two_posts_laws: "\<forall>(W, r, w)\<in>set two_posts. yaml_keeps_name W" "distinct (map post_key two_posts)"
proof -
  have "Clean ''my irc'' \<noteq> Clean ''web''" by code_simp
  then show "distinct (map post_key two_posts)" by (simp add: two_posts_def post_key_def post_new_def FormValue_def)
qed (simp add: two_posts_def name_env_keeps_name)


section \<open>The same name twice\<close>

text \<open>
  The check for an existing name and the append are not one step: two forms with the same
  name that are both checked before one is loaded are both accepted. The group then has
  two tunnels with one ID and one file, and the second is never found by its pages.
\<close>

lemma same_name_race:
  assumes "rq_formErr r = None" and "validateNewTunnelForm r (cg_tunnels g) = Inr (name, ty)"
    and "path = filepath_Join (cg_configDir g) (Clean name @ ''.yaml'')"
    and "writeTunnelConfigYAML (we_yaml W) (we_faults W) r name ty path (cg_files g) = (fs1, None)"
    and "writeTunnelConfigYAML (we_yaml W) (we_faults W) r name ty path fs1 = (fs2, None)"
    and "NewController (we_env W) fs2 path = Inr c" and "cg_registry g = None"
  shows "\<exists>v g'. posts_run [(W, r, w), (W, r, w)] [0, 1, 0, 1, 0, 1, 0, 1] g = ([Created v, Created v], g') \<and>
    cg_tunnels g' = cg_tunnels g @ [c, c] \<and> find_tunnel n (cg_tunnels g') \<noteq> Some (Suc (length (cg_tunnels g)))"
proof -
  let ?cs = "cg_tunnels g @ [c, c]"
  have "find_tunnel n ?cs \<noteq> Some (Suc (length (cg_tunnels g)))"
    by (rule duplicate_ID_unreachable [where i = "length (cg_tunnels g)"]) (simp_all add: nth_append)
  with assms show ?thesis by (simp add: posts_run_def Let_def)
qed

end
