(* ===== verification/WebSerial.thy ===== *)
theory WebSerial
  imports WebRace
begin

text \<open>
  Forms for new tunnels that are served at the same time have the effect of forms served one
  after the other: the interleaved steps of \<open>WebRace\<close> refine \<open>handlePostNew\<close>. The order is
  that in which the submissions are answered.
\<close>

section \<open>One after the other\<close>

fun serve_posts :: "('f, 'l, 'cl) submission list \<Rightarrow> ('l, 'cl) group \<Rightarrow> response list \<times> ('l, 'cl) group" where
  "serve_posts [] g = ([], g)"
| "serve_posts ((W, r, w) # ps) g =
     (case handlePostNew W r g w of (g1, v) \<Rightarrow> (case serve_posts ps g1 of (vs, g2) \<Rightarrow> (v # vs, g2)))"

lemma serve_posts_snoc:
  "serve_posts ps g = (vs, g1) \<Longrightarrow> handlePostNew W r g1 w = (g2, v) \<Longrightarrow> serve_posts (ps @ [(W, r, w)]) g = (vs @ [v], g2)"
  by (induction ps g arbitrary: vs rule: serve_posts.induct) (auto split: prod.splits)

text \<open>Groups that differ at most in the files of \<open>X\<close>; the representation of the file system does not matter.\<close>

definition same_group :: "string set \<Rightarrow> ('l, 'cl) group \<Rightarrow> ('l, 'cl) group \<Rightarrow> bool" where
  "same_group X g g' \<longleftrightarrow>
     cg_tunnels g = cg_tunnels g' \<and> cg_configDir g = cg_configDir g' \<and> cg_registry g = cg_registry g' \<and> cg_csrf g = cg_csrf g' \<and>
     (\<forall>f. f \<notin> X \<longrightarrow> gm_get (cg_files g) f = gm_get (cg_files g') f)"

lemma same_group_refl [simp]: "same_group X g g" by (simp add: same_group_def)

lemma same_group_trans:
  assumes "same_group X g g1" and "same_group Y g1 g2" and "X \<union> Y \<subseteq> Z"
  shows "same_group Z g g2"
proof -
  have "gm_get (cg_files g) f = gm_get (cg_files g2) f" if "f \<notin> Z" for f
  proof -
    have "f \<notin> X" "f \<notin> Y" using that assms(3) by auto
    with assms(1,2) show ?thesis by (simp add: same_group_def)
  qed
  with assms(1,2) show ?thesis by (simp add: same_group_def)
qed

lemma same_group_mono: "same_group X g g' \<Longrightarrow> X \<subseteq> Z \<Longrightarrow> same_group Z g g'"
  by (auto simp: same_group_def)

lemma same_group_sym: "same_group X g g' \<Longrightarrow> same_group X g' g"
  by (simp add: same_group_def)

section \<open>What a submission has seen\<close>

abbreviation form_name :: "request \<Rightarrow> string" where "form_name r \<equiv> FormValue r ''name''"
abbreviation form_type :: "request \<Rightarrow> string" where "form_type r \<equiv> FormValue r ''type''"

text \<open>The form is written as these data, whatever the files are.\<close>

definition writes_data :: "('f, 'l, 'cl) web_env \<Rightarrow> request \<Rightarrow> string \<Rightarrow> string \<Rightarrow> bool" where
  "writes_data W r path data \<longleftrightarrow>
     (\<forall>fs. writeTunnelConfigYAML (we_yaml W) (we_faults W) r (form_name r) (form_type r) path fs = (gm_set path data fs, None))"

lemma write_ok:
  assumes "writeTunnelConfigYAML (we_yaml W) (we_faults W) r (form_name r) (form_type r) path fs = (fs1, None)"
  shows "\<exists>data. writes_data W r path data \<and> fs1 = gm_set path data fs"
  using assms unfolding writes_data_def
  by (auto simp: writeTunnelConfigYAML_def WriteFile_def split: sum.splits option.splits prod.splits if_splits)

lemma write_failed:
  assumes "writeTunnelConfigYAML (we_yaml W) (we_faults W) r name ty path fs = (fs1, Some err)"
  obtains left where "\<And>fs. writeTunnelConfigYAML (we_yaml W) (we_faults W) r name ty path fs =
      (case left of None \<Rightarrow> fs | Some d \<Rightarrow> gm_set path d fs, Some err)"
    "fs1 = (case left of None \<Rightarrow> fs | Some d \<Rightarrow> gm_set path d fs)"
proof (cases "buildTunnelConfigMap r name ty")
  case (Inl e)
  with assms that [of None] show ?thesis by (simp add: writeTunnelConfigYAML_def)
next
  case (Inr m)
  show ?thesis
  proof (cases "we_yaml W (YMap [(''tunnels'', YMap [(name, YMap m)])])")
    case (Inl e)
    with assms Inr that [of None] show ?thesis by (simp add: writeTunnelConfigYAML_def)
  next
    case data: (Inr data)
    with assms Inr obtain e left where "f_write (we_faults W) path = Some (e, left)"
      by (auto simp: writeTunnelConfigYAML_def WriteFile_def split: option.splits prod.splits)
    with assms Inr data that [of left] show ?thesis
      by (auto simp: writeTunnelConfigYAML_def WriteFile_def)
  qed
qed

text \<open>Loading a controller reads its own file only.\<close>

lemma NewController_own_file:
  "gm_get fs path = gm_get fs' path \<Longrightarrow> NewController E fs path = NewController E fs' path"
  by (simp add: NewController_def NewConfig_def Load_def read_file_def)

fun wrote :: "('l, 'cl) post_phase \<Rightarrow> bool" where
  "wrote (Written path) \<longleftrightarrow> True"
| "wrote (Loaded c) \<longleftrightarrow> True"
| "wrote (Refused path err) \<longleftrightarrow> True"
| "wrote _ \<longleftrightarrow> False"

definition form_ok :: "request \<Rightarrow> bool" where
  "form_ok r \<longleftrightarrow> rq_formErr r = None \<and> form_name r \<noteq> '''' \<and> form_type r \<noteq> ''''"

text \<open>The variables of the handler hold what the steps before have found out.\<close>

fun phase_seen :: "('f, 'l, 'cl) submission \<Rightarrow> ('l, 'cl) post_phase \<Rightarrow> ('l, 'cl) group \<Rightarrow> bool" where
  "phase_seen (W, r, w) (Checked name ty) g \<longleftrightarrow> form_ok r \<and> name = form_name r \<and> ty = form_type r"
| "phase_seen (W, r, w) (Written path) g \<longleftrightarrow>
     form_ok r \<and> (\<exists>data. writes_data W r path data \<and> gm_get (cg_files g) path = Some data)"
| "phase_seen (W, r, w) (Loaded c) g \<longleftrightarrow>
     form_ok r \<and> (\<exists>data. writes_data W r (post_path (cg_configDir g) (W, r, w)) data \<and>
       gm_get (cg_files g) (post_path (cg_configDir g) (W, r, w)) = Some data) \<and>
     NewController (we_env W) (cg_files g) (post_path (cg_configDir g) (W, r, w)) = Inr c"
| "phase_seen (W, r, w) (Refused path err) g \<longleftrightarrow>
     form_ok r \<and> (\<exists>data. writes_data W r path data \<and> gm_get (cg_files g) path = Some data) \<and>
     (\<exists>e. NewController (we_env W) (cg_files g) path = Inl e \<and> err = Wrapf ''Failed to create tunnel'' e)"
| "phase_seen p ph g \<longleftrightarrow> True"

lemma phase_seen_other:
  assumes "phase_seen q ph g" and "phase_inv q ph g" and "cg_configDir g' = cg_configDir g"
    and f: "gm_get (cg_files g') (post_path (cg_configDir g) q) = gm_get (cg_files g) (post_path (cg_configDir g) q)"
  shows "phase_seen q ph g'"
proof -
  obtain W r w where q: "q = (W, r, w)" by (metis prod_cases3)
  show ?thesis
    using assms NewController_own_file [OF f, of "we_env W"] unfolding q by (cases ph) (auto simp del: i2p_accessors)
qed

lemma validate_ok:
  "form_ok r \<Longrightarrow> Clean (form_name r) \<notin> set (tunnel_ids g) \<Longrightarrow>
     validateNewTunnelForm r (cg_tunnels g) = Inr (form_name r, form_type r)"
  by (auto simp: validateNewTunnelForm_def form_ok_def Let_def image_iff)

lemma validate_Inr:
  "validateNewTunnelForm r cs = Inr (name, ty) \<Longrightarrow>
     name = form_name r \<and> ty = form_type r \<and> name \<noteq> '''' \<and> ty \<noteq> ''''"
  by (auto simp: validateNewTunnelForm_def Let_def split: if_splits)

section \<open>Steps before the answer\<close>

text \<open>A step that does not answer changes at most the file of the submission.\<close>

lemma step_Posted:
  assumes "post_step W r w Posted g = (ph, g')"
  shows "g' = g \<and> phase_seen (W, r, w) ph g \<and> \<not> wrote ph"
  using assms
  by (auto simp: form_ok_def dest!: validate_Inr split: option.splits sum.splits)

lemma step_Checked:
  assumes "post_step W r w (Checked name ty) g = (ph, g')" and "post_response ph = None"
    and "phase_inv (W, r, w) (Checked name ty) g" and "phase_seen (W, r, w) (Checked name ty) g"
  shows "same_group {post_path (cg_configDir g) (W, r, w)} g g' \<and> phase_seen (W, r, w) ph g' \<and> wrote ph"
proof -
  let ?path = "post_path (cg_configDir g) (W, r, w)"
  have path: "filepath_Join (cg_configDir g) (Clean name @ ''.yaml'') = ?path" and nt: "name = form_name r" "ty = form_type r" "form_ok r"
    using assms(4) by (simp_all add: post_path_def post_key_def)
  obtain fs1 where wr: "writeTunnelConfigYAML (we_yaml W) (we_faults W) r (form_name r) (form_type r) ?path (cg_files g) = (fs1, None)"
    and ph: "ph = Written ?path" "g' = g\<lparr>cg_files := fs1\<rparr>"
    using assms(1,2) nt path by (auto simp: Let_def split: prod.splits option.splits)
  obtain data where "writes_data W r ?path data" "fs1 = gm_set ?path data (cg_files g)" using write_ok [OF wr] by blast
  with ph nt show ?thesis by (auto simp: same_group_def)
qed

lemma step_Written:
  assumes "post_step W r w (Written path) g = (ph, g')"
    and "phase_inv (W, r, w) (Written path) g" and "phase_seen (W, r, w) (Written path) g"
  shows "g' = g \<and> phase_seen (W, r, w) ph g \<and> wrote ph"
  using assms by (auto split: sum.splits)

lemma post_step_silent:
  assumes step: "post_step W r w ph g = (ph', g')" and "post_response ph' = None"
    and "phase_inv (W, r, w) ph g" and "phase_seen (W, r, w) ph g"
  shows "phase_seen (W, r, w) ph' g' \<and> (wrote ph \<longrightarrow> wrote ph') \<and>
    same_group (if wrote ph' then {post_path (cg_configDir g) (W, r, w)} else {}) g g'"
proof (cases ph)
  case Posted
  from step_Posted [OF step [unfolded Posted]] Posted show ?thesis by simp
next
  case (Checked name ty)
  from step_Checked [OF step [unfolded Checked] assms(2) assms(3,4) [unfolded Checked]] show ?thesis by simp
next
  case (Written path)
  from step_Written [OF step [unfolded Written] assms(3,4) [unfolded Written]] show ?thesis by simp
qed (use assms in \<open>auto simp: Let_def split: option.splits prod.splits\<close>)

section \<open>The step that answers\<close>

text \<open>
  It ends the submission as the handler would have, called on any group that agrees with
  the present one outside the files that are being written.
\<close>

lemma answer_Posted:
  assumes step: "post_step W r w Posted g = (ph', g')" and "post_response ph' = Some v" and same: "same_group X g gs"
  shows "g' = g \<and> handlePostNew W r gs w = (gs, v)"
proof -
  have t: "cg_tunnels gs = cg_tunnels g" using same by (simp add: same_group_def)
  from assms show ?thesis
    by (auto simp: handlePostNew_def t split: option.splits sum.splits)
qed

lemma answer_Checked:
  assumes step: "post_step W r w (Checked name ty) g = (ph', g')" and v: "post_response ph' = Some v" and same: "same_group X g gs"
    and inv: "phase_inv (W, r, w) (Checked name ty) g" and seen: "phase_seen (W, r, w) (Checked name ty) g"
    and p: "post_path (cg_configDir g) (W, r, w) \<notin> X"
  shows "\<exists>gs'. handlePostNew W r gs w = (gs', v) \<and> same_group X g' gs'"
proof -
  let ?path = "post_path (cg_configDir g) (W, r, w)"
  have path: "filepath_Join (cg_configDir g) (Clean name @ ''.yaml'') = ?path" and nt: "name = form_name r" "ty = form_type r" "form_ok r"
    using seen by (simp_all add: post_path_def post_key_def)
  have s: "cg_tunnels gs = cg_tunnels g" "cg_configDir gs = cg_configDir g" using same by (simp_all add: same_group_def)
  have val: "validateNewTunnelForm r (cg_tunnels gs) = Inr (name, ty)"
    using validate_ok [OF nt(3), of g] inv nt s(1) by (simp add: post_key_def del: i2p_accessors)
  obtain fs1 err where wr: "writeTunnelConfigYAML (we_yaml W) (we_faults W) r name ty ?path (cg_files g) = (fs1, Some err)"
    and ph: "g' = g\<lparr>cg_files := fs1\<rparr>" "v = renderNewWithError (we_templates W) (Error_text err) w"
    using step v path by (auto simp: Let_def split: prod.splits option.splits)
  obtain left where left: "\<And>fs. writeTunnelConfigYAML (we_yaml W) (we_faults W) r name ty ?path fs =
      (case left of None \<Rightarrow> fs | Some d \<Rightarrow> gm_set ?path d fs, Some err)"
    "fs1 = (case left of None \<Rightarrow> cg_files g | Some d \<Rightarrow> gm_set ?path d (cg_files g))"
    using write_failed [OF wr] by blast
  have "handlePostNew W r gs w = (gs\<lparr>cg_files := (case left of None \<Rightarrow> cg_files gs | Some d \<Rightarrow> gm_set ?path d (cg_files gs))\<rparr>, v)"
    using nt(3) val path s(2) left(1) ph(2) by (simp add: handlePostNew_def form_ok_def Let_def)
  moreover have "same_group X g' (gs\<lparr>cg_files := (case left of None \<Rightarrow> cg_files gs | Some d \<Rightarrow> gm_set ?path d (cg_files gs))\<rparr>)"
    using same by (auto simp: ph(1) left(2) same_group_def split: option.split)
  ultimately show ?thesis by blast
qed

text \<open>The handler after a write that succeeded.\<close>

lemma handlePostNew_wrote:
  assumes "form_ok r" and "Clean (form_name r) \<notin> set (tunnel_ids gs)"
    and "path = filepath_Join (cg_configDir gs) (Clean (form_name r) @ ''.yaml'')" and "writes_data W r path data"
  shows "handlePostNew W r gs w =
    (let g1 = gs\<lparr>cg_files := gm_set path data (cg_files gs)\<rparr> in
     case createAndRegisterController (we_env W) path g1 of
       Inl err \<Rightarrow> (g1\<lparr>cg_files := gm_del path (cg_files g1)\<rparr>, renderNewWithError (we_templates W) (Error_text err) w)
     | Inr (g2, c) \<Rightarrow> (g2, http_Redirect r (''/'' @ i2p_ID (wt_tunnel c) @ ''/control'') 303 w))"
proof -
  have "rq_formErr r = None" using assms(1) by (simp add: form_ok_def)
  moreover have "writeTunnelConfigYAML (we_yaml W) (we_faults W) r (form_name r) (form_type r) path (cg_files gs) =
      (gm_set path data (cg_files gs), None)"
    using assms(4) unfolding writes_data_def by blast
  ultimately show ?thesis
    unfolding assms(3) by (simp add: handlePostNew_def validate_ok [OF assms(1,2)] Let_def del: i2p_accessors)
qed

lemma answer_Loaded:
  assumes step: "post_step W r w (Loaded c) g = (ph', g')" and v: "post_response ph' = Some v" and same: "same_group X g gs"
    and inv: "phase_inv (W, r, w) (Loaded c) g" and seen: "phase_seen (W, r, w) (Loaded c) g"
  shows "\<exists>gs'. handlePostNew W r gs w = (gs', v) \<and> same_group (X - {post_path (cg_configDir g) (W, r, w)}) g' gs'"
proof -
  let ?path = "post_path (cg_configDir g) (W, r, w)"
  obtain data where data: "writes_data W r ?path data" "gm_get (cg_files g) ?path = Some data" and ok: "form_ok r"
    and load: "NewController (we_env W) (cg_files g) ?path = Inr c"
    using seen by auto
  have s: "cg_tunnels gs = cg_tunnels g" "cg_configDir gs = cg_configDir g" "cg_registry gs = cg_registry g"
    using same by (simp_all add: same_group_def)
  have key: "Clean (form_name r) \<notin> set (tunnel_ids gs)" using inv s(1) by (simp add: post_key_def del: i2p_accessors)
  have path: "?path = filepath_Join (cg_configDir gs) (Clean (form_name r) @ ''.yaml'')"
    using s(2) by (simp add: post_path_def post_key_def)
  let ?fs = "gm_set ?path data (cg_files gs)"
  have "NewController (we_env W) ?fs ?path = Inr c"
    using load NewController_own_file [of ?fs ?path "cg_files g" "we_env W"] data(2) by simp
  with handlePostNew_wrote [OF ok key path data(1), of w] step v same data(2) s show ?thesis
    by (auto simp: createAndRegisterController_def same_group_def Let_def split: option.splits prod.splits)
qed

lemma answer_Refused:
  assumes step: "post_step W r w (Refused path err) g = (ph', g')" and v: "post_response ph' = Some v" and same: "same_group X g gs"
    and inv: "phase_inv (W, r, w) (Refused path err) g" and seen: "phase_seen (W, r, w) (Refused path err) g"
  shows "\<exists>gs'. handlePostNew W r gs w = (gs', v) \<and> same_group (X - {post_path (cg_configDir g) (W, r, w)}) g' gs'"
proof -
  obtain data e where data: "writes_data W r path data" "gm_get (cg_files g) path = Some data" and ok: "form_ok r"
    and load: "NewController (we_env W) (cg_files g) path = Inl e" "err = Wrapf ''Failed to create tunnel'' e"
    using seen by auto
  have s: "cg_tunnels gs = cg_tunnels g" "cg_configDir gs = cg_configDir g" using same by (simp_all add: same_group_def)
  have key: "Clean (form_name r) \<notin> set (tunnel_ids gs)" using inv s(1) by (simp add: post_key_def del: i2p_accessors)
  have own: "path = post_path (cg_configDir g) (W, r, w)" using inv by simp
  then have path: "path = filepath_Join (cg_configDir gs) (Clean (form_name r) @ ''.yaml'')"
    using s(2) by (simp add: post_path_def post_key_def)
  let ?fs = "gm_set path data (cg_files gs)"
  have "NewController (we_env W) ?fs path = Inl e"
    using load NewController_own_file [of ?fs path "cg_files g" "we_env W"] data(2) by simp
  with handlePostNew_wrote [OF ok key path data(1), of w] step v same load(2) show ?thesis
    unfolding own [symmetric] by (auto simp: createAndRegisterController_def same_group_def Let_def)
qed

lemma post_step_answer:
  assumes "post_step W r w ph g = (ph', g')" and "post_response ph = None" and "post_response ph' = Some v" and "same_group X g gs"
    and "phase_inv (W, r, w) ph g" and "phase_seen (W, r, w) ph g"
    and "\<not> wrote ph \<Longrightarrow> post_path (cg_configDir g) (W, r, w) \<notin> X"
  shows "\<exists>gs'. handlePostNew W r gs w = (gs', v) \<and> same_group (X - {post_path (cg_configDir g) (W, r, w)}) g' gs'"
proof (cases ph)
  case Posted
  with answer_Posted [OF assms(1) [unfolded Posted] assms(3,4)] assms(4,7) show ?thesis by simp
next
  case (Checked name ty)
  with answer_Checked [OF assms(1) [unfolded Checked] assms(3,4) assms(5,6) [unfolded Checked]] assms(7) show ?thesis by simp
next
  case (Written path)
  with assms(1,3) show ?thesis by (auto split: sum.splits)
next
  case (Loaded c)
  from answer_Loaded [OF assms(1) [unfolded Loaded] assms(3,4) assms(5,6) [unfolded Loaded]] show ?thesis .
next
  case (Refused path err)
  from answer_Refused [OF assms(1) [unfolded Refused] assms(3,4) assms(5,6) [unfolded Refused]] show ?thesis .
qed (use assms(2) in simp_all)

section \<open>Every interleaving\<close>

text \<open>The files that unanswered submissions have written.\<close>

definition open_files :: "string \<Rightarrow> ('f, 'l, 'cl) submission list \<Rightarrow> ('l, 'cl) post_phase list \<Rightarrow> string set" where
  "open_files dir ps phs = {f. \<exists>i<length ps. wrote (phs ! i) \<and> f = post_path dir (ps ! i)}"

definition serial_inv ::
  "('f, 'l, 'cl) submission list \<Rightarrow> ('l, 'cl) group \<Rightarrow> ('l, 'cl) post_phase list \<times> ('l, 'cl) group \<Rightarrow> nat list \<Rightarrow> bool" where
  "serial_inv ps g0 s order \<longleftrightarrow>
     (case s of (phs, g) \<Rightarrow>
        (\<forall>i<length ps. phase_seen (ps ! i) (phs ! i) g) \<and>
        distinct order \<and> set order = {i. i < length ps \<and> post_response (phs ! i) \<noteq> None} \<and>
        (case serve_posts (map ((!) ps) order) g0 of
           (vs, gs) \<Rightarrow>
             same_group (open_files (cg_configDir g0) ps phs) g gs \<and> map (\<lambda>i. post_response (phs ! i)) order = map Some vs))"

lemma serial_inv_start: "serial_inv ps g (replicate (length ps) Posted, g) []"
proof -
  have "phase_seen (ps ! i) Posted g" for i by (cases "ps ! i") simp
  then show ?thesis by (simp add: serial_inv_def open_files_def)
qed

lemma open_files_update:
  assumes "i < length ps" and "length phs = length ps"
  shows "open_files dir ps (phs[i := ph]) \<subseteq> open_files dir ps phs \<union> (if wrote ph then {post_path dir (ps ! i)} else {})"
    and "open_files dir ps phs - {post_path dir (ps ! i)} \<subseteq> open_files dir ps (phs[i := ph])"
    and "(wrote (phs ! i) \<longrightarrow> wrote ph) \<Longrightarrow> open_files dir ps phs \<subseteq> open_files dir ps (phs[i := ph])"
    and "wrote ph \<Longrightarrow> post_path dir (ps ! i) \<in> open_files dir ps (phs[i := ph])"
  using assms unfolding open_files_def by (auto simp: nth_list_update)

lemma post_step_done: "post_response ph \<noteq> None \<Longrightarrow> post_step W r w ph g = (ph, g)"
  by (cases ph) simp_all

lemma serial_inv_turn:
  assumes laws: "\<forall>(W, r, w)\<in>set ps. yaml_keeps_name W" and keys: "distinct (map post_key ps)"
    and inv: "posts_inv ps g0 (phs, g)" and ser: "serial_inv ps g0 (phs, g) order"
    and turn: "post_turn ps i (phs, g) = (phs', g')"
  shows "\<exists>order. serial_inv ps g0 (phs', g') order"
proof (cases "i < length ps")
  case i: True
  let ?path = "post_path (cg_configDir g0) (ps ! i)"
  obtain W r w where p: "ps ! i = (W, r, w)" by (metis prod_cases3)
  obtain ph where step: "post_step W r w (phs ! i) g = (ph, g')" and phs': "phs' = phs[i := ph]"
    using turn i inv p by (auto simp: posts_inv_def split: prod.splits)
  have len: "length phs = length ps" and dir: "cg_configDir g = cg_configDir g0"
    and all: "\<And>k. k < length ps \<Longrightarrow> phase_inv (ps ! k) (phs ! k) g"
    using inv unfolding posts_inv_def by simp_all
  obtain vs gs where gs: "serve_posts (map ((!) ps) order) g0 = (vs, gs)" by fastforce
  have seen: "\<And>k. k < length ps \<Longrightarrow> phase_seen (ps ! k) (phs ! k) g" and ord: "distinct order"
      "set order = {k. k < length ps \<and> post_response (phs ! k) \<noteq> None}"
    and same: "same_group (open_files (cg_configDir g0) ps phs) g gs" and vs: "map (\<lambda>k. post_response (phs ! k)) order = map Some vs"
    using ser gs unfolding serial_inv_def by simp_all
  have inv_i: "phase_inv (W, r, w) (phs ! i) g" and seen_i: "phase_seen (W, r, w) (phs ! i) g" using all [OF i] seen [OF i] p by simp_all
  have "yaml_keeps_name W" using laws nth_mem [OF i] p by auto
  from post_step_inv [OF this step inv_i] have eff: "post_effect (ps ! i) g g'" using p by simp
  have other: "phase_seen (ps ! k) (phs ! k) g'" if k: "k < length ps" "k \<noteq> i" for k
  proof (rule phase_seen_other [OF seen [OF k(1)] all [OF k(1)]])
    have "post_key (ps ! k) \<noteq> post_key (ps ! i)" using keys i k by (simp add: distinct_conv_nth)
    then have "post_path (cg_configDir g) (ps ! k) \<noteq> post_path (cg_configDir g) (ps ! i)" using post_path_inj by metis
    with eff show "gm_get (cg_files g') (post_path (cg_configDir g) (ps ! k)) = gm_get (cg_files g) (post_path (cg_configDir g) (ps ! k))"
      unfolding post_effect_def by blast
  qed (use eff in \<open>simp add: post_effect_def\<close>)
  show ?thesis
  proof (cases "post_response (phs ! i)")
    case (Some v)
    with step post_step_done [of "phs ! i" W r w g] have "ph = phs ! i" "g' = g" by simp_all
    then have "phs' = phs" using phs' by simp
    with ser \<open>g' = g\<close> show ?thesis by blast
  next
    case open_i: None
    then have i_order: "i \<notin> set order" using ord(2) by simp
    have resp: "post_response (phs' ! k) = post_response (phs ! k)" if "k \<noteq> i" for k using that by (simp add: phs')
    show ?thesis
    proof (cases "post_response ph")
      case None
      from post_step_silent [OF step None inv_i seen_i]
      have s: "phase_seen (ps ! i) ph g'" "wrote (phs ! i) \<longrightarrow> wrote ph" "same_group (if wrote ph then {?path} else {}) g g'"
        unfolding p dir by blast+
      have "same_group (open_files (cg_configDir g0) ps phs') g' gs"
      proof (rule same_group_trans [OF same_group_sym [OF s(3)] same])
        show "(if wrote ph then {?path} else {}) \<union> open_files (cg_configDir g0) ps phs \<subseteq> open_files (cg_configDir g0) ps phs'"
          using open_files_update(3,4) [OF i len, of ph "cg_configDir g0"] s(2) by (simp add: phs')
      qed
      moreover have "{k. k < length ps \<and> post_response (phs' ! k) \<noteq> None} = {k. k < length ps \<and> post_response (phs ! k) \<noteq> None}"
        using None open_i i len by (auto simp: phs' nth_list_update)
      moreover have "map (\<lambda>k. post_response (phs' ! k)) order = map Some vs"
        unfolding vs [symmetric] using i_order by (auto intro!: resp)
      moreover have "phase_seen (ps ! k) (phs' ! k) g'" if "k < length ps" for k
        using s(1) other [OF that] len that by (cases "k = i") (simp_all add: phs')
      ultimately show ?thesis using ord gs unfolding serial_inv_def by (intro exI [of _ order]) simp
    next
      case (Some v)
      have "?path \<notin> open_files (cg_configDir g0) ps phs" if "\<not> wrote (phs ! i)"
      proof
        assume "?path \<in> open_files (cg_configDir g0) ps phs"
        then obtain k where k: "k < length ps" "wrote (phs ! k)" "?path = post_path (cg_configDir g0) (ps ! k)"
          unfolding open_files_def by blast
        from k(3) have "post_key (ps ! i) = post_key (ps ! k)" by (rule post_path_inj)
        then have "k = i" using keys i k(1) by (simp add: distinct_conv_nth) metis
        with k(2) that show False by simp
      qed
      then obtain gs' where gs': "handlePostNew W r gs w = (gs', v)" "same_group (open_files (cg_configDir g0) ps phs - {?path}) g' gs'"
        using post_step_answer [OF step open_i Some same inv_i seen_i] p dir by auto
      have "same_group (open_files (cg_configDir g0) ps phs') g' gs'"
        using same_group_mono [OF gs'(2)] open_files_update(2) [OF i len] by (simp add: phs')
      moreover have "serve_posts (map ((!) ps) (order @ [i])) g0 = (vs @ [v], gs')"
        using serve_posts_snoc [OF gs gs'(1)] p by simp
      moreover have "set (order @ [i]) = {k. k < length ps \<and> post_response (phs' ! k) \<noteq> None}"
        using ord(2) Some i len by (auto simp: phs' nth_list_update)
      moreover have "map (\<lambda>k. post_response (phs' ! k)) order = map Some vs"
        unfolding vs [symmetric] using i_order by (auto intro!: resp)
      moreover have "post_response (phs' ! i) = Some v" using Some i len by (simp add: phs')
      moreover have "phase_seen (ps ! k) (phs' ! k) g'" if "k < length ps" for k
      proof (cases "k = i")
        case True
        have "phase_seen (ps ! i) ph g'" using Some p by (cases ph) simp_all
        with True i len show ?thesis by (simp add: phs')
      qed (use other [OF that] in \<open>simp add: phs'\<close>)
      ultimately show ?thesis using ord(1) i_order unfolding serial_inv_def by (intro exI [of _ "order @ [i]"]) simp
    qed
  qed
qed (use ser turn in auto)

lemma serial_run:
  assumes "\<forall>(W, r, w)\<in>set ps. yaml_keeps_name W" and "distinct (map post_key ps)"
    and "posts_inv ps g0 s" and "serial_inv ps g0 s order"
  shows "\<exists>order. serial_inv ps g0 (fold (post_turn ps) schedule s) order"
  using assms(3,4)
proof (induction schedule arbitrary: s order)
  case (Cons i schedule)
  obtain phs g phs' g' where s: "s = (phs, g)" "post_turn ps i (phs, g) = (phs', g')" by fastforce
  have "posts_inv ps g0 (phs', g')" using posts_inv_turn [OF assms(1,2) _ s(2)] Cons.prems(1) s(1) by simp
  moreover obtain order' where "serial_inv ps g0 (phs', g') order'"
    using serial_inv_turn [OF assms(1,2) _ _ s(2)] Cons.prems s(1) by blast
  ultimately show ?case using Cons.IH s by simp
qed auto



end
