(* ===== verification/WebMetrics.thy ===== *)
theory WebMetrics
  imports WebPages Embedding
begin

text \<open>
  The metrics endpoints over the response writer (\<open>lib/metrics/handler.go\<close>) and the two
  places that serve them: the mux of the embedding API (\<open>startMetricsServer\<close>) and the group
  of the web interface. A registered tunnel and the registry share the metrics by pointer:
  here the tunnel holds the value, and the registry is brought up to date when it is read.
  The JSON encoder, the verb \<open>%.3f\<close> and the clock are parameters. A handler that panics
  (the target of a tunnel that has none) gives no response: \<open>None\<close>.
\<close>

section \<open>The handler\<close>

record 's metrics_handler =
  mh_Registry :: registry
  mh_StatusFunc :: "'s \<Rightarrow> live_status list option"

definition NewHandler :: "registry \<Rightarrow> ('s \<Rightarrow> live_status list option) \<Rightarrow> 's metrics_handler" where
  "NewHandler reg f = \<lparr>mh_Registry = reg, mh_StatusFunc = f\<rparr>"

type_synonym 'v json = "'v \<Rightarrow> go_error + string"

record metrics_env =
  mv_now :: "64 word"
  mv_fmt3 :: "int \<Rightarrow> string"
  mv_health :: "health_response json"
  mv_status :: "(live_status \<times> metric_snapshot option) list json"

text \<open>\<open>Encode\<close> writes the value and a newline, or nothing if the value cannot be encoded; its error is not looked at.\<close>

definition json_Encode :: "'v json \<Rightarrow> 'v \<Rightarrow> response \<Rightarrow> response" where
  "json_Encode J v w = (case J v of Inl err \<Rightarrow> w | Inr s \<Rightarrow> Write (s @ [newline_char]) w)"

definition response_write :: "response writer" where
  "response_write w s = (Write s w, None)"

definition Handler_HandleMetrics :: "metrics_env \<Rightarrow> 's metrics_handler \<Rightarrow> response \<Rightarrow> response" where
  "Handler_HandleMetrics V h w =
     fst (WritePrometheus response_write (mv_fmt3 V) (mv_now V) (mh_Registry h)
            (set_header ''Content-Type'' ''text/plain; version=0.0.4; charset=utf-8'' w))"

definition Handler_HandleHealth :: "metrics_env \<Rightarrow> 's metrics_handler \<Rightarrow> 's \<Rightarrow> response \<Rightarrow> response option" where
  "Handler_HandleHealth V h s w =
     map_option (\<lambda>ts. json_Encode (mv_health V) (HandleHealth ts) (set_header ''Content-Type'' ''application/json'' w))
       (mh_StatusFunc h s)"

definition Handler_HandleStatus :: "metrics_env \<Rightarrow> 's metrics_handler \<Rightarrow> 's \<Rightarrow> response \<Rightarrow> response option" where
  "Handler_HandleStatus V h s w =
     map_option (\<lambda>ts. json_Encode (mv_status V) (HandleStatus (mv_now V) (mh_Registry h) ts)
         (set_header ''Content-Type'' ''application/json'' w))
       (mh_StatusFunc h s)"

section \<open>The shared metrics\<close>

text \<open>
  The registry as it is read after the registered tunnels have counted: an instance has the
  counters that its tunnel has (the last of its tunnels, when several registered its ID).
\<close>

definition write_back :: "('l, 'cl) i2p_tunnel \<Rightarrow> registry \<Rightarrow> registry" where
  "write_back t reg =
     (case tb_Metrics (i2p_base t) of
        None \<Rightarrow> reg
      | Some m \<Rightarrow> (case Get (mID m) reg of None \<Rightarrow> reg | Some p \<Rightarrow> update_cell p (\<lambda>old. m) reg))"

definition live_registry :: "('l, 'cl) i2p_tunnel list \<Rightarrow> registry \<Rightarrow> registry" where
  "live_registry ts reg = fold write_back ts reg"

section \<open>The embedding API\<close>

text \<open>
  The mux for clean paths (the library redirects the others), and the handler that
  \<open>startMetricsServer\<close> installs, as it answers a request now: the registry is the one of
  the tunnel with its present counters, the status that of the object captured when the
  server was started.
\<close>

definition metrics_mux :: "metrics_env \<Rightarrow> 's metrics_handler \<Rightarrow> 's \<Rightarrow> string \<Rightarrow> response \<Rightarrow> response option" where
  "metrics_mux V h s p w =
     (if p = ''/metrics'' then Some (Handler_HandleMetrics V h w)
      else if p = ''/healthz'' then Handler_HandleHealth V h s w
      else if p = ''/api/status'' then Handler_HandleStatus V h s w
      else Some (http_Error ''404 page not found'' 404 w))"

definition startMetricsServer :: "('l, 'cl) embedded \<Rightarrow> ('l, 'cl) embedded metrics_handler option" where
  "startMetricsServer e =
     map_option (\<lambda>p. NewHandler (live_registry [em_objects e ! p] (em_registry e)) (\<lambda>e1. map_option (\<lambda>t. [t]) (tunnel_live_status (em_objects e1 ! p))))
       (em_reported e)"

section \<open>The group\<close>

definition group_handler :: "('l, 'cl) group \<Rightarrow> ('l, 'cl) group metrics_handler option" where
  "group_handler g =
     map_option (\<lambda>reg. NewHandler (live_registry (map wt_tunnel (cg_tunnels g)) reg) (\<lambda>g1. Some (tunnelStatus g1)))
       (cg_registry g)"

text \<open>What \<open>handleMetricsRoute\<close> calls for its three paths, as the parameter \<open>we_metrics\<close> of the group.\<close>

definition with_metrics :: "metrics_env \<Rightarrow> ('l, 'cl) group \<Rightarrow> ('f, 'l, 'cl) web_env \<Rightarrow> ('f, 'l, 'cl) web_env" where
  "with_metrics V g W =
     W\<lparr>we_metrics := (\<lambda>p w.
         case group_handler g of
           None \<Rightarrow> w
         | Some h \<Rightarrow> (case metrics_mux V h g p w of None \<Rightarrow> w | Some w1 \<Rightarrow> w1))\<rparr>"

lemma with_metrics_simps [simp]:
  "we_csrf (with_metrics V g W) = we_csrf W" "we_env (with_metrics V g W) = we_env W"
  "we_templates (with_metrics V g W) = we_templates W"
  by (simp_all add: with_metrics_def)

section \<open>What is written\<close>

lemma write_each_response:
  "write_each response_write ls w = (if ls = [] then w else Write (concat ls) w, None)"
proof (induction ls arbitrary: w)
  case (Cons l ls)
  have "Write b (Write a w) = Write (a @ b) w" for a b
    by (simp add: Write_def WriteHeader_def Let_def split: option.split)
  with Cons.IH [of "Write l w"] show ?case by (simp add: response_write_def)
qed simp

lemma Handler_HandleMetrics_body:
  "Handler_HandleMetrics V h w =
     Write (concat (map end_line (exposition_lines (mv_fmt3 V) (Snapshots (mv_now V) (mh_Registry h)))))
       (set_header ''Content-Type'' ''text/plain; version=0.0.4; charset=utf-8'' w)"
proof -
  have "exposition_lines (mv_fmt3 V) (Snapshots (mv_now V) (mh_Registry h)) \<noteq> []"
    using length_exposition [of "mv_fmt3 V" "Snapshots (mv_now V) (mh_Registry h)"] by fastforce
  then show ?thesis
    by (simp add: Handler_HandleMetrics_def WritePrometheus_def writePrometheusMetrics_lines write_each_response)
qed

section \<open>The registry of a group\<close>

text \<open>Every tunnel of the group is registered under its ID.\<close>

definition covered :: "('l, 'cl) group \<Rightarrow> bool" where
  "covered g \<longleftrightarrow> (\<exists>reg. cg_registry g = Some reg \<and> registry_inv reg \<and> (\<forall>x\<in>set (tunnel_ids g). Get x reg \<noteq> None))"

definition registered :: "('l, 'cl) group \<Rightarrow> ('l, 'cl) group \<Rightarrow> bool" where
  "registered g g' \<longleftrightarrow>
     tunnel_ids g' = tunnel_ids g \<and> cg_registry g' = cg_registry g \<or>
     (\<exists>name x ty reg. cg_registry g = Some reg \<and> cg_registry g' = Some (fst (Register name x ty reg)) \<and>
        tunnel_ids g' = tunnel_ids g @ [x])"

lemma Get_Register: "(\<exists>q. Get x (fst (Register name y ty reg)) = Some q) \<longleftrightarrow> x = y \<or> (\<exists>q. Get x reg = Some q)"
  by (auto simp: Register_def Get_def Let_def split: option.splits)

lemma covered_registered:
  assumes "covered g" and "registered g g'"
  shows "covered g'"
proof -
  obtain reg where reg: "cg_registry g = Some reg" "registry_inv reg" "\<forall>x\<in>set (tunnel_ids g). Get x reg \<noteq> None"
    using assms(1) unfolding covered_def by blast
  from assms(2) consider "tunnel_ids g' = tunnel_ids g" "cg_registry g' = cg_registry g"
    | name x ty where "cg_registry g' = Some (fst (Register name x ty reg))" "tunnel_ids g' = tunnel_ids g @ [x]"
    unfolding registered_def reg(1) by auto
  then show ?thesis
  proof cases
    case 1
    with reg show ?thesis by (simp add: covered_def del: i2p_accessors)
  next
    case 2
    then show ?thesis
      using registry_inv_Register [OF reg(2)] reg(3) unfolding covered_def 2 by (auto simp: Get_Register simp del: i2p_accessors)
  qed
qed

lemma create_registered:
  assumes "createAndRegisterController E path g = Inr (g', c')" and "cg_registry g \<noteq> None"
  shows "registered g g'"
proof -
  obtain reg where reg: "cg_registry g = Some reg" using assms(2) by blast
  obtain c where c: "NewController E (cg_files g) path = Inr c"
    using assms(1) by (auto simp: createAndRegisterController_def split: sum.splits)
  let ?t = "wt_tunnel c"
  obtain reg1 m where m: "Register (i2p_Name ?t) (i2p_ID ?t) (i2p_Type ?t) reg = (reg1, m)" by fastforce
  have "cg_registry g' = Some (fst (Register (i2p_Name ?t) (i2p_ID ?t) (i2p_Type ?t) reg))"
    "tunnel_ids g' = tunnel_ids g @ [i2p_ID ?t]"
    using assms(1) reg c m by (auto simp: createAndRegisterController_def register_metrics_def Let_def)
  with reg show ?thesis unfolding registered_def by blast
qed

lemma registered_refl: "tunnel_ids g' = tunnel_ids g \<Longrightarrow> cg_registry g' = cg_registry g \<Longrightarrow> registered g g'"
  by (simp add: registered_def)

lemma create_registered_files:
  "createAndRegisterController E path (g\<lparr>cg_files := fs\<rparr>) = Inr (g', c') \<Longrightarrow> cg_registry g = Some reg \<Longrightarrow> registered g g'"
  using create_registered [of E path "g\<lparr>cg_files := fs\<rparr>" g' c'] by (simp add: registered_def)

lemma handlePostNew_registered:
  assumes "cg_registry g = Some reg"
  shows "registered g (fst (handlePostNew W r g w))"
  using assms
  by (auto simp: handlePostNew_def Let_def registered_refl split: option.split sum.split prod.split
      elim: create_registered_files)

lemma routeRequest_registered:
  assumes "cg_registry g = Some reg"
  shows "registered g (fst (routeRequest W r g w))"
proof -
  have "cg_registry (fst (routeTunnelControl W r g w)) = cg_registry g" "cg_registry (fst (routeTunnelConfig W r g w)) = cg_registry g"
    by (simp_all add: routeTunnelControl_def routeTunnelConfig_def split: option.split prod.split)
  then show ?thesis
    using handlePostNew_registered [OF assms, of W r w] routeTunnelControl_ids [of W r g w] routeTunnelConfig_ids [of W r g w]
    by (simp add: routeRequest_def HandleNew_def Let_def registered_refl)
qed

lemma Group_ServeHTTP_registered:
  assumes "cg_registry g = Some reg"
  shows "registered g (fst (Group_ServeHTTP W r g w))"
  using routeRequest_registered [OF assms, of W r "HandleHTMLHeader (we_templates W) w"]
  by (auto simp: Group_ServeHTTP_def registered_refl split: option.split prod.splits)

lemma serve_all_covered: "covered g \<Longrightarrow> covered (serve_all qs g)"
proof (induction qs arbitrary: g)
  case (Cons q qs)
  obtain W r where q: "q = (W, r)" by fastforce
  obtain reg where "cg_registry g = Some reg" using Cons.prems unfolding covered_def by blast
  with Cons.prems have "covered (fst (Group_ServeHTTP W r g new_response))"
    by (blast intro: covered_registered Group_ServeHTTP_registered)
  with Cons.IH q show ?case by simp
qed simp

lemma load_covered:
  assumes "loadControllersFromFiles E entries dir g reg = Inr (g', reg')"
    and "covered (g\<lparr>cg_registry := Some reg\<rparr>)"
  shows "covered (g'\<lparr>cg_registry := Some reg'\<rparr>)"
  using assms
proof (induction E entries dir g reg rule: loadControllersFromFiles.induct)
  case (2 E nm isDir entries dir g reg)
  show ?case
  proof (cases isDir)
    case True
    with 2 show ?thesis by simp
  next
    case False
    with 2 obtain c where c: "NewController E (cg_files g) (filepath_Join dir nm) = Inr c"
      by (auto split: sum.splits)
    let ?t = "wt_tunnel c"
    obtain reg1 m where m: "Register (i2p_Name ?t) (i2p_ID ?t) (i2p_Type ?t) reg = (reg1, m)" by fastforce
    define c1 where "c1 = c\<lparr>wt_tunnel := i2p_SetTunnelMetrics (Some (cells reg1 m)) ?t\<rparr>"
    have rm: "register_metrics reg c = (reg1, c1)" using m by (simp add: register_metrics_def c1_def Let_def)
    let ?g1 = "g\<lparr>cg_tunnels := cg_tunnels g @ [c1]\<rparr>"
    have "registered (g\<lparr>cg_registry := Some reg\<rparr>) (?g1\<lparr>cg_registry := Some reg1\<rparr>)"
      unfolding registered_def
      by (rule disjI2, rule exI [of _ "i2p_Name ?t"], rule exI [of _ "i2p_ID ?t"], rule exI [of _ "i2p_Type ?t"])
        (use m in \<open>simp add: c1_def\<close>)
    then have "covered (?g1\<lparr>cg_registry := Some reg1\<rparr>)" using 2(4) covered_registered by blast
    with 2(2) [OF False c rm [symmetric]] 2(3) False c rm show ?thesis by simp
  qed
qed simp

lemma NewControllerGroup_covered:
  assumes "NewControllerGroup E readDir fs dir = Inr g"
  shows "covered g"
proof -
  obtain entries g1 reg where l: "loadControllersFromFiles E entries dir
      \<lparr>cg_tunnels = [], cg_configDir = dir, cg_registry = None, cg_csrf = True, cg_files = fs\<rparr> NewRegistry = Inr (g1, reg)"
    "g = g1\<lparr>cg_registry := Some reg\<rparr>"
    using assms by (auto simp: NewControllerGroup_def rbind_Inr_iff)
  show ?thesis
    using load_covered [OF l(1)] l(2) by (simp add: covered_def registry_inv_New)
qed

section \<open>The pages\<close>

lemma metrics_route:
  assumes "covered g" and "p \<in> {''/metrics'', ''/healthz'', ''/api/status''}"
  obtains reg h where "cg_registry g = Some reg" "group_handler g = Some h"
    "mh_Registry h = live_registry (map wt_tunnel (cg_tunnels g)) reg"
    "\<And>s. mh_StatusFunc h s = Some (tunnelStatus s)"
    "\<And>r. rq_path r = p \<Longrightarrow> we_csrf W r = None \<Longrightarrow>
       Group_ServeHTTP (with_metrics V g W) r g w = (g, the (metrics_mux V h g p w))"
proof -
  obtain reg where reg: "cg_registry g = Some reg" using assms(1) unfolding covered_def by blast
  let ?h = "NewHandler (live_registry (map wt_tunnel (cg_tunnels g)) reg) (\<lambda>g1. Some (tunnelStatus g1))"
  show ?thesis
  proof (rule that [of reg ?h])
    show "cg_registry g = Some reg" by (rule reg)
    show gh: "group_handler g = Some ?h" by (simp add: group_handler_def reg)
    fix r assume r: "rq_path r = p" "we_csrf W r = None"
    obtain w1 where w1: "metrics_mux V ?h g p w = Some w1"
      using assms(2) by (auto simp: metrics_mux_def Handler_HandleHealth_def Handler_HandleStatus_def NewHandler_def)
    have "handleMetricsRoute (with_metrics V g W) r g w = Some w1"
      using assms(2) r(1) gh w1 by (auto simp: handleMetricsRoute_def with_metrics_def reg)
    then show "Group_ServeHTTP (with_metrics V g W) r g w = (g, the (metrics_mux V ?h g p w))"
      using r(2) w1 by (simp add: Group_ServeHTTP_def)
  qed (simp_all add: NewHandler_def)
qed

end
