(* ===== verification/WebLive.thy ===== *)
theory WebLive
  imports WebMetrics
begin

text \<open>
  The metrics of the group of tunnels through every sequence of requests and of work that
  the tunnels do meanwhile: every tunnel is registered and holds the metrics of its ID, so
  the endpoints report what the tunnels have counted.
\<close>

section \<open>Tunnels keep the metrics of their ID\<close>

definition linked :: "('l, 'cl) i2p_tunnel \<Rightarrow> bool" where
  "linked t \<longleftrightarrow> (\<exists>m. tb_Metrics (i2p_base t) = Some m \<and> mID m = i2p_ID t)"

lemma mID_records [simp]: "mID (RecordStop m) = mID m" "mID (RecordError_metric m) = mID m"
  by (simp_all add: RecordStop_def RecordError_metric_def)

lemma i2p_Stop_mID: "map_option mID (tb_Metrics (i2p_base (fst (i2p_Stop sd t)))) = map_option mID (tb_Metrics (i2p_base t))"
  by (cases t; cases sd)
    (auto simp: i2p_Stop_defs upd_metrics_def RecordError_def option.map_comp comp_def)

lemma linked_mID: "linked t \<longleftrightarrow> map_option mID (tb_Metrics (i2p_base t)) = Some (i2p_ID t)"
  by (auto simp: linked_def)

lemma linked_Stop: "linked t \<Longrightarrow> linked (fst (i2p_Stop sd t))"
  by (simp add: linked_mID i2p_Stop_mID i2p_Stop_config del: i2p_Stop.simps)

lemma linked_SetOptions: "gm_get opts ''name'' = None \<Longrightarrow> linked t \<Longrightarrow> linked (fst (i2p_SetOptions E opts t))"
  using i2p_SetOptions_takes [of opts t E] i2p_SetOptions_ID [of opts E t]
  by (auto simp: linked_mID takes_options_def simp del: i2p_accessors)

lemma linked_Config:
  assumes "Config_ServeHTTP E Y F T r c fs w = (c', fs', w')" and "linked (wt_tunnel c)"
  shows "linked (wt_tunnel c')"
proof -
  have "linked t" if "buildConfigOptions r = Inr opts" "i2p_SetOptions E opts (wt_tunnel c) = (t, err)" for opts t err
    using linked_SetOptions [OF buildConfigOptions_reserved [OF that(1)] assms(2), of E] that(2) by simp
  with assms show ?thesis
    by (auto simp: Config_ServeHTTP_def handlePostConfig_def Let_def simp del: i2p_accessors
        split: option.splits if_splits sum.splits prod.splits)
qed

lemma linked_Controller:
  assumes "Controller_ServeHTTP E T sd r c w = (c', w')" and "linked (wt_tunnel c)"
  shows "linked (wt_tunnel c')"
proof -
  have "linked t" if "i2p_Stop sd (wt_tunnel c) = (t, err)" for t err
    using linked_Stop [OF assms(2), of sd] that by simp
  with assms show ?thesis
    by (auto simp: Controller_ServeHTTP_def handlePostControl_def handleStart_def handleStop_def handleRestart_def Let_def
        simp del: i2p_accessors split: option.splits if_splits prod.splits)
qed

section \<open>The group\<close>

definition healthy :: "('l, 'cl) group \<Rightarrow> bool" where
  "healthy g \<longleftrightarrow> covered g \<and> (\<forall>c\<in>set (cg_tunnels g). linked (wt_tunnel c))"

lemma linked_registered:
  assumes "registry_inv reg" and "register_metrics reg c = (reg1, c1)"
  shows "linked (wt_tunnel c1)"
proof -
  let ?t = "wt_tunnel c"
  obtain m where m: "Register (i2p_Name ?t) (i2p_ID ?t) (i2p_Type ?t) reg = (reg1, m)" "wt_tunnel c1 = i2p_SetTunnelMetrics (Some (cells reg1 m)) ?t"
    using assms(2) by (auto simp: register_metrics_def Let_def split: prod.splits)
  have "registry_inv reg1" using registry_inv_Register [OF assms(1)] m(1) by (metis fst_conv)
  moreover have "Get (i2p_ID ?t) reg1 = Some m"
    using m(1) by (auto simp: Register_def Get_def Let_def split: option.splits)
  ultimately have "mID (cells reg1 m) = i2p_ID ?t" by (auto simp: registry_inv_def Get_def)
  with m(2) show ?thesis by (simp add: linked_mID)
qed

lemma linked_create:
  assumes "createAndRegisterController E path g = Inr (g', c')" and "cg_registry g = Some reg" "registry_inv reg"
    and "\<forall>c\<in>set (cg_tunnels g). linked (wt_tunnel c)"
  shows "\<forall>c\<in>set (cg_tunnels g'). linked (wt_tunnel c)"
  using assms linked_registered [OF assms(3)]
  by (auto simp: createAndRegisterController_def simp del: i2p_accessors split: sum.splits prod.splits)

lemma linked_create_files:
  assumes "createAndRegisterController E path (g\<lparr>cg_files := fs\<rparr>) = Inr (g', c')" and "c \<in> set (cg_tunnels g')"
    and "cg_registry g = Some reg" "registry_inv reg" and "\<forall>c\<in>set (cg_tunnels g). linked (wt_tunnel c)"
  shows "linked (wt_tunnel c)"
  using linked_create [OF assms(1)] assms(2-5) by simp

lemma linked_handlePostNew:
  assumes "cg_registry g = Some reg" "registry_inv reg" and "\<forall>c\<in>set (cg_tunnels g). linked (wt_tunnel c)"
  shows "\<forall>c\<in>set (cg_tunnels (fst (handlePostNew W r g w))). linked (wt_tunnel c)"
  using assms
  by (auto simp: handlePostNew_def Let_def simp del: i2p_accessors split: option.split sum.split prod.split
      elim: linked_create_files)

lemma linked_update:
  "\<forall>c\<in>set cs. linked (wt_tunnel c) \<Longrightarrow> linked (wt_tunnel c') \<Longrightarrow> \<forall>c\<in>set (cs[i := c']). linked (wt_tunnel c)"
  using set_update_subset_insert [of cs i c'] by blast

lemma linked_routeRequest:
  assumes "cg_registry g = Some reg" "registry_inv reg" and l: "\<forall>c\<in>set (cg_tunnels g). linked (wt_tunnel c)"
  shows "\<forall>c\<in>set (cg_tunnels (fst (routeRequest W r g w))). linked (wt_tunnel c)"
proof -
  have at: "linked (wt_tunnel (cg_tunnels g ! i))" if "find_tunnel n (cg_tunnels g) = Some i" for n i
    using find_tunnel_Some [OF that] l by simp
  have "\<forall>c\<in>set (cg_tunnels (fst (routeTunnelControl W r g w))). linked (wt_tunnel c)"
  proof (cases "find_tunnel (tunnel (Some r)) (cg_tunnels g)")
    case (Some i)
    obtain c w' where c: "Controller_ServeHTTP (we_env W) (we_templates W) (we_shutdown W) r (cg_tunnels g ! i) w = (c, w')" by fastforce
    show ?thesis using linked_update [OF l linked_Controller [OF c at [OF Some]], of i] by (simp add: routeTunnelControl_def Some c)
  qed (use l in \<open>simp add: routeTunnelControl_def\<close>)
  moreover have "\<forall>c\<in>set (cg_tunnels (fst (routeTunnelConfig W r g w))). linked (wt_tunnel c)"
  proof (cases "find_tunnel (tunnel (Some r)) (cg_tunnels g)")
    case (Some i)
    obtain c fs w' where c: "Config_ServeHTTP (we_env W) (we_yaml W) (we_faults W) (we_templates W) r (cg_tunnels g ! i) (cg_files g) w = (c, fs, w')"
      by (metis prod_cases3)
    show ?thesis using linked_update [OF l linked_Config [OF c at [OF Some]], of i] by (simp add: routeTunnelConfig_def Some c)
  qed (use l in \<open>simp add: routeTunnelConfig_def\<close>)
  ultimately show ?thesis
    using linked_handlePostNew [OF assms, of W r w] l by (simp add: routeRequest_def HandleNew_def Let_def)
qed

lemma healthy_request: "healthy g \<Longrightarrow> healthy (fst (Group_ServeHTTP W r g w))"
proof -
  assume h: "healthy g"
  then obtain reg where reg: "cg_registry g = Some reg" "registry_inv reg" unfolding healthy_def covered_def by blast
  have "covered (fst (Group_ServeHTTP W r g w))"
    using h reg(1) unfolding healthy_def by (blast intro: covered_registered Group_ServeHTTP_registered)
  moreover have "\<forall>c\<in>set (cg_tunnels (fst (Group_ServeHTTP W r g w))). linked (wt_tunnel c)"
    using linked_routeRequest [OF reg, of W r "HandleHTMLHeader (we_templates W) w"] h
    by (auto simp: Group_ServeHTTP_def healthy_def split: option.split prod.splits)
  ultimately show ?thesis by (simp add: healthy_def)
qed

lemma load_linked:
  assumes "loadControllersFromFiles E entries dir g reg = Inr (g', reg')" and "registry_inv reg"
    and "\<forall>c\<in>set (cg_tunnels g). linked (wt_tunnel c)"
  shows "\<forall>c\<in>set (cg_tunnels g'). linked (wt_tunnel c)"
  using assms
proof (induction E entries dir g reg rule: loadControllersFromFiles.induct)
  case (2 E nm isDir entries dir g reg)
  show ?case
  proof (cases isDir)
    case True
    with 2 show ?thesis by simp
  next
    case False
    with 2 obtain c where c: "NewController E (cg_files g) (filepath_Join dir nm) = Inr c"
      by (auto split: sum.splits)
    obtain reg1 c1 where rm: "register_metrics reg c = (reg1, c1)" by fastforce
    have "reg1 = fst (Register (i2p_Name (wt_tunnel c)) (i2p_ID (wt_tunnel c)) (i2p_Type (wt_tunnel c)) reg)"
      using rm by (auto simp: register_metrics_def Let_def split: prod.splits)
    then have "registry_inv reg1" using registry_inv_Register 2(4) by simp
    moreover have "\<forall>c\<in>set (cg_tunnels (g\<lparr>cg_tunnels := cg_tunnels g @ [c1]\<rparr>)). linked (wt_tunnel c)"
      using 2(5) linked_registered [OF 2(4) rm] by simp
    ultimately show ?thesis using 2(2) [OF False c rm [symmetric]] 2(3) False c rm by simp
  qed
qed simp

lemma NewControllerGroup_healthy:
  assumes "NewControllerGroup E readDir fs dir = Inr g"
  shows "healthy g"
proof -
  obtain entries g1 reg where l: "loadControllersFromFiles E entries dir
      \<lparr>cg_tunnels = [], cg_configDir = dir, cg_registry = None, cg_csrf = True, cg_files = fs\<rparr> NewRegistry = Inr (g1, reg)"
    "g = g1\<lparr>cg_registry := Some reg\<rparr>"
    using assms by (auto simp: NewControllerGroup_def rbind_Inr_iff)
  show ?thesis
    using load_linked [OF l(1) registry_inv_New] NewControllerGroup_covered [OF assms] l(2) by (simp add: healthy_def)
qed

section \<open>Requests and work\<close>

text \<open>
  What happens to the group: a request is served in the environment it meets, or a tunnel
  works (its loops accept, count, fail and change its status).
\<close>

datatype ('f, 'l, 'cl) web_event =
    Serve "('f, 'l, 'cl) web_env" request
  | Work nat "('l, 'cl) i2p_tunnel \<Rightarrow> ('l, 'cl) i2p_tunnel"

fun web_event_step :: "('f, 'l, 'cl) web_event \<Rightarrow> ('l, 'cl) group \<Rightarrow> ('l, 'cl) group" where
  "web_event_step (Serve W r) g = fst (Group_ServeHTTP W r g new_response)"
| "web_event_step (Work i f) g =
     (if i < length (cg_tunnels g)
      then g\<lparr>cg_tunnels := (cg_tunnels g)[i := (cg_tunnels g ! i)\<lparr>wt_tunnel := f (wt_tunnel (cg_tunnels g ! i))\<rparr>]\<rparr>
      else g)"

text \<open>Work that keeps the ID of the tunnel and the ID of the metrics it counts in.\<close>

definition counting_work :: "('f, 'l, 'cl) web_event \<Rightarrow> bool" where
  "counting_work ev \<longleftrightarrow>
     (case ev of Serve W r \<Rightarrow> True
      | Work i f \<Rightarrow> \<forall>t. i2p_ID (f t) = i2p_ID t \<and>
          map_option mID (tb_Metrics (i2p_base (f t))) = map_option mID (tb_Metrics (i2p_base t)))"

lemma healthy_work:
  assumes "healthy g" and w: "counting_work ev" and ev: "ev = Work i f"
  shows "healthy (web_event_step ev g)"
proof (cases "i < length (cg_tunnels g)")
  case True
  let ?c = "(cg_tunnels g ! i)\<lparr>wt_tunnel := f (wt_tunnel (cg_tunnels g ! i))\<rparr>"
  have l: "\<forall>c\<in>set (cg_tunnels g). linked (wt_tunnel c)" using assms(1) by (simp add: healthy_def)
  have "linked (wt_tunnel ?c)"
    using w bspec [OF l nth_mem [OF True]] by (simp add: ev counting_work_def linked_mID del: i2p_accessors)
  from linked_update [OF l this, of i]
  have t: "\<forall>c\<in>set (cg_tunnels (web_event_step ev g)). linked (wt_tunnel c)" using True by (simp add: ev)
  have "tunnel_ids (web_event_step ev g) = tunnel_ids g"
    using w True by (simp add: ev counting_work_def map_update list_update_same_conv del: i2p_accessors)
  moreover have "cg_registry (web_event_step ev g) = cg_registry g" by (simp add: ev)
  ultimately have "covered (web_event_step ev g)"
    using assms(1) covered_registered registered_refl unfolding healthy_def by metis
  with t show ?thesis unfolding healthy_def by blast
qed (use assms(1) ev in simp)

lemma healthy_event: "healthy g \<Longrightarrow> counting_work ev \<Longrightarrow> healthy (web_event_step ev g)"
proof (cases ev)
  case (Work i f)
  assume "healthy g" "counting_work ev"
  then show ?thesis using Work by (rule healthy_work)
qed (simp add: healthy_request)

lemma healthy_run: "healthy g \<Longrightarrow> list_all counting_work evs \<Longrightarrow> healthy (fold web_event_step evs g)"
  by (induction evs arbitrary: g) (simp_all add: healthy_event)

section \<open>The registry that the endpoints read\<close>

lemma write_back_Get [simp]: "Get k (write_back t reg) = Get k reg"
  by (auto simp: write_back_def update_cell_def Get_def split: option.split)

lemma write_back_Len [simp]: "Len (write_back t reg) = Len reg"
  by (auto simp: write_back_def update_cell_def Len_def split: option.split)

lemma live_Get [simp]: "Get k (live_registry ts reg) = Get k reg"
  by (induction ts arbitrary: reg) (simp_all add: live_registry_def)

lemma live_Len [simp]: "Len (live_registry ts reg) = Len reg"
  by (induction ts arbitrary: reg) (simp_all add: live_registry_def)

lemma write_back_inv: "registry_inv reg \<Longrightarrow> registry_inv (write_back t reg)"
proof (cases "tb_Metrics (i2p_base t)")
  case (Some m)
  assume inv: "registry_inv reg"
  show ?thesis
  proof (cases "Get (mID m) reg")
    case p: (Some p)
    with inv have "mID (cells reg p) = mID m" by (simp add: registry_inv_def Get_def)
    with inv Some p show ?thesis by (auto simp: write_back_def registry_inv_def update_cell_def)
  qed (use inv Some in \<open>simp add: write_back_def\<close>)
qed (simp add: write_back_def)

lemma live_inv: "registry_inv reg \<Longrightarrow> registry_inv (live_registry ts reg)"
  by (induction ts arbitrary: reg) (simp_all add: live_registry_def write_back_inv)

lemma metrics_of_write_back:
  assumes "registry_inv reg" and "linked t" and "Get (i2p_ID t) reg \<noteq> None"
  shows "metrics_of k (write_back t reg) = (if k = i2p_ID t then tb_Metrics (i2p_base t) else metrics_of k reg)"
proof -
  obtain p m where pm: "Get (i2p_ID t) reg = Some p" "tb_Metrics (i2p_base t) = Some m" "mID m = i2p_ID t"
    using assms(2,3) by (auto simp: linked_def simp del: i2p_accessors)
  then show ?thesis
    using metrics_of_update_cell [OF assms(1) pm(1), of k "\<lambda>old. m"] by (simp add: write_back_def metrics_of_def del: i2p_accessors)
qed

lemma metrics_of_live:
  assumes "registry_inv reg" and "\<forall>t\<in>set ts. linked t \<and> Get (i2p_ID t) reg \<noteq> None" and "distinct (map i2p_ID ts)"
  shows "metrics_of k (live_registry ts reg) =
    (case List.find (\<lambda>t. i2p_ID t = k) ts of Some t \<Rightarrow> tb_Metrics (i2p_base t) | None \<Rightarrow> metrics_of k reg)"
  using assms
proof (induction ts arbitrary: reg)
  case (Cons t ts)
  let ?reg = "write_back t reg"
  have "metrics_of k (live_registry ts ?reg) =
      (case List.find (\<lambda>t. i2p_ID t = k) ts of Some t \<Rightarrow> tb_Metrics (i2p_base t) | None \<Rightarrow> metrics_of k ?reg)"
    using Cons.prems by (intro Cons.IH) (simp_all add: write_back_inv del: i2p_accessors)
  moreover have "List.find (\<lambda>u. i2p_ID u = k) ts = None" if "k = i2p_ID t"
    using Cons.prems(3) that by (force simp: find_None_iff image_iff simp del: i2p_accessors)
  moreover have "metrics_of k ?reg = (if k = i2p_ID t then tb_Metrics (i2p_base t) else metrics_of k reg)"
    using Cons.prems(1,2) by (intro metrics_of_write_back) (simp_all del: i2p_accessors)
  moreover have "live_registry (t # ts) reg = live_registry ts ?reg" by (simp add: live_registry_def)
  ultimately show ?case by (cases "k = i2p_ID t") (simp_all del: i2p_accessors split: option.split)
qed (simp add: live_registry_def)

lemma find_own: "distinct (map f ts) \<Longrightarrow> t \<in> set ts \<Longrightarrow> List.find (\<lambda>u. f u = f t) ts = Some t"
  by (induction ts) (auto simp: image_iff)

lemma HandleStatus_live:
  assumes h: "healthy g" and reg: "cg_registry g = Some reg"
  defines "lreg \<equiv> live_registry (map wt_tunnel (cg_tunnels g)) reg"
  shows "list_all (\<lambda>(t, m). \<exists>s. m = Some s \<and> sID s = ts_ID t) (HandleStatus now lreg (tunnelStatus g))"
    and "distinct (tunnel_ids g) \<Longrightarrow> map snd (HandleStatus now lreg (tunnelStatus g)) =
      map (\<lambda>c. map_option (Snapshot now) (tb_Metrics (i2p_base (wt_tunnel c)))) (cg_tunnels g)"
proof -
  have inv: "registry_inv reg" and got: "\<And>c. c \<in> set (cg_tunnels g) \<Longrightarrow> Get (i2p_ID (wt_tunnel c)) reg \<noteq> None"
      and l: "\<And>c. c \<in> set (cg_tunnels g) \<Longrightarrow> linked (wt_tunnel c)"
    using h reg by (auto simp: healthy_def covered_def simp del: i2p_accessors)
  have linv: "registry_inv lreg" unfolding lreg_def by (rule live_inv [OF inv])
  let ?snaps = "\<lambda>c. map_option (Snapshot now) (metrics_of (i2p_ID (wt_tunnel c)) lreg)"
  have details: "HandleStatus now lreg (tunnelStatus g) = zip (tunnelStatus g) (map ?snaps (cg_tunnels g))"
    by (auto simp: HandleStatus_def tunnelStatus_def Let_def metrics_of_def zip_map_map zip_same_conv_map
        simp del: i2p_accessors split: option.split)
  have "\<exists>m. metrics_of (i2p_ID (wt_tunnel c)) lreg = Some m \<and> mID m = i2p_ID (wt_tunnel c)" if c: "c \<in> set (cg_tunnels g)" for c
  proof -
    obtain p where "Get (i2p_ID (wt_tunnel c)) lreg = Some p" using got [OF c] unfolding lreg_def live_Get by blast
    with linv show ?thesis by (simp add: registry_inv_def Get_def metrics_of_def)
  qed
  then have "\<exists>s. ?snaps c = Some s \<and> sID s = i2p_ID (wt_tunnel c)" if "c \<in> set (cg_tunnels g)" for c
    using that by (fastforce simp: Snapshot_def)
  then show "list_all (\<lambda>(t, m). \<exists>s. m = Some s \<and> sID s = ts_ID t) (HandleStatus now lreg (tunnelStatus g))"
    unfolding details by (simp add: tunnelStatus_def Let_def list_all_iff zip_map_map zip_same_conv_map del: i2p_accessors)
  assume d: "distinct (tunnel_ids g)"
  have "metrics_of (i2p_ID (wt_tunnel c)) lreg = tb_Metrics (i2p_base (wt_tunnel c))" if c: "c \<in> set (cg_tunnels g)" for c
  proof -
    have "distinct (map i2p_ID (map wt_tunnel (cg_tunnels g)))" using d by (simp add: comp_def del: i2p_accessors)
    from find_own [OF this, of "wt_tunnel c"]
    have "List.find (\<lambda>t. i2p_ID t = i2p_ID (wt_tunnel c)) (map wt_tunnel (cg_tunnels g)) = Some (wt_tunnel c)"
      using c by simp
    with metrics_of_live [OF inv, of "map wt_tunnel (cg_tunnels g)" "i2p_ID (wt_tunnel c)"] l got d show ?thesis
      by (simp add: lreg_def comp_def del: i2p_accessors)
  qed
  then show "map snd (HandleStatus now lreg (tunnelStatus g)) =
      map (\<lambda>c. map_option (Snapshot now) (tb_Metrics (i2p_base (wt_tunnel c)))) (cg_tunnels g)"
    unfolding details by (simp add: tunnelStatus_def)
qed

end
