(* ===== verification/Cli.thy ===== *)
theory Cli
  imports Embedding
begin

text \<open>
  The command line entry points (\<open>cmd/shared/runner.go\<close>, \<open>leaseset.go\<close>): loading the
  tunnel, asking for the key of an encrypted lease set, and running. Flags arrive parsed;
  standard input is its data and the error of the read that ends it (\<open>None\<close> is the end of
  file); what is printed is a list of texts.
\<close>

section \<open>Scanning a line\<close>

definition drop_CR :: "string \<Rightarrow> string" where
  "drop_CR s = (if s \<noteq> [] \<and> last s = CHR 0x0D then butlast s else s)"

text \<open>
  The first line that a \<open>bufio.Scanner\<close> finds, and its error: the buffer of the scanner
  ends at 64 KiB, and a read error is seen once the data before it has no newline.
\<close>

definition max_scan_token :: nat where "max_scan_token = 65536"

definition scan_line :: "string \<times> go_error option \<Rightarrow> string option \<times> go_error option" where
  "scan_line r =
     (case r of (data, read_err) \<Rightarrow>
        (let too_long = (None, Some (Errorf ''bufio.Scanner: token too long'')) in
         case IndexByte data newline_char of
           Some i \<Rightarrow> if i < max_scan_token then (Some (drop_CR (take i data)), None) else too_long
         | None \<Rightarrow>
             if max_scan_token \<le> length data then too_long
             else (if data = [] then None else Some (drop_CR data), read_err)))"

section \<open>The lease-set key\<close>

definition opt_text :: "options \<Rightarrow> string \<Rightarrow> string" where
  "opt_text opts k = (case gm_get opts k of None \<Rightarrow> '''' | Some v \<Rightarrow> v)"

definition promptLeaseSetCredential ::
  "('f, 'l, 'cl) env \<Rightarrow> string \<times> go_error option \<Rightarrow> ('l, 'cl) i2p_tunnel \<Rightarrow>
   string list \<times> ('l, 'cl) i2p_tunnel \<times> go_error option" where
  "promptLeaseSetCredential E r tunnel =
     (let authType = opt_text (i2p_Options E tunnel) ''i2cp.leaseSetAuthType'' in
      if authType \<noteq> ''1'' \<and> authType \<noteq> ''2'' then ([], tunnel, None)
      else
        let typeName = (if authType = ''2'' then ''PSK'' else ''DH'');
            w = [''Tunnel '' @ Quote (i2p_Name tunnel) @ '' requires encrypted LeaseSet authentication ('' @ typeName @ '').'' @ [newline_char],
                 ''Enter i2cp.leaseSetPrivKey (Base64): ''];
            (token, scan_err) = scan_line r;
            line = (case token of None \<Rightarrow> '''' | Some s \<Rightarrow> TrimSpace s)
        in case scan_err of
             Some err \<Rightarrow> (w, tunnel, Some (Wrapf ''reading LeaseSet key'' err))
           | None \<Rightarrow>
               if line = '''' then
                 (w, tunnel, Some (Errorf (''i2cp.leaseSetPrivKey is required for '' @ typeName @ '' auth but was not provided'')))
               else
                 (case i2p_SetOptions E [(''i2cp.leaseSetPrivKey'', line)] tunnel of (t, err) \<Rightarrow> (w, t, err)))"

section \<open>Run\<close>

text \<open>\<open>cli_exit\<close> is the exit code, \<open>None\<close> while the program runs; \<open>cli_run\<close> the state of \<open>Run\<close> if it was reached.\<close>

record ('l, 'cl) cli_result =
  cli_stderr :: "string list"
  cli_stdout :: "string list"
  cli_exit :: "nat option"
  cli_run :: "('l, 'cl) run_state option"

definition localAddr :: "string \<times> go_error option \<Rightarrow> string" where
  "localAddr r = (case r of (addr, Some err) \<Rightarrow> ''(unknown)'' | (addr, None) \<Rightarrow> addr)"

definition cli_Run ::
  "('f, 'l, 'cl) env \<Rightarrow> file_reader \<Rightarrow> string \<times> go_error option \<Rightarrow> ('l, 'cl) run_event list \<Rightarrow> string \<Rightarrow>
   string \<Rightarrow> string \<Rightarrow> string \<Rightarrow> string \<Rightarrow> ('l, 'cl) cli_result" where
  "cli_Run E rd stdin evs tunnelType argv0 configPath samAddr metricsAddr =
     (if configPath = '''' then
        \<lparr>cli_stderr =
           [''Error: -config flag is required'' @ [newline_char],
            ''Usage: '' @ argv0 @ '' -config <path> [-sam <host:port>] [-metrics-addr <host:port>]'' @ [newline_char]],
         cli_stdout = [], cli_exit = Some 1, cli_run = None\<rparr>
      else
        let opts = [WithSAMAddr samAddr] @ (if metricsAddr \<noteq> '''' then [WithMetricsAddr metricsAddr] else []) in
        (case FromConfigFile E rd configPath opts of
           Inl err \<Rightarrow>
             \<lparr>cli_stderr = [''Setup error: '' @ Error_text err @ [newline_char]], cli_stdout = [], cli_exit = Some 1, cli_run = None\<rparr>
         | Inr t \<Rightarrow>
             (case promptLeaseSetCredential E stdin (Tunnel t) of
                (w, tun, Some err) \<Rightarrow>
                  \<lparr>cli_stderr = w @ [''LeaseSet credential error: '' @ Error_text err @ [newline_char]],
                   cli_stdout = [], cli_exit = Some 1, cli_run = None\<rparr>
              | (w, tun, None) \<Rightarrow>
                  (let t1 = em_write tun t;
                       banner = ''Starting '' @ tunnelType @ '' tunnel '' @ Quote (em_Name t1) @ '' on '' @
                         localAddr (em_LocalAddress t1, None) @ [newline_char]
                   in case em_Run E evs t1 of
                        (s, None) \<Rightarrow> \<lparr>cli_stderr = w, cli_stdout = [banner], cli_exit = None, cli_run = Some s\<rparr>
                      | (s, Some None) \<Rightarrow> \<lparr>cli_stderr = w, cli_stdout = [banner], cli_exit = Some 0, cli_run = Some s\<rparr>
                      | (s, Some (Some err)) \<Rightarrow>
                          \<lparr>cli_stderr = w @ [''Tunnel error: '' @ Error_text err @ [newline_char]],
                           cli_stdout = [banner], cli_exit = Some 1, cli_run = Some s\<rparr>))))"

section \<open>Properties\<close>

lemma promptLeaseSetCredential_cases:
  assumes "promptLeaseSetCredential E r tunnel = (w, t, None)"
  shows "(w = [] \<and> t = tunnel \<and> opt_text (i2p_Options E tunnel) ''i2cp.leaseSetAuthType'' \<notin> {''1'', ''2''}) \<or>
    (\<exists>s key. scan_line r = (Some s, None) \<and> key = TrimSpace s \<and> key \<noteq> '''' \<and>
       i2p_SetOptions E [(''i2cp.leaseSetPrivKey'', key)] tunnel = (t, None) \<and>
       opt_text (i2p_Options E tunnel) ''i2cp.leaseSetAuthType'' \<in> {''1'', ''2''})"
  using assms
  by (auto simp: promptLeaseSetCredential_def Let_def split: if_splits prod.splits option.splits)


lemma key_trimmed: "TrimSpace ''key'' = ''key''"
  by code_simp

definition psk_env :: "(unit, unit, unit) env" where
  "psk_env = example_env\<lparr>e_parseInput := (\<lambda>b f. Inr (example_config\<lparr>tc_Type := b, tc_I2CP := Some [(''leaseSetAuthType'', IInt 2)]\<rparr>))\<rparr>"

lemma Itoa_2: "Itoa 2 = ''2''"
  by code_simp

lemma psk_loaded:
  "\<exists>e. FromConfigFile psk_env (\<lambda>p. Inr ''ircserver'') ''a.yaml'' [WithSAMAddr ''localhost:7656''] = Inr e \<and>
     opt_text (i2p_Options psk_env (Tunnel e)) ''i2cp.leaseSetAuthType'' = ''2''"
proof -
  obtain t where t: "Load psk_env (\<lambda>p. Inr ''ircserver'') ''a.yaml'' [''localhost:7656''] = Inr (AIRCServer t)"
    "tc_I2CP (tb_Config (st_base t)) = Some [(''leaseSetAuthType'', IInt 2)]"
    by (simp add: Load_def psk_env_def example_env_def newTunnel_def Let_def i2p_New_defs tcp_addr_def)
  obtain e where e: "build psk_env (AIRCServer t) ''a.yaml'' (WithSAMAddr ''localhost:7656'' defaults) = Inr e"
    "Tunnel e = i2p_SetTunnelMetrics (Some (fresh_metrics (i2p_Name (AIRCServer t :: (unit, unit) i2p_tunnel)) (i2p_ID (AIRCServer t :: (unit, unit) i2p_tunnel))
       (i2p_Type (AIRCServer t :: (unit, unit) i2p_tunnel)))) (AIRCServer t)"
    by (rule build_ok [of psk_env "AIRCServer t" "''a.yaml''" "WithSAMAddr ''localhost:7656'' defaults"])
      (auto simp: Tunnel_def WithSAMAddr_def defaults_def simp del: i2p_accessors)
  have "opt_text (i2p_Options psk_env (Tunnel e)) ''i2cp.leaseSetAuthType'' = ''2''"
    using t(2) by (simp add: e(2) IRCServer_Options_def stream_Options_def base_Options_def AddRateLimitOptions_def BuildCommonOptions_def
        MergeI2CPOptions_def gm_copy_into_def i2cp_key_def opt_text_def Itoa_2 Let_def SetTunnelMetrics_def split: option.split)
  with t(1) e(1) show ?thesis by (simp add: FromConfigFile_def WithSAMAddr_def defaults_def)
qed


end
