(* ===== verification/Mains.thy ===== *)
theory Mains
  imports WebLive Cli
begin

text \<open>
  The programs (\<open>cmd/*/main.go\<close>). Twelve of them are one call of \<open>shared.Run\<close>; the web
  interface listens, loads the directory and serves. Its flags arrive parsed, the listener
  is the error of \<open>net.Listen\<close> for an address, and \<open>http.Serve\<close> is the requests it answers
  one after the other, with what the tunnels do between them, and the error it returns with
  (\<open>None\<close> while it serves).
\<close>

section \<open>The tunnel programs\<close>

type_synonym ('f, 'l, 'cl) main =
  "('f, 'l, 'cl) env \<Rightarrow> file_reader \<Rightarrow> string \<times> go_error option \<Rightarrow> ('l, 'cl) run_event list \<Rightarrow> string \<Rightarrow>
   string \<Rightarrow> string \<Rightarrow> string \<Rightarrow> ('l, 'cl) cli_result"

definition tcp_client_main :: "('f, 'l, 'cl) main" where
  "tcp_client_main E rd stdin evs = cli_Run E rd stdin evs ''TCP client''"

definition tcp_server_main :: "('f, 'l, 'cl) main" where
  "tcp_server_main E rd stdin evs = cli_Run E rd stdin evs ''TCP server''"

definition tcp_bidirectional_main :: "('f, 'l, 'cl) main" where
  "tcp_bidirectional_main E rd stdin evs = cli_Run E rd stdin evs ''TCP bidirectional''"

definition udp_client_main :: "('f, 'l, 'cl) main" where
  "udp_client_main E rd stdin evs = cli_Run E rd stdin evs ''UDP client''"

definition udp_server_main :: "('f, 'l, 'cl) main" where
  "udp_server_main E rd stdin evs = cli_Run E rd stdin evs ''UDP server''"

definition udp_bidirectional_main :: "('f, 'l, 'cl) main" where
  "udp_bidirectional_main E rd stdin evs = cli_Run E rd stdin evs ''UDP bidirectional''"

definition http_client_main :: "('f, 'l, 'cl) main" where
  "http_client_main E rd stdin evs = cli_Run E rd stdin evs ''HTTP client''"

definition http_server_main :: "('f, 'l, 'cl) main" where
  "http_server_main E rd stdin evs = cli_Run E rd stdin evs ''HTTP server''"

definition http_bidirectional_main :: "('f, 'l, 'cl) main" where
  "http_bidirectional_main E rd stdin evs = cli_Run E rd stdin evs ''HTTP bidirectional''"

definition socks_client_main :: "('f, 'l, 'cl) main" where
  "socks_client_main E rd stdin evs = cli_Run E rd stdin evs ''SOCKS client''"

definition irc_client_main :: "('f, 'l, 'cl) main" where
  "irc_client_main E rd stdin evs = cli_Run E rd stdin evs ''IRC client''"

definition irc_server_main :: "('f, 'l, 'cl) main" where
  "irc_server_main E rd stdin evs = cli_Run E rd stdin evs ''IRC server''"

lemmas main_defs = tcp_client_main_def tcp_server_main_def tcp_bidirectional_main_def udp_client_main_def
  udp_server_main_def udp_bidirectional_main_def http_client_main_def http_server_main_def
  http_bidirectional_main_def socks_client_main_def irc_client_main_def irc_server_main_def

section \<open>The web program\<close>

definition web_main ::
  "('f, 'l, 'cl) env \<Rightarrow> (string \<Rightarrow> go_error option) \<Rightarrow> (string \<Rightarrow> go_error + (string \<times> bool) list) \<Rightarrow> files \<Rightarrow>
   string \<Rightarrow> string \<Rightarrow> int \<Rightarrow> ('f, 'l, 'cl) web_event list \<Rightarrow> go_error option \<Rightarrow>
   string option \<times> ('l, 'cl) group option" where
  "web_main E listen readDir fs configDir host port evs serve_err =
     (let addr = JoinHostPort host (Itoa port) in
      case listen addr of
        Some err \<Rightarrow> (Some (''failed to listen on '' @ addr @ '': '' @ Error_text err), None)
      | None \<Rightarrow>
          (case NewControllerGroup E readDir fs configDir of
             Inl err \<Rightarrow> (Some (''failed to initialize controller group from '' @ Quote configDir @ '': '' @ Error_text err), None)
           | Inr g \<Rightarrow>
               (case serve_err of
                  Some err \<Rightarrow> (Some (''http server error: '' @ Error_text err), Some (fold web_event_step evs g))
                | None \<Rightarrow> (None, Some (fold web_event_step evs g)))))"

lemma web_main_serves:
  assumes "web_main E listen readDir fs dir host port evs serve_err = (msg, Some g)"
  obtains g0 where "listen (JoinHostPort host (Itoa port)) = None" "NewControllerGroup E readDir fs dir = Inr g0" "g = fold web_event_step evs g0"
  using assms by (auto simp: web_main_def Let_def split: option.splits sum.splits)

text \<open>
  C22: the metrics endpoints of the web program are complete and live. Whatever files were
  loaded, whatever requests were served before and whatever the tunnels counted meanwhile, a request for \<open>/api/status\<close> that the cross-origin
  check lets through changes nothing and is answered with status 200, the JSON content type
  and the encoding of one entry per tunnel, in order, each with a snapshot of the metrics
  with the ID of that tunnel, and, when the IDs differ, exactly of the counters that the
  tunnel has at that moment; a request for \<open>/metrics\<close> gets complete lines of text, nine
  families with two header lines and one sample for each registered ID, and every tunnel is
  registered. The HTML around the other pages is never part of these answers.
\<close>
theorem web_metrics_complete:
  assumes run: "web_main E listen readDir fs dir host port evs serve_err = (msg, Some g)" and evs: "list_all counting_work evs"
    and r: "we_csrf W r = None"
    and fmt3: "\<And>d. newline_char \<notin> set (mv_fmt3 V d)" and json: "\<And>v. \<exists>s. mv_status V v = Inr s"
    and resp: "Group_ServeHTTP (with_metrics V g W) r g new_response = (g', w)"
  shows "\<exists>reg. cg_registry g = Some reg \<and> (\<forall>x\<in>set (tunnel_ids g). Get x reg \<noteq> None) \<and>
    (rq_path r = ''/api/status'' \<longrightarrow>
       (\<exists>details. g' = g \<and> rw_status w = Some 200 \<and> gm_get (rw_sent w) ''Content-Type'' = Some ''application/json'' \<and>
          mv_status V details = Inr (butlast (rw_body w)) \<and> map fst details = tunnelStatus g \<and>
          list_all (\<lambda>(t, m). \<exists>s. m = Some s \<and> sID s = ts_ID t) details \<and>
          (distinct (tunnel_ids g) \<longrightarrow>
             map snd details = map (\<lambda>c. map_option (Snapshot (mv_now V)) (tb_Metrics (i2p_base (wt_tunnel c)))) (cg_tunnels g)))) \<and>
    (rq_path r = ''/metrics'' \<longrightarrow>
       (\<exists>ls. g' = g \<and> rw_status w = Some 200 \<and>
          gm_get (rw_sent w) ''Content-Type'' = Some ''text/plain; version=0.0.4; charset=utf-8'' \<and>
          rw_body w = concat (map end_line ls) \<and> length ls = 9 * (Len reg + 2) \<and> list_all (\<lambda>l. newline_char \<notin> set l) ls))"
proof -
  have h: "healthy g"
    using web_main_serves [OF run] NewControllerGroup_healthy healthy_run evs by metis
  then have cov: "covered g" by (simp add: healthy_def)
  then obtain reg where reg: "cg_registry g = Some reg" "\<forall>x\<in>set (tunnel_ids g). Get x reg \<noteq> None"
    unfolding covered_def by blast
  let ?reg = "live_registry (map wt_tunnel (cg_tunnels g)) reg"
  show ?thesis
  proof (intro exI [of _ reg] conjI impI)
    assume p: "rq_path r = ''/api/status''"
    obtain reg' hd where hd: "cg_registry g = Some reg'" "mh_Registry hd = live_registry (map wt_tunnel (cg_tunnels g)) reg'"
      "\<And>s. mh_StatusFunc hd s = Some (tunnelStatus s)"
      "Group_ServeHTTP (with_metrics V g W) r g new_response = (g, the (metrics_mux V hd g ''/api/status'' new_response))"
      by (rule metrics_route [OF cov, where p = "''/api/status''" and W = W and V = V and w = new_response]) (use p r in simp_all)
    let ?d = "HandleStatus (mv_now V) ?reg (tunnelStatus g)"
    obtain s where s: "mv_status V ?d = Inr s" using json by blast
    have w: "g' = g" "w = Write (s @ [newline_char]) (set_header ''Content-Type'' ''application/json'' new_response)"
      using hd reg(1) resp s by (simp_all add: metrics_mux_def Handler_HandleStatus_def json_Encode_def)
    have sent: "rw_status w = Some 200" "gm_get (rw_sent w) ''Content-Type'' = Some ''application/json''" "butlast (rw_body w) = s"
      by (simp_all add: w(2) Write_def WriteHeader_def set_header_def new_response_def Let_def)
    have tunnels: "map fst ?d = tunnelStatus g" by (simp add: HandleStatus_def comp_def)
    show "\<exists>details. g' = g \<and> rw_status w = Some 200 \<and> gm_get (rw_sent w) ''Content-Type'' = Some ''application/json'' \<and>
        mv_status V details = Inr (butlast (rw_body w)) \<and> map fst details = tunnelStatus g \<and>
        list_all (\<lambda>(t, m). \<exists>s. m = Some s \<and> sID s = ts_ID t) details \<and>
        (distinct (tunnel_ids g) \<longrightarrow>
           map snd details = map (\<lambda>c. map_option (Snapshot (mv_now V)) (tb_Metrics (i2p_base (wt_tunnel c)))) (cg_tunnels g))"
      using w(1) sent s tunnels HandleStatus_live [OF h reg(1)] by (intro exI [of _ ?d] conjI impI) simp_all
  next
    assume p: "rq_path r = ''/metrics''"
    obtain reg' hd where hd: "cg_registry g = Some reg'" "mh_Registry hd = live_registry (map wt_tunnel (cg_tunnels g)) reg'"
      "Group_ServeHTTP (with_metrics V g W) r g new_response = (g, the (metrics_mux V hd g ''/metrics'' new_response))"
      by (rule metrics_route [OF cov, where p = "''/metrics''" and W = W and V = V and w = new_response]) (use p r in simp_all)
    let ?ls = "exposition_lines (mv_fmt3 V) (Snapshots (mv_now V) ?reg)"
    have w: "g' = g" "w = Write (concat (map end_line ?ls)) (set_header ''Content-Type'' ''text/plain; version=0.0.4; charset=utf-8'' new_response)"
      using hd reg(1) resp by (simp_all add: metrics_mux_def Handler_HandleMetrics_body)
    have "length ?ls = 9 * (Len ?reg + 2)"
      using length_exposition [of "mv_fmt3 V" "Snapshots (mv_now V) ?reg"] by (simp add: Len_def Snapshots_def)
    then show "\<exists>ls. g' = g \<and> rw_status w = Some 200 \<and>
          gm_get (rw_sent w) ''Content-Type'' = Some ''text/plain; version=0.0.4; charset=utf-8'' \<and>
          rw_body w = concat (map end_line ls) \<and> length ls = 9 * (Len reg + 2) \<and> list_all (\<lambda>l. newline_char \<notin> set l) ls"
      using exposition_no_newline [of "mv_fmt3 V", OF fmt3]
      by (intro exI [of _ ?ls]) (simp add: w Write_def WriteHeader_def set_header_def new_response_def Let_def list_all_iff)
  qed (use reg in simp_all)
qed

definition plain_metrics :: metrics_env where
  "plain_metrics = \<lparr>mv_now = 5, mv_fmt3 = (\<lambda>d. ''0.000''), mv_health = (\<lambda>v. Inr ''{}''), mv_status = (\<lambda>v. Inr ''{}'')\<rparr>"

definition status_request :: request where
  "status_request = \<lparr>rq_method = ''GET'', rq_path = ''/api/status'', rq_form = [], rq_formErr = None\<rparr>"

text \<open>A directory with one configuration and a subdirectory.\<close>

definition one_file :: files where
  "one_file = [(filepath_Join ''conf'' ''irc.yaml'', ''irc'')]"

definition one_dir :: "string \<Rightarrow> go_error + (string \<times> bool) list" where
  "one_dir d = Inr [(''old'', True), (''irc.yaml'', False)]"

lemma one_group:
  "\<exists>g. NewControllerGroup (we_env name_env) one_dir one_file ''conf'' = Inr g \<and> length (cg_tunnels g) = 1"
proof -
  obtain t where "Load (we_env name_env) (read_file one_file) (filepath_Join ''conf'' ''irc.yaml'') [''localhost:7656''] = Inr t"
    by (simp add: Load_def name_env_def read_file_def one_file_def example_env_def newTunnel_def Let_def i2p_New_defs tcp_addr_def)
  then obtain c where c: "NewController (we_env name_env) one_file (filepath_Join ''conf'' ''irc.yaml'') = Inr c"
    by (simp add: NewController_def NewConfig_def)
  obtain reg c1 where "register_metrics NewRegistry c = (reg, c1)" by fastforce
  with c show ?thesis by (simp add: NewControllerGroup_def one_dir_def)
qed

lemma web_metrics_complete_witness:
  "\<exists>g w. web_main (we_env name_env) (\<lambda>a. None) one_dir one_file ''conf'' ''localhost'' 8089 [] None = (None, Some g) \<and>
     length (cg_tunnels g) = 1 \<and> Group_ServeHTTP (with_metrics plain_metrics g name_env) status_request g new_response = (g, w) \<and>
     rw_status w = Some 200"
proof -
  obtain g where g: "NewControllerGroup (we_env name_env) one_dir one_file ''conf'' = Inr g" "length (cg_tunnels g) = 1"
    using one_group by blast
  have run: "web_main (we_env name_env) (\<lambda>a. None) one_dir one_file ''conf'' ''localhost'' 8089 [] None = (None, Some g)"
    by (simp add: web_main_def g)
  obtain g' w where resp: "Group_ServeHTTP (with_metrics plain_metrics g name_env) status_request g new_response = (g', w)" by fastforce
  have "we_csrf name_env status_request = None" by (simp add: name_env_def)
  from web_metrics_complete [OF run _ this _ _ resp] resp run g(2) show ?thesis
    by (auto simp: plain_metrics_def status_request_def)
qed

section \<open>How the tunnel programs end\<close>

definition tunnel_mains :: "('f, 'l, 'cl) main list" where
  "tunnel_mains =
     [tcp_client_main, tcp_server_main, tcp_bidirectional_main, udp_client_main, udp_server_main, udp_bidirectional_main,
      http_client_main, http_server_main, http_bidirectional_main, socks_client_main, irc_client_main, irc_server_main]"

lemma tunnel_mains_Run:
  assumes "m \<in> set tunnel_mains"
  obtains ty where "\<And>E rd stdin evs argv0 path sam maddr. m E rd stdin evs argv0 path sam maddr = cli_Run E rd stdin evs ty argv0 path sam maddr"
  using assms by (auto simp: tunnel_mains_def main_defs)

definition ends_run :: "('l, 'cl) run_event \<Rightarrow> bool" where
  "ends_run ev \<longleftrightarrow> (case ev of SigTerm sd \<Rightarrow> True | StartReturned r \<Rightarrow> r \<noteq> None | _ \<Rightarrow> False)"

lemma run_turn_ends: "snd (run_turn E ev s) \<noteq> None \<longleftrightarrow> ends_run ev"
  by (cases ev) (auto simp: ends_run_def Let_def split: prod.split option.split)

lemma run_turns_ends: "snd (run_turns E evs s) \<noteq> None \<longleftrightarrow> (\<exists>ev\<in>set evs. ends_run ev)"
proof (induction evs arbitrary: s)
  case (Cons ev evs)
  obtain s1 r where r: "run_turn E ev s = (s1, r)" by fastforce
  with run_turn_ends [of E ev s] Cons.IH [of s1] show ?case by (cases r) auto
qed simp

lemma run_turns_clean:
  assumes "run_turns E evs s = (s', Some None)"
  shows "\<exists>sd. SigTerm sd \<in> set evs"
  using assms
proof (induction evs arbitrary: s)
  case (Cons ev evs)
  then show ?case
    by (cases ev) (force simp: Let_def split: prod.splits option.splits if_splits)+
qed simp

lemma cli_Run_cases:
  obtains (failed) es where "es \<noteq> []"
      "cli_Run E rd stdin evs ty argv0 path sam maddr = \<lparr>cli_stderr = es, cli_stdout = [], cli_exit = Some 1, cli_run = None\<rparr>"
  | (ran) t e w banner s r where "run_turns E evs \<lparr>rn_em = em_write t e, rn_starts = [em_tunnel e], rn_reloading = False\<rparr> = (s, r)"
      "cli_Run E rd stdin evs ty argv0 path sam maddr =
         \<lparr>cli_stderr = (case r of Some (Some err) \<Rightarrow> w @ [''Tunnel error: '' @ Error_text err @ [newline_char]] | _ \<Rightarrow> w),
          cli_stdout = [banner], cli_exit = map_option (\<lambda>x. if x = None then 0 else 1) r, cli_run = Some s\<rparr>"
proof (cases "path = ''''")
  case True
  then show ?thesis by (intro failed) (auto simp: cli_Run_def)
next
  case path: False
  let ?opts = "[WithSAMAddr sam] @ (if maddr \<noteq> '''' then [WithMetricsAddr maddr] else [])"
  show ?thesis
  proof (cases "FromConfigFile E rd path ?opts")
    case (Inl err)
    with path show ?thesis by (intro failed) (auto simp: cli_Run_def Let_def)
  next
    case (Inr e)
    obtain w t q where p: "promptLeaseSetCredential E stdin (Tunnel e) = (w, t, q)" by (metis prod_cases3)
    show ?thesis
    proof (cases q)
      case (Some err)
      with path Inr p show ?thesis by (intro failed) (auto simp: cli_Run_def Let_def)
    next
      case None
      obtain s r where run: "run_turns E evs \<lparr>rn_em = em_write t e, rn_starts = [em_tunnel e], rn_reloading = False\<rparr> = (s, r)" by fastforce
      then have "em_Run E evs (em_write t e) = (s, r)" by (simp add: em_Run_def)
      define banner where "banner = ''Starting '' @ ty @ '' tunnel '' @ Quote (em_Name (em_write t e)) @ '' on '' @
        localAddr (em_LocalAddress (em_write t e), None) @ [newline_char]"
      have "cli_Run E rd stdin evs ty argv0 path sam maddr =
         \<lparr>cli_stderr = (case r of Some (Some err) \<Rightarrow> w @ [''Tunnel error: '' @ Error_text err @ [newline_char]] | _ \<Rightarrow> w),
          cli_stdout = [banner], cli_exit = map_option (\<lambda>x. if x = None then 0 else 1) r, cli_run = Some s\<rparr>"
        using path Inr p None \<open>em_Run E evs (em_write t e) = (s, r)\<close>
        by (simp add: cli_Run_def banner_def Let_def split: option.split)
      with run show ?thesis by (rule ran)
    qed
  qed
qed



text \<open>
  The program does not decide what runs: with the same input all of them end with the same
  exit code, the same messages on standard error and the same tunnels, whatever type the
  configuration has. Only the banner differs.
\<close>

definition same_run :: "('l, 'cl) cli_result \<Rightarrow> ('l, 'cl) cli_result \<Rightarrow> bool" where
  "same_run a b \<longleftrightarrow> cli_exit a = cli_exit b \<and> cli_stderr a = cli_stderr b \<and> cli_run a = cli_run b \<and>
     length (cli_stdout a) = length (cli_stdout b)"

lemma cli_Run_same: "same_run (cli_Run E rd stdin evs ty argv0 path sam maddr) (cli_Run E rd stdin evs ty' argv0 path sam maddr)"
proof (cases "path = ''''")
  case False
  let ?opts = "[WithSAMAddr sam] @ (if maddr \<noteq> '''' then [WithMetricsAddr maddr] else [])"
  show ?thesis
  proof (cases "FromConfigFile E rd path ?opts")
    case (Inr e)
    obtain w t q where p: "promptLeaseSetCredential E stdin (Tunnel e) = (w, t, q)" by (metis prod_cases3)
    obtain s r where "em_Run E evs (em_write t e) = (s, r)" by fastforce
    with False Inr p show ?thesis
      by (cases q) (simp_all add: cli_Run_def same_run_def Let_def split: option.split)
  qed (simp add: cli_Run_def same_run_def Let_def)
qed (simp add: cli_Run_def same_run_def)

lemma mains_same:
  assumes "m \<in> set tunnel_mains" and "m' \<in> set tunnel_mains"
  shows "same_run (m E rd stdin evs argv0 path sam maddr) (m' E rd stdin evs argv0 path sam maddr)"
  using tunnel_mains_Run [OF assms(1)] tunnel_mains_Run [OF assms(2)] cli_Run_same by metis

end
