(* ===== verification/Spec2Isabelle.thy ===== *)
theory Spec2Isabelle
  imports SocksHandlers EmbeddingReload OutboundProxy LifecycleRuns WebReload WebSerial Mains
begin

text \<open>
  A model of go-i2ptunnel: tunnels that carry TCP, UDP, HTTP, IRC and SOCKS5 traffic over
  the I2P network, the API to embed them, the command line runner and the web interface.

  \<^bold>\<open>How the program is put together.\<close> A configuration file is parsed into a
  \<open>TunnelConfig\<close>; \<open>loader.Load\<close> opens a SAM session (\<open>Garlic\<close>) from it and builds one of
  twelve tunnel types, all of them behind the interface \<open>I2PTunnel\<close> (\<open>lib/core/types.go\<close>).
  Most types embed \<open>TunnelBase\<close> (\<open>lib/core/base.go\<close>): name, limits, status, error history,
  metrics and the accept loop. \<open>Start\<close> opens a listener, sets Running and blocks in a loop
  until \<open>Stop\<close> closes the \<open>done\<close> channel or the loop gives up. Options are a flat map of
  strings (\<open>lib/core/options.go\<close>), checked by \<open>lib/core/validate\<close>. The embedding API
  (\<open>lib/embedding\<close>) and the web interface (\<open>webui/controller\<close>) start, stop, configure and
  reload tunnels through the interface and register them with \<open>lib/metrics\<close>.

  \<^bold>\<open>Shared theories.\<close>
  \<^item> \<open>Prelude\<close>: Go results (\<open>Inl\<close> is the error), sequences of fallible updates (a failed one
    keeps what it has done), Go maps as association lists, the locale \<open>codec\<close> for a printer
    and a parser, the collections of simplification rules.
  \<^item> \<open>GoStrings\<close>, \<open>GoNet\<close>: the functions of \<open>strings\<close>, \<open>strconv\<close> and \<open>net\<close> that the code calls.
    Go's \<open>int\<close> is \<open>int\<close>; counters are \<open>64 word\<close>; durations are \<open>int\<close> with the wrap-around of
    64 bits written out.

  \<^bold>\<open>Core\<close> (\<open>lib/core\<close>).
  \<^item> \<open>CoreTypes\<close>: status, errors, \<open>Clean\<close>, the bounded error history (locale
    \<open>bounded_history\<close>).
  \<^item> \<open>Validate\<close>, \<open>Options\<close>: the checks, the options map with its round trip, I2CP options.
  \<^item> \<open>TunnelBase\<close>: the base and its accept loop over the turns that the environment supplies;
    the loop gives up exactly for its documented reason.
  \<^item> \<open>ErrorLoop\<close>: the shape of the other loops, as the locale \<open>error_budget\<close> (a loop fails
    only after a number of errors with no success in between), interpreted for the UDP
    loops and the two bidirectional loops.
  \<^item> \<open>Lifecycle\<close>: \<open>Start\<close>, \<open>Stop\<close> and the connection loop as interleaved steps of any number
    of goroutines, with an invariant over all reachable states; the locales \<open>stoppable\<close> and
    \<open>reloadable\<close>, which every tunnel type interprets. \<open>LifecycleRuns\<close>: the sequential
    operations of the stream tunnels and the TCP client refine it.
  \<^item> \<open>Metrics\<close>, \<open>Prometheus\<close> (\<open>lib/metrics\<close>): counters, the registry with a store of cells
    (locale \<open>instance_store\<close>), counted connections, and the text that is scraped.

  \<^bold>\<open>Tunnels.\<close>
  \<^item> \<open>StreamTunnel\<close>, \<open>StreamTunnels\<close>: \<open>TCPServer\<close>, \<open>HTTPServer\<close>, \<open>IRCServer\<close>, \<open>IRCClient\<close>.
  \<^item> \<open>Semaphore\<close>, \<open>TcpClient\<close>: \<open>TCPClient\<close> with its connection semaphore: channels live in a
    store because a goroutine keeps the one it took from when options replace it.
  \<^item> \<open>UdpConst\<close>, \<open>Udp\<close>: the retry delays, \<open>UDPClient\<close>, \<open>UDPServer\<close>, \<open>UDPBidirectional\<close>; the
    bidirectional loop refines that of the server.
  \<^item> \<open>HttpDial\<close>, \<open>HttpClient\<close>, \<open>HttpSanitize\<close>: outproxy and jump service with its cache
    (locale \<open>expiring_cache\<close>), \<open>HTTPClient\<close>, the header filters (locale \<open>header_filter\<close>).
  \<^item> \<open>Bidirectional\<close>, \<open>SocksHandlers\<close>: \<open>TCPBidirectional\<close>, \<open>HTTPBidirectional\<close>, and the SOCKS5
    request handlers of the bidirectional tunnels.
  \<^item> \<open>LockedServer\<close>, \<open>Socks\<close>: the tunnels whose \<open>Start\<close> holds their lock while serving, and
    \<open>SOCKS\<close> with its limiter and semaphore.
  \<^item> \<open>IrcFilter\<close>: the DCC checks and the masking callbacks.
  \<^item> \<open>ListenerStacks\<close>: the limiting and inspecting listeners that each accept loop puts around
    its socket, with the configurations and callbacks installed there, and what a message
    or a request has been through when it leaves an IRC or HTTP tunnel.
  \<^item> \<open>OutboundProxy\<close>: how the HTTP client and the HTTP bidirectional tunnel set up the proxy
    library (listener, dialers), and what a request reveals in the life of the tunnel.

  \<^bold>\<open>On top of the tunnels.\<close>
  \<^item> \<open>Tunnels\<close>, \<open>Loader\<close>, \<open>TunnelOptions\<close>: \<open>I2PTunnel\<close> as a datatype of the twelve types with
    one dispatching operation for each method, loading, and what loading, reloading,
    stopping and options do whatever the type.
  \<^item> \<open>Embedding\<close>, \<open>EmbeddingReload\<close>, \<open>Cli\<close>: options, \<open>Reload\<close> and \<open>Run\<close> over a list of events (signals and
    returns of \<open>Start\<close>); the tunnel objects live in a store, as the status function keeps a
    pointer to the first one. The command line runner with the prompt for the lease-set key.
  \<^item> \<open>WebRoutes\<close>, \<open>WebConfig\<close>, \<open>WebControl\<close>, \<open>WebGroup\<close>, \<open>WebPages\<close>: routing, the pages of a
    tunnel, the group of all tunnels, over an explicit response writer (the status is sent
    with the first byte) and an explicit file system whose operations can fail half way.
  \<^item> \<open>WebReload\<close>: what survives when a saved configuration is loaded again. \<open>WebMetrics\<close>: the
    metrics endpoints over the response writer, for the embedding API and for the group.
    \<open>WebLive\<close>: the group through requests and the work of its tunnels: the registry that
    the endpoints read has the counters of every tunnel. \<open>WebRace\<close>: forms for new tunnels
    that are served at the same time, as interleaved steps on the group. \<open>WebSerial\<close>: these
    steps refine the handler called on one form after the other.
  \<^item> \<open>Mains\<close>: the programs under \<open>cmd/\<close>: with which exit code and message they end, and the
    web program from its flags to the state after any requests and work.

  \<^bold>\<open>What is proved.\<close> The loops: when they end, with which status and error, and that an
  unreachable target ends them after ten attempts. The life cycle: no channel is closed
  twice, a stopped tunnel is released, in every interleaving. Limits: semaphores are never
  exceeded, and the delays of the UDP loops are bounded. Secrecy: no clearnet address is
  dialed, DCC requests with private addresses and identifying headers do not pass, and the
  IRC and HTTP tunnels forward only what their filters have seen, and outbound requests
  through the HTTP proxies are stripped and routed through I2P. Options: round trips, validity, agreement with
  the shared routine, atomic loading. Loading: reloading in place agrees with loading
  afresh, and a configuration saved by the web interface loads to the same tunnel. Web
  interface: atomic saving, confinement of new files, every page served by its own tunnel, concurrent forms as if served in turn,
  live metrics of every tunnel. Several theorems prove a defect instead: their texts say what happens.

  \<^bold>\<open>Loops and bounds.\<close> A loop runs over the list of turns its environment supplies and
  returns \<open>None\<close> while it is still running at the end of the list, so no fuel is used; that a
  loop returns is proved from the turns it meets. The only bounds are those of the code:
  ten consecutive errors, 1000 cache entries, the capacity of a semaphore.

  \<^bold>\<open>Parameters.\<close> Code outside the repository is an argument: the configuration parser, YAML,
  SAM sessions and I2P dialing, name resolution, \<open>net/http\<close>, \<open>goproxy\<close>, the SOCKS5 server, the
  rate limiter, the protocol inspectors, templates, the JSON encoder, float parsing and
  printing. The
  environment of the interface operations is the record \<open>env\<close> of \<open>Tunnels\<close>, that of the web
  interface \<open>web_env\<close> of \<open>WebControl\<close>.

  \<^bold>\<open>Not modelled.\<close> Logging; package documentation; the HTML templates; the parsing of flags;
  handing the handlers to \<open>http.Server\<close>; the reuse of dialed connections by the proxy; the clean-up of relative redirect targets and of request
  paths by the library; sleeping, except for the lengths of
  the UDP delays. A tunnel holds its metrics by value and the registry is brought up to date
  when it is read (\<open>live_registry\<close>), so that two tunnels registered under one ID and sharing
  a cell are seen only in \<open>Metrics\<close>. \<open>go c.Start()\<close> of the web interface
  is counted; what the started call does is modelled with the tunnel and in \<open>Lifecycle\<close>.
  Web requests are served one after the other, except for the forms for new tunnels
  (\<open>WebRace\<close>); there, too, a step on the group is atomic, which the code, without a lock,
  does not guarantee for the append to the slice.
\<close>

end
